(* ===== verification/Prelude.thy ===== *)
theory Prelude
  imports Complex_Main "HOL-Library.Sublist" "HOL-Library.Char_ord"
begin

text \<open>
  Vocabulary shared by every component: Python strings, JSON values, exceptions, and the lemma
  collections the component proofs use.

  A Python \<open>str\<close> is represented by the bytes of its UTF-8 encoding (a \<open>string\<close> of HOL, one
  \<open>char\<close> per byte).  Concatenation, equality, \<open>in\<close>, \<open>startswith\<close> and the \<open>strip\<close> family
  (over the whole Unicode white space) agree with Python on this representation; \<open>upper\<close> and
  \<open>lower\<close> are the ASCII case maps and leave every other byte unchanged.
\<close>

section \<open>Lemma collections\<close>

named_theorems exec_simps \<open>equations that run a program against the services\<close>
named_theorems handler_defs \<open>definitions of the request handlers and of their helpers\<close>
named_theorems str_simps \<open>evaluation of the string functions\<close>

section \<open>Strings\<close>

definition upper_char :: "char \<Rightarrow> char" where
  "upper_char c = (if CHR ''a'' \<le> c \<and> c \<le> CHR ''z'' then char_of (of_char c - (32::nat)) else c)"

definition lower_char :: "char \<Rightarrow> char" where
  "lower_char c = (if CHR ''A'' \<le> c \<and> c \<le> CHR ''Z'' then char_of (of_char c + (32::nat)) else c)"

definition py_upper :: "string \<Rightarrow> string" where
  "py_upper s = map upper_char s"

definition py_lower :: "string \<Rightarrow> string" where
  "py_lower s = map lower_char s"

text \<open>\<open>pat in s\<close>\<close>

fun str_in :: "string \<Rightarrow> string \<Rightarrow> bool" where
  "str_in pat [] = (pat = [])"
| "str_in pat (c # s) = (prefix pat (c # s) \<or> str_in pat s)"

text \<open>
  The characters \<open>str.strip()\<close> removes are the code points with \<open>str.isspace()\<close>; here is the
  UTF-8 encoding of each.
\<close>

definition py_spaces :: "string list" where
  "py_spaces =
     map (\<lambda>n. [char_of (n::nat)]) ([9..<14] @ [28..<33]) @
     [[CHR 0xC2, CHR 0x85], [CHR 0xC2, CHR 0xA0], [CHR 0xE1, CHR 0x9A, CHR 0x80]] @
     map (\<lambda>n. [CHR 0xE2, CHR 0x80, char_of (n::nat)]) [128..<139] @
     [[CHR 0xE2, CHR 0x80, CHR 0xA8], [CHR 0xE2, CHR 0x80, CHR 0xA9],
      [CHR 0xE2, CHR 0x80, CHR 0xAF], [CHR 0xE2, CHR 0x81, CHR 0x9F],
      [CHR 0xE3, CHR 0x80, CHR 0x80]]"

lemma py_spaces_nonempty: "[] \<notin> set py_spaces"
  by (auto simp: py_spaces_def)

text \<open>Drop the words of \<open>ws\<close> from the front of \<open>s\<close> as long as one of them is a prefix.\<close>

fun drop_words :: "nat \<Rightarrow> string list \<Rightarrow> string \<Rightarrow> string" where
  "drop_words 0 ws s = s"
| "drop_words (Suc n) ws s =
     (case List.find (\<lambda>w. prefix w s) ws of
        None \<Rightarrow> s
      | Some w \<Rightarrow> drop_words n ws (drop (length w) s))"

definition py_lstrip :: "string \<Rightarrow> string" where
  "py_lstrip s = drop_words (length s) py_spaces s"

definition py_rstrip :: "string \<Rightarrow> string" where
  "py_rstrip s = rev (drop_words (length s) (map rev py_spaces) (rev s))"

definition py_strip :: "string \<Rightarrow> string" where
  "py_strip s = py_rstrip (py_lstrip s)"

lemma drop_words_length: "length (drop_words n ws s) \<le> length s"
proof (induction n arbitrary: s)
  case (Suc n)
  show ?case
  proof (cases "List.find (\<lambda>w. prefix w s) ws")
    case (Some w)
    have "length (drop_words n ws (drop (length w) s)) \<le> length (drop (length w) s)"
      by (rule Suc.IH)
    with Some show ?thesis by simp
  qed simp
qed simp

lemma drop_words_suffix: "suffix (drop_words n ws s) s"
proof (induction n arbitrary: s)
  case (Suc n)
  show ?case
  proof (cases "List.find (\<lambda>w. prefix w s) ws")
    case (Some w)
    with Suc.IH [of "drop (length w) s"] show ?thesis
      by (auto intro: suffix_order.trans suffix_drop)
  qed simp
qed simp

text \<open>Enough rounds: with one round per byte, no removable word is left in front.\<close>

lemma drop_words_done:
  assumes "[] \<notin> set ws" and "length s \<le> n"
  shows "List.find (\<lambda>w. prefix w (drop_words n ws s)) ws = None"
  using assms(2)
proof (induction n arbitrary: s)
  case 0
  with assms(1) show ?case
    by (auto simp: find_None_iff prefix_def)
next
  case (Suc n)
  show ?case
  proof (cases "List.find (\<lambda>w. prefix w s) ws")
    case (Some w)
    then have "w \<in> set ws" and "prefix w s"
      by (auto simp: find_Some_iff)
    with assms(1) have "w \<noteq> []" by auto
    then have "length (drop (length w) s) \<le> n"
      using Suc.prems by (cases w) auto
    then have "List.find (\<lambda>w'. prefix w' (drop_words n ws (drop (length w) s))) ws = None"
      by (rule Suc.IH)
    with Some show ?thesis by simp
  qed simp
qed

text \<open>\<open>s[:n]\<close> counts code points: the continuation bytes of UTF-8 (\<open>10xxxxxx\<close>) are not counted.\<close>

definition is_continuation :: "char \<Rightarrow> bool" where
  "is_continuation c \<longleftrightarrow> CHR 0x80 \<le> c \<and> c < CHR 0xC0"

fun py_take :: "nat \<Rightarrow> string \<Rightarrow> string" where
  "py_take n [] = []"
| "py_take n (c # s) =
     (if is_continuation c then c # py_take n s
      else case n of 0 \<Rightarrow> [] | Suc m \<Rightarrow> c # py_take m s)"

text \<open>\<open>s.rstrip("/")\<close> and decimal rendering of numbers.\<close>

definition rstrip_char :: "char \<Rightarrow> string \<Rightarrow> string" where
  "rstrip_char c s = rev (dropWhile (\<lambda>d. d = c) (rev s))"

definition digit_char :: "nat \<Rightarrow> char" where
  "digit_char n = char_of (48 + n)"

fun str_nat :: "nat \<Rightarrow> string" where
  "str_nat n = (if n < 10 then [digit_char n] else str_nat (n div 10) @ [digit_char (n mod 10)])"

declare str_nat.simps [simp del]

lemma digit_chars: "map digit_char [0..<10] = ''0123456789''"
  by (simp add: digit_char_def upt_rec char_of_def bit_iff_odd)

lemma digit_char_simps [str_simps]:
  "digit_char 0 = CHR ''0''" "digit_char (Suc 0) = CHR ''1''" "digit_char 1 = CHR ''1''"
  "digit_char 2 = CHR ''2''" "digit_char 3 = CHR ''3''" "digit_char 4 = CHR ''4''"
  "digit_char 5 = CHR ''5''" "digit_char 6 = CHR ''6''" "digit_char 7 = CHR ''7''"
  "digit_char 8 = CHR ''8''" "digit_char 9 = CHR ''9''"
  by (simp_all add: digit_char_def char_of_def bit_iff_odd)

definition str_int :: "int \<Rightarrow> string" where
  "str_int i = (if i < 0 then ''-'' @ str_nat (nat (- i)) else str_nat (nat i))"

section \<open>JSON values and Python truth\<close>

text \<open>A finite \<open>float\<close> is the rational number it denotes.\<close>

datatype json =
    JNull
  | JBool bool
  | JInt int
  | JFloat rat
  | JStr string
  | JList "json list"
  | JObj "(string \<times> json) list"

fun truthy :: "json \<Rightarrow> bool" where
  "truthy JNull = False"
| "truthy (JBool b) = b"
| "truthy (JInt i) = (i \<noteq> 0)"
| "truthy (JFloat r) = (r \<noteq> 0)"
| "truthy (JStr s) = (s \<noteq> [])"
| "truthy (JList xs) = (xs \<noteq> [])"
| "truthy (JObj kvs) = (kvs \<noteq> [])"

text \<open>A dict is the list of its items in insertion order; \<open>d.get(k, default)\<close> reads it.\<close>

type_synonym pydict = "(string \<times> json) list"

definition dict_get :: "pydict \<Rightarrow> string \<Rightarrow> json \<Rightarrow> json" where
  "dict_get kvs k d = (case map_of kvs k of None \<Rightarrow> d | Some v \<Rightarrow> v)"

fun json_opt :: "('a \<Rightarrow> json) \<Rightarrow> 'a option \<Rightarrow> json" where
  "json_opt f None = JNull"
| "json_opt f (Some x) = f x"

section \<open>Exceptions\<close>

datatype exn_kind =
    DoesNotExist
  | IntegrityError
  | DatabaseError
  | RuntimeError
  | ValueError
  | AttributeError
  | OperationalError
  | AuthenticationFailed
  | PermissionDenied
  | PyJWTError
  | NotAuthenticated
  | CsvError

datatype exn = Exn exn_kind (exn_msg: string)

end
