(* ===== verification/Jobs.thy ===== *)
theory Jobs
  imports Prelude
begin

text \<open>
  The ETL job of \<open>api/apps/etl/models.py\<close> (class \<open>ETLJob\<close>): its columns, its status values, the
  column-wise update that \<open>save(update_fields=...)\<close> performs, and the serializers of
  \<open>api/apps/etl/serializers.py\<close> that render it.

  Timestamps are microseconds since the epoch (\<open>int\<close>); the ISO rendering of a timestamp is a
  parameter \<open>isoformat\<close> of the serializers.
\<close>

section \<open>The model\<close>

datatype status = QUEUED | PROCESSING | COMPLETED | FAILED | CANCELLED

fun status_str :: "status \<Rightarrow> string" where
  "status_str QUEUED = ''QUEUED''"
| "status_str PROCESSING = ''PROCESSING''"
| "status_str COMPLETED = ''COMPLETED''"
| "status_str FAILED = ''FAILED''"
| "status_str CANCELLED = ''CANCELLED''"

record etl_job =
  job_id :: string
  job_tenant :: string
  job_loan_type :: string
  status :: status
  progress_percentage :: int
  processed_rows :: int
  job_result :: string
  errors :: "pydict list"
  validation_summary :: pydict
  started_at :: "int option"
  completed_at :: "int option"
  created_at :: "int option"
  updated_at :: "int option"

text \<open>
  \<open>ETLJob(job_id=..., tenant_id=..., loan_type=..., status=...)\<close>: the other columns take the
  defaults of the model class.
\<close>

definition new_job :: "string \<Rightarrow> string \<Rightarrow> string \<Rightarrow> status \<Rightarrow> etl_job" where
  "new_job jid tenant loan st =
     \<lparr>job_id = jid, job_tenant = tenant, job_loan_type = loan, status = st,
      progress_percentage = 0, processed_rows = 0, job_result = '''', errors = [],
      validation_summary = [], started_at = None, completed_at = None,
      created_at = None, updated_at = None\<rparr>"

text \<open>\<open>auto_now_add\<close> and \<open>auto_now\<close>: both stamps are set when the row is inserted.\<close>

definition stamp_insert :: "int \<Rightarrow> etl_job \<Rightarrow> etl_job" where
  "stamp_insert t j = j\<lparr>created_at := Some t, updated_at := Some t\<rparr>"

section \<open>Column-wise saves\<close>

text \<open>The columns the code names in \<open>update_fields\<close>, and the keyword arguments of \<open>_update_job\<close>.\<close>

datatype job_field =
    F_status | F_progress_percentage | F_processed_rows | F_result | F_errors
  | F_validation_summary | F_started_at | F_completed_at | F_updated_at

fun copy_field :: "job_field \<Rightarrow> etl_job \<Rightarrow> etl_job \<Rightarrow> etl_job" where
  "copy_field F_status src row = row\<lparr>status := status src\<rparr>"
| "copy_field F_progress_percentage src row = row\<lparr>progress_percentage := progress_percentage src\<rparr>"
| "copy_field F_processed_rows src row = row\<lparr>processed_rows := processed_rows src\<rparr>"
| "copy_field F_result src row = row\<lparr>job_result := job_result src\<rparr>"
| "copy_field F_errors src row = row\<lparr>errors := errors src\<rparr>"
| "copy_field F_validation_summary src row = row\<lparr>validation_summary := validation_summary src\<rparr>"
| "copy_field F_started_at src row = row\<lparr>started_at := started_at src\<rparr>"
| "copy_field F_completed_at src row = row\<lparr>completed_at := completed_at src\<rparr>"
| "copy_field F_updated_at src row = row\<lparr>updated_at := updated_at src\<rparr>"

text \<open>The row after \<open>UPDATE ... SET\<close> of the columns \<open>fs\<close> from the in-memory object \<open>src\<close>.\<close>

fun save_fields :: "job_field list \<Rightarrow> etl_job \<Rightarrow> etl_job \<Rightarrow> etl_job" where
  "save_fields [] src row = row"
| "save_fields (f # fs) src row = save_fields fs src (copy_field f src row)"

datatype job_update =
    Set_status status
  | Set_progress_percentage int
  | Set_processed_rows int
  | Set_result string
  | Set_errors "pydict list"
  | Set_validation_summary pydict
  | Set_started_at "int option"
  | Set_completed_at "int option"

fun field_of :: "job_update \<Rightarrow> job_field" where
  "field_of (Set_status _) = F_status"
| "field_of (Set_progress_percentage _) = F_progress_percentage"
| "field_of (Set_processed_rows _) = F_processed_rows"
| "field_of (Set_result _) = F_result"
| "field_of (Set_errors _) = F_errors"
| "field_of (Set_validation_summary _) = F_validation_summary"
| "field_of (Set_started_at _) = F_started_at"
| "field_of (Set_completed_at _) = F_completed_at"

fun set_attr :: "job_update \<Rightarrow> etl_job \<Rightarrow> etl_job" where
  "set_attr (Set_status x) j = j\<lparr>status := x\<rparr>"
| "set_attr (Set_progress_percentage x) j = j\<lparr>progress_percentage := x\<rparr>"
| "set_attr (Set_processed_rows x) j = j\<lparr>processed_rows := x\<rparr>"
| "set_attr (Set_result x) j = j\<lparr>job_result := x\<rparr>"
| "set_attr (Set_errors x) j = j\<lparr>errors := x\<rparr>"
| "set_attr (Set_validation_summary x) j = j\<lparr>validation_summary := x\<rparr>"
| "set_attr (Set_started_at x) j = j\<lparr>started_at := x\<rparr>"
| "set_attr (Set_completed_at x) j = j\<lparr>completed_at := x\<rparr>"

fun set_attrs :: "job_update list \<Rightarrow> etl_job \<Rightarrow> etl_job" where
  "set_attrs [] j = j"
| "set_attrs (u # us) j = set_attrs us (set_attr u j)"

subsection \<open>A save writes the named columns and no other\<close>

lemma save_fields_append: "save_fields (fs @ gs) src row = save_fields gs src (save_fields fs src row)"
  by (induction fs arbitrary: row) simp_all

lemma copy_field_key [simp]:
  "job_id (copy_field f src row) = job_id row"
  "job_tenant (copy_field f src row) = job_tenant row"
  "job_loan_type (copy_field f src row) = job_loan_type row"
  "created_at (copy_field f src row) = created_at row"
  by (cases f; simp)+

lemma save_fields_key [simp]:
  "job_id (save_fields fs src row) = job_id row"
  "job_tenant (save_fields fs src row) = job_tenant row"
  "job_loan_type (save_fields fs src row) = job_loan_type row"
  "created_at (save_fields fs src row) = created_at row"
  by (induction fs arbitrary: row) simp_all

lemma save_fields_status:
  "status (save_fields fs src row) = (if F_status \<in> set fs then status src else status row)"
proof (induction fs arbitrary: row)
  case (Cons f fs)
  then show ?case by (cases f) auto
qed simp

lemma save_fields_errors:
  "errors (save_fields fs src row) = (if F_errors \<in> set fs then errors src else errors row)"
proof (induction fs arbitrary: row)
  case (Cons f fs)
  then show ?case by (cases f) auto
qed simp

lemma set_attr_key [simp]:
  "job_id (set_attr u j) = job_id j"
  "job_tenant (set_attr u j) = job_tenant j"
  "job_loan_type (set_attr u j) = job_loan_type j"
  "created_at (set_attr u j) = created_at j"
  by (cases u; simp)+

lemma set_attrs_key [simp]:
  "job_id (set_attrs us j) = job_id j"
  "job_tenant (set_attrs us j) = job_tenant j"
  "job_loan_type (set_attrs us j) = job_loan_type j"
  "created_at (set_attrs us j) = created_at j"
  by (induction us arbitrary: j) simp_all

text \<open>
  Saving an object that was read from the row itself gives the object: no column is lost when
  nobody else wrote the row in between.
\<close>

lemma copy_field_set_attr: "copy_field (field_of u) (set_attr u row) row = set_attr u row"
  by (cases u) simp_all

lemma save_fields_upd_same:
  "save_fields [F_updated_at] (j\<lparr>updated_at := t\<rparr>) j = j\<lparr>updated_at := t\<rparr>"
  by simp

section \<open>Serializers\<close>

text \<open>\<open>SyncResponseSerializer\<close>: the body of a 202 answer.\<close>

definition sync_response :: "(int \<Rightarrow> string) \<Rightarrow> etl_job \<Rightarrow> json" where
  "sync_response isoformat j = JObj
     [(''job_id'', JStr (job_id j)), (''tenant_id'', JStr (job_tenant j)),
      (''loan_type'', JStr (job_loan_type j)), (''status'', JStr (status_str (status j))),
      (''created_at'', json_opt (\<lambda>t. JStr (isoformat t)) (created_at j))]"

text \<open>One stored error as \<open>JobStatusSerializer.to_representation\<close> renders it.\<close>

definition error_view :: "pydict \<Rightarrow> pydict" where
  "error_view err =
     [(''row_number'', dict_get err ''row_number'' JNull),
      (''field'', dict_get err ''field'' JNull),
      (''error_type'', dict_get err ''error_type'' JNull),
      (''message'', dict_get err ''message'' (dict_get err ''error_message'' (JStr '''')))]"

definition job_status_view :: "(int \<Rightarrow> string) \<Rightarrow> etl_job \<Rightarrow> pydict" where
  "job_status_view isoformat j =
     [(''job_id'', JStr (job_id j)), (''tenant_id'', JStr (job_tenant j)),
      (''loan_type'', JStr (job_loan_type j)), (''status'', JStr (status_str (status j))),
      (''progress_percentage'', JInt (progress_percentage j)),
      (''processed_rows'', JInt (processed_rows j)),
      (''records_processed'', JInt (processed_rows j)),
      (''started_at'', json_opt (\<lambda>t. JStr (isoformat t)) (started_at j)),
      (''completed_at'', json_opt (\<lambda>t. JStr (isoformat t)) (completed_at j)),
      (''errors'', JList (map (\<lambda>e. JObj (error_view e)) (errors j))),
      (''validation_summary'', JObj (validation_summary j))]"

text \<open>An error dict with the four keys the writers use is rendered unchanged.\<close>

definition error_dict :: "int \<Rightarrow> string \<Rightarrow> string \<Rightarrow> string \<Rightarrow> pydict" where
  "error_dict row fld typ msg =
     [(''row_number'', JInt row), (''field'', JStr fld), (''error_type'', JStr typ),
      (''message'', JStr msg)]"

lemma error_view_error_dict [simp]: "error_view (error_dict r f t m) = error_dict r f t m"
  by (simp add: error_dict_def error_view_def dict_get_def)

end
