(* ===== verification/Effects.thy ===== *)
theory Effects
  imports Jobs
begin

text \<open>
  How the Python code is run.  A handler is a program: a tree of the calls it makes to the services
  outside the repository (Redis, the job table behind Django's ORM, Celery, the clock, \<open>uuid4\<close>),
  each followed by the continuation on the answer, with an exception or a value at the leaves.
  The programs themselves (the other theories) are independent of what the services do.

  The services are a parameter \<open>S :: 'w services\<close> on an arbitrary state \<open>'w\<close>; the locale
  \<open>services\<close> names the documented laws the proofs use.  One program gives two executions: \<open>run\<close>,
  where it runs alone, and \<open>prog_step\<close>, one service call at a time, which is what other processes
  can interleave with.  The failure of a service call is modelled for the job table (a violated
  unique key, a save of a missing row) and for the Celery broker; Redis and the table are otherwise
  taken to answer.
\<close>

section \<open>Programs\<close>

datatype 'a prog =
    Ret "exn + 'a"
  | RedisGet string "string option \<Rightarrow> 'a prog"
  | RedisSet string string nat "'a prog"
  | RedisSetNx string string nat "bool \<Rightarrow> 'a prog"
  | RedisDelete "string list" "'a prog"
  | RedisEvalRelease string string "nat \<Rightarrow> 'a prog"
  | JobGet string "etl_job option \<Rightarrow> 'a prog"
  | JobInsert etl_job "etl_job option \<Rightarrow> 'a prog"
  | JobSave "job_field list" etl_job "bool \<Rightarrow> 'a prog"
  | Now "int \<Rightarrow> 'a prog"
  | Uuid4 "string \<Rightarrow> 'a prog"
  | CeleryDelay string string string "string option \<Rightarrow> 'a prog"
  | CeleryRevoke string "'a prog"

text \<open>\<open>and_then p k\<close> grafts \<open>k\<close> on the leaves; sequencing, \<open>try/except\<close> and \<open>finally\<close> are its uses.\<close>

primrec and_then :: "'a prog \<Rightarrow> (exn + 'a \<Rightarrow> 'b prog) \<Rightarrow> 'b prog" where
  "and_then (Ret r) k = k r"
| "and_then (RedisGet key f) k = RedisGet key (\<lambda>v. and_then (f v) k)"
| "and_then (RedisSet key v ex p) k = RedisSet key v ex (and_then p k)"
| "and_then (RedisSetNx key v ex f) k = RedisSetNx key v ex (\<lambda>b. and_then (f b) k)"
| "and_then (RedisDelete ks p) k = RedisDelete ks (and_then p k)"
| "and_then (RedisEvalRelease key v f) k = RedisEvalRelease key v (\<lambda>n. and_then (f n) k)"
| "and_then (JobGet jid f) k = JobGet jid (\<lambda>r. and_then (f r) k)"
| "and_then (JobInsert j f) k = JobInsert j (\<lambda>b. and_then (f b) k)"
| "and_then (JobSave fs j f) k = JobSave fs j (\<lambda>b. and_then (f b) k)"
| "and_then (Now f) k = Now (\<lambda>t. and_then (f t) k)"
| "and_then (Uuid4 f) k = Uuid4 (\<lambda>u. and_then (f u) k)"
| "and_then (CeleryDelay jid t l f) k = CeleryDelay jid t l (\<lambda>tid. and_then (f tid) k)"
| "and_then (CeleryRevoke tid p) k = CeleryRevoke tid (and_then p k)"

definition return :: "'a \<Rightarrow> 'a prog" where
  "return x = Ret (Inr x)"

definition raise :: "exn \<Rightarrow> 'a prog" where
  "raise e = Ret (Inl e)"

definition bind :: "'a prog \<Rightarrow> ('a \<Rightarrow> 'b prog) \<Rightarrow> 'b prog" where
  "bind p f = and_then p (\<lambda>r. case r of Inl e \<Rightarrow> raise e | Inr x \<Rightarrow> f x)"

definition try_except :: "'a prog \<Rightarrow> (exn \<Rightarrow> 'a prog) \<Rightarrow> 'a prog" where
  "try_except p h = and_then p (\<lambda>r. case r of Inl e \<Rightarrow> h e | Inr x \<Rightarrow> return x)"

definition try_finally :: "'a prog \<Rightarrow> unit prog \<Rightarrow> 'a prog" where
  "try_finally p q = and_then p (\<lambda>r. bind q (\<lambda>_. Ret r))"

section \<open>The services\<close>

record 'w services =
  redis_get :: "'w \<Rightarrow> string \<Rightarrow> string option"
  redis_set :: "'w \<Rightarrow> string \<Rightarrow> string \<Rightarrow> nat \<Rightarrow> 'w"
  redis_setnx :: "'w \<Rightarrow> string \<Rightarrow> string \<Rightarrow> nat \<Rightarrow> 'w \<times> bool"
  redis_delete :: "'w \<Rightarrow> string list \<Rightarrow> 'w"
  job_row :: "'w \<Rightarrow> string \<Rightarrow> etl_job option"
  job_insert :: "'w \<Rightarrow> etl_job \<Rightarrow> 'w \<times> bool"
  job_save :: "'w \<Rightarrow> job_field list \<Rightarrow> etl_job \<Rightarrow> 'w \<times> bool"
  clock_now :: "'w \<Rightarrow> 'w \<times> int"
  fresh_uuid :: "'w \<Rightarrow> 'w \<times> string"
  celery_delay :: "'w \<Rightarrow> string \<Rightarrow> string \<Rightarrow> string \<Rightarrow> 'w \<times> string option"
  celery_revoke :: "'w \<Rightarrow> string \<Rightarrow> 'w"

text \<open>
  \<open>RELEASE_LOCK_SCRIPT\<close> of \<open>api/apps/core/services/redis_lock.py\<close>: Redis runs a script as one
  atomic step; \<open>KEYS[1]\<close> and \<open>ARGV[1]\<close> are the arguments.
\<close>

definition release_lock_script :: "'w services \<Rightarrow> 'w \<Rightarrow> string \<Rightarrow> string \<Rightarrow> 'w \<times> nat" where
  "release_lock_script S w key arg =
     (if redis_get S w key = Some arg then (redis_delete S w [key], 1) else (w, 0))"

text \<open>One service call.  A finished program stays as it is.\<close>

primrec prog_step :: "'w services \<Rightarrow> 'a prog \<Rightarrow> 'w \<Rightarrow> 'a prog \<times> 'w" where
  "prog_step S (Ret r) w = (Ret r, w)"
| "prog_step S (RedisGet key f) w = (f (redis_get S w key), w)"
| "prog_step S (RedisSet key v ex p) w = (p, redis_set S w key v ex)"
| "prog_step S (RedisSetNx key v ex f) w = (case redis_setnx S w key v ex of (w', b) \<Rightarrow> (f b, w'))"
| "prog_step S (RedisDelete ks p) w = (p, redis_delete S w ks)"
| "prog_step S (RedisEvalRelease key v f) w =
     (case release_lock_script S w key v of (w', n) \<Rightarrow> (f n, w'))"
| "prog_step S (JobGet jid f) w = (f (job_row S w jid), w)"
| "prog_step S (JobInsert j f) w =
     (case clock_now S w of (w1, t) \<Rightarrow>
      case job_insert S w1 (stamp_insert t j) of (w2, b) \<Rightarrow>
        (f (if b then Some (stamp_insert t j) else None), w2))"
| "prog_step S (JobSave fs j f) w = (case job_save S w fs j of (w', b) \<Rightarrow> (f b, w'))"
| "prog_step S (Now f) w = (case clock_now S w of (w', t) \<Rightarrow> (f t, w'))"
| "prog_step S (Uuid4 f) w = (case fresh_uuid S w of (w', u) \<Rightarrow> (f u, w'))"
| "prog_step S (CeleryDelay jid t l f) w =
     (case celery_delay S w jid t l of (w', tid) \<Rightarrow> (f tid, w'))"
| "prog_step S (CeleryRevoke tid p) w = (p, celery_revoke S w tid)"

text \<open>A program running alone.\<close>

primrec run :: "'w services \<Rightarrow> 'a prog \<Rightarrow> 'w \<Rightarrow> (exn + 'a) \<times> 'w" where
  "run S (Ret r) w = (r, w)"
| "run S (RedisGet key f) w = run S (f (redis_get S w key)) w"
| "run S (RedisSet key v ex p) w = run S p (redis_set S w key v ex)"
| "run S (RedisSetNx key v ex f) w = (case redis_setnx S w key v ex of (w', b) \<Rightarrow> run S (f b) w')"
| "run S (RedisDelete ks p) w = run S p (redis_delete S w ks)"
| "run S (RedisEvalRelease key v f) w =
     (case release_lock_script S w key v of (w', n) \<Rightarrow> run S (f n) w')"
| "run S (JobGet jid f) w = run S (f (job_row S w jid)) w"
| "run S (JobInsert j f) w =
     (case clock_now S w of (w1, t) \<Rightarrow>
      case job_insert S w1 (stamp_insert t j) of (w2, b) \<Rightarrow>
        run S (f (if b then Some (stamp_insert t j) else None)) w2)"
| "run S (JobSave fs j f) w = (case job_save S w fs j of (w', b) \<Rightarrow> run S (f b) w')"
| "run S (Now f) w = (case clock_now S w of (w', t) \<Rightarrow> run S (f t) w')"
| "run S (Uuid4 f) w = (case fresh_uuid S w of (w', u) \<Rightarrow> run S (f u) w')"
| "run S (CeleryDelay jid t l f) w =
     (case celery_delay S w jid t l of (w', tid) \<Rightarrow> run S (f tid) w')"
| "run S (CeleryRevoke tid p) w = run S p (celery_revoke S w tid)"

lemma run_and_then: "run S (and_then p k) w = (case run S p w of (r, w') \<Rightarrow> run S (k r) w')"
  by (induction p arbitrary: w) (simp_all split: prod.splits)

lemma run_return [simp, exec_simps]: "run S (return x) w = (Inr x, w)"
  by (simp add: return_def)

lemma run_raise [simp, exec_simps]: "run S (raise e) w = (Inl e, w)"
  by (simp add: raise_def)

lemma run_bind [exec_simps]:
  "run S (bind p f) w = (case run S p w of (Inl e, w') \<Rightarrow> (Inl e, w') | (Inr x, w') \<Rightarrow> run S (f x) w')"
  by (simp add: bind_def run_and_then split: prod.splits sum.splits)

lemma run_try_except [exec_simps]:
  "run S (try_except p h) w =
     (case run S p w of (Inl e, w') \<Rightarrow> run S (h e) w' | (Inr x, w') \<Rightarrow> (Inr x, w'))"
  by (simp add: try_except_def run_and_then split: prod.splits sum.splits)

lemma run_try_finally [exec_simps]:
  "run S (try_finally p q) w =
     (case run S p w of (r, w') \<Rightarrow>
      case run S q w' of (Inl e, w'') \<Rightarrow> (Inl e, w'') | (Inr _, w'') \<Rightarrow> (r, w''))"
  by (simp add: try_finally_def run_and_then exec_simps split: prod.splits sum.splits)

lemma bind_return_left [simp]: "bind (return x) f = f x"
  by (simp add: bind_def return_def)

lemma bind_raise_left [simp]: "bind (raise e) f = raise e"
  by (simp add: bind_def raise_def)

section \<open>Running alone is stepping to the end\<close>

fun prog_steps :: "'w services \<Rightarrow> nat \<Rightarrow> 'a prog \<Rightarrow> 'w \<Rightarrow> 'a prog \<times> 'w" where
  "prog_steps S 0 p w = (p, w)"
| "prog_steps S (Suc n) p w = (case prog_step S p w of (p', w') \<Rightarrow> prog_steps S n p' w')"

lemma prog_steps_add:
  "prog_steps S (m + n) p w = (case prog_steps S m p w of (p', w') \<Rightarrow> prog_steps S n p' w')"
  by (induction m arbitrary: p w) (simp_all add: case_prod_beta)

lemma run_step: "prog_step S p w = (p', w') \<Longrightarrow> run S p w = run S p' w'"
  by (cases p) (auto split: prod.splits)

lemma run_steps: "prog_steps S n p w = (p', w') \<Longrightarrow> run S p w = run S p' w'"
proof (induction n arbitrary: p w)
  case (Suc n)
  obtain q v where qv: "prog_step S p w = (q, v)" by (cases "prog_step S p w")
  with Suc.prems have "prog_steps S n q v = (p', w')" by simp
  then have "run S q v = run S p' w'" by (rule Suc.IH)
  with run_step [OF qv] show ?case by simp
qed simp

lemma reach_from_step:
  assumes "\<exists>n. prog_steps S n (fst (prog_step S p w)) (snd (prog_step S p w)) =
               (Ret (fst (run S p w)), snd (run S p w))"
  shows "\<exists>n. prog_steps S n p w = (Ret (fst (run S p w)), snd (run S p w))"
proof -
  from assms obtain n where "prog_steps S n (fst (prog_step S p w)) (snd (prog_step S p w)) =
      (Ret (fst (run S p w)), snd (run S p w))" by blast
  then have "prog_steps S (Suc n) p w = (Ret (fst (run S p w)), snd (run S p w))"
    by (simp add: case_prod_beta)
  then show ?thesis by blast
qed

lemma steps_reach_run: "\<exists>n. prog_steps S n p w = (Ret (fst (run S p w)), snd (run S p w))"
proof (induction p arbitrary: w)
  case (Ret r)
  have "prog_steps S 0 (Ret r) w = (Ret (fst (run S (Ret r) w)), snd (run S (Ret r) w))" by simp
  then show ?case by blast
qed (rule reach_from_step, simp add: case_prod_beta)+

end
