(* ===== verification/Services.thy ===== *)
theory Services
  imports Effects
begin

text \<open>
  What the code relies on from the services outside the repository, as locales over the parameter
  \<open>S\<close>: the Redis commands it sends (\<open>GET\<close>, \<open>SET\<close>, \<open>SET NX\<close>, \<open>DEL\<close>, from the Redis command
  reference), the job table behind Django's ORM (unique \<open>job_id\<close>, \<open>get\<close>, \<open>create\<close>,
  \<open>save(update_fields)\<close>), and that the two do not touch each other.  Keys that expire are a step of
  the environment, in the theory \<open>Interleaving\<close>.

  \<open>demo_services\<close> is a concrete instance on finite maps; the witnesses run the code on it.
\<close>

section \<open>The laws\<close>

locale redis_service =
  fixes S :: "'w services"
  assumes get_after_set:
      "redis_get S (redis_set S w k v ex) = (redis_get S w)(k \<mapsto> v)"
    and get_after_setnx:
      "redis_get S (fst (redis_setnx S w k v ex)) =
         (if redis_get S w k = None then (redis_get S w)(k \<mapsto> v) else redis_get S w)"
    and setnx_result:
      "snd (redis_setnx S w k v ex) \<longleftrightarrow> redis_get S w k = None"
    and get_after_delete:
      "redis_get S (redis_delete S w ks) = (\<lambda>k. if k \<in> set ks then None else redis_get S w k)"
begin

lemmas redis_laws = get_after_set get_after_setnx setnx_result get_after_delete

lemma setnx_eq:
  "redis_setnx S w k v ex = (w', b) \<Longrightarrow>
     b = (redis_get S w k = None) \<and>
     redis_get S w' = (if redis_get S w k = None then (redis_get S w)(k \<mapsto> v) else redis_get S w)"
  using get_after_setnx [of w k v ex] setnx_result [of w k v ex] by simp

lemma get_after_release:
  "redis_get S (fst (release_lock_script S w key arg)) =
     (if redis_get S w key = Some arg then (redis_get S w)(key := None) else redis_get S w)"
  by (auto simp: release_lock_script_def get_after_delete)

end

locale job_table =
  fixes S :: "'w services"
  assumes row_after_insert:
      "job_row S (fst (job_insert S w j)) =
         (if job_row S w (job_id j) = None then (job_row S w)(job_id j \<mapsto> j) else job_row S w)"
    and insert_result:
      "snd (job_insert S w j) \<longleftrightarrow> job_row S w (job_id j) = None"
    and row_after_save:
      "job_row S (fst (job_save S w fs j)) =
         (case job_row S w (job_id j) of
            None \<Rightarrow> job_row S w
          | Some row \<Rightarrow> (job_row S w)(job_id j \<mapsto> save_fields fs j row))"
    and save_result:
      "snd (job_save S w fs j) \<longleftrightarrow> job_row S w (job_id j) \<noteq> None"
    and row_key:
      "job_row S w jid = Some j \<Longrightarrow> job_id j = jid"
begin

lemmas table_laws = row_after_insert insert_result row_after_save save_result

lemma save_eq:
  assumes "job_row S w (job_id j) = Some row" and "job_save S w fs j = (w', b)"
  shows "b \<and> job_row S w' = (job_row S w)(job_id j \<mapsto> save_fields fs j row)"
  using row_after_save [of w fs j] save_result [of w fs j] assms by simp

end

locale services = redis_service S + job_table S for S :: "'w services" +
  assumes rows_redis:
      "job_row S (redis_set S w k v ex) = job_row S w"
      "job_row S (fst (redis_setnx S w k v ex)) = job_row S w"
      "job_row S (redis_delete S w ks) = job_row S w"
    and redis_rows:
      "redis_get S (fst (job_insert S w j)) = redis_get S w"
      "redis_get S (fst (job_save S w fs j)) = redis_get S w"
    and clock_frame:
      "redis_get S (fst (clock_now S w)) = redis_get S w"
      "job_row S (fst (clock_now S w)) = job_row S w"
    and uuid_frame:
      "redis_get S (fst (fresh_uuid S w)) = redis_get S w"
      "job_row S (fst (fresh_uuid S w)) = job_row S w"
    and celery_frame:
      "redis_get S (fst (celery_delay S w jid t l)) = redis_get S w"
      "job_row S (fst (celery_delay S w jid t l)) = job_row S w"
      "redis_get S (celery_revoke S w tid) = redis_get S w"
      "job_row S (celery_revoke S w tid) = job_row S w"
begin

lemma rows_release: "job_row S (fst (release_lock_script S w key arg)) = job_row S w"
  by (simp add: release_lock_script_def rows_redis)

lemmas service_laws =
  redis_laws table_laws rows_redis redis_rows clock_frame uuid_frame celery_frame
  get_after_release rows_release

end

section \<open>A concrete instance\<close>

record demo_world =
  demo_kv :: "string \<rightharpoonup> string"
  demo_rows :: "string \<rightharpoonup> etl_job"
  demo_ticks :: int
  demo_uuids :: nat
  demo_sent :: "(string \<times> string \<times> string) list"
  demo_revoked :: "string list"

definition demo_empty :: demo_world where
  "demo_empty = \<lparr>demo_kv = Map.empty, demo_rows = Map.empty, demo_ticks = 0, demo_uuids = 0, demo_sent = [], demo_revoked = []\<rparr>"

definition demo_services :: "demo_world services" where
  "demo_services = \<lparr>
     redis_get = (\<lambda>w. demo_kv w),
     redis_set = (\<lambda>w k v ex. w\<lparr>demo_kv := (demo_kv w)(k \<mapsto> v)\<rparr>),
     redis_setnx = (\<lambda>w k v ex. if demo_kv w k = None then (w\<lparr>demo_kv := (demo_kv w)(k \<mapsto> v)\<rparr>, True) else (w, False)),
     redis_delete = (\<lambda>w ks. w\<lparr>demo_kv := (\<lambda>k. if k \<in> set ks then None else demo_kv w k)\<rparr>),
     job_row = (\<lambda>w jid. case demo_rows w jid of Some j \<Rightarrow> (if job_id j = jid then Some j else None) | None \<Rightarrow> None),
     job_insert = (\<lambda>w j. case demo_rows w (job_id j) of
         None \<Rightarrow> (w\<lparr>demo_rows := (demo_rows w)(job_id j \<mapsto> j)\<rparr>, True)
       | Some row \<Rightarrow>
           if job_id row = job_id j then (w, False)
           else (w\<lparr>demo_rows := (demo_rows w)(job_id j \<mapsto> j)\<rparr>, True)),
     job_save = (\<lambda>w fs j. case demo_rows w (job_id j) of
         None \<Rightarrow> (w, False)
       | Some row \<Rightarrow>
           if job_id row = job_id j
           then (w\<lparr>demo_rows := (demo_rows w)(job_id j \<mapsto> save_fields fs j row)\<rparr>, True)
           else (w, False)),
     clock_now = (\<lambda>w. (w\<lparr>demo_ticks := demo_ticks w + 1\<rparr>, demo_ticks w)),
     fresh_uuid = (\<lambda>w. (w\<lparr>demo_uuids := Suc (demo_uuids w)\<rparr>, str_nat (demo_uuids w))),
     celery_delay = (\<lambda>w jid t l.
         (w\<lparr>demo_sent := demo_sent w @ [(jid, t, l)]\<rparr>, Some (''task-'' @ jid))),
     celery_revoke = (\<lambda>w tid. w\<lparr>demo_revoked := tid # demo_revoked w\<rparr>)\<rparr>"

interpretation demo: services demo_services
  by unfold_locales
    (auto simp: demo_services_def fun_eq_iff split: option.splits if_splits)

lemmas demo_run = demo_services_def demo_empty_def exec_simps

end
