(* ===== verification/RedisLock.thy ===== *)
theory RedisLock
  imports Services
begin

text \<open>
  The slice lock of \<open>api/apps/core/services/redis_lock.py\<close>: one Redis key per tenant and loan type,
  taken with \<open>SET NX EX\<close>, released by a compare-and-delete script.  The locale \<open>slice_lock\<close> is the
  contract its callers use (an abstract map from slices to holders); it is interpreted on the
  code's functions run against any services that satisfy the Redis laws.
\<close>

section \<open>The code\<close>

definition lock_key :: "string \<Rightarrow> string \<Rightarrow> string" where
  "lock_key tenant_id loan_type = ''lock:'' @ tenant_id @ '':'' @ loan_type"

definition acquire_sync_lock :: "string \<Rightarrow> string \<Rightarrow> string \<Rightarrow> bool prog" where
  "acquire_sync_lock tenant_id loan_type jid =
     RedisSetNx (lock_key tenant_id loan_type) jid 14400 return"

definition get_active_job_id :: "string \<Rightarrow> string \<Rightarrow> string option prog" where
  "get_active_job_id tenant_id loan_type = RedisGet (lock_key tenant_id loan_type) return"

definition release_sync_lock :: "string \<Rightarrow> string \<Rightarrow> string \<Rightarrow> unit prog" where
  "release_sync_lock tenant_id loan_type jid =
     RedisEvalRelease (lock_key tenant_id loan_type) jid (\<lambda>_. return ())"

lemmas lock_defs [handler_defs] =
  acquire_sync_lock_def get_active_job_id_def release_sync_lock_def

section \<open>Keys\<close>

text \<open>
  Distinct slices have distinct keys as long as the loan type has no colon (the two configured loan
  types have none); a tenant id may contain one.
\<close>

lemma append_sep_eq:
  assumes "c \<notin> set b" and "c \<notin> set b'"
  shows "a @ c # b = a' @ c # b' \<longleftrightarrow> a = a' \<and> b = b'"
proof
  assume eq: "a @ c # b = a' @ c # b'"
  then have "takeWhile (\<lambda>x. x \<noteq> c) (rev (a @ c # b)) = takeWhile (\<lambda>x. x \<noteq> c) (rev (a' @ c # b'))"
    by simp
  moreover have "takeWhile (\<lambda>x. x \<noteq> c) (rev b @ c # rev a) = rev b"
    using assms(1) by (subst takeWhile_append2) auto
  moreover have "takeWhile (\<lambda>x. x \<noteq> c) (rev b' @ c # rev a') = rev b'"
    using assms(2) by (subst takeWhile_append2) auto
  ultimately have "b = b'" by simp
  with eq show "a = a' \<and> b = b'" by simp
qed simp

lemma lock_key_inj:
  assumes "CHR '':'' \<notin> set l" and "CHR '':'' \<notin> set l'"
  shows "lock_key t l = lock_key t' l' \<longleftrightarrow> t = t' \<and> l = l'"
  using append_sep_eq [OF assms] by (simp add: lock_key_def)

definition slice_ok :: "string \<times> string \<Rightarrow> bool" where
  "slice_ok sl \<longleftrightarrow> CHR '':'' \<notin> set (snd sl)"

section \<open>The contract\<close>

text \<open>
  \<open>holder w sl\<close> is the job that holds slice \<open>sl\<close>; \<open>valid\<close> says which slices are keyed apart.
\<close>

locale slice_lock =
  fixes valid :: "'s \<Rightarrow> bool"
    and holder :: "'w \<Rightarrow> 's \<Rightarrow> 'j option"
    and acquire :: "'s \<Rightarrow> 'j \<Rightarrow> 'w \<Rightarrow> bool \<times> 'w"
    and release :: "'s \<Rightarrow> 'j \<Rightarrow> 'w \<Rightarrow> 'w"
  assumes acquire_free:
      "holder w sl = None \<Longrightarrow>
         fst (acquire sl j w) \<and> holder (snd (acquire sl j w)) sl = Some j"
    and acquire_held:
      "holder w sl = Some i \<Longrightarrow>
         \<not> fst (acquire sl j w) \<and> holder (snd (acquire sl j w)) sl = Some i"
    and release_own:
      "holder w sl = Some j \<Longrightarrow> holder (release sl j w) sl = None"
    and release_other:
      "holder w sl \<noteq> Some j \<Longrightarrow> holder (release sl j w) sl = holder w sl"
    and acquire_frame:
      "valid sl \<Longrightarrow> valid sl' \<Longrightarrow> sl \<noteq> sl' \<Longrightarrow> holder (snd (acquire sl j w)) sl' = holder w sl'"
    and release_frame:
      "valid sl \<Longrightarrow> valid sl' \<Longrightarrow> sl \<noteq> sl' \<Longrightarrow> holder (release sl j w) sl' = holder w sl'"
begin

text \<open>The requests callers make, and a sequence of them.\<close>

lemma acquired_iff: "fst (acquire sl j w) \<longleftrightarrow> holder w sl = None"
  by (cases "holder w sl") (auto dest: acquire_free acquire_held)

lemma acquire_release_free:
  assumes "fst (acquire sl j w)"
  shows "holder (release sl j (snd (acquire sl j w))) sl = None"
  using assms acquire_free release_own by (simp add: acquired_iff)

lemma second_acquire_fails:
  assumes "fst (acquire sl i w)"
  shows "\<not> fst (acquire sl j (snd (acquire sl i w)))"
  using assms acquire_free acquire_held by (simp add: acquired_iff)

text \<open>A holder survives any attempts of others, on this slice or on another.\<close>

lemma attempts_keep_holder:
  assumes "holder w sl = Some j"
    and "list_all (\<lambda>(sl', i). valid sl' \<and> i \<noteq> j) reqs" and "valid sl"
  shows "holder (fold (\<lambda>(sl', i) w. release sl' i (snd (acquire sl' i w))) reqs w) sl = Some j"
  using assms(1,2)
proof (induction reqs arbitrary: w)
  case (Cons r reqs)
  obtain sl' i where r: "r = (sl', i)" by (cases r)
  with Cons.prems have i: "valid sl'" "i \<noteq> j" by auto
  have "holder (release sl' i (snd (acquire sl' i w))) sl = Some j"
  proof (cases "sl' = sl")
    case True
    with Cons.prems(1) i acquire_held [of w sl j i] show ?thesis
      by (simp add: release_other)
  next
    case False
    with Cons.prems(1) i assms(3) show ?thesis
      by (simp add: acquire_frame release_frame)
  qed
  with Cons r show ?case by simp
qed simp

end

section \<open>The code implements the contract\<close>

definition lock_holder :: "'w services \<Rightarrow> 'w \<Rightarrow> string \<times> string \<Rightarrow> string option" where
  "lock_holder S w sl = redis_get S w (lock_key (fst sl) (snd sl))"

definition lock_acquire :: "'w services \<Rightarrow> string \<times> string \<Rightarrow> string \<Rightarrow> 'w \<Rightarrow> bool \<times> 'w" where
  "lock_acquire S sl j w =
     (case run S (acquire_sync_lock (fst sl) (snd sl) j) w of
        (Inr b, w') \<Rightarrow> (b, w') | (Inl _, w') \<Rightarrow> (False, w'))"

definition lock_release :: "'w services \<Rightarrow> string \<times> string \<Rightarrow> string \<Rightarrow> 'w \<Rightarrow> 'w" where
  "lock_release S sl j w = snd (run S (release_sync_lock (fst sl) (snd sl) j) w)"

context redis_service
begin

lemma run_acquire:
  "run S (acquire_sync_lock t l j) w =
     (Inr (redis_get S w (lock_key t l) = None), fst (redis_setnx S w (lock_key t l) j 14400))"
  using setnx_result [of w "lock_key t l" j 14400]
  by (cases "redis_setnx S w (lock_key t l) j 14400") (simp add: acquire_sync_lock_def)

lemma run_release:
  "run S (release_sync_lock t l j) w = (Inr (), fst (release_lock_script S w (lock_key t l) j))"
  by (cases "release_lock_script S w (lock_key t l) j") (simp add: release_sync_lock_def)

lemma run_active:
  "run S (get_active_job_id t l) w = (Inr (redis_get S w (lock_key t l)), w)"
  by (simp add: get_active_job_id_def)

lemmas lock_runs = run_acquire run_release run_active

end

sublocale redis_service \<subseteq> lock: slice_lock slice_ok "lock_holder S" "lock_acquire S" "lock_release S"
proof unfold_locales
  show "fst (lock_acquire S sl j w) \<and> lock_holder S (snd (lock_acquire S sl j w)) sl = Some j"
    if "lock_holder S w sl = None" for w sl j
    using that by (simp add: lock_holder_def lock_acquire_def run_acquire get_after_setnx)
  show "\<not> fst (lock_acquire S sl j w) \<and> lock_holder S (snd (lock_acquire S sl j w)) sl = Some i"
    if "lock_holder S w sl = Some i" for w sl i j
    using that by (simp add: lock_holder_def lock_acquire_def run_acquire get_after_setnx)
  show "lock_holder S (lock_release S sl j w) sl = None"
    if "lock_holder S w sl = Some j" for w sl j
    using that by (simp add: lock_holder_def lock_release_def run_release get_after_release)
  show "lock_holder S (lock_release S sl j w) sl = lock_holder S w sl"
    if "lock_holder S w sl \<noteq> Some j" for w sl j
    using that by (simp add: lock_holder_def lock_release_def run_release get_after_release)
  fix w sl sl' j
  assume "slice_ok sl" "slice_ok sl'" "sl \<noteq> sl'"
  then have key: "lock_key (fst sl) (snd sl) \<noteq> lock_key (fst sl') (snd sl')"
    by (auto simp: slice_ok_def lock_key_inj prod_eq_iff)
  then show "lock_holder S (snd (lock_acquire S sl j w)) sl' = lock_holder S w sl'"
    by (simp add: lock_holder_def lock_acquire_def run_acquire get_after_setnx)
  from key show "lock_holder S (lock_release S sl j w) sl' = lock_holder S w sl'"
    by (simp add: lock_holder_def lock_release_def run_release get_after_release)
qed

context redis_service
begin

lemma holder_kept:
  assumes "redis_get S w (lock_key t l) = Some j" and "slice_ok (t, l)"
    and "list_all (\<lambda>(sl, i). slice_ok sl \<and> i \<noteq> j) reqs"
  shows "redis_get S (fold (\<lambda>(sl, i) w. lock_release S sl i (snd (lock_acquire S sl i w))) reqs w)
           (lock_key t l) = Some j"
  using lock.attempts_keep_holder [of w "(t, l)" j reqs] assms by (simp add: lock_holder_def)

end

section \<open>Properties\<close>

text \<open>
  The keys of two slices are equal only for the same tenant and loan type, when no loan type
  contains a colon (a tenant id may).
\<close>

theorem lock_key_injective:
  assumes "CHR '':'' \<notin> set l" and "CHR '':'' \<notin> set l'"
  shows "lock_key t l = lock_key t' l' \<longleftrightarrow> t = t' \<and> l = l'"
  by (rule lock_key_inj [OF assms])

lemma lock_key_injective_witness:
  "lock_key ''B:1'' ''RETAIL'' \<noteq> lock_key ''B'' ''COMMERCIAL''"
  using lock_key_injective [of "''RETAIL''" "''COMMERCIAL''" "''B:1''" "''B''"] by simp

text \<open>
  Mutual exclusion: the job that holds a slice still holds it after any sequence of acquire
  attempts, each followed by a release, that other jobs make on this slice or on any other.
\<close>

theorem holder_survives_attempts:
  assumes "services S"
    and "redis_get S w (lock_key t l) = Some j" and "slice_ok (t, l)"
    and "list_all (\<lambda>(sl, i). slice_ok sl \<and> i \<noteq> j) reqs"
  shows "redis_get S (fold (\<lambda>(sl, i) w. lock_release S sl i (snd (lock_acquire S sl i w))) reqs w)
           (lock_key t l) = Some j"
  by (rule redis_service.holder_kept [OF services.axioms(1) [OF assms(1)] assms(2-4)])

lemma holder_survives_attempts_witness:
  "redis_get demo_services
     (fold (\<lambda>(sl, i) w. lock_release demo_services sl i (snd (lock_acquire demo_services sl i w)))
        [((''BANK001'', ''RETAIL''), ''job_2''), ((''BANK002'', ''RETAIL''), ''job_3'')]
        (redis_set demo_services demo_empty (lock_key ''BANK001'' ''RETAIL'') ''job_1'' 14400))
     (lock_key ''BANK001'' ''RETAIL'') = Some ''job_1''"
  by (rule holder_survives_attempts [OF demo.services_axioms])
    (simp_all add: demo.service_laws slice_ok_def)

text \<open>
  The release script is a compare-and-delete: it frees the slice when the caller holds it and
  otherwise changes nothing, so a task whose lock expired cannot free the slice of its successor.
\<close>

theorem release_only_own:
  assumes "services S"
  shows "\<exists>w'. run S (release_sync_lock t l j) w = (Inr (), w') \<and> job_row S w' = job_row S w \<and>
     redis_get S w' =
       (if redis_get S w (lock_key t l) = Some j then (redis_get S w)(lock_key t l := None)
        else redis_get S w)"
  using services.axioms(1) [OF assms] services.rows_release [OF assms]
  by (auto simp: redis_service.run_release redis_service.get_after_release)

lemma release_only_own_witness:
  "redis_get demo_services (snd (run demo_services (release_sync_lock ''B'' ''RETAIL'' ''job_1'')
       (redis_set demo_services demo_empty (lock_key ''B'' ''RETAIL'') ''job_2'' 14400)))
     (lock_key ''B'' ''RETAIL'') = Some ''job_2''"
  using release_only_own [OF demo.services_axioms, of "''B''" "''RETAIL''" "''job_1''"
      "redis_set demo_services demo_empty (lock_key ''B'' ''RETAIL'') ''job_2'' 14400"]
  by (auto simp: demo.service_laws)

end
