(* ===== verification/CancelSync.thy ===== *)
theory CancelSync
  imports RedisLock
begin

text \<open>
  \<open>api/apps/etl/services/cancel_sync.py\<close>: the per-job cancel flag and Celery task id in Redis, and
  the cancellation of a job.
\<close>

section \<open>The code\<close>

definition CANCEL_MESSAGE :: string where
  "CANCEL_MESSAGE = ''Sync cancelled by user''"

definition celery_task_key :: "string \<Rightarrow> string" where
  "celery_task_key jid = ''job:celery:'' @ jid"

definition cancel_flag_key :: "string \<Rightarrow> string" where
  "cancel_flag_key jid = ''job:cancel:'' @ jid"

definition store_celery_task_id :: "string \<Rightarrow> string \<Rightarrow> unit prog" where
  "store_celery_task_id jid task_id =
     RedisSet (celery_task_key jid) task_id 86400 (return ())"

definition get_celery_task_id :: "string \<Rightarrow> string option prog" where
  "get_celery_task_id jid = RedisGet (celery_task_key jid) return"

definition mark_cancel_requested :: "string \<Rightarrow> unit prog" where
  "mark_cancel_requested jid = RedisSet (cancel_flag_key jid) ''1'' 86400 (return ())"

text \<open>\<open>bool(client.get(key))\<close>: an absent key and an empty string are both false.\<close>

definition opt_truthy :: "string option \<Rightarrow> bool" where
  "opt_truthy v = (case v of None \<Rightarrow> False | Some s \<Rightarrow> s \<noteq> '''')"

definition is_cancel_requested :: "string \<Rightarrow> bool prog" where
  "is_cancel_requested jid = RedisGet (cancel_flag_key jid) (\<lambda>v. return (opt_truthy v))"

definition clear_cancel_flags :: "string \<Rightarrow> unit prog" where
  "clear_cancel_flags jid = RedisDelete [cancel_flag_key jid, celery_task_key jid] (return ())"

definition revoke_task :: "string option \<Rightarrow> unit prog" where
  "revoke_task task_id =
     (case task_id of
        None \<Rightarrow> return ()
      | Some tid \<Rightarrow> if tid = '''' then return () else CeleryRevoke tid (return ()))"

text \<open>The in-memory job after the assignments of lines 61 to 69.\<close>

definition mark_cancelled :: "int \<Rightarrow> etl_job \<Rightarrow> etl_job" where
  "mark_cancelled t j = j\<lparr>
     status := CANCELLED,
     completed_at := Some t,
     job_result := CANCEL_MESSAGE,
     errors := [error_dict 0 ''pipeline'' ''CANCELLED'' CANCEL_MESSAGE],
     validation_summary :=
       [(''is_valid'', JBool False), (''error_count'', JInt 1),
        (''critical_failures'', JList [JStr CANCEL_MESSAGE])]\<rparr>"

text \<open>\<open>job.save(update_fields=...)\<close>: \<open>updated_at\<close> is \<open>auto_now\<close>, so the save stamps it.\<close>

definition job_save_fields :: "job_field list \<Rightarrow> etl_job \<Rightarrow> etl_job prog" where
  "job_save_fields fs j = Now (\<lambda>t.
     let j' = j\<lparr>updated_at := Some t\<rparr> in
     JobSave (fs @ [F_updated_at]) j' (\<lambda>ok.
       if ok then return j'
       else raise (Exn DatabaseError ''Save with update_fields did not affect any rows.'')))"

definition cancel_sync_job :: "etl_job \<Rightarrow> etl_job prog" where
  "cancel_sync_job job =
     (if status job \<notin> {QUEUED, PROCESSING}
      then raise (Exn ValueError ''Only queued or processing jobs can be cancelled'')
      else
        let was_queued = (status job = QUEUED) in
        bind (mark_cancel_requested (job_id job)) (\<lambda>_.
        bind (get_celery_task_id (job_id job)) (\<lambda>task_id.
        bind (revoke_task task_id) (\<lambda>_.
        Now (\<lambda>t.
        bind (job_save_fields [F_status, F_completed_at, F_result, F_errors, F_validation_summary]
               (mark_cancelled t job)) (\<lambda>job.
        bind (if was_queued
              then release_sync_lock (job_tenant job) (job_loan_type job) (job_id job)
              else return ()) (\<lambda>_.
        RedisDelete [celery_task_key (job_id job)] (return job))))))))"

lemmas cancel_defs [handler_defs] =
  store_celery_task_id_def get_celery_task_id_def mark_cancel_requested_def
  is_cancel_requested_def clear_cancel_flags_def revoke_task_def job_save_fields_def

section \<open>Keys of different kinds never meet\<close>

lemma keys_differ [simp]:
  "cancel_flag_key i \<noteq> celery_task_key j"
  "celery_task_key j \<noteq> cancel_flag_key i"
  "lock_key t l \<noteq> cancel_flag_key i"
  "cancel_flag_key i \<noteq> lock_key t l"
  "lock_key t l \<noteq> celery_task_key i"
  "celery_task_key i \<noteq> lock_key t l"
  by (simp_all add: cancel_flag_key_def celery_task_key_def lock_key_def)

lemma keys_inj [simp]:
  "cancel_flag_key i = cancel_flag_key j \<longleftrightarrow> i = j"
  "celery_task_key i = celery_task_key j \<longleftrightarrow> i = j"
  by (simp_all add: cancel_flag_key_def celery_task_key_def)

lemma opt_truthy_simps [simp]:
  "opt_truthy None = False"
  "opt_truthy (Some s) = (s \<noteq> '''')"
  by (simp_all add: opt_truthy_def)

section \<open>What a cancellation does\<close>

text \<open>The clock as a cancellation reads it: after the flag is set and the Celery task is revoked.\<close>

definition cancel_time :: "'w services \<Rightarrow> etl_job \<Rightarrow> 'w \<Rightarrow> int" where
  "cancel_time S job w =
     (let flagged = redis_set S w (cancel_flag_key (job_id job)) ''1'' 86400
      in snd (clock_now S
           (case redis_get S flagged (celery_task_key (job_id job)) of
              None \<Rightarrow> flagged
            | Some tid \<Rightarrow> if tid = '''' then flagged else celery_revoke S flagged tid)))"

context services
begin

lemma run_is_cancel_requested:
  "run S (is_cancel_requested jid) w = (Inr (opt_truthy (redis_get S w (cancel_flag_key jid))), w)"
  by (simp add: is_cancel_requested_def)

lemma run_clear_cancel_flags:
  "run S (clear_cancel_flags jid) w =
     (Inr (), redis_delete S w [cancel_flag_key jid, celery_task_key jid])"
  by (simp add: clear_cancel_flags_def)

lemma run_cancel_sync_job:
  assumes "job_row S w (job_id job) = Some row" and "status job \<in> {QUEUED, PROCESSING}"
  shows "\<exists>job' w'. run S (cancel_sync_job job) w = (Inr job', w') \<and>
     status job' = CANCELLED \<and> job_result job' = CANCEL_MESSAGE \<and>
     errors job' = [error_dict 0 ''pipeline'' ''CANCELLED'' CANCEL_MESSAGE] \<and>
     completed_at job' = Some (cancel_time S job w) \<and>
     validation_summary job' =
       [(''is_valid'', JBool False), (''error_count'', JInt 1), (''critical_failures'', JList [JStr CANCEL_MESSAGE])] \<and>
     redis_get S w' = (redis_get S w)
       (cancel_flag_key (job_id job) \<mapsto> ''1'',
        celery_task_key (job_id job) := None,
        lock_key (job_tenant job) (job_loan_type job) :=
          (if status job = QUEUED \<and>
              redis_get S w (lock_key (job_tenant job) (job_loan_type job)) = Some (job_id job)
           then None else redis_get S w (lock_key (job_tenant job) (job_loan_type job)))) \<and>
     job_row S w' = (job_row S w)(job_id job \<mapsto>
       save_fields [F_status, F_completed_at, F_result, F_errors, F_validation_summary,
                    F_updated_at] job' row)"
  using assms
  by (auto simp: cancel_sync_job_def cancel_time_def handler_defs exec_simps case_prod_beta Let_def
        mark_cancelled_def service_laws fun_eq_iff split: option.splits)

lemma run_cancel_sync_job_rejected:
  "status job \<notin> {QUEUED, PROCESSING} \<Longrightarrow>
     run S (cancel_sync_job job) w =
       (Inl (Exn ValueError ''Only queued or processing jobs can be cancelled''), w)"
  by (simp add: cancel_sync_job_def)

end

section \<open>A concrete busy world\<close>

text \<open>One job of tenant \<open>BANK001\<close> with a given status, its slice lock and its Celery task id.\<close>

definition demo_job :: "status \<Rightarrow> etl_job" where
  "demo_job st = (new_job ''job_7'' ''BANK001'' ''RETAIL'' st)\<lparr>created_at := Some 0, updated_at := Some 0\<rparr>"

definition demo_busy :: "status \<Rightarrow> demo_world" where
  "demo_busy st = demo_empty\<lparr>
     demo_kv := [lock_key ''BANK001'' ''RETAIL'' \<mapsto> ''job_7'', celery_task_key ''job_7'' \<mapsto> ''task-7''],
     demo_rows := [''job_7'' \<mapsto> demo_job st]\<rparr>"

lemma demo_job_simps [simp]:
  "job_id (demo_job st) = ''job_7''" "job_tenant (demo_job st) = ''BANK001''"
  "job_loan_type (demo_job st) = ''RETAIL''" "status (demo_job st) = st"
  "errors (demo_job st) = []" "job_result (demo_job st) = ''''"
  by (simp_all add: demo_job_def new_job_def)

lemma demo_busy_row [simp]:
  "job_row demo_services (demo_busy st) jid = (if jid = ''job_7'' then Some (demo_job st) else None)"
  by (simp add: demo_services_def demo_busy_def)

lemma demo_busy_redis:
  "redis_get demo_services (demo_busy st) =
     [lock_key ''BANK001'' ''RETAIL'' \<mapsto> ''job_7'', celery_task_key ''job_7'' \<mapsto> ''task-7'']"
  by (simp add: demo_services_def demo_busy_def)

lemma demo_busy_lock [simp]:
  "redis_get demo_services (demo_busy st) (lock_key ''BANK001'' ''RETAIL'') = Some ''job_7''"
  "redis_get demo_services (demo_busy st) (cancel_flag_key jid) = None"
  by (simp_all add: demo_busy_redis)

lemma demo_empty_reads [simp]:
  "redis_get demo_services demo_empty k = None"
  "job_row demo_services demo_empty jid = None"
  by (simp_all add: demo_services_def demo_empty_def)

section \<open>Properties\<close>

text \<open>
  Property C18. A cancellation of a queued or running job succeeds whatever the stored row is by then: the
  row takes the cancelled status, the time the clock shows after the task was revoked as its end, the message, the error
  and the validation summary, and of its other columns only \<open>updated_at\<close> changes; the flag is set and
  the task id dropped; the slice lock is freed exactly when the job was read as queued and holds it.
\<close>

theorem cancel_job:
  assumes "services S"
    and "job_row S w (job_id job) = Some row" and "status job \<in> {QUEUED, PROCESSING}"
  shows "\<exists>job' w'. run S (cancel_sync_job job) w = (Inr job', w') \<and>
     status job' = CANCELLED \<and> job_result job' = CANCEL_MESSAGE \<and>
     errors job' = [error_dict 0 ''pipeline'' ''CANCELLED'' CANCEL_MESSAGE] \<and>
     completed_at job' = Some (cancel_time S job w) \<and>
     validation_summary job' =
       [(''is_valid'', JBool False), (''error_count'', JInt 1), (''critical_failures'', JList [JStr CANCEL_MESSAGE])] \<and>
     redis_get S w' = (redis_get S w)
       (cancel_flag_key (job_id job) \<mapsto> ''1'',
        celery_task_key (job_id job) := None,
        lock_key (job_tenant job) (job_loan_type job) :=
          (if status job = QUEUED \<and>
              redis_get S w (lock_key (job_tenant job) (job_loan_type job)) = Some (job_id job)
           then None else redis_get S w (lock_key (job_tenant job) (job_loan_type job)))) \<and>
     job_row S w' = (job_row S w)(job_id job \<mapsto>
       save_fields [F_status, F_completed_at, F_result, F_errors, F_validation_summary,
                    F_updated_at] job' row)"
  by (rule services.run_cancel_sync_job [OF assms])

lemma cancel_job_witness:
  "\<exists>w'. redis_get demo_services w' (lock_key ''BANK001'' ''RETAIL'') = None \<and>
     (\<exists>job'. run demo_services (cancel_sync_job (demo_job QUEUED)) (demo_busy QUEUED) = (Inr job', w') \<and>
        status job' = CANCELLED)"
  using cancel_job [OF demo.services_axioms, of "demo_busy QUEUED" "demo_job QUEUED" "demo_job QUEUED"]
  by auto

text \<open>
  A job that has ended is not cancelled: the call raises \<open>ValueError\<close> before any effect.
\<close>

theorem cancel_ended_job:
  assumes "services S" and "status job \<in> {COMPLETED, FAILED, CANCELLED}"
  shows "run S (cancel_sync_job job) w =
       (Inl (Exn ValueError ''Only queued or processing jobs can be cancelled''), w)"
  using services.run_cancel_sync_job_rejected [OF assms(1)] assms(2) by auto

lemma cancel_ended_job_witness:
  "run demo_services (cancel_sync_job (demo_job FAILED)) (demo_busy FAILED) =
       (Inl (Exn ValueError ''Only queued or processing jobs can be cancelled''), demo_busy FAILED)"
  by (rule cancel_ended_job [OF demo.services_axioms]) simp

end
