(* ===== verification/EtlTasks.thy ===== *)
theory EtlTasks
  imports CancelSync
begin

text \<open>
  The Celery task of \<open>api/apps/etl/tasks.py\<close>.  The Rust adapter it calls is a parameter here: an
  \<open>adapter\<close> is a tree of calls to the progress callback, each followed by the adapter's
  continuation on the callback's answer, that ends with the pipeline's result or an exception.
  Theorems hold for every such tree, so for whatever the bank and the warehouse make the adapter do;
  \<open>AdapterPipeline\<close> gives the tree of the adapter itself (\<open>rust_adapter\<close>).
\<close>

section \<open>The adapter as its caller sees it\<close>

text \<open>\<open>PyErrorLog\<close>, \<open>PyPipelineResult\<close>: what the Rust module hands back (\<open>adapter/src/lib.rs\<close>).
  \<open>duration_2f\<close> is \<open>execution_duration_seconds\<close> as the format \<open>:.2f\<close> renders it.\<close>

record error_log =
  log_row_number :: int
  log_field :: string
  log_error_type :: string
  log_message :: string

record pipeline_result =
  success :: bool
  result_cancelled :: bool
  processed_rows_count :: int
  duration_2f :: string
  total_credits_ingested :: int
  total_payments_ingested :: int
  error_logs :: "error_log list"

datatype adapter_run =
    Adapter_returns "exn + pipeline_result"
  | Adapter_progress int int "error_log list" "bool \<Rightarrow> adapter_run"

primrec adapter_prog ::
    "(int \<Rightarrow> int \<Rightarrow> error_log list \<Rightarrow> bool prog) \<Rightarrow> adapter_run \<Rightarrow> pipeline_result prog" where
  "adapter_prog on_progress (Adapter_returns r) = Ret r"
| "adapter_prog on_progress (Adapter_progress rows pct errs k) =
     bind (on_progress rows pct errs) (\<lambda>b. adapter_prog on_progress (k b))"

text \<open>
  The arguments of \<open>adapter_core.execute_etl_pipeline\<close>, and the adapter: what it does for them.
\<close>

record adapter_args =
  arg_job_id :: string
  arg_tenant_id :: string
  arg_loan_type :: string
  arg_credits_url :: string
  arg_payments_url :: string
  arg_database_url :: string

type_synonym adapter = "adapter_args \<Rightarrow> adapter_run"

section \<open>The code\<close>

definition MAX_STORED_JOB_ERRORS :: nat where
  "MAX_STORED_JOB_ERRORS = 50"

definition SAFE_PIPELINE_FAILURE :: string where
  "SAFE_PIPELINE_FAILURE = ''ETL pipeline failed''"

text \<open>The settings the task reads: \<open>DATABASES["default"]\<close> and \<open>EXTERNAL_BANK_URL\<close>.\<close>

record task_settings =
  DB_USER :: string
  DB_PASSWORD :: string
  DB_HOST :: string
  DB_PORT :: string
  DB_NAME :: string
  EXTERNAL_BANK_URL :: string

definition database_url :: "task_settings \<Rightarrow> string" where
  "database_url cfg = ''postgres://'' @ DB_USER cfg @ '':'' @ DB_PASSWORD cfg @
     ''@'' @ DB_HOST cfg @ '':'' @ DB_PORT cfg @ ''/'' @ DB_NAME cfg"

definition bank_urls :: "task_settings \<Rightarrow> string \<Rightarrow> string \<Rightarrow> string \<times> string" where
  "bank_urls cfg tenant_id loan_type =
     (let base = rstrip_char (CHR ''/'') (EXTERNAL_BANK_URL cfg);
          query = ''tenant_id='' @ tenant_id @ ''&loan_type='' @ loan_type
      in (base @ ''/api/bank/export/credits?'' @ query,
          base @ ''/api/bank/export/payments?'' @ query))"

definition update_job :: "etl_job \<Rightarrow> job_update list \<Rightarrow> etl_job prog" where
  "update_job job us = job_save_fields (map field_of us) (set_attrs us job)"

definition serialize_error_logs :: "error_log list \<Rightarrow> pydict list" where
  "serialize_error_logs logs =
     map (\<lambda>e. error_dict (log_row_number e) (log_field e) (log_error_type e) (log_message e)) logs"

definition trim_stored_errors :: "'a list \<Rightarrow> 'a list" where
  "trim_stored_errors errs =
     (if length errs \<le> MAX_STORED_JOB_ERRORS then errs
      else drop (length errs - MAX_STORED_JOB_ERRORS) errs)"

definition on_progress :: "etl_job \<Rightarrow> int \<Rightarrow> int \<Rightarrow> error_log list \<Rightarrow> bool prog" where
  "on_progress job rows pct errs =
     bind (is_cancel_requested (job_id job)) (\<lambda>c.
     if c then return False
     else bind (update_job job
                  [Set_processed_rows rows, Set_progress_percentage pct,
                   Set_errors (trim_stored_errors (serialize_error_logs errs))])
            (\<lambda>_. return True))"

text \<open>\<open>ETLJob.objects.get(job_id=...)\<close>, and \<open>refresh_from_db\<close>, which is the same read.\<close>

definition objects_get :: "string \<Rightarrow> etl_job prog" where
  "objects_get jid = JobGet jid (\<lambda>r. case r of
     None \<Rightarrow> raise (Exn DoesNotExist ''ETLJob matching query does not exist.'')
   | Some j \<Rightarrow> return j)"

text \<open>\<open>job.status == ETLJob.STATUS_CANCELLED or is_cancel_requested(job_id)\<close>\<close>

definition cancel_observed :: "etl_job \<Rightarrow> string \<Rightarrow> bool prog" where
  "cancel_observed job jid =
     (if status job = CANCELLED then return True else is_cancel_requested jid)"

text \<open>The value the task returns.\<close>

datatype task_result =
    Task_cancelled
  | Task_ingested int int "pydict list" int

definition completion_updates :: "int \<Rightarrow> pipeline_result \<Rightarrow> job_update list" where
  "completion_updates t result =
     (let all_errors = serialize_error_logs (error_logs result);
          error_count = int (length all_errors);
          stored_errors = trim_stored_errors all_errors
      in [Set_status (if success result then COMPLETED else FAILED),
          Set_completed_at (Some t),
          Set_progress_percentage 100,
          Set_processed_rows (processed_rows_count result),
          Set_errors stored_errors,
          Set_validation_summary
            [(''is_valid'', JBool (success result \<and> error_count = 0)),
             (''error_count'', JInt error_count),
             (''critical_failures'', JList (map JObj (take 10 stored_errors)))],
          Set_result (''Ingested '' @ str_int (total_credits_ingested result) @ '' credits and '' @
            str_int (total_payments_ingested result) @ '' payments in '' @
            duration_2f result @ ''s'')])"

text \<open>\<open>stored_errors[0]["message"] if stored_errors else SAFE_PIPELINE_FAILURE\<close>\<close>

definition failure_message :: "pydict list \<Rightarrow> string" where
  "failure_message stored_errors =
     (case stored_errors of
        [] \<Rightarrow> SAFE_PIPELINE_FAILURE
      | err # _ \<Rightarrow> (case dict_get err ''message'' JNull of JStr m \<Rightarrow> m | _ \<Rightarrow> ''''))"

text \<open>Lines 117 to 159: what follows the adapter's return.\<close>

definition record_result :: "string \<Rightarrow> pipeline_result \<Rightarrow> task_result prog" where
  "record_result jid result =
     bind (objects_get jid) (\<lambda>job.
     bind (cancel_observed job jid) (\<lambda>c.
     if c then return Task_cancelled else
     if result_cancelled result then return Task_cancelled else
     Now (\<lambda>t.
     let stored_errors = trim_stored_errors (serialize_error_logs (error_logs result)) in
     bind (update_job job (completion_updates t result)) (\<lambda>_.
     if \<not> success result then raise (Exn RuntimeError (failure_message stored_errors))
     else return (Task_ingested (total_credits_ingested result) (total_payments_ingested result)
                    stored_errors (int (length (error_logs result))))))))"

text \<open>Lines 106 to 159: the adapter call and the recording of its result.\<close>

definition pipeline_args :: "task_settings \<Rightarrow> string \<Rightarrow> string \<Rightarrow> string \<Rightarrow> adapter_args" where
  "pipeline_args cfg jid tenant_id loan_type =
     (case bank_urls cfg tenant_id loan_type of (credits_url, payments_url) \<Rightarrow>
        \<lparr>arg_job_id = jid, arg_tenant_id = tenant_id, arg_loan_type = loan_type,
         arg_credits_url = credits_url, arg_payments_url = payments_url,
         arg_database_url = database_url cfg\<rparr>)"

definition ingest ::
    "task_settings \<Rightarrow> adapter \<Rightarrow> etl_job \<Rightarrow> string \<Rightarrow> string \<Rightarrow> string \<Rightarrow> task_result prog" where
  "ingest cfg adapter job jid tenant_id loan_type =
     bind (adapter_prog (on_progress job) (adapter (pipeline_args cfg jid tenant_id loan_type)))
       (record_result jid)"

text \<open>The \<open>try\<close> block, lines 93 to 159.\<close>

definition pipeline_body ::
    "task_settings \<Rightarrow> adapter \<Rightarrow> etl_job \<Rightarrow> string \<Rightarrow> string \<Rightarrow> string \<Rightarrow> task_result prog" where
  "pipeline_body cfg adapter job jid tenant_id loan_type =
     Now (\<lambda>started.
     bind (update_job job
             [Set_status PROCESSING, Set_started_at (Some started), Set_progress_percentage 5])
       (\<lambda>job.
     bind (is_cancel_requested jid) (\<lambda>c.
     if c then return Task_cancelled
     else ingest cfg adapter job jid tenant_id loan_type)))"

definition failure_updates :: "int \<Rightarrow> exn \<Rightarrow> job_update list" where
  "failure_updates t e =
     [Set_status FAILED,
      Set_completed_at (Some t),
      Set_result (py_take 500 (exn_msg e)),
      Set_errors [error_dict 0 ''pipeline'' ''PIPELINE_ERROR'' SAFE_PIPELINE_FAILURE],
      Set_validation_summary
        [(''is_valid'', JBool False), (''error_count'', JInt 1),
         (''critical_failures'', JList [JStr SAFE_PIPELINE_FAILURE])]]"

definition pipeline_failed :: "string \<Rightarrow> exn \<Rightarrow> task_result prog" where
  "pipeline_failed jid e =
     bind (objects_get jid) (\<lambda>job.
     bind (cancel_observed job jid) (\<lambda>c.
     if c then return Task_cancelled else
     Now (\<lambda>t.
     bind (update_job job (failure_updates t e)) (\<lambda>_. raise e))))"

definition release_and_clear :: "string \<Rightarrow> string \<Rightarrow> string \<Rightarrow> unit prog" where
  "release_and_clear tenant_id loan_type jid =
     bind (release_sync_lock tenant_id loan_type jid) (\<lambda>_. clear_cancel_flags jid)"

text \<open>The \<open>except\<close> and \<open>finally\<close> clauses around a program.\<close>

definition guarded :: "string \<Rightarrow> string \<Rightarrow> string \<Rightarrow> task_result prog \<Rightarrow> task_result prog" where
  "guarded jid tenant_id loan_type p =
     try_finally (try_except p (pipeline_failed jid)) (release_and_clear tenant_id loan_type jid)"

definition run_etl_pipeline ::
    "task_settings \<Rightarrow> adapter \<Rightarrow> string \<Rightarrow> string \<Rightarrow> string \<Rightarrow> task_result prog" where
  "run_etl_pipeline cfg adapter jid tenant_id loan_type =
     bind (objects_get jid) (\<lambda>job.
     bind (cancel_observed job jid) (\<lambda>c.
     if c then bind (release_and_clear tenant_id loan_type jid) (\<lambda>_. return Task_cancelled)
     else guarded jid tenant_id loan_type (pipeline_body cfg adapter job jid tenant_id loan_type)))"

section \<open>Lengths and renderings\<close>

lemma length_trim [simp]: "length (trim_stored_errors errs) \<le> 50"
  by (simp add: trim_stored_errors_def MAX_STORED_JOB_ERRORS_def)

lemma length_trim_eq: "length (trim_stored_errors errs) = min 50 (length errs)"
  by (simp add: trim_stored_errors_def MAX_STORED_JOB_ERRORS_def)

lemma trim_suffix: "suffix (trim_stored_errors errs) errs"
  by (simp add: trim_stored_errors_def suffix_drop)

lemma length_serialize [simp]: "length (serialize_error_logs logs) = length logs"
  by (simp add: serialize_error_logs_def)

section \<open>Running the pieces\<close>

context services
begin

lemma run_objects_get:
  "run S (objects_get jid) w = (case job_row S w jid of
     None \<Rightarrow> (Inl (Exn DoesNotExist ''ETLJob matching query does not exist.''), w)
   | Some j \<Rightarrow> (Inr j, w))"
  by (simp add: objects_get_def split: option.split)

lemma run_cancel_observed:
  "run S (cancel_observed job jid) w =
     (Inr (status job = CANCELLED \<or> opt_truthy (redis_get S w (cancel_flag_key jid))), w)"
  by (simp add: cancel_observed_def run_is_cancel_requested)

lemma run_release_and_clear:
  "\<exists>w'. run S (release_and_clear t l jid) w = (Inr (), w') \<and>
     job_row S w' = job_row S w \<and>
     redis_get S w' = (redis_get S w)
       (lock_key t l := (if redis_get S w (lock_key t l) = Some jid then None
                         else redis_get S w (lock_key t l)),
        cancel_flag_key jid := None, celery_task_key jid := None)"
  by (auto simp: release_and_clear_def exec_simps lock_runs run_clear_cancel_flags service_laws
        fun_eq_iff)

lemma run_update_job:
  assumes "job_row S w (job_id job) = Some row"
  shows "\<exists>t w'. run S (update_job job us) w = (Inr ((set_attrs us job)\<lparr>updated_at := Some t\<rparr>), w') \<and>
     redis_get S w' = redis_get S w \<and>
     job_row S w' = (job_row S w)(job_id job \<mapsto>
       save_fields (map field_of us @ [F_updated_at]) ((set_attrs us job)\<lparr>updated_at := Some t\<rparr>) row)"
  using assms
  by (simp add: update_job_def job_save_fields_def case_prod_beta Let_def service_laws)
    (rule exI [of _ "snd (clock_now S w)"], simp)

text \<open>The shape of \<open>try/except/finally\<close>: whatever the body does, the lock and the flags go.\<close>

lemma run_guarded:
  assumes "run S (try_except p (pipeline_failed jid)) w = (r, w1)"
  shows "\<exists>w'. run S (guarded jid t l p) w = (r, w') \<and>
     job_row S w' = job_row S w1 \<and>
     redis_get S w' = (redis_get S w1)
       (lock_key t l := (if redis_get S w1 (lock_key t l) = Some jid then None
                         else redis_get S w1 (lock_key t l)),
        cancel_flag_key jid := None, celery_task_key jid := None)"
  using run_release_and_clear [of t l jid w1] assms
  by (auto simp: guarded_def run_try_finally)

lemma run_guarded_released:
  "\<exists>r w'. run S (guarded jid t l p) w = (r, w') \<and>
     redis_get S w' (lock_key t l) \<noteq> Some jid \<and>
     redis_get S w' (cancel_flag_key jid) = None \<and> redis_get S w' (celery_task_key jid) = None"
proof -
  obtain r w1 where "run S (try_except p (pipeline_failed jid)) w = (r, w1)"
    by (cases "run S (try_except p (pipeline_failed jid)) w")
  from run_guarded [OF this, of t l] show ?thesis by auto
qed

end

section \<open>The adapter when nobody cancels\<close>

text \<open>The outcome of an adapter whose callback always answers true.\<close>

primrec adapter_outcome :: "adapter_run \<Rightarrow> exn + pipeline_result" where
  "adapter_outcome (Adapter_returns r) = r"
| "adapter_outcome (Adapter_progress rows pct errs k) = adapter_outcome (k True)"

text \<open>Rows that differ at most in what the callback writes.\<close>

definition same_but_progress :: "etl_job \<Rightarrow> etl_job \<Rightarrow> bool" where
  "same_but_progress j j' \<longleftrightarrow>
     job_id j' = job_id j \<and> job_tenant j' = job_tenant j \<and> job_loan_type j' = job_loan_type j \<and>
     status j' = status j \<and> started_at j' = started_at j \<and> completed_at j' = completed_at j \<and>
     created_at j' = created_at j"

lemma same_but_progress_refl [simp]: "same_but_progress j j"
  by (simp add: same_but_progress_def)

lemma same_but_progress_trans [trans]:
  "same_but_progress i j \<Longrightarrow> same_but_progress j k \<Longrightarrow> same_but_progress i k"
  by (simp add: same_but_progress_def)

context services
begin

lemma run_on_progress_cancelled:
  "opt_truthy (redis_get S w (cancel_flag_key (job_id job))) \<Longrightarrow>
     run S (on_progress job n pct errs) w = (Inr False, w)"
  by (simp add: on_progress_def run_bind run_is_cancel_requested)

lemma run_on_progress:
  assumes "job_row S w (job_id job) = Some row"
    and "\<not> opt_truthy (redis_get S w (cancel_flag_key (job_id job)))"
  shows "\<exists>row' w'. run S (on_progress job n pct errs) w = (Inr True, w') \<and>
     redis_get S w' = redis_get S w \<and> job_row S w' = (job_row S w)(job_id job \<mapsto> row') \<and>
     same_but_progress row row' \<and> job_result row' = job_result row \<and>
     processed_rows row' = n \<and> progress_percentage row' = pct \<and>
     errors row' = trim_stored_errors (serialize_error_logs errs)"
proof -
  let ?us = "[Set_processed_rows n, Set_progress_percentage pct,
              Set_errors (trim_stored_errors (serialize_error_logs errs))]"
  obtain t w' where "run S (update_job job ?us) w = (Inr ((set_attrs ?us job)\<lparr>updated_at := Some t\<rparr>), w')"
    "redis_get S w' = redis_get S w"
    "job_row S w' = (job_row S w)(job_id job \<mapsto>
       save_fields (map field_of ?us @ [F_updated_at]) ((set_attrs ?us job)\<lparr>updated_at := Some t\<rparr>) row)"
    using run_update_job [OF assms(1), of ?us] by blast
  then show ?thesis
    using assms(2)
    by (intro exI [of _ "row\<lparr>processed_rows := n, progress_percentage := pct,
          errors := trim_stored_errors (serialize_error_logs errs), updated_at := Some t\<rparr>"] exI [of _ w'])
      (simp add: on_progress_def run_bind run_is_cancel_requested same_but_progress_def)
qed

lemma run_adapter:
  assumes "job_row S w (job_id job) = Some row"
    and "\<not> opt_truthy (redis_get S w (cancel_flag_key (job_id job)))"
  shows "\<exists>row' w'. run S (adapter_prog (on_progress job) a) w = (adapter_outcome a, w') \<and>
     redis_get S w' = redis_get S w \<and> job_row S w' = (job_row S w)(job_id job \<mapsto> row') \<and>
     same_but_progress row row'"
  using assms
proof (induction a arbitrary: w row)
  case (Adapter_returns r)
  then show ?case by (auto intro!: exI [of _ row])
next
  case (Adapter_progress n pct errs k)
  obtain row1 w1 where 1: "run S (on_progress job n pct errs) w = (Inr True, w1)"
    "redis_get S w1 = redis_get S w" "job_row S w1 = (job_row S w)(job_id job \<mapsto> row1)"
    "same_but_progress row row1"
    using run_on_progress [OF Adapter_progress.prems] by blast
  then have "job_row S w1 (job_id job) = Some row1"
    "\<not> opt_truthy (redis_get S w1 (cancel_flag_key (job_id job)))"
    using Adapter_progress.prems by simp_all
  then obtain row' w' where 2:
    "run S (adapter_prog (on_progress job) (k True)) w1 = (adapter_outcome (k True), w')"
    "redis_get S w' = redis_get S w1" "job_row S w' = (job_row S w1)(job_id job \<mapsto> row')"
    "same_but_progress row1 row'"
    using Adapter_progress.IH by blast
  from 1 2 show ?case
    by (auto simp: run_bind intro!: exI [of _ row'] same_but_progress_trans [OF 1(4) 2(4)])
qed

text \<open>With the flag set the adapter runs on without a write to the job.\<close>

lemma run_adapter_flagged:
  assumes "opt_truthy (redis_get S w (cancel_flag_key (job_id job)))"
  shows "\<exists>r. run S (adapter_prog (on_progress job) a) w = (r, w)"
  by (induction a) (auto simp: run_bind run_on_progress_cancelled [OF assms])

lemma run_record_cancelled:
  assumes "job_row S w jid = Some row"
    and "status row = CANCELLED \<or> opt_truthy (redis_get S w (cancel_flag_key jid))"
  shows "run S (record_result jid result) w = (Inr Task_cancelled, w)"
  using assms by (auto simp: record_result_def run_bind run_objects_get run_cancel_observed)

lemma run_pipeline_failed_cancelled:
  assumes "job_row S w jid = Some row"
    and "status row = CANCELLED \<or> opt_truthy (redis_get S w (cancel_flag_key jid))"
  shows "run S (pipeline_failed jid e) w = (Inr Task_cancelled, w)"
  using assms by (auto simp: pipeline_failed_def run_bind run_objects_get run_cancel_observed)

text \<open>A cancellation that is complete while the adapter runs is final.\<close>

lemma run_ingest_flagged:
  assumes "job_row S w jid = Some row" and "job_id job = jid"
    and "opt_truthy (redis_get S w (cancel_flag_key jid))"
  shows "run S (try_except (ingest cfg adapter job jid t l) (pipeline_failed jid)) w =
           (Inr Task_cancelled, w)"
proof -
  let ?a = "adapter (pipeline_args cfg jid t l)"
  obtain r where r: "run S (adapter_prog (on_progress job) ?a) w = (r, w)"
    using run_adapter_flagged assms by blast
  show ?thesis
    using assms r run_record_cancelled [OF assms(1)] run_pipeline_failed_cancelled [OF assms(1)]
    by (cases r) (simp_all add: ingest_def run_try_except run_bind)
qed

end

section \<open>The outcome of a task that runs alone\<close>

text \<open>The specification: what the task returns and what the row says, from the adapter's outcome.\<close>

definition failed_row :: "string \<Rightarrow> etl_job \<Rightarrow> bool" where
  "failed_row msg row \<longleftrightarrow>
     status row = FAILED \<and> completed_at row \<noteq> None \<and> job_result row = py_take 500 msg \<and>
     errors row = [error_dict 0 ''pipeline'' ''PIPELINE_ERROR'' SAFE_PIPELINE_FAILURE]"

definition completed_row :: "pipeline_result \<Rightarrow> etl_job \<Rightarrow> bool" where
  "completed_row p row \<longleftrightarrow>
     status row = COMPLETED \<and> completed_at row \<noteq> None \<and> progress_percentage row = 100 \<and>
     processed_rows row = processed_rows_count p \<and>
     errors row = trim_stored_errors (serialize_error_logs (error_logs p)) \<and>
     dict_get (validation_summary row) ''error_count'' JNull = JInt (int (length (error_logs p)))"

definition outcome_spec :: "exn + pipeline_result \<Rightarrow> exn + task_result \<Rightarrow> etl_job \<Rightarrow> bool" where
  "outcome_spec res r row =
     (case res of
        Inl e \<Rightarrow> r = Inl e \<and> failed_row (exn_msg e) row
      | Inr p \<Rightarrow>
          let errs = trim_stored_errors (serialize_error_logs (error_logs p)) in
          if result_cancelled p then r = Inr Task_cancelled \<and> status row = PROCESSING
          else if success p then
            r = Inr (Task_ingested (total_credits_ingested p) (total_payments_ingested p) errs
                       (int (length (error_logs p)))) \<and>
            completed_row p row
          else
            r = Inl (Exn RuntimeError (failure_message errs)) \<and>
            failed_row (failure_message errs) row)"

context services
begin

lemma run_pipeline_failed:
  assumes "job_row S w jid = Some row" and "status row \<noteq> CANCELLED"
    and "\<not> opt_truthy (redis_get S w (cancel_flag_key jid))"
  shows "\<exists>row' w'. run S (pipeline_failed jid e) w = (Inl e, w') \<and>
     redis_get S w' = redis_get S w \<and> job_row S w' = (job_row S w)(jid \<mapsto> row') \<and>
     failed_row (exn_msg e) row'"
proof -
  have id: "job_id row = jid" using assms(1) by (rule row_key)
  let ?w = "fst (clock_now S w)" and ?t = "snd (clock_now S w)"
  have "job_row S ?w (job_id row) = Some row" using assms(1) id by (simp add: service_laws)
  from run_update_job [OF this, of "failure_updates ?t e"] obtain u w' where
    "run S (update_job row (failure_updates ?t e)) ?w =
       (Inr ((set_attrs (failure_updates ?t e) row)\<lparr>updated_at := Some u\<rparr>), w')"
    "redis_get S w' = redis_get S ?w"
    "job_row S w' = (job_row S ?w)(job_id row \<mapsto>
       save_fields (map field_of (failure_updates ?t e) @ [F_updated_at])
         ((set_attrs (failure_updates ?t e) row)\<lparr>updated_at := Some u\<rparr>) row)"
    by blast
  then show ?thesis
    using assms id
    by (intro exI [of _ "save_fields (map field_of (failure_updates ?t e) @ [F_updated_at])
         ((set_attrs (failure_updates ?t e) row)\<lparr>updated_at := Some u\<rparr>) row"] exI [of _ w'])
      (simp add: pipeline_failed_def run_bind run_objects_get run_cancel_observed case_prod_beta
        service_laws failed_row_def failure_updates_def)
qed

lemma run_record_result:
  assumes "job_row S w jid = Some row" and "status row \<noteq> CANCELLED"
    and "\<not> opt_truthy (redis_get S w (cancel_flag_key jid))" and "\<not> result_cancelled p"
  shows "\<exists>row' w'. run S (record_result jid p) w =
       ((if success p
         then Inr (Task_ingested (total_credits_ingested p) (total_payments_ingested p)
                     (trim_stored_errors (serialize_error_logs (error_logs p)))
                     (int (length (error_logs p))))
         else Inl (Exn RuntimeError
                (failure_message (trim_stored_errors (serialize_error_logs (error_logs p)))))), w') \<and>
     redis_get S w' = redis_get S w \<and> job_row S w' = (job_row S w)(jid \<mapsto> row') \<and>
     status row' = (if success p then COMPLETED else FAILED) \<and>
     (success p \<longrightarrow> completed_row p row')"
proof -
  have id: "job_id row = jid" using assms(1) by (rule row_key)
  let ?w = "fst (clock_now S w)" and ?t = "snd (clock_now S w)"
  let ?us = "completion_updates ?t p"
  have "job_row S ?w (job_id row) = Some row" using assms(1) id by (simp add: service_laws)
  from run_update_job [OF this, of ?us] obtain u w' where
    "run S (update_job row ?us) ?w = (Inr ((set_attrs ?us row)\<lparr>updated_at := Some u\<rparr>), w')"
    "redis_get S w' = redis_get S ?w"
    "job_row S w' = (job_row S ?w)(job_id row \<mapsto>
       save_fields (map field_of ?us @ [F_updated_at])
         ((set_attrs ?us row)\<lparr>updated_at := Some u\<rparr>) row)"
    by blast
  then show ?thesis
    using assms id
    by (intro exI [of _ "save_fields (map field_of ?us @ [F_updated_at])
         ((set_attrs ?us row)\<lparr>updated_at := Some u\<rparr>) row"] exI [of _ w'])
      (simp add: record_result_def run_bind run_objects_get run_cancel_observed case_prod_beta
        Let_def service_laws completed_row_def completion_updates_def dict_get_def)
qed

lemma run_try_record_result:
  assumes "job_row S w jid = Some row" and "status row = PROCESSING"
    and "\<not> opt_truthy (redis_get S w (cancel_flag_key jid))"
  shows "\<exists>r row' w'. run S (try_except (record_result jid p) (pipeline_failed jid)) w = (r, w') \<and>
     redis_get S w' = redis_get S w \<and> job_row S w' = (job_row S w)(jid \<mapsto> row') \<and>
     outcome_spec (Inr p) r row'"
proof (cases "result_cancelled p")
  case True
  then have "run S (record_result jid p) w = (Inr Task_cancelled, w)"
    using assms by (simp add: record_result_def run_bind run_objects_get run_cancel_observed)
  with True assms show ?thesis
    by (intro exI [of _ "Inr Task_cancelled"] exI [of _ row] exI [of _ w])
      (auto simp: run_try_except outcome_spec_def Let_def)
next
  case False
  have "status row \<noteq> CANCELLED" using assms(2) by simp
  from run_record_result [OF assms(1) this assms(3) False] obtain row1 w1 where 1:
    "run S (record_result jid p) w =
       ((if success p
         then Inr (Task_ingested (total_credits_ingested p) (total_payments_ingested p)
                     (trim_stored_errors (serialize_error_logs (error_logs p)))
                     (int (length (error_logs p))))
         else Inl (Exn RuntimeError
                (failure_message (trim_stored_errors (serialize_error_logs (error_logs p)))))), w1)"
    "redis_get S w1 = redis_get S w" "job_row S w1 = (job_row S w)(jid \<mapsto> row1)"
    "status row1 = (if success p then COMPLETED else FAILED)" "success p \<longrightarrow> completed_row p row1"
    by blast
  show ?thesis
  proof (cases "success p")
    case True
    with 1 \<open>\<not> result_cancelled p\<close> show ?thesis
      by (auto simp: run_try_except outcome_spec_def Let_def)
  next
    case fails: False
    let ?e = "Exn RuntimeError
       (failure_message (trim_stored_errors (serialize_error_logs (error_logs p))))"
    have "job_row S w1 jid = Some row1" "status row1 \<noteq> CANCELLED"
      "\<not> opt_truthy (redis_get S w1 (cancel_flag_key jid))"
      using 1 fails assms(3) by simp_all
    from run_pipeline_failed [OF this, of ?e] obtain row' w' where
      "run S (pipeline_failed jid ?e) w1 = (Inl ?e, w')" "redis_get S w' = redis_get S w1"
      "job_row S w' = (job_row S w1)(jid \<mapsto> row')" "failed_row (exn_msg ?e) row'"
      by blast
    with 1 fails \<open>\<not> result_cancelled p\<close> show ?thesis
      by (intro exI [of _ "Inl ?e"] exI [of _ row'] exI [of _ w'])
        (simp add: run_try_except outcome_spec_def Let_def)
  qed
qed

end

context services
begin

lemma run_try_ingest:
  assumes "job_row S w jid = Some row" and "status row = PROCESSING" and "job_id job = jid"
    and "\<not> opt_truthy (redis_get S w (cancel_flag_key jid))"
  shows "\<exists>r row' w'.
     run S (try_except (ingest cfg adapter job jid t l) (pipeline_failed jid)) w = (r, w') \<and>
     redis_get S w' = redis_get S w \<and> job_row S w' = (job_row S w)(jid \<mapsto> row') \<and>
     outcome_spec (adapter_outcome (adapter (pipeline_args cfg jid t l))) r row'"
proof -
  let ?a = "adapter (pipeline_args cfg jid t l)"
  have pre: "job_row S w (job_id job) = Some row"
    "\<not> opt_truthy (redis_get S w (cancel_flag_key (job_id job)))"
    using assms by simp_all
  from run_adapter [OF pre, of ?a] assms(3) obtain row1 w1 where 1:
    "run S (adapter_prog (on_progress job) ?a) w = (adapter_outcome ?a, w1)"
    "redis_get S w1 = redis_get S w" "job_row S w1 = (job_row S w)(jid \<mapsto> row1)"
    "same_but_progress row row1"
    by blast
  then have row1: "job_row S w1 jid = Some row1" "status row1 = PROCESSING"
    "\<not> opt_truthy (redis_get S w1 (cancel_flag_key jid))"
    using assms by (simp_all add: same_but_progress_def)
  show ?thesis
  proof (cases "adapter_outcome ?a")
    case (Inl e)
    from row1 have "status row1 \<noteq> CANCELLED" by simp
    from run_pipeline_failed [OF row1(1) this row1(3), of e] obtain row' w' where
      "run S (pipeline_failed jid e) w1 = (Inl e, w')" "redis_get S w' = redis_get S w1"
      "job_row S w' = (job_row S w1)(jid \<mapsto> row')" "failed_row (exn_msg e) row'"
      by blast
    with 1 Inl show ?thesis
      by (intro exI [of _ "Inl e"] exI [of _ row'] exI [of _ w'])
        (simp add: ingest_def run_try_except run_bind outcome_spec_def)
  next
    case (Inr p)
    from run_try_record_result [OF row1, of p] obtain r row' w' where
      "run S (try_except (record_result jid p) (pipeline_failed jid)) w1 = (r, w')"
      "redis_get S w' = redis_get S w1" "job_row S w' = (job_row S w1)(jid \<mapsto> row')"
      "outcome_spec (Inr p) r row'"
      by blast
    with 1 Inr show ?thesis
      by (intro exI [of _ r] exI [of _ row'] exI [of _ w'])
        (simp add: ingest_def run_try_except run_bind)
  qed
qed

lemma run_try_body:
  assumes "job_row S w jid = Some row" and "job_id job = jid"
    and "\<not> opt_truthy (redis_get S w (cancel_flag_key jid))"
  shows "\<exists>r row' w'.
     run S (try_except (pipeline_body cfg adapter job jid t l) (pipeline_failed jid)) w = (r, w') \<and>
     redis_get S w' = redis_get S w \<and> job_row S w' = (job_row S w)(jid \<mapsto> row') \<and>
     outcome_spec (adapter_outcome (adapter (pipeline_args cfg jid t l))) r row'"
proof -
  let ?w = "fst (clock_now S w)" and ?t = "snd (clock_now S w)"
  let ?us = "[Set_status PROCESSING, Set_started_at (Some ?t), Set_progress_percentage 5]"
  have "job_row S ?w (job_id job) = Some row" using assms by (simp add: service_laws)
  from run_update_job [OF this, of ?us] assms(2) obtain u w1 where 1:
    "run S (update_job job ?us) ?w = (Inr ((set_attrs ?us job)\<lparr>updated_at := Some u\<rparr>), w1)"
    "redis_get S w1 = redis_get S ?w"
    "job_row S w1 = (job_row S ?w)(jid \<mapsto>
       save_fields (map field_of ?us @ [F_updated_at])
         ((set_attrs ?us job)\<lparr>updated_at := Some u\<rparr>) row)"
    by blast
  let ?job = "(set_attrs ?us job)\<lparr>updated_at := Some u\<rparr>"
  let ?row = "save_fields (map field_of ?us @ [F_updated_at]) ?job row"
  have "job_row S w1 jid = Some ?row" "status ?row = PROCESSING" "job_id ?job = jid"
    "\<not> opt_truthy (redis_get S w1 (cancel_flag_key jid))"
    using 1 assms by (simp_all add: service_laws)
  from run_try_ingest [OF this, of cfg adapter t l] obtain r row' w' where
    "run S (try_except (ingest cfg adapter ?job jid t l) (pipeline_failed jid)) w1 = (r, w')"
    "redis_get S w' = redis_get S w1" "job_row S w' = (job_row S w1)(jid \<mapsto> row')"
    "outcome_spec (adapter_outcome (adapter (pipeline_args cfg jid t l))) r row'"
    by blast
  with 1 assms(3) show ?thesis
    by (intro exI [of _ r] exI [of _ row'] exI [of _ w'])
      (simp add: pipeline_body_def run_try_except run_bind run_is_cancel_requested case_prod_beta
        service_laws)
qed

text \<open>The Redis entries of a job once its task has ended.\<close>

lemma run_task:
  assumes "job_row S w jid = Some row" and "status row \<noteq> CANCELLED"
    and "\<not> opt_truthy (redis_get S w (cancel_flag_key jid))"
  shows "\<exists>r row' w'. run S (run_etl_pipeline cfg adapter jid t l) w = (r, w') \<and>
     outcome_spec (adapter_outcome (adapter (pipeline_args cfg jid t l))) r row' \<and>
     job_row S w' = (job_row S w)(jid \<mapsto> row') \<and>
     redis_get S w' = (redis_get S w)
       (lock_key t l := (if redis_get S w (lock_key t l) = Some jid then None
                         else redis_get S w (lock_key t l)),
        cancel_flag_key jid := None, celery_task_key jid := None)"
proof -
  have id: "job_id row = jid" using assms(1) by (rule row_key)
  from run_try_body [OF assms(1) id assms(3), of cfg adapter t l] obtain r row' w1 where 1:
    "run S (try_except (pipeline_body cfg adapter row jid t l) (pipeline_failed jid)) w = (r, w1)"
    "redis_get S w1 = redis_get S w" "job_row S w1 = (job_row S w)(jid \<mapsto> row')"
    "outcome_spec (adapter_outcome (adapter (pipeline_args cfg jid t l))) r row'"
    by blast
  from run_guarded [OF 1(1), of t l] obtain w' where
    "run S (guarded jid t l (pipeline_body cfg adapter row jid t l)) w = (r, w')"
    "job_row S w' = job_row S w1"
    "redis_get S w' = (redis_get S w1)
       (lock_key t l := (if redis_get S w1 (lock_key t l) = Some jid then None
                         else redis_get S w1 (lock_key t l)),
        cancel_flag_key jid := None, celery_task_key jid := None)"
    by blast
  with 1 assms show ?thesis
    by (intro exI [of _ r] exI [of _ row'] exI [of _ w'])
      (simp add: run_etl_pipeline_def run_bind run_objects_get run_cancel_observed)
qed

lemma run_task_cancelled:
  assumes "job_row S w jid = Some row"
    and "status row = CANCELLED \<or> opt_truthy (redis_get S w (cancel_flag_key jid))"
  shows "\<exists>w'. run S (run_etl_pipeline cfg adapter jid t l) w = (Inr Task_cancelled, w') \<and>
     job_row S w' = job_row S w \<and>
     redis_get S w' = (redis_get S w)
       (lock_key t l := (if redis_get S w (lock_key t l) = Some jid then None
                         else redis_get S w (lock_key t l)),
        cancel_flag_key jid := None, celery_task_key jid := None)"
  using assms run_release_and_clear [of t l jid w]
  by (auto simp: run_etl_pipeline_def run_bind run_objects_get run_cancel_observed)

lemma run_task_no_row:
  "job_row S w jid = None \<Longrightarrow>
     run S (run_etl_pipeline cfg adapter jid t l) w =
       (Inl (Exn DoesNotExist ''ETLJob matching query does not exist.''), w)"
  by (simp add: run_etl_pipeline_def run_bind run_objects_get)

end

section \<open>A concrete task\<close>

definition demo_settings :: task_settings where
  "demo_settings = \<lparr>DB_USER = ''app'', DB_PASSWORD = ''secret'', DB_HOST = ''db'', DB_PORT = ''5432'',
     DB_NAME = ''etl'', EXTERNAL_BANK_URL = ''http://bank:8000/''\<rparr>"

text \<open>An adapter that reports once and then ends as told.\<close>

definition demo_adapter :: "exn + pipeline_result \<Rightarrow> adapter" where
  "demo_adapter r = (\<lambda>args. Adapter_progress 100 40 [] (\<lambda>continue. Adapter_returns r))"

definition demo_result :: "bool \<Rightarrow> pipeline_result" where
  "demo_result ok = \<lparr>success = ok, result_cancelled = False, processed_rows_count = 3,
     duration_2f = ''0.10'', total_credits_ingested = 2, total_payments_ingested = 1,
     error_logs = [\<lparr>log_row_number = 4, log_field = ''amount'', log_error_type = ''INVALID'',
       log_message = ''bad amount''\<rparr>]\<rparr>"

section \<open>Properties\<close>

abbreviation entries_released :: "(string \<rightharpoonup> string) \<Rightarrow> string \<Rightarrow> string \<Rightarrow> string \<Rightarrow> (string \<rightharpoonup> string)" where
  "entries_released kv t l jid \<equiv>
     kv(lock_key t l := (if kv (lock_key t l) = Some jid then None else kv (lock_key t l)),
        cancel_flag_key jid := None, celery_task_key jid := None)"

text \<open>
  Property C3. The task refines its outcome specification: for every adapter and every services, a task
  that starts on a live job without a cancel flag ends with the row and the return value that the
  adapter's outcome determines (completed, failed, or unchanged when the adapter says cancelled),
  changes no other row, frees the slice lock exactly when the job holds it and clears its two Redis
  entries.
\<close>

theorem task_outcome:
  assumes "services S"
    and "job_row S w jid = Some row" and "status row \<noteq> CANCELLED"
    and "\<not> opt_truthy (redis_get S w (cancel_flag_key jid))"
  shows "\<exists>r row' w'. run S (run_etl_pipeline cfg adapter jid t l) w = (r, w') \<and>
     outcome_spec (adapter_outcome (adapter (pipeline_args cfg jid t l))) r row' \<and>
     job_row S w' = (job_row S w)(jid \<mapsto> row') \<and>
     redis_get S w' = entries_released (redis_get S w) t l jid"
  using services.run_task [OF assms] by blast

lemma task_outcome_witness:
  "\<exists>row w'. run demo_services (run_etl_pipeline demo_settings (demo_adapter (Inr (demo_result True)))
         ''job_7'' ''BANK001'' ''RETAIL'') (demo_busy QUEUED) =
       (Inr (Task_ingested 2 1 [error_dict 4 ''amount'' ''INVALID'' ''bad amount''] 1), w') \<and>
     job_row demo_services w' ''job_7'' = Some row \<and> status row = COMPLETED \<and>
     redis_get demo_services w' (lock_key ''BANK001'' ''RETAIL'') = None"
  using task_outcome [OF demo.services_axioms, of "demo_busy QUEUED" "''job_7''" "demo_job QUEUED"
      demo_settings "demo_adapter (Inr (demo_result True))" "''BANK001''" "''RETAIL''"]
  by (auto simp: demo_adapter_def demo_result_def outcome_spec_def Let_def completed_row_def
      serialize_error_logs_def trim_stored_errors_def MAX_STORED_JOB_ERRORS_def)

text \<open>
  Property C17. Once the task is past its first reads it always lets the slice go: whatever the body of the
  \<open>try\<close> block does, even with arbitrary calls in it, the job does not hold the slice lock afterwards and
  its cancel flag and task id are gone.
\<close>

theorem task_always_releases:
  assumes "services S"
  shows "\<exists>r w'. run S (guarded jid t l p) w = (r, w') \<and>
     redis_get S w' (lock_key t l) \<noteq> Some jid \<and>
     redis_get S w' (cancel_flag_key jid) = None \<and> redis_get S w' (celery_task_key jid) = None"
  by (rule services.run_guarded_released [OF assms])

lemma task_always_releases_witness:
  "\<exists>r w'. run demo_services (guarded ''job_7'' ''BANK001'' ''RETAIL''
        (raise (Exn OperationalError ''gone''))) (demo_busy PROCESSING) = (r, w') \<and>
     redis_get demo_services w' (lock_key ''BANK001'' ''RETAIL'') \<noteq> Some ''job_7'' \<and>
     redis_get demo_services w' (cancel_flag_key ''job_7'') = None \<and>
     redis_get demo_services w' (celery_task_key ''job_7'') = None"
  using task_always_releases [OF demo.services_axioms] by blast

text \<open>
  A cancellation that completed before the task starts is final: the task returns
  \<open>cancelled\<close> without calling the adapter or writing any row, and cleans up.
\<close>

theorem cancelled_task_does_nothing:
  assumes "services S"
    and "job_row S w jid = Some row"
    and "status row = CANCELLED \<or> opt_truthy (redis_get S w (cancel_flag_key jid))"
  shows "\<exists>w'. run S (run_etl_pipeline cfg adapter jid t l) w = (Inr Task_cancelled, w') \<and>
     job_row S w' = job_row S w \<and>
     redis_get S w' = entries_released (redis_get S w) t l jid"
  using services.run_task_cancelled [OF assms] .

lemma cancelled_task_does_nothing_witness:
  "\<exists>w'. run demo_services (run_etl_pipeline demo_settings (demo_adapter (Inr (demo_result True)))
         ''job_7'' ''BANK001'' ''RETAIL'') (demo_busy CANCELLED) = (Inr Task_cancelled, w') \<and>
     job_row demo_services w' ''job_7'' = Some (demo_job CANCELLED) \<and>
     redis_get demo_services w' (lock_key ''BANK001'' ''RETAIL'') = None"
  using cancelled_task_does_nothing [OF demo.services_axioms, of "demo_busy CANCELLED" "''job_7''" "demo_job CANCELLED"
      demo_settings "demo_adapter (Inr (demo_result True))" "''BANK001''" "''RETAIL''"]
  by auto

text \<open>
  Property C19. A cancel flag set while the adapter runs is final too: from then on the task, with its
  exception handler, writes no row, whatever the adapter returns or raises, and answers \<open>cancelled\<close>.
\<close>

theorem flagged_task_stops:
  assumes "services S"
    and "job_row S w jid = Some row" and "job_id job = jid"
    and "opt_truthy (redis_get S w (cancel_flag_key jid))"
  shows "\<exists>w'. run S (guarded jid t l (ingest cfg adapter job jid t l)) w = (Inr Task_cancelled, w') \<and>
     job_row S w' = job_row S w \<and>
     redis_get S w' = entries_released (redis_get S w) t l jid"
  using services.run_guarded [OF assms(1) services.run_ingest_flagged [OF assms]] by blast

lemma flagged_task_stops_witness:
  "\<exists>w'. run demo_services (guarded ''job_7'' ''BANK001'' ''RETAIL''
         (ingest demo_settings (demo_adapter (Inl (Exn RuntimeError ''network''))) (demo_job PROCESSING)
            ''job_7'' ''BANK001'' ''RETAIL''))
       (redis_set demo_services (demo_busy CANCELLED) (cancel_flag_key ''job_7'') ''1'' 86400) =
       (Inr Task_cancelled, w') \<and> job_row demo_services w' ''job_7'' = Some (demo_job CANCELLED)"
  using flagged_task_stops [OF demo.services_axioms, of
      "redis_set demo_services (demo_busy CANCELLED) (cancel_flag_key ''job_7'') ''1'' 86400"
      "''job_7''" "demo_job CANCELLED" "demo_job PROCESSING" "''BANK001''" "''RETAIL''" demo_settings
      "demo_adapter (Inl (Exn RuntimeError ''network''))"]
  by (auto simp: demo.service_laws)

text \<open>
  One progress report of a running job writes exactly the counters and the last 50 errors
  and tells the adapter to go on; with the cancel flag set it writes nothing and tells it to stop.
\<close>

theorem progress_report:
  assumes "services S" and "job_row S w (job_id job) = Some row"
  shows "\<exists>row' w'. run S (on_progress job n pct errs) w =
       (Inr (\<not> opt_truthy (redis_get S w (cancel_flag_key (job_id job)))), w') \<and>
     redis_get S w' = redis_get S w \<and> job_row S w' = (job_row S w)(job_id job \<mapsto> row') \<and>
     same_but_progress row row' \<and> status row' = status row \<and> job_result row' = job_result row \<and>
     (if opt_truthy (redis_get S w (cancel_flag_key (job_id job))) then row' = row
      else processed_rows row' = n \<and> progress_percentage row' = pct \<and>
        length (errors row') = min 50 (length errs) \<and>
        suffix (errors row') (serialize_error_logs errs))"
proof (cases "opt_truthy (redis_get S w (cancel_flag_key (job_id job)))")
  case True
  with services.run_on_progress_cancelled [OF assms(1)] assms(2) show ?thesis
    by (intro exI [of _ row] exI [of _ w]) (simp add: fun_upd_idem)
next
  case False
  from services.run_on_progress [OF assms False, of n pct errs] obtain row' w' where
    "run S (on_progress job n pct errs) w = (Inr True, w')"
    "redis_get S w' = redis_get S w" "job_row S w' = (job_row S w)(job_id job \<mapsto> row')"
    "same_but_progress row row'" "job_result row' = job_result row" "processed_rows row' = n"
    "progress_percentage row' = pct" "errors row' = trim_stored_errors (serialize_error_logs errs)"
    by blast
  with False show ?thesis
    by (intro exI [of _ row'] exI [of _ w'])
      (simp add: length_trim_eq trim_suffix same_but_progress_def)
qed

lemma progress_report_witness:
  "\<exists>row w'. run demo_services (on_progress (demo_job PROCESSING) 100 40 []) (demo_busy PROCESSING) =
       (Inr True, w') \<and> job_row demo_services w' ''job_7'' = Some row \<and>
     processed_rows row = 100 \<and> progress_percentage row = 40 \<and> errors row = []"
  using progress_report [OF demo.services_axioms, of "demo_busy PROCESSING" "demo_job PROCESSING"
      "demo_job PROCESSING" 100 40 "[]"] by auto

end
