(* ===== verification/SyncMessages.thy ===== *)
theory SyncMessages
  imports Prelude
begin

text \<open>
  \<open>api/apps/etl/services/sync_messages.py\<close>: the user-facing text for a stored job error.  The
  function is a chain of substring tests; the lemmas below say which texts reach which answer and
  that no answer carries the raw text.
\<close>

record sync_message =
  title :: string
  message :: string
  hint :: "string option"
  code :: string

definition humanize_sync_error :: "string \<Rightarrow> string \<Rightarrow> string \<Rightarrow> sync_message" where
  "humanize_sync_error msg tenant_id loan_type =
     (let text = py_strip msg;
          tenant = (if tenant_id = '''' then ''your bank'' else tenant_id);
          loan = (if loan_type = '''' then ''the selected loan type'' else loan_type)
      in
      if str_in ''cancelled by user'' (py_lower text) \<or> text = ''Sync cancelled by user'' then
        \<lparr>title = ''Sync cancelled'',
         message = ''The sync job was cancelled before it finished.'',
         hint = Some ''You can start a new sync whenever you want.'',
         code = ''CANCELLED''\<rparr>
      else if str_in ''No credits.csv found'' text then
        \<lparr>title = ''No credit data to sync'',
         message = tenant @ '' has no '' @ loan @ '' credit portfolio uploaded yet.'',
         hint = Some ''Choose a loan type that has data (e.g. RETAIL for BANK001) or upload files via the external bank API.'',
         code = ''NO_SOURCE_DATA''\<rparr>
      else if str_in ''No payments.csv found'' text then
        \<lparr>title = ''No payment data to sync'',
         message = tenant @ '' has no '' @ loan @ '' payment schedule uploaded yet.'',
         hint = Some ''Upload both credits.csv and payments.csv for this tenant and loan type before syncing.'',
         code = ''NO_SOURCE_DATA''\<rparr>
      else if str_in ''404'' text \<and> str_in ''export/'' text then
        \<lparr>title = ''No data available to sync'',
         message = ''The external bank returned no files for '' @ tenant @ '' / '' @ loan @ ''.'',
         hint = Some ''Verify the portfolio exists for this tenant and loan type, then try again.'',
         code = ''NO_SOURCE_DATA''\<rparr>
      else if prefix ''HTTP error:'' text \<and> str_in ''400'' text then
        \<lparr>title = ''Invalid sync request'',
         message = ''The bank rejected the export request.'',
         hint = Some ''Check tenant and loan type values, then try again.'',
         code = ''BAD_REQUEST''\<rparr>
      else if str_in ''Database error:'' text then
        \<lparr>title = ''Could not save synced data'',
         message = ''Data was fetched but could not be written to the warehouse.'',
         hint = Some ''Check warehouse connectivity and try again. Details are kept in server logs.'',
         code = ''DATABASE_ERROR''\<rparr>
      else
        \<lparr>title = ''Sync failed'',
         message = ''An unexpected error occurred during sync.'',
         hint = None,
         code = ''PIPELINE_ERROR''\<rparr>)"

text \<open>The dict the function returns, as the template receives it.\<close>

definition sync_message_dict :: "sync_message \<Rightarrow> pydict" where
  "sync_message_dict m =
     [(''title'', JStr (title m)), (''message'', JStr (message m)),
      (''hint'', json_opt JStr (hint m)), (''code'', JStr (code m))]"

section \<open>Substrings\<close>

lemma str_in_iff: "str_in pat s \<longleftrightarrow> (\<exists>a b. s = a @ pat @ b)"
proof (induction s)
  case Nil
  then show ?case by auto
next
  case (Cons c s)
  show ?case
  proof
    assume "str_in pat (c # s)"
    then consider "prefix pat (c # s)" | "str_in pat s" by auto
    then show "\<exists>a b. c # s = a @ pat @ b"
    proof cases
      case 1
      then obtain b where "c # s = [] @ pat @ b" by (auto simp: prefix_def)
      then show ?thesis by blast
    next
      case 2
      then obtain a b where "s = a @ pat @ b" using Cons.IH by blast
      then have "c # s = (c # a) @ pat @ b" by simp
      then show ?thesis by blast
    qed
  next
    assume "\<exists>a b. c # s = a @ pat @ b"
    then obtain a b where ab: "c # s = a @ pat @ b" by blast
    show "str_in pat (c # s)"
    proof (cases a)
      case Nil
      with ab have "prefix pat (c # s)" by (auto simp: prefix_def)
      then show ?thesis by simp
    next
      case (Cons d a')
      with ab have "s = a' @ pat @ b" by simp
      then show ?thesis using Cons.IH by auto
    qed
  qed
qed

lemma str_in_append: "str_in pat (a @ pat @ b)"
  by (auto simp: str_in_iff)

section \<open>Error classes\<close>

text \<open>
  The specification: a text belongs to one class, and the answer is a function of the class, the
  tenant and the loan type.  So two texts of one class are answered alike, and nothing else of the
  stored text (a driver message, a host name) can reach the user.
\<close>

datatype error_class =
    Cancelled_by_user | No_credits | No_payments | Bank_not_found | Bank_rejected
  | Database_failure | Other_failure

definition error_class_of :: "string \<Rightarrow> error_class" where
  "error_class_of text =
     (if str_in ''cancelled by user'' (py_lower text) \<or> text = ''Sync cancelled by user''
      then Cancelled_by_user
      else if str_in ''No credits.csv found'' text then No_credits
      else if str_in ''No payments.csv found'' text then No_payments
      else if str_in ''404'' text \<and> str_in ''export/'' text then Bank_not_found
      else if prefix ''HTTP error:'' text \<and> str_in ''400'' text then Bank_rejected
      else if str_in ''Database error:'' text then Database_failure
      else Other_failure)"

definition class_code :: "error_class \<Rightarrow> string" where
  "class_code c = (case c of
     Cancelled_by_user \<Rightarrow> ''CANCELLED''
   | No_credits \<Rightarrow> ''NO_SOURCE_DATA''
   | No_payments \<Rightarrow> ''NO_SOURCE_DATA''
   | Bank_not_found \<Rightarrow> ''NO_SOURCE_DATA''
   | Bank_rejected \<Rightarrow> ''BAD_REQUEST''
   | Database_failure \<Rightarrow> ''DATABASE_ERROR''
   | Other_failure \<Rightarrow> ''PIPELINE_ERROR'')"

text \<open>Is the answer to a class the same for every tenant and loan type?\<close>

definition class_anonymous :: "error_class \<Rightarrow> bool" where
  "class_anonymous c \<longleftrightarrow> c \<notin> {No_credits, No_payments, Bank_not_found}"

lemma humanize_code: "code (humanize_sync_error m t l) = class_code (error_class_of (py_strip m))"
  unfolding humanize_sync_error_def error_class_of_def class_code_def Let_def
  by (simp only: if_distrib [of code] if_distrib [of "case_error_class _ _ _ _ _ _ _"]
        sync_message.simps error_class.case)

lemma humanize_class:
  assumes "error_class_of (py_strip m1) = error_class_of (py_strip m2)"
  shows "humanize_sync_error m1 t l = humanize_sync_error m2 t l"
  using assms unfolding humanize_sync_error_def error_class_of_def Let_def
  by (simp only: error_class.distinct split: if_split_asm) (simp_all only: if_True if_False simp_thms)

lemma humanize_anonymous:
  assumes "class_anonymous (error_class_of (py_strip m))"
  shows "humanize_sync_error m t l = humanize_sync_error m t' l'"
  using assms unfolding humanize_sync_error_def error_class_of_def class_anonymous_def Let_def
  by (simp only: error_class.distinct insert_iff empty_iff simp_thms split: if_split_asm)
    (simp_all only: if_True if_False simp_thms)

section \<open>Properties\<close>

text \<open>
  The user-facing text depends on the stored error only through its class, so two errors of one
  class (two driver messages with different hosts, say) are shown alike; the code names the class, and
  outside the three source-data classes not even tenant and loan type matter.
\<close>

theorem message_by_class:
  assumes "error_class_of (py_strip m1) = error_class_of (py_strip m2)"
  shows "humanize_sync_error m1 t l = humanize_sync_error m2 t l \<and>
     code (humanize_sync_error m1 t l) = class_code (error_class_of (py_strip m1)) \<and>
     (class_anonymous (error_class_of (py_strip m1)) \<longrightarrow>
        humanize_sync_error m1 t l = humanize_sync_error m2 t' l')"
  using humanize_class [OF assms] humanize_anonymous [of m2] humanize_code assms by simp

lemma message_by_class_witness:
  "humanize_sync_error '' db-1 refused '' ''BANK001'' ''RETAIL'' =
     humanize_sync_error ''timeout'' ''BANK001'' ''RETAIL''"
proof -
  have "error_class_of (py_strip '' db-1 refused '') = error_class_of (py_strip ''timeout'')"
    by code_simp
  from message_by_class [OF this] show ?thesis by simp
qed

end
