(* ===== verification/Access.thy ===== *)
theory Access
  imports Prelude
begin

text \<open>
  Authentication and tenancy of the gateway: \<open>api/apps/core/authentication.py\<close>,
  \<open>api/apps/core/permissions.py\<close>, the login, logout and session views of
  \<open>api/apps/core/views.py\<close>, the \<open>OperatorProfile\<close> model and \<open>seed_operators\<close>.

  Parameters: \<open>jwt.encode\<close> and \<open>jwt.decode\<close>, Django's \<open>authenticate\<close> and its CSRF check.  User and tenant of
  a login, a token and a session are strings: \<open>Gateway\<close> hands over a login body only when its fields are texts.
\<close>

section \<open>Requests\<close>

record jwt_user =
  username :: string
  user_tenant :: string

text \<open>
  What the views read of a DRF request: the authenticated user (\<open>None\<close> is the anonymous user), the
  query parameters, the parsed body and whether the \<open>HX-Request\<close> header is \<open>"true"\<close>.
\<close>

record request =
  req_user :: "jwt_user option"
  query_params :: "string \<rightharpoonup> string"
  req_data :: json
  hx_request :: bool

text \<open>\<open>request.data.get(k)\<close>: a body that is not a dict has no \<open>get\<close>.\<close>

definition data_get :: "json \<Rightarrow> string \<Rightarrow> exn + json" where
  "data_get d k =
     (case d of
        JObj kvs \<Rightarrow> Inr (dict_get kvs k JNull)
      | _ \<Rightarrow> Inl (Exn AttributeError ''object has no attribute get''))"

definition query_json :: "request \<Rightarrow> string \<Rightarrow> json" where
  "query_json req k = json_opt JStr (query_params req k)"

text \<open>\<open>param and param != token_tenant\<close>\<close>

definition foreign_tenant :: "string \<Rightarrow> json \<Rightarrow> bool" where
  "foreign_tenant token_tenant v \<longleftrightarrow> truthy v \<and> v \<noteq> JStr token_tenant"

section \<open>Permissions\<close>

definition has_permission :: "request \<Rightarrow> exn + bool" where
  "has_permission req =
     (case req_user req of
        None \<Rightarrow> Inr False
      | Some user \<Rightarrow>
          if user_tenant user = '''' then Inr False
          else
            case (if truthy (req_data req) then data_get (req_data req) ''tenant_id'' else Inr JNull) of
              Inl e \<Rightarrow> Inl e
            | Inr body_tenant \<Rightarrow>
                Inr (\<not> foreign_tenant (user_tenant user) body_tenant \<and>
                     \<not> foreign_tenant (user_tenant user) (query_json req ''tenant_id'')))"

section \<open>Authentication\<close>

text \<open>
  \<open>SessionOperatorAuthentication.authenticate\<close>: \<open>operator\<close> is \<open>request.session.get("operator")\<close> and
  \<open>csrf\<close> the outcome of \<open>enforce_csrf\<close> (an exception when the check fails).
\<close>

type_synonym claims = "string \<rightharpoonup> string"

definition claim_missing :: "string option \<Rightarrow> bool" where
  "claim_missing v \<longleftrightarrow> v = None \<or> v = Some ''''"

definition session_authenticate ::
    "claims option \<Rightarrow> exn option \<Rightarrow> exn + jwt_user option" where
  "session_authenticate operator csrf =
     (case operator of
        None \<Rightarrow> Inr None
      | Some op \<Rightarrow>
          if dom op = {} then Inr None
          else if claim_missing (op ''username'') \<or> claim_missing (op ''tenant_id'')
          then Inl (Exn AuthenticationFailed ''Invalid session'')
          else case csrf of
            Some e \<Rightarrow> Inl e
          | None \<Rightarrow> Inr (Some \<lparr>username = the (op ''username''), user_tenant = the (op ''tenant_id'')\<rparr>))"

text \<open>
  \<open>BearerJWTAuthentication.authenticate\<close>: \<open>decode\<close> is \<open>jwt.decode\<close> with the configured key, at the time of the
  request; any \<open>PyJWTError\<close> it raises becomes \<open>AuthenticationFailed\<close>.  Of the payload the code reads the two texts.
\<close>

definition bearer_authenticate ::
    "(string \<Rightarrow> exn + claims) \<Rightarrow> string \<Rightarrow> exn + (jwt_user \<times> string) option" where
  "bearer_authenticate decode auth_header =
     (if \<not> prefix ''Bearer '' auth_header then Inr None
      else
        let token = drop 7 auth_header in
        case decode token of
          Inl e \<Rightarrow> Inl (Exn AuthenticationFailed ''Invalid or expired token'')
        | Inr payload \<Rightarrow>
            if claim_missing (payload ''sub'') \<or> claim_missing (payload ''tenant_id'')
            then Inl (Exn AuthenticationFailed ''Token missing required claims'')
            else Inr (Some (\<lparr>username = the (payload ''sub''), user_tenant = the (payload ''tenant_id'')\<rparr>, token)))"

text \<open>
  \<open>DEFAULT_AUTHENTICATION_CLASSES\<close> of \<open>api/config/settings.py\<close>: DRF tries the classes in order, the
  first that returns a user decides, an exception ends the request.
\<close>

definition authenticate_request ::
    "(string \<Rightarrow> exn + claims) \<Rightarrow> claims option \<Rightarrow> exn option \<Rightarrow> string \<Rightarrow> exn + jwt_user option" where
  "authenticate_request decode operator csrf auth_header =
     (case session_authenticate operator csrf of
        Inl e \<Rightarrow> Inl e
      | Inr (Some u) \<Rightarrow> Inr (Some u)
      | Inr None \<Rightarrow>
          (case bearer_authenticate decode auth_header of
             Inl e \<Rightarrow> Inl e
           | Inr None \<Rightarrow> Inr None
           | Inr (Some (u, _)) \<Rightarrow> Inr (Some u)))"

section \<open>Login, logout, session\<close>

text \<open>
  The session of the browser (the \<open>operator\<close> entry and the expiry in seconds) and the parameters of
  the login view: Django's \<open>authenticate\<close> (a user name, when the password is right), the rows of
  \<open>OperatorProfile\<close> as pairs of user and tenant, \<open>jwt.encode\<close> and the settings.  Times are in microseconds.
\<close>

record jwt_payload =
  payload_sub :: string
  payload_tenant_id :: string
  payload_exp :: int
  payload_iat :: int

record session =
  operator :: "claims option"
  session_expiry :: "int option"

record auth_env =
  auth_check :: "string \<Rightarrow> string \<Rightarrow> string option"
  profiles :: "(string \<times> string) list"
  jwt_encode :: "jwt_payload \<Rightarrow> string"
  JWT_EXPIRY_HOURS :: int

definition issue_token :: "auth_env \<Rightarrow> string \<Rightarrow> string \<Rightarrow> int \<Rightarrow> int \<Rightarrow> string \<times> int" where
  "issue_token env user tenant_id now1 now2 =
     (let expires_at = now1 + JWT_EXPIRY_HOURS env * 3600 * 1000000
      in (jwt_encode env \<lparr>payload_sub = user, payload_tenant_id = tenant_id,
            payload_exp = expires_at, payload_iat = now2\<rparr>, expires_at))"

datatype login_response =
    Login_error nat string
  | Login_ok string string int string

definition login ::
    "auth_env \<Rightarrow> claims \<Rightarrow> int \<Rightarrow> int \<Rightarrow> session \<Rightarrow> login_response \<times> session" where
  "login env data now1 now2 s =
     (let get = (\<lambda>k. case data k of None \<Rightarrow> '''' | Some v \<Rightarrow> v);
          user = get ''username'';
          password = get ''password'';
          tenant_id = get ''tenant_id''
      in
      if user = '''' \<or> password = '''' \<or> tenant_id = ''''
      then (Login_error 400 ''username, password, and tenant_id are required'', s)
      else case auth_check env user password of
        None \<Rightarrow> (Login_error 401 ''Invalid credentials'', s)
      | Some account \<Rightarrow>
          if (account, tenant_id) \<notin> set (profiles env)
          then (Login_error 403 ''Operator is not authorized for this tenant'', s)
          else case issue_token env user tenant_id now1 now2 of (token, expires_at) \<Rightarrow>
            (Login_ok tenant_id user expires_at token,
             s\<lparr>operator := Some [''username'' \<mapsto> user, ''tenant_id'' \<mapsto> tenant_id],
               session_expiry := Some (JWT_EXPIRY_HOURS env * 3600)\<rparr>))"

text \<open>\<open>request.session.flush()\<close>\<close>

definition logout :: "session \<Rightarrow> session" where
  "logout s = s\<lparr>operator := None, session_expiry := None\<rparr>"

definition session_info :: "jwt_user \<Rightarrow> pydict" where
  "session_info u = [(''username'', JStr (username u)), (''tenant_id'', JStr (user_tenant u))]"

text \<open>
  What PyJWT documents: \<open>exp\<close> and \<open>iat\<close> are kept as whole seconds; a token it encoded is decoded with the same key to
  its payload from its issue until, and not at, its expiry, and raises a \<open>PyJWTError\<close> at any other time.
\<close>

definition whole_second :: "int \<Rightarrow> int" where
  "whole_second t = t div 1000000 * 1000000"

definition fresh_at :: "int \<Rightarrow> jwt_payload \<Rightarrow> bool" where
  "fresh_at now p \<longleftrightarrow> whole_second (payload_iat p) \<le> now \<and> now < whole_second (payload_exp p)"

definition pyjwt :: "(jwt_payload \<Rightarrow> string) \<Rightarrow> (int \<Rightarrow> string \<Rightarrow> exn + claims) \<Rightarrow> bool" where
  "pyjwt encode decode \<longleftrightarrow>
     (\<forall>now p. if fresh_at now p
        then decode now (encode p) = Inr [''sub'' \<mapsto> payload_sub p, ''tenant_id'' \<mapsto> payload_tenant_id p]
        else \<exists>m. decode now (encode p) = Inl (Exn PyJWTError m))"

section \<open>Seeding the demo operators\<close>

record account_db =
  passwords :: "string \<rightharpoonup> string"
  operator_profiles :: "(string \<times> string) list"

definition seeds :: "(string \<times> string \<times> string) list" where
  "seeds =
     [(''operator_admin'', ''secure_cleartext_password'', ''BANK001''),
      (''operator_bank2'', ''secure_cleartext_password'', ''BANK002''),
      (''operator_bank3'', ''secure_cleartext_password'', ''BANK003'')]"

text \<open>
  One round of the loop: \<open>get_or_create\<close> of the user, \<open>set_password\<close> and \<open>save\<close>, \<open>get_or_create\<close> of
  the profile, and the line it prints.
\<close>

definition seed_operator ::
    "string \<times> string \<times> string \<Rightarrow> account_db \<times> string list \<Rightarrow> account_db \<times> string list" where
  "seed_operator entry st =
     (case entry of (user, password, tenant_id) \<Rightarrow>
      case st of (db, out) \<Rightarrow>
        let created = (passwords db user = None);
            db1 = db\<lparr>passwords := (passwords db)(user \<mapsto> password)\<rparr>;
            db2 = (if (user, tenant_id) \<in> set (operator_profiles db1) then db1
                   else db1\<lparr>operator_profiles := operator_profiles db1 @ [(user, tenant_id)]\<rparr>);
            action = (if created then ''Created'' else ''Updated'')
        in (db2, out @ [action @ '' '' @ user @ '' for '' @ tenant_id]))"

definition seed_operators :: "account_db \<Rightarrow> account_db \<times> string list" where
  "seed_operators db = fold seed_operator seeds (db, [])"

section \<open>Who a request is\<close>

lemma claim_present: "\<not> claim_missing v \<longleftrightarrow> (\<exists>x. v = Some x \<and> x \<noteq> '''')"
  by (cases v) (auto simp: claim_missing_def)

lemma session_user:
  "session_authenticate op csrf = Inr (Some u) \<longleftrightarrow>
     username u \<noteq> '''' \<and> user_tenant u \<noteq> '''' \<and> csrf = None \<and>
     (\<exists>claims. op = Some claims \<and> claims ''username'' = Some (username u) \<and>
        claims ''tenant_id'' = Some (user_tenant u))"
  by (auto simp: session_authenticate_def claim_missing_def split: option.split)

lemma bearer_user:
  "bearer_authenticate decode header = Inr (Some (u, token)) \<longleftrightarrow>
     username u \<noteq> '''' \<and> user_tenant u \<noteq> '''' \<and> header = ''Bearer '' @ token \<and>
     (\<exists>claims. decode token = Inr claims \<and> claims ''sub'' = Some (username u) \<and>
        claims ''tenant_id'' = Some (user_tenant u))"
  by (auto simp: bearer_authenticate_def claim_missing_def Let_def prefix_def split: sum.split option.split)

text \<open>
  A token format without a signature, for the witnesses: blocks that say their length in unary.
\<close>

definition token_block :: "string \<Rightarrow> string" where
  "token_block s = replicate (length s) (CHR ''i'') @ CHR ''.'' # s"

definition token_unblock :: "string \<Rightarrow> string \<times> string" where
  "token_unblock tok =
     (let n = length (takeWhile ((=) (CHR ''i'')) tok); rest = drop (Suc n) tok in (take n rest, drop n rest))"

definition int_block :: "int \<Rightarrow> string" where
  "int_block k = (if k < 0 then CHR ''-'' else CHR ''+'') # replicate (nat \<bar>k\<bar>) (CHR ''1'')"

fun block_int :: "string \<Rightarrow> int" where
  "block_int [] = 0"
| "block_int (c # ds) = (if c = CHR ''-'' then - int (length ds) else int (length ds))"

definition demo_encode :: "jwt_payload \<Rightarrow> string" where
  "demo_encode p = token_block (payload_sub p) @ token_block (payload_tenant_id p) @
     token_block (int_block (payload_exp p)) @ int_block (payload_iat p)"

definition demo_jwt :: "int \<Rightarrow> string \<Rightarrow> exn + claims" where
  "demo_jwt now tok =
     (case token_unblock tok of (sub, tok1) \<Rightarrow>
      case token_unblock tok1 of (tenant, tok2) \<Rightarrow>
      case token_unblock tok2 of (e, i) \<Rightarrow>
        if fresh_at now \<lparr>payload_sub = sub, payload_tenant_id = tenant, payload_exp = block_int e, payload_iat = block_int i\<rparr>
        then Inr [''sub'' \<mapsto> sub, ''tenant_id'' \<mapsto> tenant]
        else Inl (Exn PyJWTError ''Signature has expired''))"

lemma token_unblock_block [simp]: "token_unblock (token_block s @ r) = (s, r)"
proof -
  have "takeWhile ((=) (CHR ''i'')) (replicate n (CHR ''i'') @ CHR ''.'' # rest) = replicate n (CHR ''i'')" for n rest
    by (induction n) simp_all
  then show ?thesis by (simp add: token_unblock_def token_block_def Let_def)
qed

lemma block_int_block [simp]: "block_int (int_block k) = k"
  by (simp add: int_block_def)

lemma demo_pyjwt: "pyjwt demo_encode demo_jwt"
  by (simp add: pyjwt_def demo_jwt_def demo_encode_def fresh_at_def)

definition demo_auth :: auth_env where
  "demo_auth = \<lparr>
     auth_check = (\<lambda>u p. if p = ''secret'' then Some u else None),
     profiles = [(''operator_admin'', ''BANK001'')],
     jwt_encode = demo_encode,
     JWT_EXPIRY_HOURS = 8\<rparr>"

definition demo_login :: claims where
  "demo_login = [''username'' \<mapsto> ''operator_admin'', ''password'' \<mapsto> ''secret'', ''tenant_id'' \<mapsto> ''BANK001'']"

definition demo_decode :: "string \<Rightarrow> exn + claims" where
  "demo_decode token =
     (if token = ''operator_admin@BANK001''
      then Inr [''sub'' \<mapsto> ''operator_admin'', ''tenant_id'' \<mapsto> ''BANK001'']
      else Inl (Exn PyJWTError ''Invalid token''))"

lemma issued_token:
  assumes "pyjwt (jwt_encode env) decode" and "user \<noteq> ''''" and "tenant \<noteq> ''''"
  shows "bearer_authenticate (decode now) (''Bearer '' @
      jwt_encode env \<lparr>payload_sub = user, payload_tenant_id = tenant, payload_exp = e, payload_iat = i\<rparr>) =
    (if whole_second i \<le> now \<and> now < whole_second e
     then Inr (Some (\<lparr>username = user, user_tenant = tenant\<rparr>,
       jwt_encode env \<lparr>payload_sub = user, payload_tenant_id = tenant, payload_exp = e, payload_iat = i\<rparr>))
     else Inl (Exn AuthenticationFailed ''Invalid or expired token''))"
proof -
  let ?p = "\<lparr>payload_sub = user, payload_tenant_id = tenant, payload_exp = e, payload_iat = i\<rparr>"
  show ?thesis
  proof (cases "fresh_at now ?p")
    case True
    with assms(1) have "decode now (jwt_encode env ?p) = Inr [''sub'' \<mapsto> user, ''tenant_id'' \<mapsto> tenant]"
      by (auto simp: pyjwt_def dest: spec [of _ now] spec [of _ ?p])
    with True assms(2,3) show ?thesis
      by (simp add: bearer_authenticate_def claim_missing_def fresh_at_def)
  next
    case False
    with assms(1) obtain m where "decode now (jwt_encode env ?p) = Inl (Exn PyJWTError m)"
      unfolding pyjwt_def by meson
    with False show ?thesis by (simp add: bearer_authenticate_def fresh_at_def)
  qed
qed

lemma login_granted:
  assumes "login env data now1 now2 s = (Login_ok tenant user expires token, s')"
  obtains password account where "data ''username'' = Some user" "data ''password'' = Some password"
    "data ''tenant_id'' = Some tenant" "user \<noteq> ''''" "tenant \<noteq> ''''"
    "auth_check env user password = Some account" "(account, tenant) \<in> set (profiles env)"
    "s' = s\<lparr>operator := Some [''username'' \<mapsto> user, ''tenant_id'' \<mapsto> tenant], session_expiry := Some (JWT_EXPIRY_HOURS env * 3600)\<rparr>"
    "expires = now1 + JWT_EXPIRY_HOURS env * 3600 * 1000000"
    "token = jwt_encode env \<lparr>payload_sub = user, payload_tenant_id = tenant, payload_exp = expires, payload_iat = now2\<rparr>"
proof -
  define get where "get k = (case data k of None \<Rightarrow> '''' | Some v \<Rightarrow> v)" for k
  have data: "get k \<noteq> '''' \<Longrightarrow> data k = Some (get k)" for k
    by (cases "data k") (simp_all add: get_def)
  show thesis
    using assms data that
    unfolding login_def Let_def get_def [symmetric] issue_token_def
    by (auto split: if_splits option.splits)
qed

lemma login_refused:
  "login env data now1 now2 s = (Login_error c m, s') \<Longrightarrow> s' = s \<and> c \<in> {400, 401, 403}"
  by (auto simp: login_def Let_def issue_token_def split: if_splits option.splits)

section \<open>Seeding\<close>

definition seeded :: "account_db \<Rightarrow> string \<times> string \<times> string \<Rightarrow> bool" where
  "seeded db = (\<lambda>(u, p, t). passwords db u = Some p \<and> (u, t) \<in> set (operator_profiles db))"

lemma seed_operator_seeded: "seeded (fst (seed_operator e st)) e"
  by (cases e; cases st) (auto simp: seed_operator_def seeded_def Let_def)

lemma seed_operator_keeps:
  "seeded (fst st) e' \<Longrightarrow> fst e \<noteq> fst e' \<Longrightarrow> seeded (fst (seed_operator e st)) e'"
  by (cases e; cases e'; cases st) (auto simp: seed_operator_def seeded_def Let_def)

lemma seed_operator_again:
  "seeded db e \<Longrightarrow> seed_operator e (db, out) =
     (db, out @ [(\<lambda>(u, p, t). ''Updated '' @ u @ '' for '' @ t) e])"
  by (cases e) (simp add: seed_operator_def seeded_def Let_def map_upd_triv)

lemma fold_seed_keeps:
  "seeded (fst st) e' \<Longrightarrow> fst e' \<notin> fst ` set es \<Longrightarrow> seeded (fst (fold seed_operator es st)) e'"
proof (induction es arbitrary: st)
  case (Cons e es)
  then have "seeded (fst (seed_operator e st)) e'" by (intro seed_operator_keeps) auto
  with Cons show ?case by (simp del: split_paired_All)
qed simp

lemma fold_seed_seeded:
  "distinct (map fst es) \<Longrightarrow> list_all (seeded (fst (fold seed_operator es st))) es"
  by (induction es arbitrary: st) (simp_all add: fold_seed_keeps seed_operator_seeded)

lemma fold_seed_again:
  "list_all (seeded db) es \<Longrightarrow> fold seed_operator es (db, out) =
     (db, out @ map (\<lambda>(u, p, t). ''Updated '' @ u @ '' for '' @ t) es)"
  by (induction es arbitrary: out) (simp_all add: seed_operator_again)

lemma seeds_distinct: "distinct (map fst seeds)"
  by (simp add: seeds_def)

section \<open>Properties\<close>

text \<open>
  Property C23. Whoever the authentication classes accept has a non-empty user name and tenant, and both are
  those of the browser session (with a passed CSRF check) or, when the session names nobody, those of a
  bearer token that decodes.
\<close>

theorem authenticated_user_origin:
  assumes "authenticate_request decode op csrf header = Inr (Some u)"
  shows "username u \<noteq> '''' \<and> user_tenant u \<noteq> '''' \<and>
    (csrf = None \<and> (\<exists>claims. op = Some claims \<and> claims ''username'' = Some (username u) \<and>
        claims ''tenant_id'' = Some (user_tenant u)) \<or>
     (op = None \<or> op = Some Map.empty) \<and>
       (\<exists>token claims. header = ''Bearer '' @ token \<and> decode token = Inr claims \<and>
          claims ''sub'' = Some (username u) \<and> claims ''tenant_id'' = Some (user_tenant u)))"
proof (cases "session_authenticate op csrf")
  case (Inr v)
  show ?thesis
  proof (cases v)
    case None
    then have "op = None \<or> op = Some Map.empty"
      using Inr by (auto simp: session_authenticate_def split: option.splits if_splits)
    moreover obtain token where "bearer_authenticate decode header = Inr (Some (u, token))"
      using assms Inr None
      by (auto simp: authenticate_request_def split: sum.splits option.splits)
    ultimately show ?thesis by (auto simp: bearer_user)
  next
    case (Some u')
    with assms Inr have "session_authenticate op csrf = Inr (Some u)"
      by (simp add: authenticate_request_def)
    then show ?thesis by (auto simp: session_user)
  qed
qed (use assms in \<open>simp add: authenticate_request_def\<close>)

lemma authenticated_user_origin_witness:
  "authenticate_request demo_decode None None ''Bearer operator_admin@BANK001'' =
     Inr (Some \<lparr>username = ''operator_admin'', user_tenant = ''BANK001''\<rparr>) \<and>
   user_tenant \<lparr>username = ''operator_admin'', user_tenant = ''BANK001''\<rparr> \<noteq> ''''"
proof -
  have "authenticate_request demo_decode None None ''Bearer operator_admin@BANK001'' =
      Inr (Some \<lparr>username = ''operator_admin'', user_tenant = ''BANK001''\<rparr>)"
    by (simp add: authenticate_request_def session_authenticate_def bearer_authenticate_def
        demo_decode_def claim_missing_def Let_def)
  with authenticated_user_origin [OF this] show ?thesis by simp
qed

text \<open>
  Property C24. Login grants exactly what it checked and for as long as it says: a successful answer means the
  password was accepted and the account has a profile for the tenant.  Afterwards the session, which expires
  after the configured hours, authenticates as that user of that tenant, and so does the returned token from the second of its
  issue until the second of the announced expiry; at any other time the token is refused.  Any other answer leaves the session alone.
\<close>

theorem login_grants:
  assumes "login env data now1 now2 s = (answer, s')" and "pyjwt (jwt_encode env) decode"
  shows "case answer of
       Login_error c m \<Rightarrow> s' = s \<and> c \<in> {400, 401, 403}
     | Login_ok tenant user expires token \<Rightarrow>
         (\<exists>password account. data ''username'' = Some user \<and> data ''tenant_id'' = Some tenant \<and>
            data ''password'' = Some password \<and>
            auth_check env user password = Some account \<and> (account, tenant) \<in> set (profiles env)) \<and>
         session_authenticate (operator s') None = Inr (Some \<lparr>username = user, user_tenant = tenant\<rparr>) \<and>
         session_expiry s' = Some (JWT_EXPIRY_HOURS env * 3600) \<and>
         expires = now1 + JWT_EXPIRY_HOURS env * 3600 * 1000000 \<and>
         (\<forall>now. bearer_authenticate (decode now) (''Bearer '' @ token) =
            (if whole_second now2 \<le> now \<and> now < whole_second expires
             then Inr (Some (\<lparr>username = user, user_tenant = tenant\<rparr>, token))
             else Inl (Exn AuthenticationFailed ''Invalid or expired token'')))"
proof (cases answer)
  case (Login_error c m)
  with assms(1) login_refused show ?thesis by fastforce
next
  case (Login_ok tenant user expires token)
  with assms(1) have "login env data now1 now2 s = (Login_ok tenant user expires token, s')" by simp
  then show ?thesis
    by (rule login_granted)
      (simp add: Login_ok session_user issued_token [OF assms(2), simplified])
qed

lemma login_grants_witness:
  "\<exists>s' token. login demo_auth demo_login 0 0 \<lparr>operator = None, session_expiry = None\<rparr> =
       (Login_ok ''BANK001'' ''operator_admin'' (8 * 3600 * 1000000) token, s') \<and>
     session_authenticate (operator s') None =
       Inr (Some \<lparr>username = ''operator_admin'', user_tenant = ''BANK001''\<rparr>) \<and>
     bearer_authenticate (demo_jwt 1) (''Bearer '' @ token) =
       Inr (Some (\<lparr>username = ''operator_admin'', user_tenant = ''BANK001''\<rparr>, token)) \<and>
     bearer_authenticate (demo_jwt (8 * 3600 * 1000000)) (''Bearer '' @ token) =
       Inl (Exn AuthenticationFailed ''Invalid or expired token'')"
proof -
  obtain token s' where run: "login demo_auth demo_login 0 0 \<lparr>operator = None, session_expiry = None\<rparr> =
      (Login_ok ''BANK001'' ''operator_admin'' (8 * 3600 * 1000000) token, s')"
    by (simp add: login_def demo_auth_def demo_login_def issue_token_def Let_def)
  have "pyjwt (jwt_encode demo_auth) demo_jwt" by (simp add: demo_auth_def demo_pyjwt)
  from login_grants [OF run this] run show ?thesis by (simp add: whole_second_def)
qed

text \<open>
  Seeding is idempotent: a second run changes no account, adds no profile and reports three
  updates; after it every seed has its password and its profile.
\<close>

theorem seeding_idempotent:
  "case seed_operators db of (db1, _) \<Rightarrow>
     seed_operators db1 = (db1, map (\<lambda>(u, p, t). ''Updated '' @ u @ '' for '' @ t) seeds) \<and>
     list_all (seeded db1) seeds"
  using fold_seed_seeded [OF seeds_distinct, of "(db, [])"] fold_seed_again
  by (simp add: seed_operators_def case_prod_beta)

end
