(* ===== verification/EtlViews.thy ===== *)
theory EtlViews
  imports EtlTasks SyncMessages Access
begin

text \<open>
  The sync endpoints of \<open>api/apps/etl/views.py\<close>: start, active, status and cancel, with the request
  checks they share.  Each view is a program; \<open>api_view\<close> runs it behind the permission classes its
  decorator names.
\<close>

section \<open>Answers\<close>

text \<open>A DRF \<open>Response\<close>, or the rendered status partial with its template context.\<close>

datatype response =
    Response nat json
  | Sync_status_partial etl_job "sync_message option"

text \<open>
  Parameters of the views: DRF's \<open>ChoiceField\<close> and \<open>CharField\<close> validation (the choice that \<open>str(value)\<close>
  names, whether a value is an acceptable string of at most 64 characters) and the ISO rendering of
  a timestamp.
\<close>

record view_env =
  choice_field :: "string list \<Rightarrow> json \<Rightarrow> string option"
  char_field :: "nat \<Rightarrow> json \<Rightarrow> bool"
  isoformat :: "int \<Rightarrow> string"

definition LOAN_TYPES :: "string list" where
  "LOAN_TYPES = [''RETAIL'', ''COMMERCIAL'']"

text \<open>
  \<open>SyncRequestSerializer\<close>: \<open>loan_type\<close> is a required choice, \<open>tenant_id\<close> an optional string.  The
  validated loan type, or the fields in error.
\<close>

definition sync_request_serializer :: "view_env \<Rightarrow> json \<Rightarrow> string list + string" where
  "sync_request_serializer env data =
     (case data of
        JObj kvs \<Rightarrow>
          (let loan = (case map_of kvs ''loan_type'' of
                 None \<Rightarrow> None | Some v \<Rightarrow> choice_field env LOAN_TYPES v);
               tenant_ok = (case map_of kvs ''tenant_id'' of
                 None \<Rightarrow> True | Some v \<Rightarrow> char_field env 64 v)
           in case loan of
                Some l \<Rightarrow> if tenant_ok then Inr l else Inl [''tenant_id'']
              | None \<Rightarrow> Inl ([''loan_type''] @ (if tenant_ok then [] else [''tenant_id''])))
      | _ \<Rightarrow> Inl [''non_field_errors''])"

section \<open>Request helpers\<close>

definition tenant_from_request :: "request \<Rightarrow> string" where
  "tenant_from_request req = (case req_user req of None \<Rightarrow> '''' | Some u \<Rightarrow> user_tenant u)"

definition loan_type_from_request :: "request \<Rightarrow> exn + json" where
  "loan_type_from_request req =
     (if truthy (query_json req ''loan_type'') then Inr (query_json req ''loan_type'')
      else data_get (req_data req) ''loan_type'')"

definition json_upper :: "json \<Rightarrow> exn + string" where
  "json_upper v = (case v of
     JStr s \<Rightarrow> Inr (py_upper s)
   | _ \<Rightarrow> Inl (Exn AttributeError ''object has no attribute upper''))"

definition lift_exn :: "exn + 'a \<Rightarrow> 'a prog" where
  "lift_exn r = Ret r"

definition error_body :: "string \<Rightarrow> json" where
  "error_body msg = JObj [(''error'', JStr msg)]"

definition forbidden_if_tenant_mismatch :: "request \<Rightarrow> exn + response option" where
  "forbidden_if_tenant_mismatch req =
     (case data_get (req_data req) ''tenant_id'' of
        Inl e \<Rightarrow> Inl e
      | Inr body_tenant \<Rightarrow>
          if foreign_tenant (tenant_from_request req) (query_json req ''tenant_id'')
             \<or> foreign_tenant (tenant_from_request req) body_tenant
          then Inr (Some (Response 403 (error_body ''Tenant mismatch with token claims'')))
          else Inr None)"

definition first_message :: "pydict list \<Rightarrow> string" where
  "first_message errs =
     (case errs of [] \<Rightarrow> ''''
      | err # _ \<Rightarrow> (case dict_get err ''message'' JNull of JStr m \<Rightarrow> m | _ \<Rightarrow> ''''))"

definition sync_status_context :: "etl_job \<Rightarrow> sync_message option" where
  "sync_status_context job =
     (if status job \<in> {FAILED, CANCELLED} \<and> errors job \<noteq> []
      then Some (humanize_sync_error (first_message (errors job)) (job_tenant job) (job_loan_type job))
      else if status job = CANCELLED
      then Some (humanize_sync_error ''Sync cancelled by user'' (job_tenant job) (job_loan_type job))
      else None)"

definition render_status :: "etl_job \<Rightarrow> response" where
  "render_status job = Sync_status_partial job (sync_status_context job)"

definition active_job :: "string \<Rightarrow> string \<Rightarrow> etl_job option prog" where
  "active_job tenant_id loan =
     (let loan_type = py_upper loan in
      bind (get_active_job_id tenant_id loan_type) (\<lambda>active_job_id.
      if \<not> opt_truthy active_job_id then return None
      else
        let jid = the active_job_id in
        JobGet jid (\<lambda>row. case row of
          Some j \<Rightarrow> return (Some j)
        | None \<Rightarrow> bind (release_sync_lock tenant_id loan_type jid) (\<lambda>_. return None))))"

definition new_job_id :: "string prog" where
  "new_job_id = Uuid4 (\<lambda>u. return (''job_'' @ u))"

section \<open>Starting a sync\<close>

text \<open>Lines 116 to 129: the lock is held, the row is created and the task queued.\<close>

definition start_job :: "view_env \<Rightarrow> request \<Rightarrow> string \<Rightarrow> string \<Rightarrow> string \<Rightarrow> response prog" where
  "start_job env req jid tenant_id loan_type =
     JobInsert (new_job jid tenant_id loan_type QUEUED) (\<lambda>created. case created of
       None \<Rightarrow> raise (Exn IntegrityError ''duplicate key value violates unique constraint'')
     | Some job \<Rightarrow>
         CeleryDelay jid tenant_id loan_type (\<lambda>task_id. case task_id of
           None \<Rightarrow> raise (Exn OperationalError ''broker unreachable'')
         | Some tid \<Rightarrow>
             bind (store_celery_task_id jid tid) (\<lambda>_.
             return (if hx_request req then render_status job
                     else Response 202 (sync_response (isoformat env) job)))))"

text \<open>Lines 102 to 114: the lock is held by another job.\<close>

definition conflict_response ::
    "view_env \<Rightarrow> request \<Rightarrow> etl_job option \<Rightarrow> string option \<Rightarrow> response" where
  "conflict_response env req active active_id =
     (let payload =
        [(''error'', JStr ''A pipeline processing cycle is actively running for this specific tenant and credit selection.''),
         (''active_job_id'', json_opt JStr active_id)]
      in case active of
           Some j \<Rightarrow>
             if hx_request req then render_status j
             else Response 409 (JObj (payload @ [(''active_job'', JObj (job_status_view (isoformat env) j))]))
         | None \<Rightarrow> Response 409 (JObj payload))"

definition sync_conflict :: "view_env \<Rightarrow> request \<Rightarrow> string \<Rightarrow> string \<Rightarrow> etl_job option \<Rightarrow> response prog" where
  "sync_conflict env req tenant_id loan_type active =
     bind (case active of Some j \<Rightarrow> return (Some j) | None \<Rightarrow> active_job tenant_id loan_type) (\<lambda>active.
     bind (case active of
             Some j \<Rightarrow> return (Some (job_id j))
           | None \<Rightarrow> get_active_job_id tenant_id loan_type) (\<lambda>active_id.
     return (conflict_response env req active active_id)))"

text \<open>Lines 93 to 129, for a validated request.\<close>

definition acquire_and_start :: "view_env \<Rightarrow> request \<Rightarrow> string \<Rightarrow> string \<Rightarrow> response prog" where
  "acquire_and_start env req tenant_id loan_type =
     bind new_job_id (\<lambda>jid.
     bind (acquire_sync_lock tenant_id loan_type jid) (\<lambda>acquired.
     if acquired then start_job env req jid tenant_id loan_type
     else
       bind (active_job tenant_id loan_type) (\<lambda>active.
       bind (if active = None then acquire_sync_lock tenant_id loan_type jid else return False)
         (\<lambda>acquired.
       if acquired then start_job env req jid tenant_id loan_type
       else sync_conflict env req tenant_id loan_type active))))"

definition sync_data :: "view_env \<Rightarrow> request \<Rightarrow> response prog" where
  "sync_data env req =
     bind (lift_exn (forbidden_if_tenant_mismatch req)) (\<lambda>mismatch. case mismatch of
       Some r \<Rightarrow> return r
     | None \<Rightarrow>
     (case sync_request_serializer env (req_data req) of
       Inl errs \<Rightarrow> return (Response 400 (JList (map JStr errs)))
     | Inr choice \<Rightarrow>
         acquire_and_start env req (tenant_from_request req) (py_upper choice)))"

section \<open>Active job, status, cancel\<close>

definition active_sync :: "view_env \<Rightarrow> request \<Rightarrow> response prog" where
  "active_sync env req =
     bind (lift_exn (forbidden_if_tenant_mismatch req)) (\<lambda>mismatch. case mismatch of
       Some r \<Rightarrow> return r
     | None \<Rightarrow>
     bind (lift_exn (loan_type_from_request req)) (\<lambda>loan.
     if \<not> truthy loan then return (Response 400 (error_body ''loan_type query parameter is required''))
     else
       bind (lift_exn (json_upper loan)) (\<lambda>loan_type.
       bind (active_job (tenant_from_request req) loan_type) (\<lambda>job. case job of
         None \<Rightarrow> return (Response 200 (JObj [(''active'', JBool False)]))
       | Some j \<Rightarrow>
           return (if hx_request req then render_status j
                   else Response 200
                     (JObj (job_status_view (isoformat env) j @ [(''active'', JBool True)])))))))"

definition with_own_job :: "request \<Rightarrow> string \<Rightarrow> (etl_job \<Rightarrow> response prog) \<Rightarrow> response prog" where
  "with_own_job req jid k =
     bind (lift_exn (forbidden_if_tenant_mismatch req)) (\<lambda>mismatch. case mismatch of
       Some r \<Rightarrow> return r
     | None \<Rightarrow>
     JobGet jid (\<lambda>row. case row of
       None \<Rightarrow> return (Response 404 (error_body ''Job not found''))
     | Some job \<Rightarrow>
         if job_tenant job \<noteq> tenant_from_request req
         then return (Response 403 (error_body ''Forbidden''))
         else k job))"

definition job_answer :: "view_env \<Rightarrow> request \<Rightarrow> etl_job \<Rightarrow> response" where
  "job_answer env req job =
     (if hx_request req then render_status job
      else Response 200 (JObj (job_status_view (isoformat env) job)))"

definition sync_status :: "view_env \<Rightarrow> request \<Rightarrow> string \<Rightarrow> response prog" where
  "sync_status env req jid = with_own_job req jid (\<lambda>job. return (job_answer env req job))"

text \<open>Lines 192 to 195: only a \<open>ValueError\<close> of \<open>cancel_sync_job\<close> becomes a 400 answer.\<close>

definition cancel_sync :: "view_env \<Rightarrow> request \<Rightarrow> string \<Rightarrow> response prog" where
  "cancel_sync env req jid = with_own_job req jid (\<lambda>job.
     and_then (cancel_sync_job job) (\<lambda>r. case r of
       Inr job \<Rightarrow> return (job_answer env req job)
     | Inl (Exn kind msg) \<Rightarrow>
         if kind = ValueError then return (Response 400 (error_body msg))
         else raise (Exn kind msg)))"

section \<open>Behind the permission classes\<close>

text \<open>
  \<open>@permission_classes([IsAuthenticated, TenantScopedPermission])\<close>: the view runs only when both
  grant the request.
\<close>

definition api_view :: "request \<Rightarrow> 'a prog \<Rightarrow> 'a prog" where
  "api_view req view =
     (if req_user req = None then raise (Exn NotAuthenticated ''Authentication credentials were not provided.'')
      else bind (lift_exn (has_permission req)) (\<lambda>ok.
        if ok then view
        else raise (Exn PermissionDenied ''You do not have permission to perform this action.'')))"

lemmas view_defs [handler_defs] =
  lift_exn_def active_job_def new_job_id_def start_job_def sync_conflict_def acquire_and_start_def

section \<open>Running the sync views\<close>

text \<open>
  The effect of a sync that is started: the answer, the new QUEUED row, the lock held by the job and
  its Celery task id, and nothing else in Redis or the table.
\<close>

definition start_effect ::
    "'w services \<Rightarrow> view_env \<Rightarrow> request \<Rightarrow> string \<Rightarrow> string \<Rightarrow> string \<Rightarrow> 'w \<Rightarrow> (exn + response) \<times> 'w \<Rightarrow> bool" where
  "start_effect S env req jid t l w res \<longleftrightarrow>
     (\<exists>job tid. fst res = Inr (if hx_request req then render_status job
             else Response 202 (sync_response (isoformat env) job)) \<and>
     status job = QUEUED \<and> job_id job = jid \<and> job_tenant job = t \<and> job_loan_type job = l \<and>
     job_row S (snd res) = (job_row S w)(jid \<mapsto> job) \<and>
     redis_get S (snd res) = (redis_get S w)(lock_key t l \<mapsto> jid, celery_task_key jid \<mapsto> tid) \<and>
     (\<exists>v. job_row S v = job_row S (snd res) \<and> snd (celery_delay S v jid t l) = Some tid))"

lemma upper_char_idem [simp]: "upper_char (upper_char c) = upper_char c"
  by (auto simp: upper_char_def less_eq_char_def)

lemma py_upper_idem [simp]: "py_upper (py_upper s) = py_upper s"
  by (simp add: py_upper_def)

context services
begin

lemma run_active_job_none:
  "\<not> opt_truthy (redis_get S w (lock_key t (py_upper l))) \<Longrightarrow>
     run S (active_job t l) w = (Inr None, w)"
  by (simp add: active_job_def Let_def run_bind run_active)

lemma run_active_job_some:
  assumes "redis_get S w (lock_key t (py_upper l)) = Some jid" and "jid \<noteq> ''''"
    and "job_row S w jid = Some j"
  shows "run S (active_job t l) w = (Inr (Some j), w)"
  using assms by (simp add: active_job_def Let_def run_bind run_active)

lemma run_active_job_orphan:
  assumes "redis_get S w (lock_key t (py_upper l)) = Some jid" and "jid \<noteq> ''''"
    and "job_row S w jid = None"
  shows "\<exists>w'. run S (active_job t l) w = (Inr None, w') \<and> job_row S w' = job_row S w \<and>
     redis_get S w' = (redis_get S w)(lock_key t (py_upper l) := None)"
  using assms
  by (simp add: active_job_def Let_def run_bind run_active run_release service_laws)

text \<open>Starting a job once the lock is held.\<close>

lemma run_start_job:
  assumes "job_row S w jid = None"
    and "\<And>v. snd (celery_delay S v jid t l) \<noteq> None"
  shows "\<exists>job tid w'. run S (start_job env req jid t l) w =
       (Inr (if hx_request req then render_status job
             else Response 202 (sync_response (isoformat env) job)), w') \<and>
     status job = QUEUED \<and> job_id job = jid \<and> job_tenant job = t \<and> job_loan_type job = l \<and>
     job_row S w' = (job_row S w)(jid \<mapsto> job) \<and>
     redis_get S w' = (redis_get S w)(celery_task_key jid \<mapsto> tid) \<and>
     (\<exists>v. job_row S v = job_row S w' \<and> snd (celery_delay S v jid t l) = Some tid)"
proof -
  let ?job = "stamp_insert (snd (clock_now S w)) (new_job jid t l QUEUED)"
  let ?w1 = "fst (job_insert S (fst (clock_now S w)) ?job)"
  have ins: "snd (job_insert S (fst (clock_now S w)) ?job)"
    using assms(1) by (simp add: service_laws stamp_insert_def new_job_def)
  obtain tid where tid: "snd (celery_delay S ?w1 jid t l) = Some tid" using assms(2) by blast
  show ?thesis
    using ins tid assms(1)
    by (intro exI [of _ ?job] exI [of _ tid]
          exI [of _ "redis_set S (fst (celery_delay S ?w1 jid t l)) (celery_task_key jid) tid 86400"])
      (simp add: start_job_def case_prod_beta store_celery_task_id_def run_bind service_laws
        stamp_insert_def new_job_def, rule exI [of _ ?w1], simp add: tid service_laws stamp_insert_def new_job_def)
qed

text \<open>A free slice, a taken one, and one with an orphan lock.\<close>

lemma run_new_job_id:
  "jid = ''job_'' @ snd (fresh_uuid S w) \<Longrightarrow> run S new_job_id w = (Inr jid, fst (fresh_uuid S w))"
  by (simp add: new_job_id_def case_prod_beta)

lemma run_lift_exn: "run S (lift_exn r) w = (r, w)"
  by (simp add: lift_exn_def)

lemma run_start_effect:
  assumes "job_row S w1 jid = None" and "\<And>v. snd (celery_delay S v jid t l) \<noteq> None"
    and "job_row S w1 = job_row S w" and "redis_get S w1 = (redis_get S w)(lock_key t l \<mapsto> jid)"
  shows "start_effect S env req jid t l w (run S (start_job env req jid t l) w1)"
proof -
  from run_start_job [OF assms(1,2), of env req] obtain job tid w' where
    "run S (start_job env req jid t l) w1 =
       (Inr (if hx_request req then render_status job
             else Response 202 (sync_response (isoformat env) job)), w')"
    "status job = QUEUED" "job_id job = jid" "job_tenant job = t" "job_loan_type job = l"
    "job_row S w' = (job_row S w1)(jid \<mapsto> job)"
    "redis_get S w' = (redis_get S w1)(celery_task_key jid \<mapsto> tid)"
    "\<exists>v. job_row S v = job_row S w' \<and> snd (celery_delay S v jid t l) = Some tid"
    by blast
  then show ?thesis
    unfolding start_effect_def using assms(3,4)
    by (intro exI [of _ job] exI [of _ tid]) simp
qed

lemma run_acquire_free:
  assumes "jid = ''job_'' @ snd (fresh_uuid S w)" and "job_row S w jid = None"
    and "\<And>v. snd (celery_delay S v jid t l) \<noteq> None"
    and "redis_get S w (lock_key t l) = None"
  shows "start_effect S env req jid t l w (run S (acquire_and_start env req t l) w)"
proof -
  let ?w1 = "fst (redis_setnx S (fst (fresh_uuid S w)) (lock_key t l) jid 14400)"
  have "run S (acquire_and_start env req t l) w = run S (start_job env req jid t l) ?w1"
    using assms(4)
    by (simp add: acquire_and_start_def run_bind run_new_job_id [OF assms(1)] run_acquire service_laws)
  moreover have "start_effect S env req jid t l w (run S (start_job env req jid t l) ?w1)"
    by (rule run_start_effect) (use assms in \<open>simp_all add: service_laws\<close>)
  ultimately show ?thesis by simp
qed

lemma run_acquire_orphan:
  assumes "jid = ''job_'' @ snd (fresh_uuid S w)" and "job_row S w jid = None"
    and "\<And>v. snd (celery_delay S v jid t l) \<noteq> None"
    and "redis_get S w (lock_key t l) = Some old" and "old \<noteq> ''''" and "job_row S w old = None"
    and "py_upper l = l"
  shows "start_effect S env req jid t l w (run S (acquire_and_start env req t l) w)"
proof -
  let ?w1 = "fst (redis_setnx S (fst (fresh_uuid S w)) (lock_key t l) jid 14400)"
  have w1: "redis_get S ?w1 = redis_get S w" "job_row S ?w1 = job_row S w"
    using assms(4) by (simp_all add: service_laws)
  then obtain w2 where w2: "run S (active_job t l) ?w1 = (Inr None, w2)" "job_row S w2 = job_row S w"
    "redis_get S w2 = (redis_get S w)(lock_key t l := None)"
    using run_active_job_orphan [of ?w1 t l old] assms(4-7) by auto
  let ?w3 = "fst (redis_setnx S w2 (lock_key t l) jid 14400)"
  have "run S (acquire_and_start env req t l) w = run S (start_job env req jid t l) ?w3"
    using assms(4) w2
    by (simp add: acquire_and_start_def run_bind run_new_job_id [OF assms(1)] run_acquire service_laws)
  moreover have "start_effect S env req jid t l w (run S (start_job env req jid t l) ?w3)"
    by (rule run_start_effect) (use assms w2 in \<open>simp_all add: service_laws\<close>)
  ultimately show ?thesis by simp
qed

lemma run_acquire_taken:
  assumes "redis_get S w (lock_key t l) = Some old" and "old \<noteq> ''''" and "job_row S w old = Some j"
    and "py_upper l = l"
  shows "\<exists>w'. run S (acquire_and_start env req t l) w =
       (Inr (conflict_response env req (Some j) (Some old)), w') \<and>
     redis_get S w' = redis_get S w \<and> job_row S w' = job_row S w"
proof -
  define jid where "jid = ''job_'' @ snd (fresh_uuid S w)"
  let ?w1 = "fst (redis_setnx S (fst (fresh_uuid S w)) (lock_key t l) jid 14400)"
  have w1: "redis_get S ?w1 = redis_get S w" "job_row S ?w1 = job_row S w"
    using assms(1) by (simp_all add: service_laws)
  have id: "job_id j = old" using assms(3) by (rule row_key)
  have "run S (active_job t l) ?w1 = (Inr (Some j), ?w1)"
    using w1 assms run_active_job_some [of ?w1 t l old j] by simp
  then have "run S (acquire_and_start env req t l) w =
       (Inr (conflict_response env req (Some j) (Some old)), ?w1)"
    using assms(1) id
    by (simp add: acquire_and_start_def run_bind run_new_job_id [OF jid_def] run_acquire service_laws
          sync_conflict_def)
  with w1 show ?thesis by blast
qed

text \<open>Requests on a job of another tenant, or on no job, are answered without a change.\<close>

lemma run_foreign_job:
  assumes "job_row S w jid = Some job" and "job_tenant job \<noteq> tenant_from_request req"
    and "forbidden_if_tenant_mismatch req = Inr None"
  shows "run S (with_own_job req jid k) w = (Inr (Response 403 (error_body ''Forbidden'')), w)"
  using assms by (simp add: with_own_job_def run_bind run_lift_exn)

lemma run_missing_job:
  assumes "job_row S w jid = None" and "forbidden_if_tenant_mismatch req = Inr None"
  shows "run S (with_own_job req jid k) w = (Inr (Response 404 (error_body ''Job not found'')), w)"
  using assms by (simp add: with_own_job_def run_bind run_lift_exn)

lemma run_own_job:
  assumes "job_row S w jid = Some job" and "job_tenant job = tenant_from_request req"
    and "forbidden_if_tenant_mismatch req = Inr None"
  shows "run S (with_own_job req jid k) w = run S (k job) w"
  using assms by (simp add: with_own_job_def run_bind run_lift_exn)

end

section \<open>Concrete requests\<close>

text \<open>The inputs the witnesses run the views on.\<close>

definition demo_view_env :: view_env where
  "demo_view_env = \<lparr>
     choice_field = (\<lambda>cs v. case v of JStr s \<Rightarrow> (if s \<in> set cs then Some s else None) | _ \<Rightarrow> None),
     char_field = (\<lambda>n v. case v of JStr s \<Rightarrow> length s \<le> n | _ \<Rightarrow> False),
     isoformat = str_int\<rparr>"

definition demo_request :: "string \<Rightarrow> request" where
  "demo_request tenant = \<lparr>
     req_user = Some \<lparr>username = ''operator_admin'', user_tenant = tenant\<rparr>,
     query_params = Map.empty,
     req_data = JObj [(''loan_type'', JStr ''RETAIL'')],
     hx_request = False\<rparr>"

lemmas demo_views = demo_view_env_def demo_request_def handler_defs

text \<open>The job id the next sync of a world gets, and a request that passes the checks of the views.\<close>

definition next_job_id :: "'w services \<Rightarrow> 'w \<Rightarrow> string" where
  "next_job_id S w = ''job_'' @ snd (fresh_uuid S w)"

definition slice_requested :: "view_env \<Rightarrow> request \<Rightarrow> string \<Rightarrow> string \<Rightarrow> bool" where
  "slice_requested env req t l \<longleftrightarrow>
     forbidden_if_tenant_mismatch req = Inr None \<and> tenant_from_request req = t \<and>
     (case sync_request_serializer env (req_data req) of Inl _ \<Rightarrow> False | Inr choice \<Rightarrow> py_upper choice = l)"

lemma slice_requested_upper: "slice_requested env req t l \<Longrightarrow> py_upper l = l"
  by (auto simp: slice_requested_def split: sum.splits)

lemma run_sync_data:
  "slice_requested env req t l \<Longrightarrow>
     run S (sync_data env req) w = run S (acquire_and_start env req t l) w"
  by (auto simp: slice_requested_def sync_data_def run_bind lift_exn_def split: sum.splits)

lemma demo_slice [simp]:
  "slice_requested demo_view_env (demo_request t) t ''RETAIL''"
  by (simp add: slice_requested_def demo_request_def demo_view_env_def forbidden_if_tenant_mismatch_def
      tenant_from_request_def data_get_def foreign_tenant_def query_json_def dict_get_def
      sync_request_serializer_def LOAN_TYPES_def py_upper_def upper_char_def less_eq_char_def)

lemma demo_tenant [simp]: "tenant_from_request (demo_request t) = t"
  "forbidden_if_tenant_mismatch (demo_request t) = Inr None" "hx_request (demo_request t) = False"
  by (simp_all add: demo_request_def tenant_from_request_def forbidden_if_tenant_mismatch_def
      data_get_def foreign_tenant_def query_json_def dict_get_def)

lemma demo_fresh [simp]:
  "next_job_id demo_services demo_empty = ''job_0''"
  "next_job_id demo_services (demo_busy st) = ''job_0''"
  "snd (celery_delay demo_services w jid t l) \<noteq> None"
  by (simp_all add: next_job_id_def demo_services_def demo_empty_def demo_busy_def str_nat.simps
      str_simps)

text \<open>The services with the broker down.\<close>

definition demo_offline :: "demo_world services" where
  "demo_offline = demo_services\<lparr>celery_delay := (\<lambda>w jid t l. (w, None))\<rparr>"

interpretation offline: services demo_offline
  by unfold_locales
    (auto simp: demo_offline_def demo_services_def fun_eq_iff split: option.splits if_splits)

lemma demo_offline_simps [simp]:
  "next_job_id demo_offline w = next_job_id demo_services w"
  "job_row demo_offline = job_row demo_services"
  "redis_get demo_offline = redis_get demo_services"
  "snd (celery_delay demo_offline w jid t l) = None"
  by (simp_all add: demo_offline_def next_job_id_def)

lemma sync_starts_at:
  assumes "services S" and "slice_requested env req t l"
    and "job_row S w (next_job_id S w) = None"
    and "\<And>v. snd (celery_delay S v (next_job_id S w) t l) \<noteq> None"
    and "redis_get S w (lock_key t l) \<noteq> Some ''''"
    and "pred_option (\<lambda>old. job_row S w old = None) (redis_get S w (lock_key t l))"
  shows "start_effect S env req (next_job_id S w) t l w (run S (sync_data env req) w)"
proof (cases "redis_get S w (lock_key t l)")
  case None
  show ?thesis
    unfolding run_sync_data [OF assms(2)]
    by (rule services.run_acquire_free [OF assms(1) next_job_id_def assms(3,4) None])
next
  case (Some old)
  with assms(5,6) have old: "old \<noteq> ''''" "job_row S w old = None" by auto
  show ?thesis
    unfolding run_sync_data [OF assms(2)]
    by (rule services.run_acquire_orphan [OF assms(1) next_job_id_def assms(3,4) Some old
          slice_requested_upper [OF assms(2)]])
qed

section \<open>Properties\<close>

text \<open>
  Property C15. A valid sync request for a slice that is free, or whose lock names a job without a row,
  starts exactly one job: it answers with the new QUEUED row, stores that row, the lock and the id that
  Celery gave the task queued for it once the row was stored, and changes nothing else.
\<close>

theorem sync_starts_job:
  assumes "services S" and "slice_requested env req t l"
    and "job_row S w (next_job_id S w) = None"
    and "\<And>v. snd (celery_delay S v (next_job_id S w) t l) \<noteq> None"
    and "redis_get S w (lock_key t l) \<noteq> Some ''''"
    and "pred_option (\<lambda>old. job_row S w old = None) (redis_get S w (lock_key t l))"
  shows "start_effect S env req (next_job_id S w) t l w (run S (sync_data env req) w)"
  by (rule sync_starts_at [OF assms])

lemma sync_starts_job_witness:
  "start_effect demo_services demo_view_env (demo_request ''BANK002'') ''job_0'' ''BANK002'' ''RETAIL''
     (demo_busy PROCESSING)
     (run demo_services (sync_data demo_view_env (demo_request ''BANK002'')) (demo_busy PROCESSING))"
  using sync_starts_job [OF demo.services_axioms, of demo_view_env "demo_request ''BANK002''"
      "''BANK002''" "''RETAIL''" "demo_busy PROCESSING"]
  by (simp add: demo_busy_redis lock_key_def celery_task_key_def)

text \<open>
  Property C16. A valid sync request for a slice whose lock names a stored job is refused with that job
  (409, or the status partial for an HTMX request), and leaves Redis and the table as they were.
\<close>

theorem sync_refused_while_active:
  assumes "services S" and "slice_requested env req t l"
    and "redis_get S w (lock_key t l) = Some old" and "old \<noteq> ''''" and "job_row S w old = Some j"
  shows "\<exists>w'. run S (sync_data env req) w = (Inr (conflict_response env req (Some j) (Some old)), w') \<and>
     redis_get S w' = redis_get S w \<and> job_row S w' = job_row S w"
  unfolding run_sync_data [OF assms(2)]
  by (rule services.run_acquire_taken [OF assms(1,3-5) slice_requested_upper [OF assms(2)]])

lemma sync_refused_while_active_witness:
  "\<exists>w'. run demo_services (sync_data demo_view_env (demo_request ''BANK001'')) (demo_busy QUEUED) =
       (Inr (conflict_response demo_view_env (demo_request ''BANK001'') (Some (demo_job QUEUED))
               (Some ''job_7'')), w') \<and>
     job_row demo_services w' = job_row demo_services (demo_busy QUEUED)"
  using sync_refused_while_active [OF demo.services_axioms demo_slice [of "''BANK001''"],
      where w = "demo_busy QUEUED"]
  by auto

text \<open>
  When the broker does not take the task, a sync request fails but leaves its QUEUED row and
  its lock behind, and every later sync of the slice is refused with that job until the lock expires.
\<close>

theorem broker_failure_blocks_slice:
  assumes "services S" and "slice_requested env req t l" and "slice_requested env' req' t l"
    and "job_row S w (next_job_id S w) = None"
    and "\<And>v. snd (celery_delay S v (next_job_id S w) t l) = None"
    and "redis_get S w (lock_key t l) = None"
  shows "\<exists>w' w'' job. run S (sync_data env req) w = (Inl (Exn OperationalError ''broker unreachable''), w') \<and>
     job_row S w' (next_job_id S w) = Some job \<and> status job = QUEUED \<and>
     redis_get S w' (lock_key t l) = Some (next_job_id S w) \<and>
     run S (sync_data env' req') w' =
       (Inr (conflict_response env' req' (Some job) (Some (next_job_id S w))), w'')"
proof -
  let ?j = "next_job_id S w"
  let ?w1 = "fst (redis_setnx S (fst (fresh_uuid S w)) (lock_key t l) ?j 14400)"
  let ?job = "stamp_insert (snd (clock_now S ?w1)) (new_job ?j t l QUEUED)"
  let ?w2 = "fst (job_insert S (fst (clock_now S ?w1)) ?job)"
  let ?w3 = "fst (celery_delay S ?w2 ?j t l)"
  note laws = services.service_laws [OF assms(1)]
  have id: "job_id ?job = ?j" by (simp add: stamp_insert_def new_job_def)
  have free: "job_row S ?w1 ?j = None" "redis_get S ?w1 = (redis_get S w)(lock_key t l \<mapsto> ?j)"
    using assms(4,6) by (simp_all add: laws)
  then have ins: "snd (job_insert S (fst (clock_now S ?w1)) ?job)"
    by (simp add: laws id)
  have after: "job_row S ?w3 ?j = Some ?job" "redis_get S ?w3 (lock_key t l) = Some ?j"
    using free by (simp_all add: laws id)
  have "run S (acquire_and_start env req t l) w = run S (start_job env req ?j t l) ?w1"
    using assms(6)
    by (simp add: acquire_and_start_def run_bind services.run_new_job_id [OF assms(1) next_job_id_def]
        redis_service.run_acquire [OF services.axioms(1) [OF assms(1)]] laws)
  moreover have "run S (start_job env req ?j t l) ?w1 =
      (Inl (Exn OperationalError ''broker unreachable''), ?w3)"
    using ins assms(5) by (simp add: start_job_def case_prod_beta)
  ultimately have fails: "run S (sync_data env req) w =
      (Inl (Exn OperationalError ''broker unreachable''), ?w3)"
    by (simp add: run_sync_data [OF assms(2)])
  have ne: "?j \<noteq> ''''" by (simp add: next_job_id_def)
  from services.run_acquire_taken [OF assms(1) after(2) ne after(1) slice_requested_upper [OF assms(2)]]
  obtain w'' where "run S (sync_data env' req') ?w3 =
      (Inr (conflict_response env' req' (Some ?job) (Some ?j)), w'')"
    unfolding run_sync_data [OF assms(3)] by blast
  with fails after show ?thesis
    by (intro exI [of _ ?w3] exI [of _ w''] exI [of _ ?job]) (simp add: stamp_insert_def new_job_def)
qed

lemma broker_failure_blocks_slice_witness:
  "\<exists>w' w'' job. run demo_offline (sync_data demo_view_env (demo_request ''BANK001'')) demo_empty =
       (Inl (Exn OperationalError ''broker unreachable''), w') \<and>
     run demo_offline (sync_data demo_view_env (demo_request ''BANK001'')) w' =
       (Inr (conflict_response demo_view_env (demo_request ''BANK001'') (Some job) (Some ''job_0'')), w'')"
  using broker_failure_blocks_slice [OF offline.services_axioms demo_slice [of "''BANK001''"] demo_slice,
      where w = demo_empty]
  by auto

text \<open>
  The status and cancel endpoints give a user no power over a job of another tenant and none
  over an unknown job: the answers are 403 and 404, and nothing is changed.
\<close>

theorem jobs_of_others_refused:
  assumes "services S" and "forbidden_if_tenant_mismatch req = Inr None"
    and "pred_option (\<lambda>job. job_tenant job \<noteq> tenant_from_request req) (job_row S w jid)"
  shows "let refusal = (if job_row S w jid = None then Response 404 (error_body ''Job not found'')
                        else Response 403 (error_body ''Forbidden''))
     in run S (sync_status env req jid) w = (Inr refusal, w) \<and>
        run S (cancel_sync env req jid) w = (Inr refusal, w)"
  unfolding sync_status_def cancel_sync_def Let_def
  using assms(3) services.run_foreign_job [OF assms(1) _ _ assms(2)]
    services.run_missing_job [OF assms(1) _ assms(2)]
  by (cases "job_row S w jid") auto

lemma jobs_of_others_refused_witness:
  "run demo_services (cancel_sync demo_view_env (demo_request ''BANK002'') ''job_7'') (demo_busy QUEUED) =
     (Inr (Response 403 (error_body ''Forbidden'')), demo_busy QUEUED)"
  using jobs_of_others_refused [OF demo.services_axioms, of "demo_request ''BANK002''" "demo_busy QUEUED"
      "''job_7''" demo_view_env]
  by (simp add: Let_def)

text \<open>
  A user cancels a job of the own tenant: a queued or running one is cancelled and the answer
  shows the cancelled row; for one that has ended the answer is 400 and nothing is changed.
\<close>

theorem own_job_cancelled:
  assumes "services S" and "forbidden_if_tenant_mismatch req = Inr None"
    and "job_row S w jid = Some job" and "job_tenant job = tenant_from_request req"
  shows "if status job \<in> {QUEUED, PROCESSING}
     then \<exists>job' w'. run S (cancel_sync env req jid) w = (Inr (job_answer env req job'), w') \<and>
       status job' = CANCELLED \<and> job_row S w' jid \<noteq> None \<and>
       status (the (job_row S w' jid)) = CANCELLED \<and>
       redis_get S w' (cancel_flag_key jid) = Some ''1'' \<and>
       (status job = QUEUED \<longrightarrow> redis_get S w' (lock_key (job_tenant job) (job_loan_type job)) \<noteq> Some jid)
     else run S (cancel_sync env req jid) w =
       (Inr (Response 400 (error_body ''Only queued or processing jobs can be cancelled'')), w)"
proof (cases "status job \<in> {QUEUED, PROCESSING}")
  case True
  have id: "job_id job = jid"
    using services.axioms(2) [OF assms(1)] assms(3) by (rule job_table.row_key)
  then have "job_row S w (job_id job) = Some job" using assms(3) by simp
  from services.run_cancel_sync_job [OF assms(1) this True] id obtain job' w' where
    "run S (cancel_sync_job job) w = (Inr job', w')" "status job' = CANCELLED"
    "redis_get S w' (cancel_flag_key jid) = Some ''1''"
    "status job = QUEUED \<longrightarrow> redis_get S w' (lock_key (job_tenant job) (job_loan_type job)) \<noteq> Some jid"
    "\<exists>row. job_row S w' jid = Some row \<and> status row = CANCELLED"
    by (auto simp: save_fields_status)
  with True show ?thesis
    by (intro if_P [THEN iffD2])
      (auto simp: cancel_sync_def services.run_own_job [OF assms(1,3,4,2)] run_and_then)
next
  case False
  with services.run_cancel_sync_job_rejected [OF assms(1) False, of w] show ?thesis
    by (simp add: cancel_sync_def services.run_own_job [OF assms(1,3,4,2)] run_and_then)
qed

lemma own_job_cancelled_witness:
  "\<exists>job' w'. run demo_services (cancel_sync demo_view_env (demo_request ''BANK001'') ''job_7'')
       (demo_busy QUEUED) = (Inr (job_answer demo_view_env (demo_request ''BANK001'') job'), w') \<and>
     status job' = CANCELLED \<and>
     redis_get demo_services w' (lock_key ''BANK001'' ''RETAIL'') \<noteq> Some ''job_7''"
  using own_job_cancelled [OF demo.services_axioms, of "demo_request ''BANK001''" "demo_busy QUEUED"
      "''job_7''" "demo_job QUEUED" demo_view_env]
  by auto

text \<open>
  Property C22. The permission class admits a request only for an authenticated user with a tenant, and then no
  parameter names another tenant: the handlers' own mismatch check never fires behind it (a body that
  is not a dict, which the permission lets pass when it is empty, makes that check raise).
\<close>

theorem permission_covers_handlers:
  assumes "has_permission req = Inr True"
  shows "tenant_from_request req \<noteq> '''' \<and>
     query_json req ''tenant_id'' \<in> {JNull, JStr '''', JStr (tenant_from_request req)} \<and>
     forbidden_if_tenant_mismatch req =
       (case data_get (req_data req) ''tenant_id'' of Inl e \<Rightarrow> Inl e | Inr _ \<Rightarrow> Inr None)"
proof -
  obtain user where user: "req_user req = Some user" "user_tenant user \<noteq> ''''"
    and param: "\<not> foreign_tenant (user_tenant user) (query_json req ''tenant_id'')"
    and body: "truthy (req_data req) \<Longrightarrow> \<exists>v. data_get (req_data req) ''tenant_id'' = Inr v \<and>
      \<not> foreign_tenant (user_tenant user) v"
    using assms by (auto simp: has_permission_def split: option.splits if_splits sum.splits)
  have "query_json req ''tenant_id'' \<in> {JNull, JStr '''', JStr (user_tenant user)}"
    using param by (cases "query_params req ''tenant_id''") (auto simp: foreign_tenant_def query_json_def)
  moreover have "\<not> foreign_tenant (user_tenant user) v"
    if "data_get (req_data req) ''tenant_id'' = Inr v" for v
  proof (cases "truthy (req_data req)")
    case True
    with body that show ?thesis by auto
  next
    case False
    with that have "v = JNull"
      by (cases "req_data req") (auto simp: data_get_def dict_get_def)
    then show ?thesis by (simp add: foreign_tenant_def)
  qed
  ultimately show ?thesis
    using user param
    by (auto simp: forbidden_if_tenant_mismatch_def tenant_from_request_def split: sum.split)
qed

lemma permission_covers_handlers_witness:
  "has_permission (demo_request ''BANK001'') = Inr True \<and>
   tenant_from_request (demo_request ''BANK001'') \<noteq> ''''"
proof -
  have "has_permission (demo_request ''BANK001'') = Inr True"
    by (simp add: has_permission_def demo_request_def data_get_def dict_get_def foreign_tenant_def
        query_json_def)
  with permission_covers_handlers [OF this] show ?thesis by simp
qed

end
