(* ===== verification/Warehouse.thy ===== *)
theory Warehouse
  imports EtlViews "HOL-Library.List_Lexorder"
begin

text \<open>
  The warehouse tables (\<open>CreditRecord\<close> and \<open>PaymentInstallment\<close> of \<open>api/apps/etl/models.py\<close>) and the
  paginated snapshot of \<open>api/apps/etl/services/warehouse.py\<close> with its endpoint in
  \<open>api/apps/etl/views.py\<close>.

  A \<open>numeric(18,4)\<close> column is an integer number of ten-thousandths; a timestamp is an integer of
  microseconds.  The collation the database sorts \<open>loan_account_number\<close> by is the parameter
  \<open>collation\<close>: the sort key of a string.
\<close>

section \<open>Columns\<close>

record date =
  year :: nat
  month :: nat
  day :: nat

record credit_record =
  credit_pk :: int
  credit_tenant :: string
  credit_loan_type :: string
  loan_account_number :: string
  customer_id :: string
  customer_type :: string
  loan_status_code :: string
  days_past_due :: "int option"
  final_maturity_date :: "date option"
  total_installment_count :: "int option"
  outstanding_installment_count :: "int option"
  paid_installment_count :: "int option"
  first_payment_date :: "date option"
  original_loan_amount :: "int option"
  outstanding_principal_balance :: "int option"
  nominal_interest_rate :: "int option"
  total_interest_amount :: "int option"
  kkdf_rate :: "int option"
  kkdf_amount :: "int option"
  bsmv_rate :: "int option"
  bsmv_amount :: "int option"
  grace_period_months :: "int option"
  installment_frequency :: "int option"
  loan_start_date :: "date option"
  loan_closing_date :: "date option"
  internal_rating :: "int option"
  external_rating :: "int option"
  retail_specific_attributes :: pydict
  commercial_specific_attributes :: pydict
  snapshot_at :: int

record payment_installment =
  payment_credit :: int
  installment_number :: int
  actual_payment_date :: "date option"
  scheduled_payment_date :: "date option"
  installment_amount :: "int option"
  principal_component :: "int option"
  interest_component :: "int option"
  kkdf_component :: "int option"
  bsmv_component :: "int option"
  installment_status :: string
  remaining_principal :: "int option"
  remaining_interest :: "int option"
  remaining_kkdf :: "int option"
  remaining_bsmv :: "int option"

section \<open>Rendering\<close>

definition pad_nat :: "nat \<Rightarrow> nat \<Rightarrow> string" where
  "pad_nat k n = replicate (k - length (str_nat n)) (CHR ''0'') @ str_nat n"

definition serialize_date :: "date option \<Rightarrow> json" where
  "serialize_date v = json_opt (\<lambda>d. JStr
     (pad_nat 4 (year d) @ ''-'' @ pad_nat 2 (month d) @ ''-'' @ pad_nat 2 (day d))) v"

text \<open>\<open>format(value, "f")\<close> of a \<open>Decimal\<close> with four decimals.\<close>

definition decimal_str :: "int \<Rightarrow> string" where
  "decimal_str v = (if v < 0 then ''-'' else '''') @
     str_nat (nat (\<bar>v\<bar> div 10000)) @ ''.'' @ pad_nat 4 (nat (\<bar>v\<bar> mod 10000))"

definition serialize_decimal :: "int option \<Rightarrow> json" where
  "serialize_decimal v = json_opt (\<lambda>d. JStr (decimal_str d)) v"

definition build_credit_row_payload :: "credit_record \<Rightarrow> pydict" where
  "build_credit_row_payload c =
     [(''loan_account_number'', JStr (loan_account_number c)),
      (''customer_id'', JStr (customer_id c)),
      (''customer_type'', JStr (customer_type c)),
      (''loan_status_code'', JStr (loan_status_code c)),
      (''days_past_due'', json_opt JInt (days_past_due c)),
      (''final_maturity_date'', serialize_date (final_maturity_date c)),
      (''total_installment_count'', json_opt JInt (total_installment_count c)),
      (''outstanding_installment_count'', json_opt JInt (outstanding_installment_count c)),
      (''paid_installment_count'', json_opt JInt (paid_installment_count c)),
      (''first_payment_date'', serialize_date (first_payment_date c)),
      (''original_loan_amount'', serialize_decimal (original_loan_amount c)),
      (''outstanding_principal_balance'', serialize_decimal (outstanding_principal_balance c)),
      (''nominal_interest_rate'', serialize_decimal (nominal_interest_rate c)),
      (''loan_start_date'', serialize_date (loan_start_date c)),
      (''loan_closing_date'', serialize_date (loan_closing_date c)),
      (''internal_rating'', json_opt JInt (internal_rating c)),
      (''external_rating'', json_opt JInt (external_rating c))]"

section \<open>The snapshot\<close>

definition DEFAULT_PAGE_SIZE :: int where
  "DEFAULT_PAGE_SIZE = 50"

definition MAX_PAGE_SIZE :: int where
  "MAX_PAGE_SIZE = 200"

record snapshot =
  snap_tenant :: string
  snap_loan_type :: string
  extraction_date :: "string option"
  snap_credits :: "pydict list"
  snap_page :: int
  snap_page_size :: int
  total_count :: int
  total_pages :: int
  has_previous :: bool
  has_next :: bool

text \<open>\<open>CreditRecord.objects.filter(tenant_id=..., loan_type=...)\<close>\<close>

definition slice_rows :: "credit_record list \<Rightarrow> string \<Rightarrow> string \<Rightarrow> credit_record list" where
  "slice_rows db tenant_id loan_type =
     filter (\<lambda>c. credit_tenant c = tenant_id \<and> credit_loan_type c = loan_type) db"

definition page_count :: "int \<Rightarrow> int \<Rightarrow> int" where
  "page_count n page_size = (if n \<noteq> 0 then (n + page_size - 1) div page_size else 0)"

definition clamp_page_size :: "int \<Rightarrow> int" where
  "clamp_page_size page_size = min (max page_size 1) MAX_PAGE_SIZE"

definition clamp_page :: "int \<Rightarrow> int \<Rightarrow> int" where
  "clamp_page pages page =
     (let page = max page 1 in if pages \<noteq> 0 \<and> page > pages then pages else page)"

definition get_data_snapshot ::
    "(string \<Rightarrow> 'k::linorder) \<Rightarrow> (int \<Rightarrow> string) \<Rightarrow> credit_record list \<Rightarrow>
     string \<Rightarrow> string \<Rightarrow> int \<Rightarrow> int \<Rightarrow> snapshot" where
  "get_data_snapshot collation isofmt db tenant_id loan_type page page_size =
     (let page_size = clamp_page_size page_size;
          base_qs = slice_rows db tenant_id loan_type;
          total_count = int (length base_qs);
          total_pages = page_count total_count page_size;
          page = clamp_page total_pages page;
          latest = (if base_qs = [] then None else Some (Max (set (map snapshot_at base_qs))));
          offset = (page - 1) * page_size;
          credits = take (nat page_size) (drop (nat offset)
                      (sort_key (\<lambda>c. collation (loan_account_number c)) base_qs))
      in \<lparr>snap_tenant = tenant_id, snap_loan_type = loan_type,
          extraction_date = map_option isofmt latest,
          snap_credits = map build_credit_row_payload credits,
          snap_page = page, snap_page_size = page_size, total_count = total_count,
          total_pages = total_pages, has_previous = (page > 1),
          has_next = (total_pages > 0 \<and> page < total_pages)\<rparr>)"

definition snapshot_json :: "snapshot \<Rightarrow> json" where
  "snapshot_json s = JObj
     [(''tenant_id'', JStr (snap_tenant s)), (''loan_type'', JStr (snap_loan_type s)),
      (''extraction_date'', json_opt JStr (extraction_date s)),
      (''credits'', JList (map JObj (snap_credits s))),
      (''pagination'', JObj
        [(''page'', JInt (snap_page s)), (''page_size'', JInt (snap_page_size s)),
         (''total_count'', JInt (total_count s)), (''total_pages'', JInt (total_pages s)),
         (''has_previous'', JBool (has_previous s)), (''has_next'', JBool (has_next s))])]"

section \<open>The endpoint\<close>

text \<open>
  \<open>int(text)\<close>: surrounding white space, a sign, ASCII digits with single underscores between them, at
  most 4300 of them; anything else is a \<open>ValueError\<close> (\<open>None\<close>).  Digits outside ASCII, which Python
  also reads, are not modelled.
\<close>

definition digit_value :: "char \<Rightarrow> nat" where
  "digit_value c = of_char c - 48"

definition is_digit :: "char \<Rightarrow> bool" where
  "is_digit c \<longleftrightarrow> CHR ''0'' \<le> c \<and> c \<le> CHR ''9''"

fun digits_value :: "nat \<Rightarrow> bool \<Rightarrow> string \<Rightarrow> nat option" where
  "digits_value acc after_digit [] = (if after_digit then Some acc else None)"
| "digits_value acc after_digit (c # s) =
     (if is_digit c then digits_value (acc * 10 + digit_value c) True s
      else if c = CHR ''_'' \<and> after_digit then digits_value acc False s
      else None)"

definition unsigned_value :: "string \<Rightarrow> nat option" where
  "unsigned_value s = (if length (filter is_digit s) > 4300 then None else digits_value 0 False s)"

definition py_int :: "string \<Rightarrow> int option" where
  "py_int text =
     (case py_strip text of
        [] \<Rightarrow> None
      | c # s \<Rightarrow>
          if c = CHR ''-'' then map_option (\<lambda>n. - int n) (unsigned_value s)
          else if c = CHR ''+'' then map_option int (unsigned_value s)
          else map_option int (unsigned_value (c # s)))"

definition int_param :: "request \<Rightarrow> string \<Rightarrow> int \<Rightarrow> int" where
  "int_param req name dflt =
     (case query_params req name of
        None \<Rightarrow> dflt
      | Some v \<Rightarrow> (case py_int v of None \<Rightarrow> dflt | Some n \<Rightarrow> n))"

definition pagination_params :: "request \<Rightarrow> int \<times> int" where
  "pagination_params req = (max (int_param req ''page'' 1) 1, int_param req ''page_size'' 50)"

text \<open>The checks both data endpoints begin with.\<close>

definition with_requested_slice :: "request \<Rightarrow> (string \<Rightarrow> string \<Rightarrow> response) \<Rightarrow> exn + response" where
  "with_requested_slice req answer =
     (case forbidden_if_tenant_mismatch req of
        Inl e \<Rightarrow> Inl e
      | Inr (Some r) \<Rightarrow> Inr r
      | Inr None \<Rightarrow>
     (case loan_type_from_request req of
        Inl e \<Rightarrow> Inl e
      | Inr loan_type \<Rightarrow>
          if \<not> truthy loan_type
          then Inr (Response 400 (error_body ''loan_type query parameter is required''))
          else (case json_upper loan_type of
            Inl e \<Rightarrow> Inl e
          | Inr loan \<Rightarrow> Inr (answer (tenant_from_request req) loan))))"

definition data_snapshot ::
    "(string \<Rightarrow> 'k::linorder) \<Rightarrow> (int \<Rightarrow> string) \<Rightarrow> credit_record list \<Rightarrow> request \<Rightarrow> exn + response" where
  "data_snapshot collation isofmt db req =
     with_requested_slice req (\<lambda>tenant_id loan_type.
       case pagination_params req of (page, page_size) \<Rightarrow>
         Response 200 (snapshot_json (get_data_snapshot collation isofmt db tenant_id loan_type page page_size)))"

lemma with_requested_slice_cong:
  assumes "\<And>l. answer (tenant_from_request req) l = answer' (tenant_from_request req) l"
  shows "with_requested_slice req answer = with_requested_slice req answer'"
  by (simp only: with_requested_slice_def assms)

lemma slice_rows_cong:
  assumes "filter (\<lambda>c. credit_tenant c = t) db = filter (\<lambda>c. credit_tenant c = t) db'"
  shows "slice_rows db t l = slice_rows db' t l"
proof -
  have "slice_rows d t l = filter (\<lambda>c. credit_loan_type c = l) (filter (\<lambda>c. credit_tenant c = t) d)" for d
    by (simp add: slice_rows_def)
  then show ?thesis by (simp only: assms)
qed

section \<open>Pages\<close>

lemma clamp_page_size_range: "1 \<le> clamp_page_size n" "clamp_page_size n \<le> 200"
  by (auto simp: clamp_page_size_def MAX_PAGE_SIZE_def)

lemma page_count_bounds:
  assumes "0 < n" and "0 < k"
  shows "1 \<le> page_count n k" and "n \<le> page_count n k * k" and "(page_count n k - 1) * k < n"
proof -
  have q: "page_count n k = (n - 1) div k + 1"
  proof -
    have "(n + k - 1) div k = ((n - 1) + 1 * k) div k" by (simp add: algebra_simps)
    also have "\<dots> = (n - 1) div k + 1" using assms by (subst div_mult_self1) simp_all
    finally show ?thesis using assms by (simp add: page_count_def)
  qed
  have "0 \<le> (n - 1) div k" using assms by (simp add: pos_imp_zdiv_nonneg_iff)
  with q show "1 \<le> page_count n k" by simp
  have m: "(n - 1) div k * k + (n - 1) mod k = n - 1" "(n - 1) mod k < k" "0 \<le> (n - 1) mod k"
    using assms by simp_all
  have "page_count n k * k = (n - 1) div k * k + k" "(page_count n k - 1) * k = (n - 1) div k * k"
    unfolding q by (simp_all only: distrib_right mult_1 add_diff_cancel_right')
  with m show "n \<le> page_count n k * k" "(page_count n k - 1) * k < n"
    by linarith+
qed

lemma page_count_zero [simp]: "page_count 0 k = 0"
  by (simp add: page_count_def)

lemma clamp_page_range:
  assumes "1 \<le> pages"
  shows "1 \<le> clamp_page pages page" and "clamp_page pages page \<le> pages"
    and "1 \<le> page \<and> page \<le> pages \<Longrightarrow> clamp_page pages page = page"
  using assms by (auto simp: clamp_page_def Let_def)

lemma upto_upt: "[1..int m] = map (\<lambda>i. int i + 1) [0..<m]"
  by (induction m) (simp_all add: upto_rec2)

lemma concat_slices: "concat (map (\<lambda>i. take k (drop (i * k) xs)) [0..<m]) = take (m * k) xs"
proof (induction m)
  case (Suc m)
  have "take (m * k) xs @ take k (drop (m * k) xs) = take (m * k + k) xs"
    by (simp add: take_add)
  with Suc show ?case by (simp add: add.commute)
qed simp

text \<open>The rows of a slice in the order of the snapshot.\<close>

definition sorted_slice ::
    "(string \<Rightarrow> 'k::linorder) \<Rightarrow> credit_record list \<Rightarrow> string \<Rightarrow> string \<Rightarrow> credit_record list" where
  "sorted_slice collation db t l = sort_key (\<lambda>c. collation (loan_account_number c)) (slice_rows db t l)"

definition slice_pages :: "credit_record list \<Rightarrow> string \<Rightarrow> string \<Rightarrow> int \<Rightarrow> int" where
  "slice_pages db t l page_size =
     page_count (int (length (slice_rows db t l))) (clamp_page_size page_size)"

lemma snapshot_rows:
  "snap_credits (get_data_snapshot coll isofmt db t l page sz) =
     map build_credit_row_payload
       (take (nat (clamp_page_size sz))
         (drop (nat ((clamp_page (slice_pages db t l sz) page - 1) * clamp_page_size sz))
           (sorted_slice coll db t l)))"
  by (simp add: get_data_snapshot_def Let_def sorted_slice_def slice_pages_def)

lemma snapshot_page_nat:
  assumes "i < nat (slice_pages db t l sz)"
  shows "snap_credits (get_data_snapshot coll isofmt db t l (int i + 1) sz) =
     map build_credit_row_payload
       (take (nat (clamp_page_size sz)) (drop (i * nat (clamp_page_size sz)) (sorted_slice coll db t l)))"
proof -
  have "clamp_page (slice_pages db t l sz) (int i + 1) = int i + 1"
    using assms by (intro clamp_page_range(3)) auto
  then show ?thesis
    using clamp_page_size_range [of sz] by (simp add: snapshot_rows nat_mult_distrib)
qed

lemma pages_concat:
  "concat (map (\<lambda>p. snap_credits (get_data_snapshot coll isofmt db t l p sz)) [1..slice_pages db t l sz]) =
     map build_credit_row_payload (sorted_slice coll db t l)"
proof (cases "slice_rows db t l = []")
  case True
  then show ?thesis by (simp add: slice_pages_def sorted_slice_def)
next
  case False
  let ?k = "nat (clamp_page_size sz)" and ?xs = "sorted_slice coll db t l"
  let ?m = "nat (slice_pages db t l sz)"
  have b: "1 \<le> slice_pages db t l sz"
    "int (length (slice_rows db t l)) \<le> slice_pages db t l sz * clamp_page_size sz"
    using False clamp_page_size_range [of sz]
      page_count_bounds [of "int (length (slice_rows db t l))" "clamp_page_size sz"]
    by (simp_all add: slice_pages_def)
  have "int (length ?xs) \<le> int (?m * ?k)"
    using b clamp_page_size_range [of sz] by (simp add: sorted_slice_def)
  then have all: "take (?m * ?k) ?xs = ?xs"
    by (intro take_all) (simp only: of_nat_le_iff)
  have m: "[1..slice_pages db t l sz] = map (\<lambda>i. int i + 1) [0..<?m]"
    using b(1) upto_upt [of ?m] by simp
  have "map (\<lambda>p. snap_credits (get_data_snapshot coll isofmt db t l p sz)) [1..slice_pages db t l sz] =
      map (\<lambda>i. map build_credit_row_payload (take ?k (drop (i * ?k) ?xs))) [0..<?m]"
    unfolding m by (simp add: snapshot_page_nat del: upt_Suc)
  then show ?thesis
    using all concat_slices [of ?k ?xs ?m]
      map_concat [of build_credit_row_payload "map (\<lambda>i. take ?k (drop (i * ?k) ?xs)) [0..<?m]"]
    by (simp add: comp_def)
qed

lemma clamp_page_zero: "clamp_page 0 page = max page 1"
  by (simp add: clamp_page_def Let_def)

lemma page_nonempty:
  assumes "slice_rows db t l \<noteq> []"
  shows "let s = get_data_snapshot coll isofmt db t l page sz in
     1 \<le> snap_page s \<and> snap_page s \<le> total_pages s \<and> snap_credits s \<noteq> [] \<and>
     (has_next s \<longleftrightarrow> snap_page s * snap_page_size s < total_count s)"
proof -
  let ?n = "int (length (slice_rows db t l))" and ?k = "clamp_page_size sz"
  let ?P = "slice_pages db t l sz"
  let ?p = "clamp_page ?P page"
  have k: "1 \<le> ?k" by (rule clamp_page_size_range)
  have P: "1 \<le> ?P" "?n \<le> ?P * ?k" "(?P - 1) * ?k < ?n"
    using assms k page_count_bounds [of ?n ?k] by (simp_all add: slice_pages_def)
  have p: "1 \<le> ?p" "?p \<le> ?P" using clamp_page_range [OF P(1)] by simp_all
  have "(?p - 1) * ?k \<le> (?P - 1) * ?k" using p(2) k by (intro mult_right_mono) simp_all
  then have off: "(?p - 1) * ?k < ?n" using P(3) by linarith
  then have "nat ((?p - 1) * ?k) < length (slice_rows db t l)" using p(1) k by (simp add: nat_less_iff)
  then have rows: "snap_credits (get_data_snapshot coll isofmt db t l page sz) \<noteq> []"
    using k by (simp add: snapshot_rows sorted_slice_def)
  have "?p < ?P \<longleftrightarrow> ?p * ?k < ?n"
  proof
    assume "?p < ?P"
    then have "?p * ?k \<le> (?P - 1) * ?k" using k by (intro mult_right_mono) simp_all
    then show "?p * ?k < ?n" using P(3) by linarith
  next
    assume "?p * ?k < ?n"
    then have "?p * ?k < ?P * ?k" using P(2) by linarith
    then show "?p < ?P" using k by simp
  qed
  then show ?thesis
    using p P(1) rows by (simp add: get_data_snapshot_def Let_def slice_pages_def)
qed

section \<open>Integers in query parameters\<close>

lemma no_space_prefix:
  assumes "is_digit c \<or> c = CHR ''-''"
  shows "List.find (\<lambda>w. prefix w (c # s)) py_spaces = None"
    and "List.find (\<lambda>w. prefix w (c # s)) (map rev py_spaces) = None"
proof -
  have all: "list_all (\<lambda>w. w \<noteq> [] \<and> \<not> is_digit (hd w) \<and> hd w \<noteq> CHR ''-'') (py_spaces @ map rev py_spaces)"
    by code_simp
  have "\<not> prefix w (c # s)" if "w \<in> set (py_spaces @ map rev py_spaces)" for w
  proof -
    from all that have "w \<noteq> []" "\<not> is_digit (hd w)" "hd w \<noteq> CHR ''-''"
      unfolding list_all_iff by blast+
    with assms show ?thesis by (cases w) auto
  qed
  then show "List.find (\<lambda>w. prefix w (c # s)) py_spaces = None"
    "List.find (\<lambda>w. prefix w (c # s)) (map rev py_spaces) = None"
    by (auto simp: find_None_iff)
qed

lemma drop_words_none: "List.find (\<lambda>w. prefix w s) ws = None \<Longrightarrow> drop_words n ws s = s"
  by (cases n) simp_all

lemma py_strip_printable:
  assumes "s \<noteq> []" and "is_digit (hd s) \<or> hd s = CHR ''-''" and "is_digit (last s)"
  shows "py_strip s = s"
proof -
  have "py_lstrip s = s"
    using assms no_space_prefix(1) [of "hd s" "tl s"] by (simp add: py_lstrip_def drop_words_none)
  have rs: "rev s = last s # rev (butlast s)"
    using assms(1) by (cases s rule: rev_cases) simp_all
  have "drop_words (length s) (map rev py_spaces) (rev s) = rev s"
    unfolding rs using assms(3) by (intro drop_words_none no_space_prefix(2)) simp
  with \<open>py_lstrip s = s\<close> show ?thesis
    by (simp add: py_strip_def py_rstrip_def)
qed

lemma digit_char_value: "n < 10 \<Longrightarrow> is_digit (digit_char n) \<and> digit_value (digit_char n) = n"
  by (simp add: is_digit_def digit_value_def digit_char_def less_eq_char_def)

lemma digits_value_append:
  "digits_value acc d s = Some n \<Longrightarrow> k < 10 \<Longrightarrow> digits_value acc d (s @ [digit_char k]) = Some (n * 10 + k)"
proof (induction acc d s rule: digits_value.induct)
  case (1 acc d)
  then show ?case by (auto simp: digit_char_value split: if_splits)
qed (auto simp: digit_char_value split: if_splits)

lemma str_nat_digits:
  "str_nat n \<noteq> [] \<and> list_all is_digit (str_nat n) \<and> digits_value 0 False (str_nat n) = Some n"
proof (induction n rule: str_nat.induct)
  case (1 n)
  show ?case
  proof (cases "n < 10")
    case True
    then show ?thesis by (simp add: str_nat.simps [of n] digit_char_value)
  next
    case False
    with 1 have IH: "list_all is_digit (str_nat (n div 10))"
      "digits_value 0 False (str_nat (n div 10)) = Some (n div 10)" by auto
    from digits_value_append [OF IH(2), of "n mod 10"] IH(1) False show ?thesis
      by (simp add: str_nat.simps [of n] digit_char_value)
  qed
qed

lemma py_int_str_int:
  assumes "length (str_nat (nat \<bar>i\<bar>)) \<le> 4300"
  shows "py_int (str_int i) = Some i"
proof -
  let ?d = "str_nat (nat \<bar>i\<bar>)"
  have d: "?d \<noteq> []" "list_all is_digit ?d" "digits_value 0 False ?d = Some (nat \<bar>i\<bar>)"
    using str_nat_digits by auto
  then have ends: "is_digit (hd ?d)" "is_digit (last ?d)" by (simp_all add: list_all_iff)
  have "length (filter is_digit ?d) \<le> 4300"
    using assms length_filter_le [of is_digit ?d] by linarith
  then have u: "unsigned_value ?d = Some (nat \<bar>i\<bar>)" using d(3) by (simp add: unsigned_value_def)
  show ?thesis
  proof (cases "i < 0")
    case True
    then have s: "str_int i = CHR ''-'' # ?d" by (simp add: str_int_def)
    have "py_strip (CHR ''-'' # ?d) = CHR ''-'' # ?d"
      by (rule py_strip_printable) (use d ends in simp_all)
    with s u True show ?thesis by (simp add: py_int_def)
  next
    case False
    then have s: "str_int i = ?d" by (simp add: str_int_def)
    have "py_strip ?d = ?d" by (rule py_strip_printable) (use d ends in simp_all)
    moreover obtain c cs where c: "?d = c # cs" using d(1) by (cases ?d) simp
    moreover have "c \<noteq> CHR ''-''" "c \<noteq> CHR ''+''"
      using ends(1) c by (auto simp: is_digit_def less_eq_char_def)
    ultimately show ?thesis using s u False by (simp add: py_int_def)
  qed
qed

section \<open>Properties\<close>

definition demo_credit :: "int \<Rightarrow> string \<Rightarrow> string \<Rightarrow> credit_record" where
  "demo_credit pk tenant account =
     \<lparr>credit_pk = pk, credit_tenant = tenant, credit_loan_type = ''RETAIL'',
      loan_account_number = account, customer_id = ''C1'', customer_type = ''I'', loan_status_code = ''A'',
      days_past_due = Some 3, final_maturity_date = None, total_installment_count = Some 12,
      outstanding_installment_count = None, paid_installment_count = None, first_payment_date = None,
      original_loan_amount = Some 12345678, outstanding_principal_balance = None,
      nominal_interest_rate = None, total_interest_amount = None, kkdf_rate = None, kkdf_amount = None,
      bsmv_rate = None, bsmv_amount = None, grace_period_months = None, installment_frequency = None,
      loan_start_date = None, loan_closing_date = None, internal_rating = None, external_rating = None,
      retail_specific_attributes = [], commercial_specific_attributes = [], snapshot_at = 0\<rparr>"

text \<open>
  Property C30. The pages of a slice, in order, are exactly its rows sorted by account number: no row is
  lost, repeated or out of place, for any requested page size.
\<close>

theorem snapshot_pages_partition:
  "concat (map (\<lambda>p. snap_credits (get_data_snapshot collation isofmt db t l p page_size))
     [1..slice_pages db t l page_size]) =
   map build_credit_row_payload (sorted_slice collation db t l)"
  by (rule pages_concat)

text \<open>
  Every snapshot is a valid page: the page size is between 1 and 200 and bounds the rows;
  when the slice has rows the page number is clamped to an existing page, that page has rows, and
  \<open>has_next\<close> says exactly whether rows follow; an empty slice has no page and no row.
\<close>

theorem snapshot_page_valid:
  "let s = get_data_snapshot collation isofmt db t l page page_size in
     1 \<le> snap_page_size s \<and> snap_page_size s \<le> 200 \<and>
     int (length (snap_credits s)) \<le> snap_page_size s \<and>
     total_count s = int (length (slice_rows db t l)) \<and> (has_previous s \<longleftrightarrow> 1 < snap_page s) \<and>
     (if slice_rows db t l = []
      then total_pages s = 0 \<and> snap_credits s = [] \<and> \<not> has_next s \<and> snap_page s = max page 1
      else 1 \<le> snap_page s \<and> snap_page s \<le> total_pages s \<and> snap_credits s \<noteq> [] \<and>
        (has_next s \<longleftrightarrow> snap_page s * snap_page_size s < total_count s))"
proof -
  let ?s = "get_data_snapshot collation isofmt db t l page page_size"
  have size: "snap_page_size ?s = clamp_page_size page_size"
    "total_count ?s = int (length (slice_rows db t l))" "has_previous ?s \<longleftrightarrow> 1 < snap_page ?s"
    by (simp_all add: get_data_snapshot_def Let_def)
  have len: "int (length (snap_credits ?s)) \<le> snap_page_size ?s"
    using clamp_page_size_range [of page_size] by (simp add: snapshot_rows size)
  show ?thesis
  proof (cases "slice_rows db t l = []")
    case True
    then have "total_pages ?s = 0 \<and> snap_credits ?s = [] \<and> \<not> has_next ?s \<and> snap_page ?s = max page 1"
      by (simp add: get_data_snapshot_def Let_def clamp_page_zero)
    with True len size clamp_page_size_range [of page_size] show ?thesis
      unfolding Let_def by simp
  next
    case False
    with len size clamp_page_size_range [of page_size]
      page_nonempty [OF False, of collation isofmt page page_size]
    show ?thesis unfolding Let_def by simp
  qed
qed

text \<open>
  Property C31. A user sees only the rows of the own tenant: the answer of the snapshot endpoint is the same
  for any two warehouses that agree on the tenant's rows.
\<close>

theorem snapshot_tenant_isolation:
  assumes "filter (\<lambda>c. credit_tenant c = tenant_from_request req) db =
           filter (\<lambda>c. credit_tenant c = tenant_from_request req) db'"
  shows "data_snapshot collation isofmt db req = data_snapshot collation isofmt db' req"
  unfolding data_snapshot_def
  by (rule with_requested_slice_cong) (simp only: get_data_snapshot_def slice_rows_cong [OF assms])

lemma snapshot_tenant_isolation_witness:
  "data_snapshot (map of_char :: string \<Rightarrow> nat list) str_int
       [demo_credit 1 ''BANK001'' ''A1'', demo_credit 2 ''BANK002'' ''A2''] (demo_request ''BANK001'') =
     data_snapshot (map of_char :: string \<Rightarrow> nat list) str_int [demo_credit 1 ''BANK001'' ''A1''] (demo_request ''BANK001'')"
  by (rule snapshot_tenant_isolation) (simp add: demo_credit_def)

text \<open>
  An integer query parameter is read back exactly: the decimal rendering of any integer of at
  most 4300 digits parses to it.
\<close>

theorem page_parameter_roundtrip:
  assumes "query_params req name = Some (str_int i)" and "length (str_nat (nat \<bar>i\<bar>)) \<le> 4300"
  shows "int_param req name dflt = i"
  using assms by (simp add: int_param_def py_int_str_int)

lemma page_parameter_roundtrip_witness:
  "int_param ((demo_request ''BANK001'')\<lparr>query_params := [''page'' \<mapsto> str_int (-12)]\<rparr>) ''page'' 1 = -12"
  by (rule page_parameter_roundtrip) (simp_all add: str_nat.simps)

end
