(* ===== verification/Floats.thy ===== *)
theory Floats
  imports Complex_Main
begin

text \<open>
  Python's \<open>float\<close> as the exact rational it denotes: \<open>f64\<close> rounds a rational to the nearest binary64
  number, ties to even (in the range of the normal numbers), and \<open>py_round\<close> is the built-in \<open>round\<close> with
  a number of digits, which rounds the exact value to a decimal, ties to even, and converts back.
\<close>

section \<open>Rounding\<close>

definition round_half_even :: "rat \<Rightarrow> int" where
  "round_half_even q =
     (let f = \<lfloor>q\<rfloor>; d = q - of_int f in
      if d < 1 / 2 then f else if d > 1 / 2 then f + 1 else if even f then f else f + 1)"

definition pow2 :: "int \<Rightarrow> rat" where
  "pow2 e = (if 0 \<le> e then 2 ^ nat e else 1 / 2 ^ nat (- e))"

text \<open>The length of the binary representation.\<close>

fun bits :: "nat \<Rightarrow> nat" where
  "bits n = (if n = 0 then 0 else Suc (bits (n div 2)))"

declare bits.simps [simp del]

lemma bits_0 [simp]: "bits 0 = 0"
  by (simp add: bits.simps)

lemma bits_double: "0 < n \<Longrightarrow> bits (2 * n) = Suc (bits n)"
  by (simp add: bits.simps [of "2 * n"])

lemma bits_scale: "0 < n \<Longrightarrow> bits (2 ^ k * n) = k + bits n"
  by (induction k) (simp_all add: bits_double mult.assoc)

lemma bits_mono: "m \<le> n \<Longrightarrow> bits m \<le> bits n"
proof (induction n arbitrary: m rule: bits.induct)
  case (1 n)
  show ?case
  proof (cases "m = 0")
    case False
    with 1 have "bits (m div 2) \<le> bits (n div 2)" by (simp add: div_le_mono)
    with False 1(2) show ?thesis by (simp add: bits.simps [of m] bits.simps [of n])
  qed simp
qed

text \<open>The scale at which the significand of \<open>n / d\<close> has 53 bits.\<close>

definition scale_exponent :: "nat \<Rightarrow> nat \<Rightarrow> int" where
  "scale_exponent n d =
     (let e = 52 - (int (bits n) - int (bits d)) in
      if of_nat n / of_nat d * pow2 e < 2 ^ 52 then e + 1 else e)"

definition f64 :: "rat \<Rightarrow> rat" where
  "f64 q =
     (if q = 0 then 0
      else
        let (n, d) = quotient_of \<bar>q\<bar>;
            e = scale_exponent (nat n) (nat d)
        in sgn q * of_int (round_half_even (\<bar>q\<bar> * pow2 e)) / pow2 e)"

definition py_round :: "rat \<Rightarrow> nat \<Rightarrow> rat" where
  "py_round x k = f64 (of_int (round_half_even (x * 10 ^ k)) / 10 ^ k)"

section \<open>Bounds\<close>

lemma round_half_even_le:
  assumes "q \<le> of_int z"
  shows "round_half_even q \<le> z"
proof -
  have f: "of_int \<lfloor>q\<rfloor> \<le> q" "q < of_int \<lfloor>q\<rfloor> + 1" by linarith+
  then have "\<lfloor>q\<rfloor> \<le> z" using assms by linarith
  moreover have "\<lfloor>q\<rfloor> = z \<Longrightarrow> q - of_int \<lfloor>q\<rfloor> = 0" using assms f(1) by linarith
  ultimately show ?thesis
    by (cases "\<lfloor>q\<rfloor> = z") (auto simp: round_half_even_def Let_def)
qed

lemma round_half_even_ge: "of_int z \<le> q \<Longrightarrow> z \<le> round_half_even q"
proof -
  assume "of_int z \<le> q"
  then have "z \<le> \<lfloor>q\<rfloor>" by (simp add: le_floor_iff)
  then show ?thesis by (simp add: round_half_even_def Let_def)
qed

lemma round_half_even_int [simp]: "round_half_even (of_int z) = z"
  by (simp add: round_half_even_def)

lemma pow2_pos [simp]: "0 < pow2 e"
  by (simp add: pow2_def)

lemma f64_nonneg: "0 \<le> q \<Longrightarrow> 0 \<le> f64 q"
proof -
  assume q: "0 \<le> q"
  have "0 \<le> round_half_even (\<bar>q\<bar> * pow2 e)" for e
    by (rule round_half_even_ge) (simp add: less_imp_le)
  then show ?thesis
    using q by (auto simp: f64_def Let_def case_prod_beta sgn_if intro!: divide_nonneg_pos)
qed

lemma pow2_nonneg_int: "0 \<le> e \<Longrightarrow> pow2 e = of_int (2 ^ nat e)"
  by (simp add: pow2_def)

lemma f64_le:
  assumes "0 \<le> q" and "q \<le> of_nat (2 ^ 10)" and "q \<le> of_int z"
  shows "f64 q \<le> of_int z"
proof (cases "q = 0")
  case True
  then show ?thesis using assms by (simp add: f64_def)
next
  case False
  obtain n d where nd: "quotient_of \<bar>q\<bar> = (n, d)" by (cases "quotient_of \<bar>q\<bar>")
  then have d: "0 < d" and qnd: "\<bar>q\<bar> = of_int n / of_int d"
    using quotient_of_denom_pos quotient_of_div by blast+
  have "0 < \<bar>q\<bar>" using False by simp
  then have n: "0 < n" using d unfolding qnd by (simp add: zero_less_divide_iff)
  let ?e = "scale_exponent (nat n) (nat d)"
  have "of_int n \<le> (of_int (2 ^ 10 * d) :: rat)"
  proof -
    have "of_int n = q * of_int d" using assms(1) qnd d by (simp add: field_simps)
    also have "\<dots> \<le> of_nat (2 ^ 10) * of_int d"
      using assms(2) d by (intro mult_right_mono) simp_all
    finally show ?thesis by simp
  qed
  then have "n \<le> 2 ^ 10 * d" by (simp only: of_int_le_iff)
  then have "nat n \<le> 2 ^ 10 * nat d" using n d by simp
  then have "bits (nat n) \<le> bits (2 ^ 10 * nat d)" by (rule bits_mono)
  also have "\<dots> = 10 + bits (nat d)" using d by (intro bits_scale) simp
  finally have "0 \<le> ?e" by (simp add: scale_exponent_def Let_def)
  then have "round_half_even (\<bar>q\<bar> * pow2 ?e) \<le> z * 2 ^ nat ?e"
    using assms by (intro round_half_even_le) (simp add: pow2_nonneg_int mult_right_mono)
  then have "of_int (round_half_even (\<bar>q\<bar> * pow2 ?e)) \<le> of_int z * pow2 ?e"
    using \<open>0 \<le> ?e\<close> by (simp add: pow2_nonneg_int flip: of_int_mult of_int_power)
  then show ?thesis
    using False assms(1) nd by (simp add: f64_def Let_def sgn_if divide_le_eq)
qed

section \<open>Accuracy\<close>

lemma round_half_even_error: "\<bar>of_int (round_half_even q) - q\<bar> \<le> 1 / 2"
proof -
  have "of_int \<lfloor>q\<rfloor> \<le> q" "q < of_int \<lfloor>q\<rfloor> + 1" by linarith+
  then show ?thesis
    by (auto simp: round_half_even_def Let_def abs_le_iff)
qed

lemma bits_bounds: "0 < n \<Longrightarrow> 2 ^ bits n \<le> 2 * n \<and> n < 2 ^ bits n"
proof (induction n rule: bits.induct)
  case (1 n)
  show ?case
  proof (cases "n div 2 = 0")
    case True
    with 1 have "n = 1" by auto
    then show ?thesis by (simp add: bits.simps)
  next
    case False
    with 1 have IH: "2 ^ bits (n div 2) \<le> 2 * (n div 2)" "n div 2 < 2 ^ bits (n div 2)" by auto
    have "bits n = Suc (bits (n div 2))" using 1 by (simp add: bits.simps [of n])
    with IH show ?thesis by auto
  qed
qed

lemma pow2_add: "pow2 (a + b) = pow2 a * pow2 b"
proof -
  have p: "pow2 e = 2 powi e" for e
    by (simp add: pow2_def power_int_def power_one_over inverse_eq_divide)
  show ?thesis by (simp add: p power_int_add)
qed

lemma pow2_nat: "pow2 (int k) = 2 ^ k"
  by (simp add: pow2_def)

lemma pow2_minus: "pow2 (- e) = 1 / pow2 e"
  by (simp add: pow2_def)

lemma scale_exponent_large:
  assumes "0 < n" and "0 < d"
  shows "2 ^ 52 \<le> of_nat n / of_nat d * pow2 (scale_exponent n d)"
proof -
  let ?e = "52 - (int (bits n) - int (bits d))" and ?q = "of_nat n / of_nat d :: rat"
  have n: "of_nat (2 ^ bits n) \<le> (of_nat (2 * n) :: rat)"
    using bits_bounds [OF assms(1)] by (simp only: of_nat_le_iff)
  have d: "of_nat d \<le> (of_nat (2 ^ bits d) :: rat)"
    using bits_bounds [OF assms(2)] by (simp only: of_nat_le_iff less_imp_le)
  have dpos: "0 < (of_nat d :: rat)" using assms by simp
  have e: "pow2 ?e = 2 ^ 52 * 2 ^ bits d / 2 ^ bits n"
  proof -
    have "?e = int 52 + (- int (bits n) + int (bits d))" by simp
    then show ?thesis by (simp only: pow2_add pow2_minus pow2_nat) simp
  qed
  have "2 ^ 51 \<le> ?q * pow2 ?e"
  proof -
    have "(2 ^ bits n :: rat) * of_nat d \<le> (2 * of_nat n) * 2 ^ bits d"
      using n d dpos by (intro mult_mono) simp_all
    then show ?thesis unfolding e using dpos by (simp add: field_simps)
  qed
  moreover have "?q * pow2 (?e + 1) = 2 * (?q * pow2 ?e)"
    unfolding pow2_add [of ?e 1] by (simp add: pow2_def)
  moreover have "2 ^ 51 \<le> x \<Longrightarrow> y = 2 * x \<Longrightarrow> 2 ^ 52 \<le> (if x < 2 ^ 52 then y else x)" for x y :: rat
    by auto
  ultimately have "2 ^ 52 \<le> (if ?q * pow2 ?e < 2 ^ 52 then ?q * pow2 (?e + 1) else ?q * pow2 ?e)"
    by blast
  then show ?thesis
    unfolding scale_exponent_def Let_def
    by (cases "?q * pow2 ?e < 2 ^ 52") (simp_all only: if_True if_False)
qed

lemma f64_error: "\<bar>f64 q - q\<bar> \<le> \<bar>q\<bar> / 2 ^ 53"
proof (cases "q = 0")
  case False
  obtain n d where nd: "quotient_of \<bar>q\<bar> = (n, d)" by (cases "quotient_of \<bar>q\<bar>")
  then have d: "0 < d" and qnd: "\<bar>q\<bar> = of_int n / of_int d"
    using quotient_of_denom_pos quotient_of_div by blast+
  have "0 < \<bar>q\<bar>" using False by simp
  then have n: "0 < n" using d unfolding qnd by (simp add: zero_less_divide_iff)
  let ?p = "pow2 (scale_exponent (nat n) (nat d))"
  let ?r = "of_int (round_half_even (\<bar>q\<bar> * ?p)) :: rat"
  have "2 ^ 52 \<le> \<bar>q\<bar> * ?p"
    using scale_exponent_large [of "nat n" "nat d"] n d by (simp add: qnd)
  then have p: "1 / 2 / ?p \<le> \<bar>q\<bar> / 2 ^ 53" by (simp add: field_simps)
  have "f64 q - q = sgn q * ((?r - \<bar>q\<bar> * ?p) / ?p)"
    using False nd pow2_pos [of "scale_exponent (nat n) (nat d)"]
    by (simp add: f64_def Let_def sgn_if field_simps del: pow2_pos)
  then have "\<bar>f64 q - q\<bar> = \<bar>?r - \<bar>q\<bar> * ?p\<bar> / ?p"
    using False by (simp add: abs_mult abs_sgn_eq less_imp_le)
  also have "\<dots> \<le> 1 / 2 / ?p"
    using round_half_even_error [of "\<bar>q\<bar> * ?p"] by (intro divide_right_mono) (simp_all add: less_imp_le)
  finally show ?thesis using p by linarith
qed (simp add: f64_def)

lemma py_round_error:
  "\<bar>py_round x k - x\<bar> \<le> 1 / 2 / 10 ^ k + (\<bar>x\<bar> + 1 / 2 / 10 ^ k) / 2 ^ 53"
proof -
  let ?r = "of_int (round_half_even (x * 10 ^ k)) :: rat"
  let ?h = "1 / 2 / 10 ^ k :: rat"
  have "?r / 10 ^ k - x = (?r - x * 10 ^ k) / 10 ^ k" by (simp add: field_simps)
  then have "\<bar>?r / 10 ^ k - x\<bar> = \<bar>?r - x * 10 ^ k\<bar> / 10 ^ k" by (simp add: abs_divide)
  also have "\<dots> \<le> ?h"
    using round_half_even_error [of "x * 10 ^ k"] by (intro divide_right_mono) simp_all
  finally have e: "\<bar>?r / 10 ^ k - x\<bar> \<le> ?h" .
  then have "\<bar>?r / 10 ^ k\<bar> \<le> \<bar>x\<bar> + ?h" by linarith
  then have "\<bar>?r / 10 ^ k\<bar> / 2 ^ 53 \<le> (\<bar>x\<bar> + ?h) / 2 ^ 53" by (intro divide_right_mono) simp_all
  with f64_error [of "?r / 10 ^ k"] e show ?thesis
    unfolding py_round_def by linarith
qed

lemma f64_fixed:
  "f64 1 = 1" "py_round 1 4 = 1" "f64 100 = 100" "py_round 100 2 = 100" "f64 0 = 0" "py_round 0 k = 0"
  by (code_simp, code_simp, code_simp, code_simp, simp add: f64_def,
      simp add: py_round_def f64_def round_half_even_int [of 0, simplified])

lemma py_round_bounds:
  assumes "0 \<le> x" and "x \<le> of_int z" and "z \<le> 2 ^ 10"
  shows "0 \<le> py_round x k" and "py_round x k \<le> of_int z"
proof -
  let ?r = "of_int (round_half_even (x * 10 ^ k)) / 10 ^ k :: rat"
  have "0 \<le> round_half_even (x * 10 ^ k)"
    using assms(1) by (intro round_half_even_ge) simp
  then have r0: "0 \<le> ?r" by simp
  have "round_half_even (x * 10 ^ k) \<le> z * 10 ^ k"
    using assms by (intro round_half_even_le) (simp add: mult_right_mono)
  then have "of_int (round_half_even (x * 10 ^ k)) \<le> (of_int (z * 10 ^ k) :: rat)"
    by (simp only: of_int_le_iff)
  then have rz: "?r \<le> of_int z" by (simp add: divide_le_eq)
  have "(of_int z :: rat) \<le> of_int (2 ^ 10)" using assms(3) by (simp only: of_int_le_iff)
  then have "?r \<le> of_nat (2 ^ 10)" using rz by simp
  with r0 rz show "0 \<le> py_round x k" "py_round x k \<le> of_int z"
    unfolding py_round_def by (auto intro: f64_nonneg f64_le)
qed

end
