(* ===== verification/Profiling.thy ===== *)
theory Profiling
  imports Warehouse Floats "HOL-Library.Product_Lexorder" "HOL-Library.Multiset"
begin

text \<open>
  The profiling metrics of a slice, \<open>api/apps/etl/services/profiling.py\<close>, and their endpoint in
  \<open>api/apps/etl/views.py\<close>.

  A queryset is the list of its rows, a row the association list of its columns.  Floats are the exact
  rationals of \<open>Floats\<close>.  What the database computes and the code only passes on is a parameter: the
  aggregates \<open>AVG\<close> and \<open>STDDEV_POP\<close> of the non-null values of a column (\<open>avg_of\<close>, \<open>stddev_of\<close>) and the
  collation (\<open>collation_key\<close>).
\<close>

section \<open>Rows and querysets\<close>

datatype cell = CNull | CStr string | CNum rat | CDate date

type_synonym row = "(string \<times> cell) list"
type_synonym queryset = "row list"

fun cell_opt :: "('a \<Rightarrow> cell) \<Rightarrow> 'a option \<Rightarrow> cell" where
  "cell_opt f None = CNull"
| "cell_opt f (Some x) = f x"

definition int_cell :: "int option \<Rightarrow> cell" where
  "int_cell = cell_opt (\<lambda>i. CNum (of_int i))"

definition decimal_cell :: "int option \<Rightarrow> cell" where
  "decimal_cell = cell_opt (\<lambda>i. CNum (of_int i / 10000))"

definition date_cell :: "date option \<Rightarrow> cell" where
  "date_cell = cell_opt CDate"

definition credit_row :: "credit_record \<Rightarrow> row" where
  "credit_row c =
     [(''tenant_id'', CStr (credit_tenant c)),
      (''loan_type'', CStr (credit_loan_type c)),
      (''loan_account_number'', CStr (loan_account_number c)),
      (''customer_id'', CStr (customer_id c)),
      (''customer_type'', CStr (customer_type c)),
      (''loan_status_code'', CStr (loan_status_code c)),
      (''days_past_due'', int_cell (days_past_due c)),
      (''final_maturity_date'', date_cell (final_maturity_date c)),
      (''total_installment_count'', int_cell (total_installment_count c)),
      (''outstanding_installment_count'', int_cell (outstanding_installment_count c)),
      (''paid_installment_count'', int_cell (paid_installment_count c)),
      (''first_payment_date'', date_cell (first_payment_date c)),
      (''original_loan_amount'', decimal_cell (original_loan_amount c)),
      (''outstanding_principal_balance'', decimal_cell (outstanding_principal_balance c)),
      (''nominal_interest_rate'', decimal_cell (nominal_interest_rate c)),
      (''total_interest_amount'', decimal_cell (total_interest_amount c)),
      (''kkdf_rate'', decimal_cell (kkdf_rate c)),
      (''kkdf_amount'', decimal_cell (kkdf_amount c)),
      (''bsmv_rate'', decimal_cell (bsmv_rate c)),
      (''bsmv_amount'', decimal_cell (bsmv_amount c)),
      (''grace_period_months'', int_cell (grace_period_months c)),
      (''installment_frequency'', int_cell (installment_frequency c)),
      (''loan_start_date'', date_cell (loan_start_date c)),
      (''loan_closing_date'', date_cell (loan_closing_date c)),
      (''internal_rating'', int_cell (internal_rating c)),
      (''external_rating'', int_cell (external_rating c))]"

definition payment_row :: "payment_installment \<Rightarrow> row" where
  "payment_row p =
     [(''installment_number'', CNum (of_int (installment_number p))),
      (''actual_payment_date'', date_cell (actual_payment_date p)),
      (''scheduled_payment_date'', date_cell (scheduled_payment_date p)),
      (''installment_amount'', decimal_cell (installment_amount p)),
      (''principal_component'', decimal_cell (principal_component p)),
      (''interest_component'', decimal_cell (interest_component p)),
      (''kkdf_component'', decimal_cell (kkdf_component p)),
      (''bsmv_component'', decimal_cell (bsmv_component p)),
      (''installment_status'', CStr (installment_status p)),
      (''remaining_principal'', decimal_cell (remaining_principal p)),
      (''remaining_interest'', decimal_cell (remaining_interest p)),
      (''remaining_kkdf'', decimal_cell (remaining_kkdf p)),
      (''remaining_bsmv'', decimal_cell (remaining_bsmv p))]"

text \<open>A column the row does not have is a \<open>FieldError\<close> in the code; the columns the profile names all exist.\<close>

definition field_value :: "row \<Rightarrow> string \<Rightarrow> cell" where
  "field_value r f = (case map_of r f of None \<Rightarrow> CNull | Some c \<Rightarrow> c)"

text \<open>
  \<open>PaymentInstallment.objects.filter(credit__tenant_id=..., credit__loan_type=...)\<close>: the payments whose
  credit is a row of the slice.
\<close>

definition slice_payments ::
    "credit_record list \<Rightarrow> payment_installment list \<Rightarrow> string \<Rightarrow> string \<Rightarrow> payment_installment list" where
  "slice_payments db pays tenant_id loan_type =
     filter (\<lambda>p. list_ex (\<lambda>c. credit_pk c = payment_credit p) (slice_rows db tenant_id loan_type)) pays"

section \<open>Fields\<close>

definition NUMERICAL_FIELDS :: "string list" where
  "NUMERICAL_FIELDS =
     [''days_past_due'', ''total_installment_count'', ''outstanding_installment_count'',
      ''paid_installment_count'', ''original_loan_amount'', ''outstanding_principal_balance'',
      ''nominal_interest_rate'', ''internal_rating'', ''external_rating'']"

definition CATEGORICAL_FIELDS :: "string list" where
  "CATEGORICAL_FIELDS = [''customer_type'', ''loan_status_code'']"

definition NULLABLE_CHAR_FIELDS :: "string list" where
  "NULLABLE_CHAR_FIELDS = [''customer_id'', ''customer_type'', ''loan_status_code'', ''loan_account_number'']"

definition NULL_RATIO_FIELDS :: "string list" where
  "NULL_RATIO_FIELDS =
     [''loan_account_number'', ''customer_id'', ''customer_type'', ''loan_status_code'',
      ''days_past_due'', ''final_maturity_date'', ''total_installment_count'',
      ''outstanding_installment_count'', ''paid_installment_count'', ''first_payment_date'',
      ''original_loan_amount'', ''outstanding_principal_balance'', ''nominal_interest_rate'',
      ''loan_start_date'', ''loan_closing_date'', ''internal_rating'', ''external_rating'']"

definition PAYMENT_NUMERICAL_FIELDS :: "string list" where
  "PAYMENT_NUMERICAL_FIELDS =
     [''installment_amount'', ''principal_component'', ''interest_component'', ''remaining_principal'']"

definition PAYMENT_CATEGORICAL_FIELDS :: "string list" where
  "PAYMENT_CATEGORICAL_FIELDS = [''installment_status'']"

definition PAYMENT_NULL_RATIO_FIELDS :: "string list" where
  "PAYMENT_NULL_RATIO_FIELDS =
     [''actual_payment_date'', ''scheduled_payment_date'', ''installment_amount'',
      ''principal_component'', ''interest_component'', ''installment_status'', ''remaining_principal'']"

section \<open>Metrics of one column\<close>

record 'k profile_env =
  avg_of :: "rat list \<Rightarrow> rat"
  stddev_of :: "rat list \<Rightarrow> rat"
  collation_key :: "string \<Rightarrow> 'k"
  iso_utc :: "int \<Rightarrow> string"
  now_utc :: int

definition to_float :: "rat option \<Rightarrow> rat option" where
  "to_float v = map_option f64 v"

definition null_filter :: "string \<Rightarrow> row \<Rightarrow> bool" where
  "null_filter field_name r =
     (if field_name \<in> set NULLABLE_CHAR_FIELDS
      then field_value r field_name = CNull \<or> field_value r field_name = CStr ''''
      else field_value r field_name = CNull)"

definition null_ratio :: "queryset \<Rightarrow> string \<Rightarrow> nat \<Rightarrow> rat" where
  "null_ratio qs field_name n =
     (if n = 0 then 0
      else let null_count = length (filter (null_filter field_name) qs)
           in py_round (f64 (of_nat null_count / of_nat n)) 4)"

definition null_ratio_percent :: "queryset \<Rightarrow> string \<Rightarrow> nat \<Rightarrow> rat" where
  "null_ratio_percent qs field_name n = py_round (f64 (null_ratio qs field_name n * 100)) 2"

text \<open>The non-null values of a numeric column, and an aggregate over them: \<open>NULL\<close> when there is none.\<close>

definition num_values :: "queryset \<Rightarrow> string \<Rightarrow> rat list" where
  "num_values qs field_name =
     List.map_filter (\<lambda>r. case field_value r field_name of CNum q \<Rightarrow> Some q | _ \<Rightarrow> None) qs"

definition aggregate :: "(rat list \<Rightarrow> rat) \<Rightarrow> rat list \<Rightarrow> rat option" where
  "aggregate f vs = (if vs = [] then None else Some (f vs))"

definition numerical_stats :: "'k profile_env \<Rightarrow> queryset \<Rightarrow> string \<Rightarrow> nat \<Rightarrow> pydict" where
  "numerical_stats env qs field_name n =
     (let vs = num_values qs field_name;
          rounded = map_option (\<lambda>x. py_round x 4)
      in [(''min'', json_opt JFloat (to_float (aggregate (\<lambda>vs. Min (set vs)) vs))),
          (''max'', json_opt JFloat (to_float (aggregate (\<lambda>vs. Max (set vs)) vs))),
          (''avg'', json_opt JFloat (rounded (to_float (aggregate (avg_of env) vs)))),
          (''stddev'', json_opt JFloat (rounded (to_float (aggregate (stddev_of env) vs)))),
          (''non_null_count'', JInt (int (length (filter (\<lambda>r. field_value r field_name \<noteq> CNull) qs)))),
          (''null_ratio'', JFloat (null_ratio qs field_name n)),
          (''null_ratio_percent'', JFloat (null_ratio_percent qs field_name n))])"

text \<open>
  \<open>qs.exclude(_null_filter(...))\<close>, its texts, and \<open>values(...).annotate(Count("pk")).order_by("-cnt", ...)\<close>:
  one group per text, by falling count and then by the collation.
\<close>

definition populated :: "queryset \<Rightarrow> string \<Rightarrow> queryset" where
  "populated qs field_name = filter (\<lambda>r. \<not> null_filter field_name r) qs"

definition char_values :: "queryset \<Rightarrow> string \<Rightarrow> string list" where
  "char_values qs field_name =
     List.map_filter (\<lambda>r. case field_value r field_name of CStr s \<Rightarrow> Some s | _ \<Rightarrow> None) (populated qs field_name)"

definition value_groups :: "(string \<Rightarrow> 'k::linorder) \<Rightarrow> string list \<Rightarrow> (string \<times> nat) list" where
  "value_groups coll vs =
     sort_key (\<lambda>(v, n). (- int n, coll v)) (map (\<lambda>v. (v, count_list vs v)) (remdups vs))"

definition categorical_stats :: "'k::linorder profile_env \<Rightarrow> queryset \<Rightarrow> string \<Rightarrow> nat \<Rightarrow> pydict" where
  "categorical_stats env qs field_name n =
     (let vs = char_values qs field_name;
          unique_values_count = length (remdups vs);
          (most_frequent_value, most_frequent_count) =
            (case value_groups (collation_key env) vs of [] \<Rightarrow> ('''', 0) | g # _ \<Rightarrow> g)
      in [(''unique_values_count'', JInt (int unique_values_count)),
          (''most_frequent_value'', JStr most_frequent_value),
          (''most_frequent_count'', JInt (int most_frequent_count)),
          (''null_ratio'', JFloat (null_ratio qs field_name n)),
          (''null_ratio_percent'', JFloat (null_ratio_percent qs field_name n))])"

definition categorical_distribution ::
    "'k::linorder profile_env \<Rightarrow> queryset \<Rightarrow> string \<Rightarrow> nat \<Rightarrow> json list" where
  "categorical_distribution env qs field_name limit =
     map (\<lambda>(v, n). JObj [(''value'', JStr v), (''count'', JInt (int n))])
       (take limit (value_groups (collation_key env) (char_values qs field_name)))"

section \<open>The payload\<close>

definition null_distribution :: "queryset \<Rightarrow> string list \<Rightarrow> nat \<Rightarrow> json" where
  "null_distribution qs fs n =
     JList (map (\<lambda>field. JObj
       [(''field'', JStr field),
        (''ratio'', JFloat (null_ratio qs field n)),
        (''ratio_percent'', JFloat (null_ratio_percent qs field n))]) fs)"

definition build_profiling_payload ::
    "'k::linorder profile_env \<Rightarrow> credit_record list \<Rightarrow> payment_installment list \<Rightarrow> string \<Rightarrow> string \<Rightarrow> pydict" where
  "build_profiling_payload env db pays tenant_id loan_type =
     (let credits = map credit_row (slice_rows db tenant_id loan_type);
          total_credits = length credits;
          payments = map payment_row (slice_payments db pays tenant_id loan_type);
          total_payments = length payments;
          by_field = (\<lambda>f fs. JObj (map (\<lambda>field. (field, f field)) fs));
          numerical_fields =
            by_field (\<lambda>field. JObj (numerical_stats env credits field total_credits)) NUMERICAL_FIELDS;
          categorical_fields =
            by_field (\<lambda>field. JObj (categorical_stats env credits field total_credits)) CATEGORICAL_FIELDS;
          null_fields_distribution = null_distribution credits NULL_RATIO_FIELDS total_credits;
          payment_numerical =
            by_field (\<lambda>field. JObj (numerical_stats env payments field total_payments)) PAYMENT_NUMERICAL_FIELDS;
          payment_categorical =
            by_field (\<lambda>field. JObj (categorical_stats env payments field total_payments)) PAYMENT_CATEGORICAL_FIELDS;
          payment_null_fields = null_distribution payments PAYMENT_NULL_RATIO_FIELDS total_payments;
          categorical_distributions =
            by_field (\<lambda>field. JList (categorical_distribution env credits field 15)) CATEGORICAL_FIELDS
      in [(''tenant_id'', JStr tenant_id),
          (''loan_type'', JStr loan_type),
          (''generated_at'', JStr (iso_utc env (now_utc env))),
          (''total_records_processed'', JInt (int total_credits)),
          (''total_records'', JInt (int total_credits)),
          (''total_payments'', JInt (int total_payments)),
          (''numerical_fields'', numerical_fields),
          (''categorical_fields'', categorical_fields),
          (''metrics'', JObj
            [(''numerical_columns'', numerical_fields), (''categorical_columns'', categorical_fields)]),
          (''summary'', JObj
            [(''total_records'', JInt (int total_credits)), (''total_payments'', JInt (int total_payments)),
             (''null_fields_distribution'', null_fields_distribution)]),
          (''payments'', JObj
            [(''total_records'', JInt (int total_payments)), (''numerical_fields'', payment_numerical),
             (''categorical_fields'', payment_categorical), (''null_fields_distribution'', payment_null_fields)]),
          (''charts'', JObj
            [(''categorical_distributions'', categorical_distributions),
             (''null_fields_distribution'', null_fields_distribution)])])"

definition profiling_metrics ::
    "'k::linorder profile_env \<Rightarrow> credit_record list \<Rightarrow> payment_installment list \<Rightarrow> request \<Rightarrow> exn + response" where
  "profiling_metrics env db pays req =
     with_requested_slice req (\<lambda>tenant_id loan_type.
       Response 200 (JObj (build_profiling_payload env db pays tenant_id loan_type)))"

section \<open>Null ratios\<close>

text \<open>The number of rows a null filter selects.\<close>

definition null_count :: "queryset \<Rightarrow> string \<Rightarrow> nat" where
  "null_count qs f = length (filter (null_filter f) qs)"

lemma null_fraction:
  "0 \<le> (of_nat (null_count qs f) / of_nat (length qs) :: rat)"
  "of_nat (null_count qs f) / of_nat (length qs) \<le> (1 :: rat)"
  by (auto simp: null_count_def divide_le_eq)

lemma null_ratio_bounds:
  "0 \<le> null_ratio qs f (length qs)" "null_ratio qs f (length qs) \<le> 1"
proof -
  let ?q = "of_nat (null_count qs f) / of_nat (length qs) :: rat"
  have "f64 ?q \<le> of_int 1" by (rule f64_le) (use null_fraction [of qs f] in simp_all)
  then have "0 \<le> py_round (f64 ?q) 4" "py_round (f64 ?q) 4 \<le> of_int 1"
    using py_round_bounds [of "f64 ?q" 1] f64_nonneg null_fraction(1) by simp_all
  then show "0 \<le> null_ratio qs f (length qs)" "null_ratio qs f (length qs) \<le> 1"
    by (simp_all add: null_ratio_def null_count_def)
qed

lemma null_ratio_percent_bounds:
  "0 \<le> null_ratio_percent qs f (length qs)" "null_ratio_percent qs f (length qs) \<le> 100"
proof -
  let ?x = "null_ratio qs f (length qs) * 100"
  have x: "0 \<le> ?x" "?x \<le> of_int 100" using null_ratio_bounds [of qs f] by simp_all
  then have "f64 ?x \<le> of_int 100" by (intro f64_le) simp_all
  then have "0 \<le> py_round (f64 ?x) 2" "py_round (f64 ?x) 2 \<le> of_int 100"
    using py_round_bounds [of "f64 ?x" 100] f64_nonneg [OF x(1)] by simp_all
  then show "0 \<le> null_ratio_percent qs f (length qs)" "null_ratio_percent qs f (length qs) \<le> 100"
    by (simp_all add: null_ratio_percent_def)
qed

lemma null_ratio_accurate:
  "\<bar>null_ratio qs f (length qs) - of_nat (null_count qs f) / of_nat (length qs)\<bar> < 1 / 19999"
proof (cases "qs = []")
  case False
  let ?q = "of_nat (null_count qs f) / of_nat (length qs) :: rat"
  have q: "0 \<le> ?q" "?q \<le> 1" using null_fraction by simp_all
  then have a: "\<bar>f64 ?q - ?q\<bar> \<le> 1 / 2 ^ 53"
    by (intro order_trans [OF f64_error]) (simp add: divide_right_mono)
  have "f64 ?q \<le> of_int 1" by (rule f64_le) (use q in simp_all)
  then have "\<bar>f64 ?q\<bar> \<le> 1" using f64_nonneg [OF q(1)] by simp
  then have "\<bar>py_round (f64 ?q) 4 - f64 ?q\<bar> \<le> 1 / 20000 + 2 / 2 ^ 53"
    using py_round_error [of "f64 ?q" 4] by (simp add: field_simps)
  moreover have "null_ratio qs f (length qs) = py_round (f64 ?q) 4"
    using False by (simp add: null_ratio_def null_count_def)
  moreover have "1 / 20000 + 2 / 2 ^ 53 + 1 / 2 ^ 53 < (1 / 19999 :: rat)" by simp
  ultimately show ?thesis using a by linarith
qed (simp add: null_ratio_def)

section \<open>Groups\<close>

lemma count_groups: "sum_list (map (\<lambda>v. count_list vs v) (remdups vs)) = length vs"
proof -
  have "sum_list (map (count_list vs) (remdups vs)) = (\<Sum>v\<in>set vs. count_list vs v)"
    by (simp add: sum_list_distinct_conv_sum_set)
  then show ?thesis by (simp add: sum_count_set)
qed

lemma value_groups_facts:
  "set (value_groups coll vs) = (\<lambda>v. (v, count_list vs v)) ` set vs"
  "distinct (map fst (value_groups coll vs))"
  "sum_list (map snd (value_groups coll vs)) = length vs"
  "length (value_groups coll vs) = length (remdups vs)"
  "sorted (rev (map snd (value_groups coll vs)))"
proof -
  let ?gs = "map (\<lambda>v. (v, count_list vs v)) (remdups vs)"
  have m: "mset (value_groups coll vs) = mset ?gs"
    by (simp add: value_groups_def)
  show "set (value_groups coll vs) = (\<lambda>v. (v, count_list vs v)) ` set vs"
    by (simp add: value_groups_def)
  have "mset (map fst (value_groups coll vs)) = mset (map fst ?gs)" by (simp only: mset_map m)
  then have "distinct (map fst (value_groups coll vs)) = distinct (map fst ?gs)"
    by (rule mset_eq_imp_distinct_iff)
  then show "distinct (map fst (value_groups coll vs))" by (simp add: comp_def)
  have "mset (map snd (value_groups coll vs)) = mset (map snd ?gs)" by (simp only: mset_map m)
  then have "sum_list (map snd (value_groups coll vs)) = sum_list (map snd ?gs)"
    by (metis sum_mset_sum_list)
  then show "sum_list (map snd (value_groups coll vs)) = length vs"
    using count_groups [of vs] by (simp add: comp_def)
  show "length (value_groups coll vs) = length (remdups vs)" by (simp add: value_groups_def)
  have "sorted (map (\<lambda>(v, n). (- int n, coll v)) (value_groups coll vs))"
    unfolding value_groups_def by (rule sorted_sort_key)
  then have "sorted_wrt (\<lambda>g h. snd h \<le> snd g) (value_groups coll vs)"
    unfolding sorted_map by (rule sorted_wrt_mono_rel [rotated]) (auto simp: less_eq_prod_def)
  then show "sorted (rev (map snd (value_groups coll vs)))"
    by (simp add: sorted_wrt_rev sorted_wrt_map)
qed

section \<open>Columns\<close>

definition is_numeric :: "cell \<Rightarrow> bool" where
  "is_numeric c = (case c of CNull \<Rightarrow> True | CNum _ \<Rightarrow> True | _ \<Rightarrow> False)"

definition is_text :: "cell \<Rightarrow> bool" where
  "is_text c = (case c of CStr _ \<Rightarrow> True | _ \<Rightarrow> False)"

lemma cell_kinds [simp]:
  "is_numeric (int_cell v)" "is_numeric (decimal_cell v)" "is_text (CStr s)"
  by (cases v; simp add: is_numeric_def is_text_def int_cell_def decimal_cell_def)+

lemma char_values_length:
  assumes "list_all (\<lambda>r. is_text (field_value r f)) qs"
  shows "length (char_values qs f) = length qs - null_count qs f"
  using assms
proof (induction qs)
  case (Cons r qs)
  have "null_count qs f \<le> length qs" by (simp add: null_count_def)
  with Cons show ?case
    by (auto simp: char_values_def populated_def null_count_def is_text_def Suc_diff_le
        split: cell.splits)
qed (simp add: char_values_def populated_def)

lemma join_by_key:
  "distinct (map key cs) \<Longrightarrow>
   mset (filter (\<lambda>p. list_ex (\<lambda>c. key c = ref p) cs) ps) =
   mset (concat (map (\<lambda>c. filter (\<lambda>p. ref p = key c) ps) cs))"
proof (induction cs)
  case (Cons c cs)
  have "mset (filter (\<lambda>p. list_ex (\<lambda>c. key c = ref p) (c # cs)) ps) =
      mset (filter (\<lambda>p. ref p = key c) ps) + mset (filter (\<lambda>p. list_ex (\<lambda>c. key c = ref p) cs) ps)"
    using Cons.prems by (induction ps) (auto simp: list_ex_iff image_iff)
  with Cons show ?case by simp
qed simp

section \<open>Properties\<close>

definition demo_profile_env :: "nat list profile_env" where
  "demo_profile_env = \<lparr>avg_of = \<lambda>vs. sum_list vs / of_nat (length vs), stddev_of = \<lambda>_. 0,
     collation_key = map of_char, iso_utc = str_int, now_utc = 0\<rparr>"

text \<open>
  Every column the profile names exists with the kind its metric expects: numerical fields are
  nullable numbers, categorical fields are texts, and no null ratio is asked of an unknown column.
\<close>

theorem profiled_columns_exist:
  "list_all (\<lambda>f. is_numeric (field_value (credit_row c) f) \<and> f \<in> fst ` set (credit_row c)) NUMERICAL_FIELDS \<and>
   list_all (\<lambda>f. is_text (field_value (credit_row c) f)) CATEGORICAL_FIELDS \<and>
   list_all (\<lambda>f. f \<in> fst ` set (credit_row c)) NULL_RATIO_FIELDS \<and>
   list_all (\<lambda>f. is_numeric (field_value (payment_row p) f) \<and> f \<in> fst ` set (payment_row p)) PAYMENT_NUMERICAL_FIELDS \<and>
   list_all (\<lambda>f. is_text (field_value (payment_row p) f)) PAYMENT_CATEGORICAL_FIELDS \<and>
   list_all (\<lambda>f. f \<in> fst ` set (payment_row p)) PAYMENT_NULL_RATIO_FIELDS"
  by (simp add: NUMERICAL_FIELDS_def CATEGORICAL_FIELDS_def NULL_RATIO_FIELDS_def
      PAYMENT_NUMERICAL_FIELDS_def PAYMENT_CATEGORICAL_FIELDS_def PAYMENT_NULL_RATIO_FIELDS_def
      credit_row_def payment_row_def field_value_def)

text \<open>
  Property C34. The null ratio of a column is a number between 0 and 1 and its percentage one between 0 and
  100, both exactly 0 without null rows and exactly 1 and 100 when every row is null; in between the
  ratio is the fraction of null rows rounded to four decimals, off by less than 1/19999 with the binary
  floating point rounding included.
\<close>

theorem null_ratio_bounded:
  "let n = length qs; k = null_count qs f; r = null_ratio qs f n; p = null_ratio_percent qs f n in
     \<bar>r - of_nat k / of_nat n\<bar> < 1 / 19999 \<and>
     (if k = 0 then r = 0 \<and> p = 0
      else if k = n then r = 1 \<and> p = 100
      else 0 \<le> r \<and> r \<le> 1 \<and> 0 \<le> p \<and> p \<le> 100)"
  unfolding Let_def
  using null_ratio_accurate [of qs f] null_ratio_bounds [of qs f] null_ratio_percent_bounds [of qs f]
  by (auto simp: null_ratio_percent_def null_ratio_def Let_def f64_fixed simp flip: null_count_def)

text \<open>
  Property C33. The categorical metrics of a slice agree with one another: the groups are its distinct
  populated values with their exact counts, in falling order, and add up to the populated rows; the number
  of unique values is the number of groups, the most frequent value and its count are those of the first
  group, and the distribution lists the first groups.
\<close>

theorem categorical_consistent:
  fixes env :: "'k::linorder profile_env"
  assumes "f \<in> set CATEGORICAL_FIELDS"
  shows "let qs = map credit_row cs; vs = char_values qs f; gs = value_groups (collation_key env) vs;
             stats = categorical_stats env qs f (length qs) in
     set gs = (\<lambda>v. (v, count_list vs v)) ` set vs \<and> distinct (map fst gs) \<and> sorted (rev (map snd gs)) \<and>
     sum_list (map snd gs) = length cs - null_count qs f \<and>
     dict_get stats ''unique_values_count'' JNull = JInt (int (length gs)) \<and>
     (case gs of
        [] \<Rightarrow> dict_get stats ''most_frequent_value'' JNull = JStr '''' \<and>
              dict_get stats ''most_frequent_count'' JNull = JInt 0
      | (v, n) # _ \<Rightarrow> dict_get stats ''most_frequent_value'' JNull = JStr v \<and>
              dict_get stats ''most_frequent_count'' JNull = JInt (int n)) \<and>
     categorical_distribution env qs f 15 =
       map (\<lambda>(v, n). JObj [(''value'', JStr v), (''count'', JInt (int n))]) (take 15 gs)"
proof -
  let ?qs = "map credit_row cs"
  have "list_all (\<lambda>r. is_text (field_value r f)) ?qs"
    using assms by (auto simp: list_all_iff CATEGORICAL_FIELDS_def credit_row_def field_value_def)
  from char_values_length [OF this] show ?thesis
    unfolding Let_def
    by (intro conjI)
      (simp_all add: value_groups_facts categorical_stats_def categorical_distribution_def dict_get_def Let_def
        split: list.split)
qed

lemma categorical_consistent_witness:
  "let qs = map credit_row [demo_credit 1 ''BANK001'' ''A1'', demo_credit 2 ''BANK001'' ''A2''] in
     sum_list (map snd (value_groups (collation_key demo_profile_env) (char_values qs ''customer_type''))) =
       2 - null_count qs ''customer_type''"
  using categorical_consistent [of "''customer_type''"
      "[demo_credit 1 ''BANK001'' ''A1'', demo_credit 2 ''BANK001'' ''A2'']"
      demo_profile_env]
  by (simp add: CATEGORICAL_FIELDS_def Let_def)

text \<open>
  Property C32. A user profiles only the rows of the own tenant: the answer of the profiling endpoint is the
  same for any two warehouses that agree on the tenant's credits and on the payments of those credits.
\<close>

theorem profiling_tenant_isolation:
  fixes env :: "'k::linorder profile_env"
  assumes "filter (\<lambda>c. credit_tenant c = tenant_from_request req) db =
           filter (\<lambda>c. credit_tenant c = tenant_from_request req) db'"
    and "filter (\<lambda>p. \<exists>c \<in> set db. credit_tenant c = tenant_from_request req \<and> credit_pk c = payment_credit p) pays =
         filter (\<lambda>p. \<exists>c \<in> set db. credit_tenant c = tenant_from_request req \<and> credit_pk c = payment_credit p) pays'"
  shows "profiling_metrics env db pays req = profiling_metrics env db' pays' req"
proof -
  let ?t = "tenant_from_request req"
  let ?own = "\<lambda>p. \<exists>c \<in> set db. credit_tenant c = ?t \<and> credit_pk c = payment_credit p"
  have rows: "slice_rows db ?t l = slice_rows db' ?t l" for l
    by (rule slice_rows_cong [OF assms(1)])
  have own: "slice_payments db ps ?t l =
      filter (\<lambda>p. list_ex (\<lambda>c. credit_pk c = payment_credit p) (slice_rows db ?t l)) (filter ?own ps)" for ps l
    by (auto simp: slice_payments_def slice_rows_def list_ex_iff intro!: filter_cong)
  have "slice_payments db pays ?t l = slice_payments db pays' ?t l" for l
    by (simp only: own assms(2))
  then have "slice_payments db pays ?t l = slice_payments db' pays' ?t l" for l
    by (simp add: slice_payments_def rows)
  with rows show ?thesis
    unfolding profiling_metrics_def
    by (intro with_requested_slice_cong) (simp add: build_profiling_payload_def)
qed

definition demo_payment :: "int \<Rightarrow> int \<Rightarrow> payment_installment" where
  "demo_payment credit n =
     \<lparr>payment_credit = credit, installment_number = n, actual_payment_date = None,
      scheduled_payment_date = Some \<lparr>year = 2026, month = 1, day = 31\<rparr>, installment_amount = Some 1000000,
      principal_component = None, interest_component = None, kkdf_component = None,
      bsmv_component = None, installment_status = '''', remaining_principal = Some 0,
      remaining_interest = None, remaining_kkdf = None, remaining_bsmv = None\<rparr>"

lemma profiling_tenant_isolation_witness:
  "profiling_metrics demo_profile_env [demo_credit 1 ''BANK001'' ''A1'', demo_credit 2 ''BANK002'' ''A2'']
      [demo_payment 1 1, demo_payment 2 1] (demo_request ''BANK001'') =
   profiling_metrics demo_profile_env [demo_credit 1 ''BANK001'' ''A1''] [demo_payment 1 1] (demo_request ''BANK001'')"
  by (rule profiling_tenant_isolation) (simp_all add: demo_credit_def demo_payment_def)

text \<open>
  The join of the payments with their credits is the union of the payment schedules: when
  primary keys are unique, the payments profiled for a slice are, with their multiplicities, the
  payments of each of its credits.
\<close>

theorem payments_by_schedule:
  assumes "distinct (map credit_pk db)"
  shows "mset (slice_payments db pays t l) =
     mset (concat (map (\<lambda>c. filter (\<lambda>p. payment_credit p = credit_pk c) pays) (slice_rows db t l)))"
proof -
  have "distinct (map credit_pk (slice_rows db t l))"
    unfolding slice_rows_def by (rule distinct_map_filter [OF assms])
  then show ?thesis
    unfolding slice_payments_def by (rule join_by_key)
qed

lemma payments_by_schedule_witness:
  "mset (slice_payments [demo_credit 1 ''BANK001'' ''A1'', demo_credit 2 ''BANK002'' ''A2'']
      [demo_payment 2 1, demo_payment 1 1, demo_payment 1 2] ''BANK001'' ''RETAIL'') =
   {#demo_payment 1 1, demo_payment 1 2#}"
  using payments_by_schedule [of "[demo_credit 1 ''BANK001'' ''A1'', demo_credit 2 ''BANK002'' ''A2'']"
      "[demo_payment 2 1, demo_payment 1 1, demo_payment 1 2]" "''BANK001''" "''RETAIL''"]
  by (simp add: demo_credit_def demo_payment_def slice_rows_def)

end
