(* ===== verification/BankStreaming.thy ===== *)
theory BankStreaming
  imports Prelude
begin

text \<open>
  The CSV to JSON export stream of the simulated bank, \<open>external_bank/bank/services/streaming.py\<close>,
  with the parts of Python's \<open>csv\<close> and \<open>json\<close> modules it uses.

  A file is the bytes of its (valid) UTF-8 text.  A generator is the list of the chunks it yields and
  the exception that ends it early, if any.
\<close>

section \<open>Reading CSV\<close>

text \<open>
  \<open>csv.reader(handle, delimiter=";")\<close> of CPython 3.12: the state machine of \<open>_csv.c\<close> with the default
  dialect (quote \<open>"\<close>, doubled quotes, not strict).  The file is opened with \<open>newline=""\<close>, so lines end
  at \<open>\n\<close>, \<open>\r\<close> or \<open>\r\n\<close> and keep their ends; the reader feeds a line's characters and then an
  end-of-line mark (\<open>None\<close>).
\<close>

datatype csv_mode =
    START_RECORD | START_FIELD | IN_FIELD | IN_QUOTED_FIELD | QUOTE_IN_QUOTED_FIELD | EAT_CRNL

text \<open>The current field is kept reversed with its length in code points, the saved fields reversed.\<close>

record csv_state =
  csv_mode :: csv_mode
  csv_field :: string
  csv_len :: nat
  csv_fields :: "string list"

definition csv_start :: csv_state where
  "csv_start = \<lparr>csv_mode = START_RECORD, csv_field = [], csv_len = 0, csv_fields = []\<rparr>"

definition LF :: char where "LF = CHR 0x0A"
definition CR :: char where "CR = CHR 0x0D"
definition QUOTE :: char where "QUOTE = CHR 0x22"
definition DELIMITER :: char where "DELIMITER = CHR '';''"

definition FIELD_LIMIT :: nat where
  "FIELD_LIMIT = 131072"

definition csv_save :: "csv_mode \<Rightarrow> csv_state \<Rightarrow> csv_state" where
  "csv_save m st = st\<lparr>csv_mode := m, csv_field := [], csv_len := 0,
     csv_fields := rev (csv_field st) # csv_fields st\<rparr>"

text \<open>A field may have at most \<open>FIELD_LIMIT\<close> code points; continuation bytes do not count.\<close>

definition csv_add :: "csv_mode \<Rightarrow> char \<Rightarrow> csv_state \<Rightarrow> exn + csv_state" where
  "csv_add m c st =
     (if is_continuation c then Inr (st\<lparr>csv_mode := m, csv_field := c # csv_field st\<rparr>)
      else if csv_len st \<ge> FIELD_LIMIT
      then Inl (Exn CsvError ''field larger than field limit (131072)'')
      else Inr (st\<lparr>csv_mode := m, csv_field := c # csv_field st, csv_len := Suc (csv_len st)\<rparr>))"

definition csv_start_field :: "char \<Rightarrow> csv_state \<Rightarrow> exn + csv_state" where
  "csv_start_field c st =
     (if c = LF \<or> c = CR then Inr (csv_save EAT_CRNL st)
      else if c = QUOTE then Inr (st\<lparr>csv_mode := IN_QUOTED_FIELD\<rparr>)
      else if c = DELIMITER then Inr (csv_save START_FIELD st)
      else csv_add IN_FIELD c st)"

fun csv_char :: "char option \<Rightarrow> csv_state \<Rightarrow> exn + csv_state" where
  "csv_char (Some c) st = (case csv_mode st of
     START_RECORD \<Rightarrow>
       if c = LF \<or> c = CR then Inr (st\<lparr>csv_mode := EAT_CRNL\<rparr>) else csv_start_field c st
   | START_FIELD \<Rightarrow> csv_start_field c st
   | IN_FIELD \<Rightarrow>
       if c = LF \<or> c = CR then Inr (csv_save EAT_CRNL st)
       else if c = DELIMITER then Inr (csv_save START_FIELD st)
       else csv_add IN_FIELD c st
   | IN_QUOTED_FIELD \<Rightarrow>
       if c = QUOTE then Inr (st\<lparr>csv_mode := QUOTE_IN_QUOTED_FIELD\<rparr>)
       else csv_add IN_QUOTED_FIELD c st
   | QUOTE_IN_QUOTED_FIELD \<Rightarrow>
       if c = QUOTE then csv_add IN_QUOTED_FIELD c st
       else if c = DELIMITER then Inr (csv_save START_FIELD st)
       else if c = LF \<or> c = CR then Inr (csv_save EAT_CRNL st)
       else csv_add IN_FIELD c st
   | EAT_CRNL \<Rightarrow>
       if c = LF \<or> c = CR then Inr st
       else Inl (Exn CsvError ''new-line character seen in unquoted field''))"
| "csv_char None st = (case csv_mode st of
     START_RECORD \<Rightarrow> Inr st
   | START_FIELD \<Rightarrow> Inr (csv_save START_RECORD st)
   | IN_FIELD \<Rightarrow> Inr (csv_save START_RECORD st)
   | IN_QUOTED_FIELD \<Rightarrow> Inr st
   | QUOTE_IN_QUOTED_FIELD \<Rightarrow> Inr (csv_save START_RECORD st)
   | EAT_CRNL \<Rightarrow> Inr (st\<lparr>csv_mode := START_RECORD\<rparr>))"

text \<open>The marks between the lines of a text; \<open>at_start\<close> says that the current line is empty so far.\<close>

fun line_marks :: "bool \<Rightarrow> string \<Rightarrow> char option list" where
  "line_marks at_start [] = (if at_start then [] else [None])"
| "line_marks at_start (c # s) =
     (if c = LF \<or> c = CR \<and> (case s of [] \<Rightarrow> True | d # _ \<Rightarrow> d \<noteq> LF)
      then Some c # None # line_marks True s
      else Some c # line_marks False s)"

text \<open>
  The records of the file: one ends when an end-of-line mark leaves the machine in its start state.  At
  the end of the input an unfinished record is returned when its field has text or is quoted.
\<close>

fun csv_records :: "csv_state \<Rightarrow> char option list \<Rightarrow> string list list \<times> exn option" where
  "csv_records st [] =
     (if csv_len st \<noteq> 0 \<or> csv_mode st = IN_QUOTED_FIELD
      then ([rev (csv_fields (csv_save START_RECORD st))], None) else ([], None))"
| "csv_records st (c # cs) =
     (case csv_char c st of
        Inl e \<Rightarrow> ([], Some e)
      | Inr st' \<Rightarrow>
          if c = None \<and> csv_mode st' = START_RECORD
          then (case csv_records csv_start cs of (rs, e) \<Rightarrow> (rev (csv_fields st') # rs, e))
          else csv_records st' cs)"

definition csv_reader :: "string \<Rightarrow> string list list \<times> exn option" where
  "csv_reader text = csv_records csv_start (line_marks True text)"

section \<open>Rows\<close>

text \<open>A dict comprehension: a repeated key keeps its place and takes the last value.\<close>

type_synonym row = "(string \<times> string) list"

fun dict_put :: "string \<Rightarrow> string \<Rightarrow> row \<Rightarrow> row" where
  "dict_put k v [] = [(k, v)]"
| "dict_put k v ((k', v') # d) = (if k' = k then (k, v) # d else (k', v') # dict_put k v d)"

fun row_dict :: "string list \<Rightarrow> string list \<Rightarrow> row \<Rightarrow> row" where
  "row_dict [] vs d = d"
| "row_dict (h # hs) [] d = row_dict hs [] (dict_put h '''' d)"
| "row_dict (h # hs) (v # vs) d = row_dict hs vs (dict_put h v d)"

definition iter_csv_rows :: "string \<Rightarrow> row list \<times> exn option" where
  "iter_csv_rows text =
     (case csv_reader text of
        ([], e) \<Rightarrow> ([], e)
      | (first # records, e) \<Rightarrow>
          let headers = map py_strip first in
          (map (\<lambda>values. row_dict headers values [])
             (filter (\<lambda>values. \<not> list_all (\<lambda>v. py_strip v = '''') values) records), e))"

section \<open>Writing JSON\<close>

text \<open>\<open>json.dumps(..., ensure_ascii=False)\<close> of a string: only \<open>"\<close>, \<open>\\<close> and control characters are escaped.\<close>

definition hex_char :: "nat \<Rightarrow> char" where
  "hex_char n = (if n < 10 then char_of (48 + n) else char_of (87 + n))"

definition json_escape_char :: "char \<Rightarrow> string" where
  "json_escape_char c =
     (if c = QUOTE then [CHR 0x5C, QUOTE]
      else if c = CHR 0x5C then [CHR 0x5C, CHR 0x5C]
      else if c = LF then [CHR 0x5C, CHR ''n'']
      else if c = CR then [CHR 0x5C, CHR ''r'']
      else if c = CHR 0x09 then [CHR 0x5C, CHR ''t'']
      else if c = CHR 0x0C then [CHR 0x5C, CHR ''f'']
      else if c = CHR 0x08 then [CHR 0x5C, CHR ''b'']
      else if c < CHR 0x20
      then [CHR 0x5C, CHR ''u'', CHR ''0'', CHR ''0'', hex_char (of_char c div 16), hex_char (of_char c mod 16)]
      else [c])"

definition json_string :: "string \<Rightarrow> string" where
  "json_string s = QUOTE # concat (map json_escape_char s) @ [QUOTE]"

text \<open>\<open>sep.join(items)\<close>\<close>

fun join_with :: "string \<Rightarrow> string list \<Rightarrow> string" where
  "join_with sep [] = []"
| "join_with sep [x] = x"
| "join_with sep (x # y # xs) = x @ sep @ join_with sep (y # xs)"

definition encode_row :: "row \<Rightarrow> string" where
  "encode_row row = ''{'' @
     join_with '','' (map (\<lambda>(k, v). json_string k @ '':'' @ json_string v) row) @ ''}''"

section \<open>The generators\<close>

type_synonym chunks = "string list \<times> exn option"

definition COMMA_LF :: string where "COMMA_LF = [CHR '','', LF]"
definition OPEN_ARRAY :: string where "OPEN_ARRAY = [CHR 0x5B, LF]"
definition CLOSE_ARRAY :: string where "CLOSE_ARRAY = [LF, CHR 0x5D]"

fun row_chunks :: "bool \<Rightarrow> row list \<Rightarrow> string list" where
  "row_chunks first [] = []"
| "row_chunks first (r # rs) =
     (if first then [] else [COMMA_LF]) @ encode_row r # row_chunks False rs"

definition single_pass_json_generator :: "string \<Rightarrow> chunks" where
  "single_pass_json_generator text =
     (case iter_csv_rows text of (rows, e) \<Rightarrow>
        (OPEN_ARRAY # row_chunks True rows @ (if e = None then [CLOSE_ARRAY] else []), e))"

text \<open>
  One pass over the rows, lines 68 to 80: the chunks sent, and \<open>None\<close> when the size limit ended the
  stream or the new \<open>bytes_sent\<close> and \<open>first\<close>.
\<close>

fun send_rows :: "nat \<Rightarrow> row list \<Rightarrow> nat \<Rightarrow> bool \<Rightarrow> string list \<times> (nat \<times> bool) option" where
  "send_rows limit [] bytes_sent first = ([], Some (bytes_sent, first))"
| "send_rows limit (r # rs) bytes_sent first =
     (let candidate = (if first then '''' else COMMA_LF) @ encode_row r in
      if bytes_sent + length candidate > limit
      then ((if limit > bytes_sent then [take (limit - bytes_sent) candidate] else []) @ [CLOSE_ARRAY], None)
      else case send_rows limit rs (bytes_sent + length candidate) False of
             (cs, st) \<Rightarrow> (candidate # cs, st))"

text \<open>The \<open>while\<close> loop: \<open>n\<close> is \<open>multiplier - passes\<close>.\<close>

fun send_passes :: "nat \<Rightarrow> nat \<Rightarrow> row list \<Rightarrow> nat \<Rightarrow> bool \<Rightarrow> string list" where
  "send_passes limit 0 rows bytes_sent first = [CLOSE_ARRAY]"
| "send_passes limit (Suc n) rows bytes_sent first =
     (if bytes_sent \<ge> limit then [CLOSE_ARRAY]
      else case send_rows limit rows bytes_sent first of
             (cs, None) \<Rightarrow> cs
           | (cs, Some (b, f)) \<Rightarrow> cs @ send_passes limit n rows b f)"

definition multiplied_json_generator :: "string \<Rightarrow> int \<Rightarrow> int \<Rightarrow> chunks" where
  "multiplied_json_generator text multiplier size_limit_bytes =
     (case iter_csv_rows text of
        (_, Some e) \<Rightarrow> ([], Some e)
      | (rows, None) \<Rightarrow>
          if rows = [] then ([[CHR 0x5B, CHR 0x5D]], None)
          else (OPEN_ARRAY # send_passes (nat size_limit_bytes) (nat multiplier) rows 2 True, None))"

definition parse_multiply :: "string option \<Rightarrow> bool" where
  "parse_multiply v =
     (case v of None \<Rightarrow> False | Some s \<Rightarrow> py_lower s \<in> {''true'', ''1'', ''yes''})"

text \<open>The settings \<open>STREAM_MULTIPLIER\<close> and \<open>STREAM_SIZE_LIMIT_BYTES\<close> are arguments.\<close>

definition stream_json_file :: "int \<Rightarrow> int \<Rightarrow> string \<Rightarrow> bool \<Rightarrow> chunks" where
  "stream_json_file multiplier size_limit_bytes text multiply =
     (if \<not> multiply then single_pass_json_generator text
      else multiplied_json_generator text multiplier size_limit_bytes)"

section \<open>The reader inverts the quoting writer\<close>

text \<open>Records written with every field quoted, quotes doubled and lines ended by CR LF.\<close>

definition quote_field :: "string \<Rightarrow> string" where
  "quote_field f = QUOTE # concat (map (\<lambda>c. if c = QUOTE then [QUOTE, QUOTE] else [c]) f) @ [QUOTE]"

definition csv_write :: "string list list \<Rightarrow> string" where
  "csv_write rs = concat (map (\<lambda>r. join_with [DELIMITER] (map quote_field r) @ [CR, LF]) rs)"

definition code_points :: "string \<Rightarrow> nat" where
  "code_points s = length (filter (\<lambda>c. \<not> is_continuation c) s)"

lemma csv_chars_distinct [simp]:
  "LF \<noteq> CR" "CR \<noteq> LF" "QUOTE \<noteq> LF" "QUOTE \<noteq> CR" "LF \<noteq> QUOTE" "CR \<noteq> QUOTE"
  "DELIMITER \<noteq> QUOTE" "QUOTE \<noteq> DELIMITER" "DELIMITER \<noteq> LF" "DELIMITER \<noteq> CR"
  "LF \<noteq> DELIMITER" "CR \<noteq> DELIMITER"
  by (simp_all add: LF_def CR_def QUOTE_def DELIMITER_def)

lemma line_marks_start: "s \<noteq> [] \<Longrightarrow> line_marks b s = line_marks b' s"
  by (cases s) simp_all

lemma records_quoted_content:
  assumes "csv_mode st = IN_QUOTED_FIELD" and "csv_len st + code_points f \<le> FIELD_LIMIT"
  shows "csv_records st (line_marks b
       (concat (map (\<lambda>c. if c = QUOTE then [QUOTE, QUOTE] else [c]) f) @ QUOTE # rest)) =
     csv_records (st\<lparr>csv_field := rev f @ csv_field st, csv_len := csv_len st + code_points f\<rparr>)
       (line_marks b (QUOTE # rest))"
  using assms
proof (induction f arbitrary: st b)
  case Nil
  then show ?case by (simp add: code_points_def)
next
  case (Cons c f)
  let ?more = "concat (map (\<lambda>c. if c = QUOTE then [QUOTE, QUOTE] else [c]) f) @ QUOTE # rest"
  define st' where "st' = st\<lparr>csv_field := c # csv_field st,
      csv_len := csv_len st + (if is_continuation c then 0 else 1)\<rparr>"
  have add: "csv_add IN_QUOTED_FIELD c st1 = Inr st'"
    if "csv_field st1 = csv_field st" "csv_len st1 = csv_len st" "csv_fields st1 = csv_fields st" for st1
    using that Cons.prems by (cases st1; cases st) (auto simp: csv_add_def st'_def code_points_def split: if_splits)
  have step: "csv_records st (line_marks b
      ((if c = QUOTE then [QUOTE, QUOTE] else [c]) @ ?more)) = csv_records st' (line_marks b' ?more)" for b'
  proof (cases "c = QUOTE")
    case True
    then show ?thesis
      using Cons.prems(1) add [of "st\<lparr>csv_mode := QUOTE_IN_QUOTED_FIELD\<rparr>"]
      by (simp add: line_marks_start [of ?more b' False])
  next
    case False
    have "csv_mode st' = IN_QUOTED_FIELD" using Cons.prems(1) by (simp add: st'_def)
    then show ?thesis
      using False Cons.prems(1) add [of st]
      by (simp add: line_marks_start [of ?more b' False] line_marks_start [of ?more True False])
  qed
  have "csv_records st' (line_marks b ?more) =
      csv_records (st'\<lparr>csv_field := rev f @ csv_field st', csv_len := csv_len st' + code_points f\<rparr>)
        (line_marks b (QUOTE # rest))"
    by (rule Cons.IH) (use Cons.prems in \<open>auto simp: st'_def code_points_def\<close>)
  moreover have "st'\<lparr>csv_field := rev f @ csv_field st', csv_len := csv_len st' + code_points f\<rparr> =
      st\<lparr>csv_field := rev (c # f) @ csv_field st, csv_len := csv_len st + code_points (c # f)\<rparr>"
    by (simp add: st'_def code_points_def)
  ultimately show ?case using step [of b] by simp
qed

lemma records_quoted_field:
  assumes "csv_mode st \<in> {START_RECORD, START_FIELD}" and "csv_field st = []" and "csv_len st = 0"
    and "code_points f \<le> FIELD_LIMIT"
  shows "csv_records st (line_marks b (quote_field f @ DELIMITER # rest)) =
      csv_records (st\<lparr>csv_mode := START_FIELD, csv_fields := f # csv_fields st\<rparr>) (line_marks False rest)"
    and "csv_records st (line_marks b (quote_field f @ CR # LF # rest)) =
      (case csv_records csv_start (line_marks True rest) of (rs, e) \<Rightarrow>
         (rev (f # csv_fields st) # rs, e))"
proof -
  have st: "csv_char (Some QUOTE) st = Inr (st\<lparr>csv_mode := IN_QUOTED_FIELD\<rparr>)"
    using assms(1) by (auto simp: csv_start_field_def)
  have content: "csv_records st (line_marks b (quote_field f @ tail)) =
      csv_records (st\<lparr>csv_mode := IN_QUOTED_FIELD, csv_field := rev f, csv_len := code_points f\<rparr>)
        (line_marks False (QUOTE # tail))" for tail
    using records_quoted_content [of "st\<lparr>csv_mode := IN_QUOTED_FIELD\<rparr>" f False tail] assms(2-4)
    by (simp add: quote_field_def st del: csv_char.simps)
  show "csv_records st (line_marks b (quote_field f @ DELIMITER # rest)) =
      csv_records (st\<lparr>csv_mode := START_FIELD, csv_fields := f # csv_fields st\<rparr>) (line_marks False rest)"
    unfolding content using assms(2,3) by (cases st) (simp add: csv_save_def)
  show "csv_records st (line_marks b (quote_field f @ CR # LF # rest)) =
      (case csv_records csv_start (line_marks True rest) of (rs, e) \<Rightarrow> (rev (f # csv_fields st) # rs, e))"
    unfolding content by (simp add: csv_save_def)
qed

lemma records_quoted_record:
  assumes "r \<noteq> []" and "list_all (\<lambda>f. code_points f \<le> FIELD_LIMIT) r"
    and "csv_mode st \<in> {START_RECORD, START_FIELD}" and "csv_field st = []" and "csv_len st = 0"
  shows "csv_records st (line_marks b (join_with [DELIMITER] (map quote_field r) @ CR # LF # rest)) =
     (case csv_records csv_start (line_marks True rest) of (rs, e) \<Rightarrow>
        ((rev (csv_fields st) @ r) # rs, e))"
  using assms
proof (induction r arbitrary: st b rule: induct_list012)
  case (2 f)
  then show ?case using records_quoted_field(2) [of st f b rest] by simp
next
  case (3 f g r)
  have "csv_records st (line_marks b (quote_field f @ DELIMITER #
          (join_with [DELIMITER] (map quote_field (g # r)) @ CR # LF # rest))) =
      csv_records (st\<lparr>csv_mode := START_FIELD, csv_fields := f # csv_fields st\<rparr>)
        (line_marks False (join_with [DELIMITER] (map quote_field (g # r)) @ CR # LF # rest))"
    by (rule records_quoted_field(1)) (use "3.prems" in simp_all)
  also have "\<dots> = (case csv_records csv_start (line_marks True rest) of (rs, e) \<Rightarrow>
      ((rev (f # csv_fields st) @ g # r) # rs, e))"
    using "3.IH"(2) [of "st\<lparr>csv_mode := START_FIELD, csv_fields := f # csv_fields st\<rparr>" False] "3.prems" by simp
  finally show ?case by simp
qed simp

lemma csv_reader_write:
  assumes "list_all (\<lambda>r. r \<noteq> [] \<and> list_all (\<lambda>f. code_points f \<le> FIELD_LIMIT) r) rs"
  shows "csv_reader (csv_write rs) = (rs, None)"
  using assms
proof (induction rs)
  case Nil
  then show ?case by (simp add: csv_reader_def csv_write_def csv_start_def)
next
  case (Cons r rs)
  then have "csv_records csv_start (line_marks True (csv_write rs)) = (rs, None)"
    by (simp add: csv_reader_def)
  moreover have "csv_records csv_start (line_marks True
      (join_with [DELIMITER] (map quote_field r) @ CR # LF # csv_write rs)) =
      (case csv_records csv_start (line_marks True (csv_write rs)) of (rs, e) \<Rightarrow>
        ((rev (csv_fields csv_start) @ r) # rs, e))"
    by (rule records_quoted_record) (use Cons.prems in \<open>simp_all add: csv_start_def\<close>)
  ultimately show ?case by (simp add: csv_reader_def csv_write_def csv_start_def)
qed

section \<open>A JSON reader for the stream\<close>

text \<open>
  The specification of the stream's format: a reader of a string literal (after its opening quote), of an
  object of strings and of an array of such objects, each returning the text that is left.  Escapes
  \<open>\u\<close> are read below 128, which is all a writer with \<open>ensure_ascii=False\<close> needs.
\<close>

definition hex_value :: "char \<Rightarrow> nat option" where
  "hex_value c =
     (if CHR ''0'' \<le> c \<and> c \<le> CHR ''9'' then Some (of_char c - 48)
      else if CHR ''a'' \<le> c \<and> c \<le> CHR ''f'' then Some (of_char c - 87)
      else None)"

fun read_string :: "string \<Rightarrow> (string \<times> string) option" where
  "read_string [] = None"
| "read_string (c # s) =
     (if c = QUOTE then Some ([], s)
      else if c = CHR 0x5C then
        (case s of
           [] \<Rightarrow> None
         | e # s' \<Rightarrow>
             if e = CHR ''u'' then
               (case s' of
                  h1 # h2 # h3 # h4 # t \<Rightarrow>
                    (case (hex_value h3, hex_value h4) of
                       (Some a, Some b) \<Rightarrow>
                         if h1 = CHR ''0'' \<and> h2 = CHR ''0'' \<and> a < 8
                         then map_option (apfst ((#) (char_of (16 * a + b)))) (read_string t)
                         else None
                     | _ \<Rightarrow> None)
                | _ \<Rightarrow> None)
             else
               (case map_of [(QUOTE, QUOTE), (CHR 0x5C, CHR 0x5C), (CHR ''/'', CHR ''/''),
                             (CHR ''n'', LF), (CHR ''r'', CR), (CHR ''t'', CHR 0x09),
                             (CHR ''f'', CHR 0x0C), (CHR ''b'', CHR 0x08)] e of
                  None \<Rightarrow> None
                | Some c' \<Rightarrow> map_option (apfst ((#) c')) (read_string s')))
      else if c < CHR 0x20 then None
      else map_option (apfst ((#) c)) (read_string s))"

lemma read_escaped_char:
  "read_string (json_escape_char c @ s) = map_option (apfst ((#) c)) (read_string s)"
proof (cases "c < CHR 0x20 \<and> c \<notin> {LF, CR, CHR 0x09, CHR 0x0C, CHR 0x08}")
  case True
  define n where "n = (of_char c :: nat)"
  have n: "n < 32" "c = char_of n" using True by (simp_all add: n_def less_char_def)
  have "list_all (\<lambda>n. hex_value (hex_char (n div 16)) = Some (n div 16) \<and>
      hex_value (hex_char (n mod 16)) = Some (n mod 16)) [0..<32]"
    by code_simp
  then have "hex_value (hex_char (n div 16)) = Some (n div 16)"
    "hex_value (hex_char (n mod 16)) = Some (n mod 16)"
    using n(1) by (auto simp: list_all_iff)
  moreover have "n div 16 < 8" "c \<noteq> QUOTE" "c \<noteq> CHR 0x5C"
    using True n(1) by (auto simp: QUOTE_def less_char_def)
  moreover have "char_of (16 * (n div 16) + n mod 16) = c" using n(2) by simp
  ultimately show ?thesis
    using True by (simp add: json_escape_char_def n_def [symmetric] QUOTE_def)
next
  case False
  then show ?thesis by (auto simp: json_escape_char_def LF_def CR_def QUOTE_def)
qed

lemma read_json_string:
  "read_string (concat (map json_escape_char s) @ QUOTE # rest) = Some (s, rest)"
  by (induction s) (simp_all add: read_escaped_char)

text \<open>Members \<open>"k":"v"\<close>, separated by commas, up to the closing brace; \<open>n\<close> bounds their number.\<close>

fun read_members :: "nat \<Rightarrow> string \<Rightarrow> (row \<times> string) option" where
  "read_members 0 s = None"
| "read_members (Suc n) s =
     (case s of
        c # s1 \<Rightarrow>
          if c \<noteq> QUOTE then None else
          (case read_string s1 of
             Some (k, c1 # c2 # s2) \<Rightarrow>
               if c1 \<noteq> CHR '':'' \<or> c2 \<noteq> QUOTE then None else
               (case read_string s2 of
                  Some (v, c3 # s3) \<Rightarrow>
                    if c3 = CHR 0x7D then Some ([(k, v)], s3)
                    else if c3 = CHR '','' then map_option (apfst ((#) (k, v))) (read_members n s3)
                    else None
                | _ \<Rightarrow> None)
           | _ \<Rightarrow> None)
      | [] \<Rightarrow> None)"

definition read_object :: "string \<Rightarrow> (row \<times> string) option" where
  "read_object s =
     (case s of
        c # c1 # s1 \<Rightarrow>
          if c \<noteq> CHR 0x7B then None
          else if c1 = CHR 0x7D then Some ([], s1)
          else read_members (length s) (c1 # s1)
      | _ \<Rightarrow> None)"

lemma read_member_list:
  assumes "r \<noteq> []" and "length r \<le> n"
  shows "read_members n (join_with '','' (map (\<lambda>(k, v). json_string k @ '':'' @ json_string v) r) @
      CHR 0x7D # rest) = Some (r, rest)"
  using assms
proof (induction r arbitrary: n rule: induct_list012)
  case (2 m)
  then obtain n' where "n = Suc n'" by (cases n) auto
  then show ?case by (cases m) (simp add: json_string_def read_json_string)
next
  case (3 m m' r)
  then obtain n' where n: "n = Suc n'" by (cases n) auto
  from "3.IH"(2) [of n'] "3.prems" n have
    "read_members n' (join_with '','' (map (\<lambda>(k, v). json_string k @ '':'' @ json_string v) (m' # r)) @
      CHR 0x7D # rest) = Some (m' # r, rest)" by simp
  with n show ?case by (cases m) (simp add: json_string_def read_json_string)
qed simp

lemma length_member_list:
  "length r \<le> length (join_with '','' (map (\<lambda>(k, v). json_string k @ '':'' @ json_string v) r))"
  by (induction r rule: induct_list012) (auto simp: json_string_def)

lemma read_encoded_row: "read_object (encode_row r @ rest) = Some (r, rest)"
proof (cases r)
  case Nil
  then show ?thesis by (simp add: read_object_def encode_row_def)
next
  case (Cons m r')
  let ?ms = "join_with '','' (map (\<lambda>(k, v). json_string k @ '':'' @ json_string v) r)"
  obtain tl where ms: "?ms = QUOTE # tl"
    using Cons by (cases m; cases r') (simp_all add: json_string_def)
  have "length r \<le> length (encode_row r @ rest)"
    using length_member_list [of r] by (simp add: encode_row_def)
  then have members: "read_members (length (encode_row r @ rest)) (?ms @ CHR 0x7D # rest) = Some (r, rest)"
    using read_member_list [of r "length (encode_row r @ rest)" rest] Cons by simp
  have "encode_row r @ rest = CHR 0x7B # QUOTE # tl @ CHR 0x7D # rest"
    using ms by (simp add: encode_row_def)
  then have "read_object (encode_row r @ rest) =
      read_members (length (encode_row r @ rest)) (QUOTE # tl @ CHR 0x7D # rest)"
    by (simp add: read_object_def QUOTE_def del: read_members.simps)
  with members ms show ?thesis by simp
qed

text \<open>An array whose items are separated as the generators separate them.\<close>

fun read_items :: "nat \<Rightarrow> string \<Rightarrow> row list option" where
  "read_items 0 s = None"
| "read_items (Suc n) s =
     (case read_object s of
        None \<Rightarrow> None
      | Some (r, s') \<Rightarrow>
          if s' = CLOSE_ARRAY then Some [r]
          else if prefix COMMA_LF s' then map_option ((#) r) (read_items n (drop 2 s'))
          else None)"

definition read_stream :: "string \<Rightarrow> row list option" where
  "read_stream s =
     (if s = OPEN_ARRAY @ CLOSE_ARRAY \<or> s = [CHR 0x5B, CHR 0x5D] then Some []
      else if prefix OPEN_ARRAY s then read_items (length s) (drop 2 s)
      else None)"

lemma row_chunks_text:
  "concat (row_chunks first rows) =
     (if first \<or> rows = [] then '''' else COMMA_LF) @ join_with COMMA_LF (map encode_row rows)"
proof (induction rows arbitrary: first)
  case (Cons r rows)
  then show ?case by (cases rows) simp_all
qed simp

lemma close_not_comma: "CLOSE_ARRAY \<noteq> COMMA_LF @ s"
  by (simp add: CLOSE_ARRAY_def COMMA_LF_def LF_def)

lemma read_item_list:
  assumes "rows \<noteq> []" and "length rows \<le> n"
  shows "read_items n (join_with COMMA_LF (map encode_row rows) @ CLOSE_ARRAY) = Some rows"
  using assms
proof (induction rows arbitrary: n rule: induct_list012)
  case (2 r)
  then obtain n' where "n = Suc n'" by (cases n) auto
  then show ?case by (simp add: read_encoded_row)
next
  case (3 r r' rows)
  then obtain n' where n: "n = Suc n'" by (cases n) auto
  from "3.IH"(2) [of n'] "3.prems" n have
    "read_items n' (join_with COMMA_LF (map encode_row (r' # rows)) @ CLOSE_ARRAY) = Some (r' # rows)"
    by simp
  with n show ?case
    using close_not_comma by (simp add: read_encoded_row) (simp add: COMMA_LF_def CLOSE_ARRAY_def LF_def)
qed simp

lemma length_items: "length rows \<le> length (join_with COMMA_LF (map encode_row rows))"
  by (induction rows rule: induct_list012) (auto simp: encode_row_def COMMA_LF_def)

lemma read_array:
  "read_stream (OPEN_ARRAY @ join_with COMMA_LF (map encode_row rows) @ CLOSE_ARRAY) = Some rows"
proof (cases rows)
  case Nil
  then show ?thesis by (simp add: read_stream_def)
next
  case (Cons r rs)
  let ?items = "join_with COMMA_LF (map encode_row rows)"
  obtain tl where tl: "?items = CHR 0x7B # tl" using Cons by (cases rs) (simp_all add: encode_row_def)
  have "read_items (length (OPEN_ARRAY @ ?items @ CLOSE_ARRAY)) (?items @ CLOSE_ARRAY) = Some rows"
    by (rule read_item_list) (use Cons length_items [of rows] in simp_all)
  with tl show ?thesis
    by (simp add: read_stream_def OPEN_ARRAY_def CLOSE_ARRAY_def LF_def)
qed

section \<open>What the generators send\<close>

lemma row_chunks_append:
  "row_chunks first (rs @ qs) = row_chunks first rs @ row_chunks (first \<and> rs = []) qs"
  by (induction rs arbitrary: first) simp_all

lemma send_rows_text:
  assumes "send_rows limit rs b first = (cs, st)" and "b \<le> limit"
  shows "case st of
       None \<Rightarrow> limit - b < length (concat (row_chunks first rs)) \<and>
         concat cs = take (limit - b) (concat (row_chunks first rs)) @ CLOSE_ARRAY
     | Some (b', f') \<Rightarrow> concat cs = concat (row_chunks first rs) \<and>
         b' = b + length (concat (row_chunks first rs)) \<and> b' \<le> limit \<and> f' = (first \<and> rs = [])"
  using assms
proof (induction rs arbitrary: b first cs st)
  case (Cons r rs)
  define cand where "cand = (if first then '''' else COMMA_LF) @ encode_row r"
  have whole: "concat (row_chunks first (r # rs)) = cand @ concat (row_chunks False rs)"
    by (simp add: cand_def)
  show ?case
  proof (cases "b + length cand > limit")
    case True
    with Cons.prems have "cs = (if limit > b then [take (limit - b) cand] else []) @ [CLOSE_ARRAY]" "st = None"
      by (auto simp: cand_def Let_def split: if_splits)
    with True show ?thesis
      unfolding whole using Cons.prems(2) by (auto simp: not_less)
  next
    case False
    obtain cs' st' where rec: "send_rows limit rs (b + length cand) False = (cs', st')"
      by (cases "send_rows limit rs (b + length cand) False")
    with Cons.prems False have cs: "cs = cand # cs'" "st = st'"
      by (auto simp: cand_def [symmetric] Let_def)
    from Cons.IH [OF rec] False have IH: "case st' of
         None \<Rightarrow> limit - (b + length cand) < length (concat (row_chunks False rs)) \<and>
           concat cs' = take (limit - (b + length cand)) (concat (row_chunks False rs)) @ CLOSE_ARRAY
       | Some (b', f') \<Rightarrow> concat cs' = concat (row_chunks False rs) \<and>
           b' = b + length cand + length (concat (row_chunks False rs)) \<and> b' \<le> limit \<and> f' = (False \<and> rs = [])"
      by simp
    show ?thesis
    proof (cases st')
      case None
      have "take (limit - b) (cand @ concat (row_chunks False rs)) =
          cand @ take (limit - (b + length cand)) (concat (row_chunks False rs))"
        using False by simp
      moreover have "limit - (b + length cand) < n \<Longrightarrow> limit - b < length cand + n" for n
        by linarith
      ultimately show ?thesis using IH None cs unfolding whole by simp
    next
      case (Some bf)
      with IH cs show ?thesis unfolding whole by (cases bf) simp
    qed
  qed
qed simp

lemma send_passes_text:
  assumes "rows \<noteq> []"
  shows "concat (send_passes limit n rows b first) =
     take (limit - b) (concat (row_chunks first (concat (replicate n rows)))) @ CLOSE_ARRAY"
proof (induction n arbitrary: b first)
  case (Suc n)
  let ?t = "concat (row_chunks first rows)" and ?u = "concat (row_chunks False (concat (replicate n rows)))"
  have whole: "concat (row_chunks first (concat (replicate (Suc n) rows))) = ?t @ ?u"
    using assms by (simp add: row_chunks_append)
  show ?case
  proof (cases "b \<ge> limit")
    case False
    obtain cs st where send: "send_rows limit rows b first = (cs, st)"
      by (cases "send_rows limit rows b first")
    note sent = send_rows_text [OF this] 
    show ?thesis
    proof (cases st)
      case None
      with sent False have "limit - b < length ?t" "concat cs = take (limit - b) ?t @ CLOSE_ARRAY" by simp_all
      with None False send show ?thesis unfolding whole by simp
    next
      case (Some bf)
      then obtain b' f' where bf: "st = Some (b', f')" by (cases bf) simp
      with sent False have s: "concat cs = ?t" "b' = b + length ?t" "b' \<le> limit" "f' = False"
        using assms by simp_all
      have "take (limit - b) (?t @ ?u) = ?t @ take (limit - b') ?u" using s by simp
      with bf False send s Suc.IH [of b' f'] show ?thesis unfolding whole by simp
    qed
  qed simp
qed simp

lemma dict_put_new: "k \<notin> fst ` set d \<Longrightarrow> dict_put k v d = d @ [(k, v)]"
  by (induction d) auto

lemma row_dict_short: "distinct hs \<Longrightarrow> set hs \<inter> fst ` set d = {} \<Longrightarrow>
    row_dict hs [] d = d @ map (\<lambda>h. (h, '''')) hs"
  by (induction hs arbitrary: d) (auto simp: dict_put_new)

text \<open>A short row is filled with empty strings; the excess of a long row is dropped.\<close>

lemma row_dict_general:
  assumes "distinct hs" and "set hs \<inter> fst ` set d = {}"
  shows "row_dict hs vs d = d @ zip hs (vs @ replicate (length hs - length vs) '''')"
  using assms
proof (induction hs vs d rule: row_dict.induct)
  case (2 h hs d)
  then have "row_dict (h # hs) [] d = d @ map (\<lambda>h. (h, '''')) (h # hs)"
    by (intro row_dict_short) auto
  moreover have "zip hs (replicate (length hs) ('''' :: string)) = map (\<lambda>h. (h, '''')) hs" for hs :: "string list"
    by (induction hs) simp_all
  ultimately show ?case by simp
next
  case (3 h hs v vs d)
  then have "row_dict hs vs (d @ [(h, v)]) = (d @ [(h, v)]) @ zip hs (vs @ replicate (length hs - length vs) '''')"
    by (auto simp: dict_put_new)
  with 3 show ?case by (auto simp: dict_put_new)
qed simp

lemma iter_rows_write:
  assumes "hs \<noteq> []" and "distinct (map py_strip hs)"
    and "list_all (\<lambda>r. r \<noteq> [] \<and> list_all (\<lambda>f. code_points f \<le> FIELD_LIMIT) r) (hs # rs)"
    and "list_all (\<lambda>r. \<not> list_all (\<lambda>f. py_strip f = '''') r) rs"
  shows "iter_csv_rows (csv_write (hs # rs)) =
     (map (\<lambda>r. zip (map py_strip hs) (r @ replicate (length hs - length r) '''')) rs, None)"
proof -
  have "filter (\<lambda>r. \<not> list_all (\<lambda>f. py_strip f = '''') r) rs = rs"
    using assms(4) by (simp add: filter_id_conv list_all_iff)
  then show ?thesis
    using csv_reader_write [OF assms(3)] row_dict_general [OF assms(2), of "[]"]
    by (simp add: iter_csv_rows_def)
qed

lemma single_pass_text:
  "concat (fst (single_pass_json_generator file)) =
     (case iter_csv_rows file of (rows, e) \<Rightarrow>
        OPEN_ARRAY @ join_with COMMA_LF (map encode_row rows) @ (if e = None then CLOSE_ARRAY else ''''))"
  by (cases "iter_csv_rows file"; cases "snd (iter_csv_rows file)")
    (simp_all add: single_pass_json_generator_def row_chunks_text)

lemma multiplied_text:
  assumes "iter_csv_rows file = (rows, None)" and "rows \<noteq> []"
  shows "concat (fst (multiplied_json_generator file multiplier limit)) =
     OPEN_ARRAY @ take (nat limit - 2)
       (join_with COMMA_LF (map encode_row (concat (replicate (nat multiplier) rows)))) @ CLOSE_ARRAY"
  using assms by (simp add: multiplied_json_generator_def send_passes_text row_chunks_text)

section \<open>Properties\<close>

text \<open>
  Property C9. Every complete export is JSON that decodes to the rows of the file: reading the stream of a
  file without a reader error gives exactly the rows, in order, keys and values unchanged; with a
  reader error the stream sends the rows before it, ends without the closing bracket and re-raises.
\<close>

theorem export_decodes:
  "case iter_csv_rows file of
     (rows, None) \<Rightarrow>
       read_stream (concat (fst (single_pass_json_generator file))) = Some rows \<and>
       snd (single_pass_json_generator file) = None
   | (rows, Some e) \<Rightarrow>
       concat (fst (single_pass_json_generator file)) =
         OPEN_ARRAY @ join_with COMMA_LF (map encode_row rows) \<and>
       snd (single_pass_json_generator file) = Some e"
proof (cases "iter_csv_rows file")
  case (Pair rows e)
  show ?thesis
  proof (cases e)
    case None
    with Pair read_array [of rows] show ?thesis
      by (simp add: single_pass_text) (simp add: single_pass_json_generator_def)
  next
    case (Some x)
    with Pair show ?thesis
      by (simp add: single_pass_text) (simp add: single_pass_json_generator_def)
  qed
qed

text \<open>
  The CSV reader inverts the quoting writer: any table whose records have a field and whose
  fields are at most 131072 characters is read back unchanged, whatever delimiters, quotes and line
  ends the fields contain.
\<close>

theorem csv_roundtrip:
  assumes "list_all (\<lambda>r. r \<noteq> [] \<and> list_all (\<lambda>f. code_points f \<le> FIELD_LIMIT) r) table"
  shows "csv_reader (csv_write table) = (table, None)"
  by (rule csv_reader_write [OF assms])

lemma csv_roundtrip_witness:
  "csv_reader (csv_write [[''a;b'', [QUOTE, CR, LF]], ['''']]) = ([[''a;b'', [QUOTE, CR, LF]], ['''']], None)"
  by (rule csv_roundtrip) (simp add: code_points_def FIELD_LIMIT_def)

text \<open>
  From the CSV file to the decoded stream: a table with distinct headers and no blank row is
  exported as one object per row that maps each stripped header to the row's value, missing values to
  the empty string, and drops surplus values.
\<close>

theorem table_exported:
  assumes "hs \<noteq> []" and "distinct (map py_strip hs)"
    and "list_all (\<lambda>r. r \<noteq> [] \<and> list_all (\<lambda>f. code_points f \<le> FIELD_LIMIT) r) (hs # rs)"
    and "list_all (\<lambda>r. \<not> list_all (\<lambda>f. py_strip f = '''') r) rs"
  shows "read_stream (concat (fst (single_pass_json_generator (csv_write (hs # rs))))) =
     Some (map (\<lambda>r. zip (map py_strip hs) (r @ replicate (length hs - length r) '''')) rs)"
  unfolding single_pass_text iter_rows_write [OF assms] by (simp add: read_array del: map_map)

lemma table_exported_witness:
  "read_stream (concat (fst (single_pass_json_generator
       (csv_write [['' id'', ''note''], [''1'', ''a;b''], [''2'']])))) =
     Some [[(''id'', ''1''), (''note'', ''a;b'')], [(''id'', ''2''), (''note'', '''')]]"
proof -
  let ?hs = "['' id'', ''note'']" and ?rs = "[[''1'', ''a;b''], [''2'']]"
  have strip: "map py_strip ?hs = [''id'', ''note'']" by code_simp
  have limits: "list_all (\<lambda>r. r \<noteq> [] \<and> list_all (\<lambda>f. code_points f \<le> FIELD_LIMIT) r) (?hs # ?rs)"
    by (simp add: code_points_def FIELD_LIMIT_def is_continuation_def less_eq_char_def less_char_def)
  have nonblank: "list_all (\<lambda>r. \<not> list_all (\<lambda>f. py_strip f = '''') r) ?rs" by code_simp
  have "distinct (map py_strip ?hs)" unfolding strip by simp
  from table_exported [OF _ this limits nonblank] show ?thesis
    unfolding strip by (simp add: numeral_2_eq_2)
qed

text \<open>
  Property C35. The multiplied stream is exactly the repeated rows cut at the size limit, between brackets: it
  never sends more than the limit and the closing bracket, and when the repeated rows fit it decodes to
  the rows repeated \<open>multiplier\<close> times.
\<close>

theorem multiplied_stream:
  "case iter_csv_rows file of
     (rows, None) \<Rightarrow>
       let out = concat (fst (multiplied_json_generator file multiplier limit));
           body = join_with COMMA_LF (map encode_row (concat (replicate (nat multiplier) rows)))
       in length out \<le> max (nat limit) 2 + 2 \<and>
          (if rows = [] then read_stream out = Some []
           else out = OPEN_ARRAY @ take (nat limit - 2) body @ CLOSE_ARRAY \<and>
             (length body \<le> nat limit - 2 \<longrightarrow>
                read_stream out = Some (concat (replicate (nat multiplier) rows))))
   | (_, Some e) \<Rightarrow> multiplied_json_generator file multiplier limit = ([], Some e)"
proof (cases "iter_csv_rows file")
  case (Pair rows e)
  show ?thesis
  proof (cases e)
    case None
    show ?thesis
    proof (cases "rows = []")
      case True
      with Pair None show ?thesis
        by (simp add: multiplied_json_generator_def read_stream_def Let_def)
    next
      case False
      from multiplied_text [of "file" rows multiplier limit] Pair None False show ?thesis
        using read_array [of "concat (replicate (nat multiplier) rows)"]
        by (auto simp: Let_def OPEN_ARRAY_def CLOSE_ARRAY_def)
    qed
  next
    case (Some x)
    with Pair show ?thesis by (simp add: multiplied_json_generator_def)
  qed
qed

lemma multiplied_stream_witness:
  "read_stream (concat (fst (multiplied_json_generator (csv_write [[''a''], [''x'']]) 2 100))) =
     Some [[(''a'', ''x'')], [(''a'', ''x'')]]"
proof -
  have strip: "map py_strip [''a''] = [''a'']" by code_simp
  have limits: "list_all (\<lambda>r. r \<noteq> [] \<and> list_all (\<lambda>f. code_points f \<le> FIELD_LIMIT) r) ([''a''] # [[''x'']])"
    by (simp add: code_points_def FIELD_LIMIT_def is_continuation_def less_eq_char_def less_char_def)
  have nonblank: "list_all (\<lambda>r. \<not> list_all (\<lambda>f. py_strip f = '''') r) [[''x'']]" by code_simp
  have "distinct (map py_strip [''a''])" by simp
  from iter_rows_write [OF _ this limits nonblank]
  have rows: "iter_csv_rows (csv_write [[''a''], [''x'']]) = ([[(''a'', ''x'')]], None)"
    unfolding strip by simp
  have "length (join_with COMMA_LF (map encode_row (concat (replicate 2 [[(''a'', ''x'')]])))) \<le> 98"
    by code_simp
  with multiplied_stream [of "csv_write [[''a''], [''x'']]" 2 100] show ?thesis
    by (auto simp: rows Let_def numeral_2_eq_2)
qed

end
