(* ===== verification/BankStorage.thy ===== *)
theory BankStorage
  imports BankStreaming
begin

text \<open>
  The storage and the HTTP views of the simulated bank: \<open>external_bank/bank/services/storage.py\<close>,
  \<open>external_bank/bank/constants.py\<close>, \<open>models.py\<close>, \<open>serializers.py\<close> and \<open>views.py\<close>.

  The file system below \<open>STORAGE_ROOT\<close> is a map from paths (lists of names) to file contents; an upload
  request is what DRF hands to the serializer.
\<close>

section \<open>Constants and paths\<close>

definition TENANT_IDS :: "string list" where
  "TENANT_IDS = [''BANK001'', ''BANK002'', ''BANK003'']"

definition BANK_LOAN_TYPES :: "string list" where
  "BANK_LOAN_TYPES = [''RETAIL'', ''COMMERCIAL'']"

definition CREDITS_FILENAME :: string where "CREDITS_FILENAME = ''credits.csv''"
definition PAYMENTS_FILENAME :: string where "PAYMENTS_FILENAME = ''payments.csv''"

type_synonym path = "string list"

definition portfolio_dir :: "string \<Rightarrow> string \<Rightarrow> path" where
  "portfolio_dir tenant_id loan_type = [tenant_id, loan_type]"

definition credits_path :: "string \<Rightarrow> string \<Rightarrow> path" where
  "credits_path tenant_id loan_type = portfolio_dir tenant_id loan_type @ [CREDITS_FILENAME]"

definition payments_path :: "string \<Rightarrow> string \<Rightarrow> path" where
  "payments_path tenant_id loan_type = portfolio_dir tenant_id loan_type @ [PAYMENTS_FILENAME]"

section \<open>State\<close>

record portfolio_upload =
  credits_size_bytes :: nat
  payments_size_bytes :: nat
  uploaded_at :: int

text \<open>\<open>unique_portfolio_upload\<close>: at most one row per tenant and loan type.\<close>

record bank =
  files :: "path \<rightharpoonup> string"
  uploads :: "string \<times> string \<rightharpoonup> portfolio_upload"
  bank_now :: int

record upload_file =
  file_name :: string
  file_chunks :: "string list"

record upload_request =
  form_tenant_id :: "string option"
  form_loan_type :: "string option"
  form_credit_file :: "upload_file option"
  form_payment_plan_file :: "upload_file option"

section \<open>Storage\<close>

fun write_chunks :: "string list \<Rightarrow> string \<Rightarrow> nat \<Rightarrow> string \<times> nat" where
  "write_chunks [] content n = (content, n)"
| "write_chunks (chunk # chunks) content n =
     write_chunks chunks (content @ chunk) (n + length chunk)"

definition write_uploaded_file :: "upload_file \<Rightarrow> path \<Rightarrow> bank \<Rightarrow> bank \<times> nat" where
  "write_uploaded_file f destination b =
     (case write_chunks (file_chunks f) '''' 0 of (content, n) \<Rightarrow>
        (b\<lparr>files := (files b)(destination \<mapsto> content)\<rparr>, n))"

definition save_upload_files ::
    "string \<Rightarrow> string \<Rightarrow> upload_file \<Rightarrow> upload_file \<Rightarrow> bank \<Rightarrow> bank \<times> nat \<times> nat" where
  "save_upload_files tenant_id loan_type credit_file payment_plan_file b =
     (case write_uploaded_file credit_file (credits_path tenant_id loan_type) b of (b1, credits_size) \<Rightarrow>
      case write_uploaded_file payment_plan_file (payments_path tenant_id loan_type) b1 of (b2, payments_size) \<Rightarrow>
        (b2, credits_size, payments_size))"

text \<open>One round of the inner loop of \<open>list_portfolios\<close>.\<close>

definition portfolio_entry :: "bank \<Rightarrow> string \<Rightarrow> string \<Rightarrow> pydict list" where
  "portfolio_entry b tenant_id loan_type =
     (let credits = files b (credits_path tenant_id loan_type);
          payments = files b (payments_path tenant_id loan_type);
          bytes = (\<lambda>f. case f of None \<Rightarrow> 0 | Some content \<Rightarrow> int (length content))
      in if credits = None \<and> payments = None then []
         else [[(''tenant_id'', JStr tenant_id), (''loan_type'', JStr loan_type),
                (''has_credits'', JBool (credits \<noteq> None)), (''has_payments'', JBool (payments \<noteq> None)),
                (''credits_size_bytes'', JInt (bytes credits)),
                (''payments_size_bytes'', JInt (bytes payments))]])"

definition list_portfolios :: "bank \<Rightarrow> pydict list" where
  "list_portfolios b =
     concat (map (\<lambda>t. concat (map (\<lambda>l. portfolio_entry b t l) BANK_LOAN_TYPES)) TENANT_IDS)"

definition validate_tenant_id :: "string \<Rightarrow> string option" where
  "validate_tenant_id tenant_id =
     (if tenant_id \<notin> set TENANT_IDS
      then Some (''Invalid tenant_id. Must be one of: '' @ join_with '', '' TENANT_IDS) else None)"

definition validate_loan_type :: "string \<Rightarrow> string option" where
  "validate_loan_type loan_type =
     (if loan_type \<notin> set BANK_LOAN_TYPES
      then Some (''Invalid loan_type. Must be one of: '' @ join_with '', '' BANK_LOAN_TYPES) else None)"

section \<open>Views\<close>

datatype bank_response =
    Json_response nat json
  | Json_stream string chunks
  | Csv_attachment string string

text \<open>
  \<open>UploadSerializer\<close>: both choices exact, both files present, named and not empty (DRF's \<open>FileField\<close>).
  The validated data, or the fields in error.
\<close>

definition choice_valid :: "string list \<Rightarrow> string option \<Rightarrow> bool" where
  "choice_valid choices v = (case v of None \<Rightarrow> False | Some s \<Rightarrow> s \<in> set choices)"

definition file_valid :: "upload_file option \<Rightarrow> bool" where
  "file_valid v =
     (case v of None \<Rightarrow> False | Some f \<Rightarrow> file_name f \<noteq> '''' \<and> concat (file_chunks f) \<noteq> '''')"

definition upload_serializer ::
    "upload_request \<Rightarrow> string list + string \<times> string \<times> upload_file \<times> upload_file" where
  "upload_serializer r =
     (let errs =
        (if choice_valid TENANT_IDS (form_tenant_id r) then [] else [''tenant_id'']) @
        (if choice_valid BANK_LOAN_TYPES (form_loan_type r) then [] else [''loan_type'']) @
        (if file_valid (form_credit_file r) then [] else [''credit_file'']) @
        (if file_valid (form_payment_plan_file r) then [] else [''payment_plan_file''])
      in if errs \<noteq> [] then Inl errs
         else Inr (the (form_tenant_id r), the (form_loan_type r), the (form_credit_file r),
                   the (form_payment_plan_file r)))"

definition build_upload_response :: "string \<Rightarrow> string \<Rightarrow> nat \<Rightarrow> nat \<Rightarrow> string \<Rightarrow> json" where
  "build_upload_response tenant_id loan_type credits_size payments_size timestamp = JObj
     [(''status'', JStr ''success''), (''tenant_id'', JStr tenant_id), (''loan_type'', JStr loan_type),
      (''uploaded_files'', JList
        [JObj [(''type'', JStr ''credit_data''), (''filename'', JStr CREDITS_FILENAME),
               (''size_bytes'', JInt (int credits_size))],
         JObj [(''type'', JStr ''payment_plan_data''), (''filename'', JStr PAYMENTS_FILENAME),
               (''size_bytes'', JInt (int payments_size))]]),
      (''timestamp'', JStr timestamp)]"

text \<open>\<open>BankUploadView.post\<close>; \<open>isofmt\<close> renders the timestamp.\<close>

definition upload_post :: "(int \<Rightarrow> string) \<Rightarrow> upload_request \<Rightarrow> bank \<Rightarrow> bank_response \<times> bank" where
  "upload_post isofmt r b =
     (case upload_serializer r of
        Inl errs \<Rightarrow> (Json_response 400 (JList (map JStr errs)), b)
      | Inr (tenant_id, loan_type, credit_file, payment_plan_file) \<Rightarrow>
          (case save_upload_files tenant_id loan_type credit_file payment_plan_file b of
             (b', credits_size, payments_size) \<Rightarrow>
               let upload = \<lparr>credits_size_bytes = credits_size, payments_size_bytes = payments_size,
                             uploaded_at = bank_now b'\<rparr>
               in (Json_response 201 (build_upload_response tenant_id loan_type credits_size payments_size
                     (isofmt (uploaded_at upload))),
                   b'\<lparr>uploads := (uploads b')((tenant_id, loan_type) \<mapsto> upload)\<rparr>)))"

type_synonym params = "string \<rightharpoonup> string"

definition get_param :: "params \<Rightarrow> string \<Rightarrow> string" where
  "get_param p k = (case p k of None \<Rightarrow> '''' | Some v \<Rightarrow> v)"

definition validate_tenant_loan :: "params \<Rightarrow> string \<times> string \<times> pydict" where
  "validate_tenant_loan p =
     (let tenant_id = get_param p ''tenant_id'';
          loan_type = get_param p ''loan_type'';
          error = (\<lambda>k e. case e of None \<Rightarrow> [] | Some m \<Rightarrow> [(k, JStr m)])
      in (tenant_id, loan_type,
          error ''tenant_id'' (validate_tenant_id tenant_id) @
          error ''loan_type'' (validate_loan_type loan_type)))"

datatype file_kind = Credits | Payments

definition kind_path :: "file_kind \<Rightarrow> string \<Rightarrow> string \<Rightarrow> path" where
  "kind_path k tenant_id loan_type =
     (case k of Credits \<Rightarrow> credits_path tenant_id loan_type | Payments \<Rightarrow> payments_path tenant_id loan_type)"

definition kind_csv :: "file_kind \<Rightarrow> string" where
  "kind_csv k = (case k of Credits \<Rightarrow> CREDITS_FILENAME | Payments \<Rightarrow> PAYMENTS_FILENAME)"

definition kind_json :: "file_kind \<Rightarrow> string" where
  "kind_json k = (case k of Credits \<Rightarrow> ''credits.json'' | Payments \<Rightarrow> ''payments.json'')"

definition not_found :: "file_kind \<Rightarrow> string \<Rightarrow> string \<Rightarrow> bank_response" where
  "not_found k tenant_id loan_type = Json_response 404 (JObj
     [(''detail'', JStr (''No '' @ kind_csv k @ '' found for '' @ tenant_id @ ''/'' @ loan_type))])"

text \<open>The stream settings of the bank: \<open>STREAM_MULTIPLIER\<close> and \<open>STREAM_SIZE_LIMIT_BYTES\<close>.\<close>

record stream_settings =
  STREAM_MULTIPLIER :: int
  STREAM_SIZE_LIMIT_BYTES :: int

definition file_stream :: "stream_settings \<Rightarrow> string \<Rightarrow> params \<Rightarrow> chunks" where
  "file_stream cfg content p =
     stream_json_file (STREAM_MULTIPLIER cfg) (STREAM_SIZE_LIMIT_BYTES cfg) content
       (parse_multiply (p ''multiply''))"

definition quoted_name :: "string \<Rightarrow> string \<Rightarrow> string" where
  "quoted_name how name = how @ ''; filename='' @ [QUOTE] @ name @ [QUOTE]"

definition export_file :: "stream_settings \<Rightarrow> file_kind \<Rightarrow> params \<Rightarrow> bank \<Rightarrow> bank_response" where
  "export_file cfg k p b =
     (case validate_tenant_loan p of (tenant_id, loan_type, errs) \<Rightarrow>
      if errs \<noteq> [] then Json_response 400 (JObj errs)
      else case files b (kind_path k tenant_id loan_type) of
        None \<Rightarrow> not_found k tenant_id loan_type
      | Some content \<Rightarrow> Json_stream (quoted_name ''inline'' (kind_json k)) (file_stream cfg content p))"

definition download_file :: "stream_settings \<Rightarrow> file_kind \<Rightarrow> params \<Rightarrow> bank \<Rightarrow> bank_response" where
  "download_file cfg k p b =
     (case validate_tenant_loan p of (tenant_id, loan_type, errs) \<Rightarrow>
      if errs \<noteq> [] then Json_response 400 (JObj errs)
      else
        let fmt = py_lower (if get_param p ''format'' = '''' then ''csv'' else get_param p ''format'') in
        if fmt \<notin> {''csv'', ''json''} then Json_response 400 (JObj [(''format'', JStr ''Must be csv or json'')])
        else case files b (kind_path k tenant_id loan_type) of
          None \<Rightarrow> not_found k tenant_id loan_type
        | Some content \<Rightarrow>
            let name = tenant_id @ ''_'' @ loan_type @ ''_'' in
            if fmt = ''csv'' then Csv_attachment (name @ kind_csv k) content
            else Json_stream (quoted_name ''attachment'' (name @ kind_json k)) (file_stream cfg content p))"

section \<open>Storage lemmas\<close>

lemma write_chunks_concat: "write_chunks cs content n = (content @ concat cs, n + length (concat cs))"
  by (induction cs arbitrary: content n) simp_all

lemma kind_path_inj [simp]: "kind_path k t l = kind_path k' t' l' \<longleftrightarrow> k = k' \<and> t = t' \<and> l = l'"
  by (cases k; cases k')
    (simp_all add: kind_path_def credits_path_def payments_path_def portfolio_dir_def
      CREDITS_FILENAME_def PAYMENTS_FILENAME_def)

lemma kind_paths:
  "credits_path t l = kind_path Credits t l" "payments_path t l = kind_path Payments t l"
  by (simp_all add: kind_path_def)

definition form_file :: "file_kind \<Rightarrow> upload_request \<Rightarrow> upload_file option" where
  "form_file k r = (case k of Credits \<Rightarrow> form_credit_file r | Payments \<Rightarrow> form_payment_plan_file r)"

lemma upload_accepted:
  assumes "upload_serializer r = Inr (t, l, cf, pf)"
  shows "t \<in> set TENANT_IDS" and "l \<in> set BANK_LOAN_TYPES"
    and "form_file Credits r = Some cf" and "form_file Payments r = Some pf"
    and "form_tenant_id r = Some t" and "form_loan_type r = Some l"
  using assms
  by (auto simp: upload_serializer_def Let_def choice_valid_def file_valid_def form_file_def
      split: if_splits option.splits)

lemma upload_files:
  assumes "upload_serializer r = Inr (t, l, cf, pf)"
  shows "files (snd (upload_post isofmt r b)) =
     (files b)(kind_path Credits t l \<mapsto> concat (file_chunks cf), kind_path Payments t l \<mapsto> concat (file_chunks pf))"
  using assms
  by (simp add: upload_post_def save_upload_files_def write_uploaded_file_def write_chunks_concat
      kind_paths Let_def)

lemma valid_params:
  "snd (snd (validate_tenant_loan p)) = [] \<longleftrightarrow>
     get_param p ''tenant_id'' \<in> set TENANT_IDS \<and> get_param p ''loan_type'' \<in> set BANK_LOAN_TYPES"
  by (simp add: validate_tenant_loan_def Let_def validate_tenant_id_def validate_loan_type_def)

lemma export_valid:
  assumes "get_param p ''tenant_id'' = t" and "get_param p ''loan_type'' = l"
    and "t \<in> set TENANT_IDS" and "l \<in> set BANK_LOAN_TYPES" and "files b (kind_path k t l) = Some content"
  shows "export_file cfg k p b =
     Json_stream (quoted_name ''inline'' (kind_json k)) (file_stream cfg content p)"
  using assms valid_params [of p]
  by (simp add: export_file_def case_prod_beta) (simp add: validate_tenant_loan_def Let_def)

lemma download_csv_valid:
  assumes "get_param p ''tenant_id'' = t" and "get_param p ''loan_type'' = l"
    and "t \<in> set TENANT_IDS" and "l \<in> set BANK_LOAN_TYPES" and "files b (kind_path k t l) = Some content"
    and "get_param p ''format'' \<in> {'''', ''csv''}"
  shows "download_file cfg k p b = Csv_attachment (t @ ''_'' @ l @ ''_'' @ kind_csv k) content"
proof -
  have "py_lower ''csv'' = ''csv''" by code_simp
  then show ?thesis
    using assms valid_params [of p]
    by (auto simp: download_file_def case_prod_beta Let_def) (auto simp: validate_tenant_loan_def Let_def)
qed

definition has_file :: "bank \<Rightarrow> string \<Rightarrow> string \<Rightarrow> bool" where
  "has_file b t l \<longleftrightarrow> files b (credits_path t l) \<noteq> None \<or> files b (payments_path t l) \<noteq> None"

definition demo_upload :: upload_request where
  "demo_upload = \<lparr>form_tenant_id = Some ''BANK001'', form_loan_type = Some ''RETAIL'',
     form_credit_file = Some \<lparr>file_name = ''c'', file_chunks = [''id'', [LF]]\<rparr>,
     form_payment_plan_file = Some \<lparr>file_name = ''p'', file_chunks = [''n'']\<rparr>\<rparr>"

definition demo_params :: params where
  "demo_params = [''tenant_id'' \<mapsto> ''BANK001'', ''loan_type'' \<mapsto> ''RETAIL'']"

definition demo_bank :: bank where
  "demo_bank = \<lparr>files = Map.empty, uploads = Map.empty, bank_now = 0\<rparr>"

lemma demo_upload_accepted:
  "upload_serializer demo_upload = Inr (''BANK001'', ''RETAIL'',
     the (form_file Credits demo_upload), the (form_file Payments demo_upload))"
  by (simp add: upload_serializer_def demo_upload_def Let_def choice_valid_def file_valid_def form_file_def
      TENANT_IDS_def BANK_LOAN_TYPES_def)

section \<open>Properties\<close>

text \<open>
  Property C28. What is uploaded is what is served: after an accepted upload both files of the slice download
  with exactly the uploaded bytes and export as the stream of those bytes, every other file is
  untouched, and the upload row holds the two sizes.
\<close>

theorem upload_then_serve:
  assumes "upload_serializer r = Inr (t, l, cf, pf)"
    and "get_param p ''tenant_id'' = t" and "get_param p ''loan_type'' = l"
    and "get_param p ''format'' \<in> {'''', ''csv''}"
  shows "let b' = snd (upload_post isofmt r b); content = (\<lambda>k. concat (file_chunks (the (form_file k r)))) in
     download_file cfg k p b' = Csv_attachment (t @ ''_'' @ l @ ''_'' @ kind_csv k) (content k) \<and>
     export_file cfg k p b' =
       Json_stream (quoted_name ''inline'' (kind_json k)) (file_stream cfg (content k) p) \<and>
     (\<forall>path. path \<in> {kind_path Credits t l, kind_path Payments t l} \<or> files b' path = files b path) \<and>
     map_option (\<lambda>u. (credits_size_bytes u, payments_size_bytes u)) (uploads b' (t, l)) =
       Some (length (content Credits), length (content Payments))"
proof -
  let ?b = "snd (upload_post isofmt r b)"
  note ok = upload_accepted [OF assms(1)]
  have stored: "files ?b (kind_path k t l) = Some (concat (file_chunks (the (form_file k r))))" for k
    using ok(3,4) by (cases k) (simp_all add: upload_files [OF assms(1)])
  have sizes: "map_option (\<lambda>u. (credits_size_bytes u, payments_size_bytes u)) (uploads ?b (t, l)) =
      Some (length (concat (file_chunks cf)), length (concat (file_chunks pf)))"
    using assms(1)
    by (simp add: upload_post_def save_upload_files_def write_uploaded_file_def write_chunks_concat Let_def)
  have rest: "path \<in> {kind_path Credits t l, kind_path Payments t l} \<or> files ?b path = files b path" for path
    by (simp add: upload_files [OF assms(1)])
  show ?thesis
    unfolding Let_def
    using download_csv_valid [OF assms(2,3) ok(1,2) stored assms(4)]
      export_valid [OF assms(2,3) ok(1,2) stored] sizes rest ok(3,4) by simp
qed

lemma upload_then_serve_witness:
  "download_file \<lparr>STREAM_MULTIPLIER = 10, STREAM_SIZE_LIMIT_BYTES = 1000\<rparr> Payments demo_params
     (snd (upload_post str_int demo_upload demo_bank)) = Csv_attachment ''BANK001_RETAIL_payments.csv'' ''n''"
  using upload_then_serve [OF demo_upload_accepted, of demo_params str_int demo_bank _ Payments]
  by (simp add: Let_def get_param_def demo_params_def demo_upload_def form_file_def kind_csv_def
      PAYMENTS_FILENAME_def)

text \<open>
  A served file is the one of the requested slice and nothing else: export and download depend on
  the storage only through the one file that the two parameters and the kind name, and with parameters
  outside the configured tenants and loan types not on the storage at all.
\<close>

theorem serve_own_file_only:
  assumes "get_param p ''tenant_id'' \<in> set TENANT_IDS \<and> get_param p ''loan_type'' \<in> set BANK_LOAN_TYPES \<Longrightarrow>
     files b (kind_path k (get_param p ''tenant_id'') (get_param p ''loan_type'')) =
     files b' (kind_path k (get_param p ''tenant_id'') (get_param p ''loan_type''))"
  shows "export_file cfg k p b = export_file cfg k p b' \<and> download_file cfg k p b = download_file cfg k p b'"
proof (cases "snd (snd (validate_tenant_loan p)) = []")
  case True
  with assms valid_params [of p] have
    "files b (kind_path k (get_param p ''tenant_id'') (get_param p ''loan_type'')) =
     files b' (kind_path k (get_param p ''tenant_id'') (get_param p ''loan_type''))" by simp
  then show ?thesis
    by (simp add: export_file_def download_file_def validate_tenant_loan_def Let_def)
next
  case False
  then show ?thesis by (simp add: export_file_def download_file_def case_prod_beta)
qed

lemma serve_own_file_only_witness:
  "export_file \<lparr>STREAM_MULTIPLIER = 10, STREAM_SIZE_LIMIT_BYTES = 1000\<rparr> Credits demo_params demo_bank =
   export_file \<lparr>STREAM_MULTIPLIER = 10, STREAM_SIZE_LIMIT_BYTES = 1000\<rparr> Credits demo_params
     (demo_bank\<lparr>files := [[''BANK002'', ''RETAIL'', ''credits.csv''] \<mapsto> ''x'']\<rparr>)"
  using serve_own_file_only [of demo_params demo_bank Credits
      "demo_bank\<lparr>files := [[''BANK002'', ''RETAIL'', ''credits.csv''] \<mapsto> ''x'']\<rparr>"]
  by (simp add: demo_bank_def demo_params_def get_param_def kind_path_def credits_path_def
      portfolio_dir_def)

text \<open>
  The portfolio list shows exactly the slices with a file: a configured slice has an entry, and
  then one, exactly when one of its files is stored, and there is no other entry.
\<close>

theorem portfolio_list_exact:
  "list_portfolios b =
     map (\<lambda>(t, l). hd (portfolio_entry b t l))
       (filter (\<lambda>(t, l). has_file b t l)
          (List.product TENANT_IDS BANK_LOAN_TYPES))"
proof -
  have "concat (map (\<lambda>(t, l). portfolio_entry b t l) ps) =
      map (\<lambda>(t, l). hd (portfolio_entry b t l))
        (filter (\<lambda>(t, l). files b (credits_path t l) \<noteq> None \<or> files b (payments_path t l) \<noteq> None) ps)" for ps
  proof (induction ps)
    case (Cons q ps)
    obtain t l where q: "q = (t, l)" by (cases q)
    consider x where "portfolio_entry b t l = [x]"
        "files b (credits_path t l) \<noteq> None \<or> files b (payments_path t l) \<noteq> None"
      | "portfolio_entry b t l = []"
        "\<not> (files b (credits_path t l) \<noteq> None \<or> files b (payments_path t l) \<noteq> None)"
      by (cases "files b (credits_path t l) = None \<and> files b (payments_path t l) = None")
        (auto simp: portfolio_entry_def Let_def)
    then show ?case using Cons.IH q by cases simp_all
  qed simp
  moreover have "concat (map (\<lambda>t. concat (map (\<lambda>l. portfolio_entry b t l) ls)) ts) =
      concat (map (\<lambda>(t, l). portfolio_entry b t l) (List.product ts ls))" for ts ls
    by (induction ts) (simp_all add: comp_def)
  ultimately show ?thesis by (simp add: list_portfolios_def has_file_def)
qed

end
