(* ===== verification/AdapterStream.thy ===== *)
theory AdapterStream
  imports BankStreaming "HOL-Library.Word"
begin

text \<open>
  The reader of the adapter for the bank's export, \<open>adapter/src/stream.rs\<close> (\<open>JsonRowStream\<close>): it scans
  the byte stream for the objects of the top-level array and hands each one to \<open>serde_json\<close>.

  The HTTP body is the bytes that arrive before the end of the stream.  \<open>serde_json::from_slice\<close> is the
  parameter \<open>from_slice\<close>, \<open>serde_json\<close>'s \<open>Display\<close> of arrays, objects and
  fractional numbers the parameter \<open>display\<close>.  The \<open>u32\<close> row number
  and the \<open>i32\<close> depth are 32-bit words.
\<close>

section \<open>Rows\<close>

datatype pipeline_error = Http_error string | Parse_error string

definition value_to_string :: "(json \<Rightarrow> string) \<Rightarrow> json \<Rightarrow> string" where
  "value_to_string display v = (case v of
     JNull \<Rightarrow> ''''
   | JBool b \<Rightarrow> (if b then ''true'' else ''false'')
   | JInt i \<Rightarrow> str_int i
   | JStr s \<Rightarrow> s
   | _ \<Rightarrow> display v)"

definition object_to_row :: "(json \<Rightarrow> string) \<Rightarrow> json \<Rightarrow> pipeline_error + (string \<rightharpoonup> string)" where
  "object_to_row display v = (case v of
     JObj kvs \<Rightarrow> Inr (map_of (rev (map (\<lambda>(k, x). (k, value_to_string display x)) kvs)))
   | _ \<Rightarrow> Inl (Parse_error ''expected JSON object row''))"

section \<open>Scanning\<close>

record row_stream =
  reader :: string
  started :: bool
  finished :: bool
  row_number :: "32 word"

definition from_bytes :: "string \<Rightarrow> row_stream" where
  "from_bytes data = \<lparr>reader = data, started = False, finished = False, row_number = 0\<rparr>"

text \<open>\<open>None\<close> is the end of the stream.\<close>

fun skip_until :: "char \<Rightarrow> string \<Rightarrow> string option" where
  "skip_until target [] = None"
| "skip_until target (c # s) = (if c = target then Some s else skip_until target s)"

definition is_ascii_whitespace :: "char \<Rightarrow> bool" where
  "is_ascii_whitespace c \<longleftrightarrow> c \<in> {CHR 0x20, CHR 0x09, CHR 0x0A, CHR 0x0C, CHR 0x0D}"

fun skip_whitespace_and_commas :: "string \<Rightarrow> string" where
  "skip_whitespace_and_commas [] = []"
| "skip_whitespace_and_commas (c # s) =
     (if is_ascii_whitespace c \<or> c = CHR '','' then skip_whitespace_and_commas s else c # s)"

text \<open>Depth, \<open>in_string\<close> and \<open>escape\<close> after one byte, and whether the object ends with it.\<close>

type_synonym scan = "32 word \<times> bool \<times> bool"

fun scan_byte :: "char \<Rightarrow> scan \<Rightarrow> scan" where
  "scan_byte c (depth, in_string, escape) =
     (if in_string then
        (if escape then (depth, True, False)
         else if c = CHR 0x5C then (depth, True, True)
         else if c = QUOTE then (depth, False, False)
         else (depth, True, False))
      else if c = QUOTE then (depth, True, escape)
      else if c = CHR 0x7B then (depth + 1, False, escape)
      else if c = CHR 0x7D then (depth - 1, False, escape)
      else (depth, False, escape))"

fun ends_object :: "char \<Rightarrow> scan \<Rightarrow> bool" where
  "ends_object c (depth, in_string, escape) \<longleftrightarrow> \<not> in_string \<and> c = CHR 0x7D \<and> depth - 1 = 0"

fun read_bytes :: "string \<Rightarrow> scan \<Rightarrow> string \<Rightarrow> (string \<times> string) option" where
  "read_bytes buffer st [] = None"
| "read_bytes buffer st (c # s) =
     (if ends_object c st then Some (rev (c # buffer), s)
      else read_bytes (c # buffer) (scan_byte c st) s)"

definition read_json_object :: "string \<Rightarrow> (string \<times> string) option" where
  "read_json_object s = read_bytes [] (0, False, False) s"

definition next_row ::
    "(string \<Rightarrow> string + json) \<Rightarrow> (json \<Rightarrow> string) \<Rightarrow> row_stream \<Rightarrow>
     (pipeline_error + (string \<rightharpoonup> string) option) \<times> row_stream" where
  "next_row from_slice display rs =
     (if finished rs then (Inr None, rs)
      else
        case (if started rs then Some (reader rs) else skip_until (CHR 0x5B) (reader rs)) of
          None \<Rightarrow> (Inl (Http_error ''unexpected end of JSON stream''), rs\<lparr>reader := ''''\<rparr>)
        | Some s \<Rightarrow>
            let rs = rs\<lparr>started := True, reader := skip_whitespace_and_commas s\<rparr> in
            (case reader rs of
               [] \<Rightarrow> (Inr None, rs\<lparr>finished := True\<rparr>)
             | c # s \<Rightarrow>
                 if c = CHR 0x5D then (Inr None, rs\<lparr>finished := True, reader := s\<rparr>)
                 else if c = CHR 0x7B then
                   (case read_json_object (c # s) of
                      None \<Rightarrow> (Inl (Parse_error ''early eof''), rs\<lparr>reader := ''''\<rparr>)
                    | Some (object_bytes, s') \<Rightarrow>
                        let rs = rs\<lparr>reader := s'\<rparr> in
                        (case from_slice object_bytes of
                           Inl e \<Rightarrow> (Inl (Parse_error e), rs)
                         | Inr v \<Rightarrow>
                             let rs = rs\<lparr>row_number := row_number rs + 1\<rparr> in
                             (case object_to_row display v of
                                Inl e \<Rightarrow> (Inl e, rs)
                              | Inr row \<Rightarrow> (Inr (Some row), rs))))
                 else (Inl (Parse_error (''unexpected JSON array token: '' @ [c])), rs)))"

text \<open>All rows: the caller asks until there is none (\<open>n\<close> bounds the calls; \<open>None\<close> says it was too small).\<close>

fun drain ::
    "(string \<Rightarrow> string + json) \<Rightarrow> (json \<Rightarrow> string) \<Rightarrow> nat \<Rightarrow> row_stream \<Rightarrow>
     ((string \<rightharpoonup> string) list \<times> pipeline_error option \<times> row_stream) option" where
  "drain from_slice display 0 rs = None"
| "drain from_slice display (Suc n) rs =
     (case next_row from_slice display rs of
        (Inl e, rs') \<Rightarrow> Some ([], Some e, rs')
      | (Inr None, rs') \<Rightarrow> Some ([], None, rs')
      | (Inr (Some row), rs') \<Rightarrow>
          map_option (apfst ((#) row)) (drain from_slice display n rs'))"

section \<open>The scanner on encoded rows\<close>

text \<open>Scanning \<open>p\<close> ends no object.\<close>

fun quiet :: "scan \<Rightarrow> string \<Rightarrow> bool" where
  "quiet st [] = True"
| "quiet st (c # s) = (\<not> ends_object c st \<and> quiet (scan_byte c st) s)"

abbreviation scan_all :: "string \<Rightarrow> scan \<Rightarrow> scan" where
  "scan_all s st \<equiv> fold scan_byte s st"

lemma quiet_append: "quiet st (p @ q) \<longleftrightarrow> quiet st p \<and> quiet (scan_all p st) q"
  by (induction p arbitrary: st) simp_all

lemma read_bytes_quiet:
  "quiet st p \<Longrightarrow> read_bytes buffer st (p @ q) = read_bytes (rev p @ buffer) (scan_all p st) q"
  by (induction p arbitrary: st buffer) simp_all

text \<open>A piece of text the scanner passes at depth one, outside strings, without a trace.\<close>

definition neutral :: "string \<Rightarrow> bool" where
  "neutral p \<longleftrightarrow> quiet (1, False, False) p \<and> scan_all p (1, False, False) = (1, False, False)"

lemma neutral_append: "neutral p \<Longrightarrow> neutral q \<Longrightarrow> neutral (p @ q)"
  by (simp add: neutral_def quiet_append)

lemma scan_escaped_char:
  "quiet (1, True, False) (json_escape_char c) \<and>
   scan_all (json_escape_char c) (1, True, False) = (1, True, False)"
proof -
  have hex: "list_all (\<lambda>n. hex_char n \<noteq> QUOTE \<and> hex_char n \<noteq> CHR 0x5C) [0..<16]"
    by code_simp
  have "hex_char n \<noteq> QUOTE \<and> hex_char n \<noteq> CHR 0x5C" if "n < 16" for n
    using hex that by (auto simp: list_all_iff)
  moreover have "of_char c div 16 < (16::nat)" using nat_of_char_less_256 [of c]
    by (simp add: div_less_iff_less_mult)
  moreover have "of_char c mod 16 < (16::nat)" by simp
  ultimately have "hex_char (of_char c div 16) \<noteq> QUOTE" "hex_char (of_char c div 16) \<noteq> CHR 0x5C"
    "hex_char (of_char c mod 16) \<noteq> QUOTE" "hex_char (of_char c mod 16) \<noteq> CHR 0x5C"
    by blast+
  then show ?thesis
    by (simp add: json_escape_char_def) (simp add: QUOTE_def)
qed

lemma scan_escaped:
  "quiet (1, True, False) (concat (map json_escape_char s)) \<and>
   scan_all (concat (map json_escape_char s)) (1, True, False) = (1, True, False)"
  by (induction s) (simp_all add: quiet_append scan_escaped_char)

lemma neutral_string: "neutral (json_string s)"
  using scan_escaped [of s]
  by (simp add: neutral_def json_string_def quiet_append) (simp add: QUOTE_def)

lemma neutral_separators: "neutral '':''" "neutral '',''"
  by (simp_all add: neutral_def QUOTE_def)

lemma neutral_members:
  "neutral (join_with '','' (map (\<lambda>(k, v). json_string k @ '':'' @ json_string v) r))"
proof (induction r rule: induct_list012)
  case 1
  then show ?case by (simp add: neutral_def)
next
  case (2 m)
  have "neutral (json_string k @ '':'' @ json_string v)" for k v
    by (intro neutral_append neutral_string neutral_separators)
  then show ?case by (cases m) simp
next
  case (3 m m' r)
  have "neutral (json_string k @ '':'' @ json_string v)" for k v
    by (intro neutral_append neutral_string neutral_separators)
  from neutral_append [OF this [of "fst m" "snd m"] neutral_append [OF neutral_separators(2) "3.IH"(2)]]
  show ?case by (cases m) simp
qed

lemma encode_row_quiet:
  "\<exists>p. encode_row r = p @ [CHR 0x7D] \<and> p \<noteq> [] \<and> quiet (0, False, False) p \<and>
     scan_all p (0, False, False) = (1, False, False)"
proof -
  let ?ms = "join_with '','' (map (\<lambda>(k, v). json_string k @ '':'' @ json_string v) r)"
  have "quiet (0, False, False) (CHR 0x7B # ?ms)" "scan_all (CHR 0x7B # ?ms) (0, False, False) = (1, False, False)"
    using neutral_members [of r] by (simp_all add: neutral_def QUOTE_def)
  then show ?thesis
    by (intro exI [of _ "CHR 0x7B # ?ms"]) (simp add: encode_row_def)
qed

lemma read_encoded: "read_json_object (encode_row r @ rest) = Some (encode_row r, rest)"
proof -
  obtain p where p: "encode_row r = p @ [CHR 0x7D]" "quiet (0, False, False) p"
    "scan_all p (0, False, False) = (1, False, False)" using encode_row_quiet by blast
  then show ?thesis
    by (simp add: read_json_object_def read_bytes_quiet)
qed

lemma read_cut:
  assumes "k < length (encode_row r)"
  shows "read_json_object (take k (encode_row r) @ CLOSE_ARRAY) = None"
proof -
  obtain p where p: "encode_row r = p @ [CHR 0x7D]" "quiet (0, False, False) p"
    using encode_row_quiet by blast
  with assms have take: "take k (encode_row r) = take k p" by simp
  have "quiet (0, False, False) (take k p)"
    using p(2) by (metis append_take_drop_id quiet_append)
  moreover have "read_bytes b st CLOSE_ARRAY = None" for b st
    by (cases st) (simp add: CLOSE_ARRAY_def LF_def)
  ultimately show ?thesis
    by (simp add: read_json_object_def take read_bytes_quiet)
qed

section \<open>Reading an export\<close>

text \<open>
  What \<open>serde_json\<close> promises about the objects of the stream: an object of strings with distinct keys
  decodes to its members.
\<close>

definition decodes_rows :: "(string \<Rightarrow> string + json) \<Rightarrow> bool" where
  "decodes_rows from_slice \<longleftrightarrow>
     (\<forall>r. distinct (map fst r) \<longrightarrow> from_slice (encode_row r) = Inr (JObj (map (apsnd JStr) r)))"

definition demo_from_slice :: "string \<Rightarrow> string + json" where
  "demo_from_slice s = (case read_object s of
     Some (r, []) \<Rightarrow> Inr (JObj (map (apsnd JStr) r))
   | _ \<Rightarrow> Inl ''invalid JSON'')"

lemma demo_decodes: "decodes_rows demo_from_slice"
  using read_encoded_row [of _ "''''"] by (simp add: decodes_rows_def demo_from_slice_def)

lemma object_row:
  assumes "distinct (map fst r)"
  shows "object_to_row display (JObj (map (apsnd JStr) r)) = Inr (map_of r)"
proof -
  have "map_of (rev r) = map_of r"
    using assms by (subst map_of_inject_set) (simp_all flip: rev_map)
  then show ?thesis
    by (simp add: object_to_row_def comp_def apsnd_def map_prod_def case_prod_beta value_to_string_def)
qed

lemma skip_to_object:
  "skip_whitespace_and_commas (LF # encode_row r @ rest) = encode_row r @ rest"
  "skip_whitespace_and_commas (COMMA_LF @ encode_row r @ rest) = encode_row r @ rest"
  "skip_whitespace_and_commas (encode_row r @ rest) = encode_row r @ rest"
  "skip_whitespace_and_commas CLOSE_ARRAY = [CHR 0x5D]"
  "skip_whitespace_and_commas (LF # CLOSE_ARRAY) = [CHR 0x5D]"
  by (simp_all add: encode_row_def is_ascii_whitespace_def LF_def COMMA_LF_def CLOSE_ARRAY_def)

lemma next_row_object:
  assumes "decodes_rows from_slice" and "distinct (map fst r)"
    and "\<not> finished rs" and "started rs" and "skip_whitespace_and_commas (reader rs) = encode_row r @ rest"
  shows "next_row from_slice display rs =
     (Inr (Some (map_of r)), rs\<lparr>reader := rest, row_number := row_number rs + 1\<rparr>)"
proof -
  obtain tl where tl: "encode_row r @ rest = CHR 0x7B # tl" by (simp add: encode_row_def)
  have "read_json_object (CHR 0x7B # tl) = Some (encode_row r, rest)"
    using read_encoded [of r rest] tl by simp
  moreover have "from_slice (encode_row r) = Inr (JObj (map (apsnd JStr) r))"
    using assms(1,2) by (simp add: decodes_rows_def)
  ultimately show ?thesis
    using assms(3-5) tl object_row [OF assms(2)] by (simp add: next_row_def Let_def)
qed

lemma next_row_close:
  assumes "\<not> finished rs" and "started rs" and "skip_whitespace_and_commas (reader rs) = [CHR 0x5D]"
  shows "next_row from_slice display rs = (Inr None, rs\<lparr>finished := True, reader := ''''\<rparr>)"
  using assms by (simp add: next_row_def Let_def)

lemma next_row_cut:
  assumes "\<not> finished rs" and "started rs" and "0 < k" and "k < length (encode_row r)"
    and "skip_whitespace_and_commas (reader rs) = take k (encode_row r) @ CLOSE_ARRAY"
  shows "\<exists>rs'. next_row from_slice display rs = (Inl (Parse_error ''early eof''), rs')"
proof -
  obtain tl where tl: "take k (encode_row r) @ CLOSE_ARRAY = CHR 0x7B # tl"
    using assms(3) by (cases k) (simp_all add: encode_row_def)
  have "read_json_object (CHR 0x7B # tl) = None"
    using read_cut [OF assms(4)] tl by simp
  then show ?thesis
    using assms(1,2,5) tl by (simp add: next_row_def Let_def)
qed

text \<open>
  After some rows of an export: what is left is the rest of the rows, each after its separator, and then
  the tail of the stream.
\<close>

lemma drain_rows:
  assumes "decodes_rows from_slice" and "list_all (\<lambda>r. distinct (map fst r)) rows"
    and "\<not> finished rs" and "started rs"
    and "reader rs = concat (row_chunks False rows) @ tail"
  shows "drain from_slice display (length rows + n) rs =
     map_option (apfst ((@) (map map_of rows)))
       (drain from_slice display n
          (rs\<lparr>reader := tail, row_number := row_number rs + of_nat (length rows)\<rparr>))"
  using assms(2-5)
proof (induction rows arbitrary: rs)
  case Nil
  then show ?case by (cases rs) (simp add: option.map_ident apfst_def map_prod_def)
next
  case (Cons r rows)
  let ?rest = "concat (row_chunks False rows) @ tail"
  let ?rs = "rs\<lparr>reader := ?rest, row_number := row_number rs + 1\<rparr>"
  have "skip_whitespace_and_commas (reader rs) = encode_row r @ ?rest"
    using Cons.prems(4) skip_to_object(2) [of r ?rest] by simp
  from next_row_object [OF assms(1) _ Cons.prems(2,3) this, of display] Cons.prems(1)
  have "next_row from_slice display rs = (Inr (Some (map_of r)), ?rs)" by simp
  moreover have "drain from_slice display (length rows + n) ?rs =
      map_option (apfst ((@) (map map_of rows)))
        (drain from_slice display n
          (?rs\<lparr>reader := tail, row_number := row_number ?rs + of_nat (length rows)\<rparr>))"
    by (rule Cons.IH) (use Cons.prems in simp_all)
  ultimately show ?case
    by (simp add: option.map_comp comp_def apfst_def map_prod_def case_prod_beta add.assoc)
qed

definition opened :: "string \<Rightarrow> nat \<Rightarrow> row_stream" where
  "opened rest n = \<lparr>reader = rest, started = True, finished = False, row_number = of_nat n\<rparr>"

lemma drain_open:
  "drain from_slice display n (from_bytes (OPEN_ARRAY @ t)) = drain from_slice display n (opened (LF # t) 0)"
  by (cases n) (simp_all add: next_row_def from_bytes_def OPEN_ARRAY_def opened_def)

lemma drain_export:
  assumes "decodes_rows from_slice" and "list_all (\<lambda>r. distinct (map fst r)) rows"
  shows "\<exists>sep. (sep = '''' \<or> sep = [LF]) \<and> (sep = '''' \<longleftrightarrow> rows \<noteq> []) \<and>
     drain from_slice display (length rows + n)
       (from_bytes (OPEN_ARRAY @ concat (row_chunks True rows) @ tail)) =
     map_option (apfst ((@) (map map_of rows)))
       (drain from_slice display n (opened (sep @ tail) (length rows)))"
proof (cases rows)
  case Nil
  have "apfst ((@) []) = (id :: (string \<rightharpoonup> string) list \<times> pipeline_error option \<times> row_stream \<Rightarrow> _)"
    by (auto simp: fun_eq_iff)
  with Nil show ?thesis
    by (intro exI [of _ "[LF]"]) (simp add: drain_open option.map_id)
next
  case (Cons r rs)
  let ?rest = "concat (row_chunks False rs) @ tail"
  have "next_row from_slice display (opened (LF # encode_row r @ ?rest) 0) =
      (Inr (Some (map_of r)), opened ?rest 1)"
    using next_row_object [OF assms(1), of r "opened (LF # encode_row r @ ?rest) 0" ?rest display]
      assms(2) Cons skip_to_object(1) [of r ?rest]
    by (simp add: opened_def del: skip_whitespace_and_commas.simps)
  moreover have "drain from_slice display (length rs + n) (opened ?rest 1) =
      map_option (apfst ((@) (map map_of rs)))
        (drain from_slice display n (opened tail (length rows)))"
    using drain_rows [OF assms(1), of rs "opened ?rest 1" tail display n] assms(2) Cons
    by (simp add: opened_def add.commute)
  ultimately show ?thesis
    using Cons
    by (intro exI [of _ "''''"])
      (simp add: drain_open option.map_comp comp_def apfst_def map_prod_def case_prod_unfold)
qed

section \<open>Every stream ends\<close>

lemma skip_until_shorter: "skip_until t s = Some s' \<Longrightarrow> length s' < length s"
  by (induction s) (auto split: if_splits)

lemma skip_whitespace_length: "length (skip_whitespace_and_commas s) \<le> length s"
  by (induction s) auto

lemma read_bytes_shorter: "read_bytes b st s = Some (ob, s') \<Longrightarrow> length s' < length s"
proof (induction s arbitrary: b st)
  case (Cons c s)
  then show ?case
    by (cases "ends_object c st") (auto dest!: Cons.IH simp del: scan_byte.simps ends_object.simps)
qed simp

lemma next_row_shorter:
  assumes "next_row fs dsp rs = (Inr (Some row), rs')"
  shows "length (reader rs') < length (reader rs)"
proof -
  obtain s where s: "(if started rs then Some (reader rs) else skip_until (CHR 0x5B) (reader rs)) = Some s"
    and fin: "\<not> finished rs"
    using assms by (auto simp: next_row_def split: if_splits option.splits)
  have "length s \<le> length (reader rs)"
    using s skip_until_shorter [of "CHR 0x5B" "reader rs" s] by (auto split: if_splits)
  moreover obtain ob where "read_json_object (skip_whitespace_and_commas s) = Some (ob, reader rs')"
    using assms s fin
    by (auto simp: next_row_def Let_def split: if_splits option.splits list.splits sum.splits prod.splits)
  then have "length (reader rs') < length (skip_whitespace_and_commas s)"
    unfolding read_json_object_def by (rule read_bytes_shorter)
  ultimately show ?thesis
    using skip_whitespace_length [of s] by linarith
qed

lemma drain_ends:
  "length (reader rs) < n \<Longrightarrow> drain from_slice display n rs \<noteq> None"
proof (induction n arbitrary: rs)
  case (Suc n)
  show ?case
  proof (cases "\<exists>row rs'. next_row from_slice display rs = (Inr (Some row), rs')")
    case True
    then obtain row rs' where nr: "next_row from_slice display rs = (Inr (Some row), rs')"
      by blast
    with next_row_shorter [OF nr] Suc.prems Suc.IH [of rs'] show ?thesis by auto
  next
    case False
    obtain r rs' where nr: "next_row from_slice display rs = (r, rs')" by fastforce
    with False show ?thesis by (cases r) (auto split: option.splits)
  qed
qed simp

lemma drain_whole_export:
  assumes "decodes_rows from_slice"
    and "iter_csv_rows csv = (rows, None)" and "list_all (\<lambda>r. distinct (map fst r)) rows"
    and "length rows < n"
  shows "drain from_slice display n (from_bytes (concat (fst (single_pass_json_generator csv)))) =
     Some (map map_of rows, None,
       \<lparr>reader = '''', started = True, finished = True, row_number = of_nat (length rows)\<rparr>)"
proof -
  obtain m where n: "n = length rows + Suc m" using assms(4) less_imp_Suc_add by fastforce
  have stream: "concat (fst (single_pass_json_generator csv)) =
      OPEN_ARRAY @ concat (row_chunks True rows) @ CLOSE_ARRAY"
    using assms(2) by (simp add: single_pass_text row_chunks_text)
  from drain_export [OF assms(1,3), of display "Suc m" CLOSE_ARRAY] obtain sep where sep:
    "sep = '''' \<or> sep = [LF]"
    "drain from_slice display n (from_bytes (concat (fst (single_pass_json_generator csv)))) =
     map_option (apfst ((@) (map map_of rows)))
       (drain from_slice display (Suc m) (opened (sep @ CLOSE_ARRAY) (length rows)))"
    unfolding n stream by blast
  have "next_row from_slice display (opened (sep @ CLOSE_ARRAY) (length rows)) =
      (Inr None, (opened '''' (length rows))\<lparr>finished := True\<rparr>)"
    using sep(1) skip_to_object(4,5)
    by (subst next_row_close) (auto simp: opened_def simp del: skip_whitespace_and_commas.simps)
  with sep(2) show ?thesis by (simp add: opened_def)
qed

section \<open>Properties\<close>

text \<open>
  Property C8. The adapter reads back what the bank exports: from the bytes of a complete export it delivers
  exactly the exported rows, in order, then reports the end, having counted every row.
\<close>

theorem adapter_reads_export:
  assumes "decodes_rows from_slice"
    and "iter_csv_rows csv = (rows, None)" and "list_all (\<lambda>r. distinct (map fst r)) rows"
    and "length rows < n"
  shows "drain from_slice display n (from_bytes (concat (fst (single_pass_json_generator csv)))) =
     Some (map map_of rows, None,
       \<lparr>reader = '''', started = True, finished = True, row_number = of_nat (length rows)\<rparr>)"
  by (rule drain_whole_export [OF assms])

lemma adapter_reads_export_witness:
  "\<exists>rs. drain demo_from_slice (\<lambda>_. '''') 2
       (from_bytes (concat (fst (single_pass_json_generator (csv_write [[''a''], [''}'']]))))) =
     Some ([[''a'' \<mapsto> ''}'']], None, rs) \<and> row_number rs = 1"
proof -
  have strip: "map py_strip [''a''] = [''a'']" by code_simp
  have limits: "list_all (\<lambda>r. r \<noteq> [] \<and> list_all (\<lambda>f. code_points f \<le> FIELD_LIMIT) r) ([''a''] # [[''}'']])"
    by (simp add: code_points_def FIELD_LIMIT_def is_continuation_def less_eq_char_def less_char_def)
  have nonblank: "list_all (\<lambda>r. \<not> list_all (\<lambda>f. py_strip f = '''') r) [[''}'']]" by code_simp
  have "distinct (map py_strip [''a''])" by simp
  from iter_rows_write [OF _ this limits nonblank]
  have rows: "iter_csv_rows (csv_write [[''a''], [''}'']]) = ([[(''a'', ''}'')]], None)"
    unfolding strip by simp
  show ?thesis
    using adapter_reads_export [OF demo_decodes rows, of 2 "\<lambda>_. ''''"] by simp
qed

text \<open>
  A stream that is cut inside a row (as the multiplied export is at its size limit) never passes
  for a complete one: the adapter delivers the complete rows before the cut and then fails with a parse
  error, although the bank closes the array.
\<close>

theorem adapter_rejects_cut_row:
  assumes "decodes_rows from_slice" and "list_all (\<lambda>r. distinct (map fst r)) rows"
    and "0 < k" and "k < length (encode_row r)" and "length rows < n"
  shows "\<exists>rs. drain from_slice display n
       (from_bytes (OPEN_ARRAY @
          take (length (concat (row_chunks True (rows @ [r]))) - length (encode_row r) + k)
            (concat (row_chunks True (rows @ [r]))) @ CLOSE_ARRAY)) =
     Some (map map_of rows, Some (Parse_error ''early eof''), rs)"
proof -
  obtain m where n: "n = length rows + Suc m" using assms(5) less_imp_Suc_add by fastforce
  let ?sep = "if rows = [] then '''' else COMMA_LF"
  have whole: "concat (row_chunks True (rows @ [r])) = concat (row_chunks True rows) @ ?sep @ encode_row r"
    by (simp add: row_chunks_append)
  have cut: "take (length (concat (row_chunks True (rows @ [r]))) - length (encode_row r) + k)
      (concat (row_chunks True (rows @ [r]))) = concat (row_chunks True rows) @ ?sep @ take k (encode_row r)"
    unfolding whole by simp
  from drain_export [OF assms(1,2), of display "Suc m" "?sep @ take k (encode_row r) @ CLOSE_ARRAY"]
  obtain sep where sep: "sep = '''' \<or> sep = [LF]" "sep = '''' \<longleftrightarrow> rows \<noteq> []"
    "drain from_slice display n (from_bytes (OPEN_ARRAY @ concat (row_chunks True rows) @ ?sep @
       take k (encode_row r) @ CLOSE_ARRAY)) =
     map_option (apfst ((@) (map map_of rows))) (drain from_slice display (Suc m)
       (opened (sep @ ?sep @ take k (encode_row r) @ CLOSE_ARRAY) (length rows)))"
    unfolding n by blast
  obtain tl where tl: "take k (encode_row r) = CHR 0x7B # tl"
    using assms(3) by (cases k) (simp_all add: encode_row_def)
  have skip: "skip_whitespace_and_commas (sep @ ?sep @ take k (encode_row r) @ CLOSE_ARRAY) =
      take k (encode_row r) @ CLOSE_ARRAY"
    using sep(1,2) tl by (auto simp: is_ascii_whitespace_def LF_def COMMA_LF_def)
  have "\<exists>rs'. next_row from_slice display
      (opened (sep @ ?sep @ take k (encode_row r) @ CLOSE_ARRAY) (length rows)) =
      (Inl (Parse_error ''early eof''), rs')"
    by (rule next_row_cut [OF _ _ assms(3,4)]) (use skip in \<open>simp_all add: opened_def\<close>)
  then show ?thesis unfolding cut using sep(3) by auto
qed

lemma adapter_rejects_cut_row_witness:
  "\<exists>rs. drain demo_from_slice (\<lambda>_. '''') 1
       (from_bytes (OPEN_ARRAY @ ''{'' @ [QUOTE] @ ''a'' @ CLOSE_ARRAY)) =
     Some ([], Some (Parse_error ''early eof''), rs)"
proof -
  have enc: "encode_row [(''a'', ''x'')] =
      ''{'' @ [QUOTE] @ ''a'' @ [QUOTE] @ '':'' @ [QUOTE] @ ''x'' @ [QUOTE] @ ''}''"
    by code_simp
  show ?thesis
    using adapter_rejects_cut_row [OF demo_decodes, of "[]" 3 "[(''a'', ''x'')]" 1 "\<lambda>_. ''''"]
    by (simp add: enc numeral_3_eq_3)
qed

text \<open>
  Property C25. The reader terminates on every byte stream, complete, cut or not JSON at all, and for
  every \<open>serde_json\<close>: after at most one call more than there are bytes it has reported the end or an error.
\<close>

theorem adapter_reads_to_end:
  "\<exists>rows err rs. drain from_slice display (length body + 1) (from_bytes body) = Some (rows, err, rs)"
  using drain_ends [of "from_bytes body" "length body + 1" from_slice display]
  by (auto simp: from_bytes_def)

end
