(* ===== verification/AdapterParser.thy ===== *)
theory AdapterParser
  imports AdapterStream Warehouse
begin

text \<open>
  How the adapter turns a bank row into a credit or a payment: \<open>adapter/src/parser.rs\<close>, the attribute
  builders of \<open>adapter/src/types.rs\<close> and the row parsers of \<open>adapter/src/pipeline.rs\<close>.

  A row is a map from column names to texts.  \<open>rust_decimal\<close>'s \<open>Decimal::from_str\<close> is the parameter
  \<open>decimal_ok\<close> (does it accept the text), \<open>f64::from_str\<close> the parameter \<open>parse_f64\<close> (the value of a text that
  denotes a finite number).  An \<open>i32\<close> is an integer; the parser refuses what does not fit.
\<close>

section \<open>Texts, integers, dates\<close>

text \<open>\<open>str::trim\<close>: the characters with the Unicode property \<open>White_Space\<close>, which are Python's but for the
  four separators 0x1C to 0x1F.\<close>

definition rust_spaces :: "string list" where
  "rust_spaces = filter (\<lambda>w. w \<notin> {[CHR 0x1C], [CHR 0x1D], [CHR 0x1E], [CHR 0x1F]}) py_spaces"

definition rust_trim :: "string \<Rightarrow> string" where
  "rust_trim s =
     (let t = drop_words (length s) rust_spaces s
      in rev (drop_words (length t) (map rev rust_spaces) (rev t)))"

text \<open>\<open>value.map(str::trim).filter(|v| !v.is_empty())\<close>\<close>

definition trimmed :: "string option \<Rightarrow> string option" where
  "trimmed value =
     (case value of None \<Rightarrow> None | Some v \<Rightarrow> if rust_trim v = '''' then None else Some (rust_trim v))"

definition digits_nat :: "string \<Rightarrow> nat" where
  "digits_nat s = foldl (\<lambda>n c. 10 * n + digit_value c) 0 s"

text \<open>\<open>str::parse::<i32>\<close>: an optional sign, digits, and a value that fits.\<close>

definition in_i32 :: "int \<Rightarrow> bool" where
  "in_i32 i \<longleftrightarrow> - (2 ^ 31) \<le> i \<and> i < 2 ^ 31"

definition parse_i32 :: "string \<Rightarrow> int option" where
  "parse_i32 s =
     (let (negative, ds) =
        (case s of
           [] \<Rightarrow> (False, [])
         | c # t \<Rightarrow> if c = CHR ''-'' then (True, t) else if c = CHR ''+'' then (False, t) else (False, s));
        i = (if negative then - int (digits_nat ds) else int (digits_nat ds))
      in if ds \<noteq> [] \<and> list_all is_digit ds \<and> in_i32 i then Some i else None)"

definition parse_int :: "string option \<Rightarrow> int option" where
  "parse_int value = (case trimmed value of None \<Rightarrow> None | Some v \<Rightarrow> parse_i32 v)"

definition leap_year :: "nat \<Rightarrow> bool" where
  "leap_year y \<longleftrightarrow> y mod 4 = 0 \<and> (y mod 100 \<noteq> 0 \<or> y mod 400 = 0)"

definition days_in_month :: "nat \<Rightarrow> nat \<Rightarrow> nat" where
  "days_in_month y m =
     (if m = 2 then (if leap_year y then 29 else 28)
      else if m \<in> {4, 6, 9, 11} then 30 else 31)"

definition valid_date :: "nat \<Rightarrow> nat \<Rightarrow> nat \<Rightarrow> bool" where
  "valid_date y m d \<longleftrightarrow> y < 10000 \<and> 1 \<le> m \<and> m \<le> 12 \<and> 1 \<le> d \<and> d \<le> days_in_month y m"

definition naive_date :: "string \<Rightarrow> string \<Rightarrow> string \<Rightarrow> date option" where
  "naive_date y m d =
     (if list_all is_digit (y @ m @ d) \<and> valid_date (digits_nat y) (digits_nat m) (digits_nat d)
      then Some \<lparr>year = digits_nat y, month = digits_nat m, day = digits_nat d\<rparr> else None)"

text \<open>The three formats: the regular expression fixes the shape, the calendar the value.\<close>

fun date_ymd :: "string \<Rightarrow> date option" where
  "date_ymd [y1, y2, y3, y4, m1, m2, d1, d2] = naive_date [y1, y2, y3, y4] [m1, m2] [d1, d2]"
| "date_ymd _ = None"

fun date_dashed :: "string \<Rightarrow> date option" where
  "date_dashed [y1, y2, y3, y4, a, m1, m2, b, d1, d2] =
     (if a = CHR ''-'' \<and> b = CHR ''-'' then naive_date [y1, y2, y3, y4] [m1, m2] [d1, d2] else None)"
| "date_dashed _ = None"

fun date_dotted :: "string \<Rightarrow> date option" where
  "date_dotted [d1, d2, a, m1, m2, b, y1, y2, y3, y4] =
     (if a = CHR ''.'' \<and> b = CHR ''.'' then naive_date [y1, y2, y3, y4] [m1, m2] [d1, d2] else None)"
| "date_dotted _ = None"

fun first_some :: "('a \<Rightarrow> 'b option) list \<Rightarrow> 'a \<Rightarrow> 'b option" where
  "first_some [] x = None"
| "first_some (f # fs) x = (case f x of None \<Rightarrow> first_some fs x | Some y \<Rightarrow> Some y)"

definition iso_date :: "date \<Rightarrow> string" where
  "iso_date d = pad_nat 4 (year d) @ ''-'' @ pad_nat 2 (month d) @ ''-'' @ pad_nat 2 (day d)"

definition date_formats :: "(string \<Rightarrow> date option) list" where
  "date_formats = [date_ymd, date_dashed, date_dotted]"

definition parse_date :: "string option \<Rightarrow> string \<Rightarrow> int \<Rightarrow> error_log + string option" where
  "parse_date value fld n =
     (case trimmed value of
        None \<Rightarrow> Inr None
      | Some raw \<Rightarrow>
          (case first_some date_formats raw of
             Some parsed \<Rightarrow> Inr (Some (iso_date parsed))
           | None \<Rightarrow> Inl
               \<lparr>log_row_number = n, log_field = fld, log_error_type = ''INVALID_DATE_FORMAT'',
                log_message = ''Value '' @ [CHR 0x27] @ raw @ [CHR 0x27] @
                  '' could not be resolved to a standardized format.''\<rparr>))"

definition comma_to_point :: "string \<Rightarrow> string" where
  "comma_to_point s = map (\<lambda>c. if c = CHR '','' then CHR ''.'' else c) s"

definition parse_decimal ::
    "(string \<Rightarrow> bool) \<Rightarrow> string option \<Rightarrow> string \<Rightarrow> int \<Rightarrow> error_log + string option" where
  "parse_decimal decimal_ok value fld n =
     (case trimmed value of
        None \<Rightarrow> Inr None
      | Some raw \<Rightarrow>
          if decimal_ok (comma_to_point raw) then Inr (Some (comma_to_point raw))
          else Inl
            \<lparr>log_row_number = n, log_field = fld, log_error_type = ''INVALID_NUMERIC'',
             log_message = ''Unable to convert string raw item into exact decimal parameters.''\<rparr>)"

section \<open>Attributes\<close>

type_synonym bank_row = "string \<rightharpoonup> string"

definition text_or_empty :: "bank_row \<Rightarrow> string \<Rightarrow> string" where
  "text_or_empty row key = (case row key of None \<Rightarrow> '''' | Some v \<Rightarrow> v)"

definition build_retail_attributes :: "bank_row \<Rightarrow> pydict" where
  "build_retail_attributes row =
     [(''insurance_included'', JStr (text_or_empty row ''insurance_included'')),
      (''customer_district_code'', JStr (text_or_empty row ''customer_district_code'')),
      (''customer_province_code'', JStr
         (case row ''customer_region_code'' of
            Some v \<Rightarrow> v
          | None \<Rightarrow> text_or_empty row ''customer_province_code''))]"

definition parse_optional_int :: "string option \<Rightarrow> int option" where
  "parse_optional_int value = (case value of None \<Rightarrow> None | Some v \<Rightarrow> parse_i32 (rust_trim v))"

definition parse_optional_decimal_f64 :: "(string \<Rightarrow> rat option) \<Rightarrow> string option \<Rightarrow> rat option" where
  "parse_optional_decimal_f64 parse_f64 value =
     (case value of None \<Rightarrow> None | Some v \<Rightarrow> parse_f64 (comma_to_point (rust_trim v)))"

definition build_commercial_attributes :: "(string \<Rightarrow> rat option) \<Rightarrow> bank_row \<Rightarrow> pydict" where
  "build_commercial_attributes parse_f64 row =
     [(''loan_product_type'', json_opt JInt (parse_optional_int (row ''loan_product_type''))),
      (''loan_status_flag'', JStr (text_or_empty row ''loan_status_flag'')),
      (''customer_region_code'', JStr (text_or_empty row ''customer_region_code'')),
      (''sector_code'', json_opt JInt (parse_optional_int (row ''sector_code''))),
      (''internal_credit_rating'', json_opt JInt (parse_optional_int (row ''internal_credit_rating''))),
      (''default_probability'', json_opt JFloat
         (parse_optional_decimal_f64 parse_f64 (row ''default_probability''))),
      (''risk_class'', json_opt JInt (parse_optional_int (row ''risk_class''))),
      (''customer_segment'', json_opt JInt (parse_optional_int (row ''customer_segment'')))]"

section \<open>Rows\<close>

record parsed_credit =
  pc_account :: string
  pc_customer_id :: string
  pc_customer_type :: string
  pc_loan_status_code :: string
  pc_days_past_due :: "int option"
  pc_final_maturity_date :: "string option"
  pc_total_installment_count :: "int option"
  pc_outstanding_installment_count :: "int option"
  pc_paid_installment_count :: "int option"
  pc_first_payment_date :: "string option"
  pc_original_loan_amount :: "string option"
  pc_outstanding_principal_balance :: "string option"
  pc_nominal_interest_rate :: "string option"
  pc_total_interest_amount :: "string option"
  pc_kkdf_rate :: "string option"
  pc_kkdf_amount :: "string option"
  pc_bsmv_rate :: "string option"
  pc_bsmv_amount :: "string option"
  pc_grace_period_months :: "int option"
  pc_installment_frequency :: "int option"
  pc_loan_start_date :: "string option"
  pc_loan_closing_date :: "string option"
  pc_internal_rating :: "int option"
  pc_external_rating :: "int option"
  pc_retail_attributes :: pydict
  pc_commercial_attributes :: pydict

record parsed_payment =
  pp_account :: string
  pp_installment_number :: int
  pp_actual_payment_date :: "string option"
  pp_scheduled_payment_date :: "string option"
  pp_installment_amount :: "string option"
  pp_principal_component :: "string option"
  pp_interest_component :: "string option"
  pp_kkdf_component :: "string option"
  pp_bsmv_component :: "string option"
  pp_installment_status :: string
  pp_remaining_principal :: "string option"
  pp_remaining_interest :: "string option"
  pp_remaining_kkdf :: "string option"
  pp_remaining_bsmv :: "string option"

text \<open>The parsers of foreign crates the row parsers use.\<close>

record parsers =
  decimal_ok :: "string \<Rightarrow> bool"
  parse_f64 :: "string \<Rightarrow> rat option"

definition collect :: "error_log list \<Rightarrow> error_log + string option \<Rightarrow> string option \<times> error_log list" where
  "collect row_errors r = (case r of Inr v \<Rightarrow> (v, row_errors) | Inl err \<Rightarrow> (None, row_errors @ [err]))"

definition collect_date ::
    "error_log list \<Rightarrow> string option \<Rightarrow> string \<Rightarrow> int \<Rightarrow> string option \<times> error_log list" where
  "collect_date row_errors value fld n = collect row_errors (parse_date value fld n)"

definition collect_decimal ::
    "parsers \<Rightarrow> error_log list \<Rightarrow> string option \<Rightarrow> string \<Rightarrow> int \<Rightarrow> string option \<times> error_log list" where
  "collect_decimal env row_errors value fld n =
     collect row_errors (parse_decimal (decimal_ok env) value fld n)"

definition validation_error :: "int \<Rightarrow> string \<Rightarrow> error_log" where
  "validation_error n msg =
     \<lparr>log_row_number = n, log_field = ''loan_account_number'',
      log_error_type = ''VALIDATION_ERROR'', log_message = msg\<rparr>"

definition row_account :: "bank_row \<Rightarrow> string" where
  "row_account row = (case row ''loan_account_number'' of None \<Rightarrow> '''' | Some s \<Rightarrow> rust_trim s)"

definition parse_credit_row ::
    "parsers \<Rightarrow> bank_row \<Rightarrow> int \<Rightarrow> string \<Rightarrow> error_log list \<Rightarrow> parsed_credit option \<times> error_log list" where
  "parse_credit_row env row n loan_type row_errors =
     (let account = row_account row;
          date = (\<lambda>fld errs. collect_date errs (row fld) fld n);
          decimal = (\<lambda>fld errs. collect_decimal env errs (row fld) fld n)
      in if account = '''' then (None, row_errors @ [validation_error n ''Missing loan_account_number''])
      else
        let (retail_attrs, commercial_attrs) =
              (if py_upper loan_type = ''RETAIL'' then (build_retail_attributes row, [])
               else ([], build_commercial_attributes (parse_f64 env) row));
            (final_maturity_date, errs) = date ''final_maturity_date'' row_errors;
            (first_payment_date, errs) = date ''first_payment_date'' errs;
            (original_loan_amount, errs) = decimal ''original_loan_amount'' errs;
            (outstanding_principal_balance, errs) = decimal ''outstanding_principal_balance'' errs;
            (nominal_interest_rate, errs) = decimal ''nominal_interest_rate'' errs;
            (total_interest_amount, errs) = decimal ''total_interest_amount'' errs;
            (kkdf_rate, errs) = decimal ''kkdf_rate'' errs;
            (kkdf_amount, errs) = decimal ''kkdf_amount'' errs;
            (bsmv_rate, errs) = decimal ''bsmv_rate'' errs;
            (bsmv_amount, errs) = decimal ''bsmv_amount'' errs;
            (loan_start_date, errs) = date ''loan_start_date'' errs;
            (loan_closing_date, errs) = date ''loan_closing_date'' errs
        in (Some
          \<lparr>pc_account = account,
           pc_customer_id = text_or_empty row ''customer_id'',
           pc_customer_type = text_or_empty row ''customer_type'',
           pc_loan_status_code = text_or_empty row ''loan_status_code'',
           pc_days_past_due = parse_int (row ''days_past_due''),
           pc_final_maturity_date = final_maturity_date,
           pc_total_installment_count = parse_int (row ''total_installment_count''),
           pc_outstanding_installment_count = parse_int (row ''outstanding_installment_count''),
           pc_paid_installment_count = parse_int (row ''paid_installment_count''),
           pc_first_payment_date = first_payment_date,
           pc_original_loan_amount = original_loan_amount,
           pc_outstanding_principal_balance = outstanding_principal_balance,
           pc_nominal_interest_rate = nominal_interest_rate,
           pc_total_interest_amount = total_interest_amount,
           pc_kkdf_rate = kkdf_rate,
           pc_kkdf_amount = kkdf_amount,
           pc_bsmv_rate = bsmv_rate,
           pc_bsmv_amount = bsmv_amount,
           pc_grace_period_months = parse_int (row ''grace_period_months''),
           pc_installment_frequency = parse_int (row ''installment_frequency''),
           pc_loan_start_date = loan_start_date,
           pc_loan_closing_date = loan_closing_date,
           pc_internal_rating = parse_int (row ''internal_rating''),
           pc_external_rating = parse_int (row ''external_rating''),
           pc_retail_attributes = retail_attrs,
           pc_commercial_attributes = commercial_attrs\<rparr>, errs))"

definition parse_payment_row ::
    "parsers \<Rightarrow> bank_row \<Rightarrow> int \<Rightarrow> string set \<Rightarrow> error_log list \<Rightarrow> parsed_payment option \<times> error_log list" where
  "parse_payment_row env row n known_accounts row_errors =
     (let account = row_account row;
          date = (\<lambda>fld errs. collect_date errs (row fld) fld n);
          decimal = (\<lambda>fld errs. collect_decimal env errs (row fld) fld n)
      in if account = '''' then (None, row_errors @ [validation_error n ''Missing loan_account_number''])
      else if account \<notin> known_accounts
      then (None, row_errors @ [validation_error n (''Unknown loan_account_number '' @ account)])
      else
        let (actual_payment_date, errs) = date ''actual_payment_date'' row_errors;
            (scheduled_payment_date, errs) = date ''scheduled_payment_date'' errs;
            (installment_amount, errs) = decimal ''installment_amount'' errs;
            (principal_component, errs) = decimal ''principal_component'' errs;
            (interest_component, errs) = decimal ''interest_component'' errs;
            (kkdf_component, errs) = decimal ''kkdf_component'' errs;
            (bsmv_component, errs) = decimal ''bsmv_component'' errs;
            (remaining_principal, errs) = decimal ''remaining_principal'' errs;
            (remaining_interest, errs) = decimal ''remaining_interest'' errs;
            (remaining_kkdf, errs) = decimal ''remaining_kkdf'' errs;
            (remaining_bsmv, errs) = decimal ''remaining_bsmv'' errs
        in (Some
          \<lparr>pp_account = account,
           pp_installment_number =
             (case parse_int (row ''installment_number'') of None \<Rightarrow> 0 | Some n \<Rightarrow> n),
           pp_actual_payment_date = actual_payment_date,
           pp_scheduled_payment_date = scheduled_payment_date,
           pp_installment_amount = installment_amount,
           pp_principal_component = principal_component,
           pp_interest_component = interest_component,
           pp_kkdf_component = kkdf_component,
           pp_bsmv_component = bsmv_component,
           pp_installment_status = text_or_empty row ''installment_status'',
           pp_remaining_principal = remaining_principal,
           pp_remaining_interest = remaining_interest,
           pp_remaining_kkdf = remaining_kkdf,
           pp_remaining_bsmv = remaining_bsmv\<rparr>, errs))"

section \<open>The way of a date to the database (\<open>adapter/src/db.rs\<close>)\<close>

text \<open>\<open>NaiveDate::parse_from_str(v, "%Y-%m-%d").ok()\<close>, of a text \<open>parse_date\<close> has produced.\<close>

definition date_param :: "string option \<Rightarrow> date option" where
  "date_param value = (case value of None \<Rightarrow> None | Some v \<Rightarrow> date_dashed v)"

section \<open>Digits\<close>

lemma digits_nat_append: "digits_nat (s @ t) = digits_nat s * 10 ^ length t + digits_nat t"
proof (induction t rule: rev_induct)
  case (snoc c t)
  then show ?case by (simp add: digits_nat_def algebra_simps flip: append_assoc)
qed (simp add: digits_nat_def)

lemma digits_nat_zeros: "digits_nat (replicate k (CHR ''0'')) = 0"
  by (induction k) (simp_all add: digits_nat_def digit_value_def)

lemma digits_nat_str: "digits_nat (str_nat n) = n \<and> list_all is_digit (str_nat n)"
proof (induction n rule: str_nat.induct)
  case (1 n)
  then show ?case
    by (cases "n < 10")
      (simp_all add: str_nat.simps [of n] digits_nat_append digit_char_value, simp_all add: digits_nat_def digit_char_value)
qed

lemma str_nat_length: "n < 10 ^ k \<Longrightarrow> 0 < k \<Longrightarrow> length (str_nat n) \<le> k"
proof (induction k arbitrary: n)
  case (Suc k)
  show ?case
  proof (cases "n < 10")
    case False
    with Suc.prems have "n div 10 < 10 ^ k" "0 < k" by (auto intro: ccontr)
    with Suc.IH False show ?thesis by (simp add: str_nat.simps [of n])
  qed (simp add: str_nat.simps [of n])
qed simp

lemma pad_nat_digits:
  assumes "n < 10 ^ k" and "0 < k"
  shows "length (pad_nat k n) = k" and "list_all is_digit (pad_nat k n)" and "digits_nat (pad_nat k n) = n"
  using str_nat_length [OF assms] digits_nat_str [of n]
  by (auto simp: pad_nat_def digits_nat_append digits_nat_zeros is_digit_def list_all_iff)

definition real_date :: "date \<Rightarrow> bool" where
  "real_date d \<longleftrightarrow> valid_date (year d) (month d) (day d)"

lemma split_digits:
  "length s = 2 \<Longrightarrow> \<exists>a b. s = [a, b]" "length s = 4 \<Longrightarrow> \<exists>a b c d. s = [a, b, c, d]"
  by (auto simp: length_Suc_conv numeral_eq_Suc)

lemma valid_date_bounds: "valid_date y m d \<Longrightarrow> y < 10 ^ 4 \<and> m < 10 ^ 2 \<and> d < 10 ^ 2"
  by (auto simp: valid_date_def days_in_month_def split: if_splits)

lemma date_dashed_iso:
  assumes "real_date d"
  shows "date_dashed (iso_date d) = Some d"
proof -
  have b: "year d < 10 ^ 4" "month d < 10 ^ 2" "day d < 10 ^ 2"
    using assms valid_date_bounds by (auto simp: real_date_def)
  note p = pad_nat_digits [OF b(1)] pad_nat_digits [OF b(2)] pad_nat_digits [OF b(3)]
  obtain y1 y2 y3 y4 m1 m2 d1 d2 where e:
    "pad_nat 4 (year d) = [y1, y2, y3, y4]" "pad_nat 2 (month d) = [m1, m2]" "pad_nat 2 (day d) = [d1, d2]"
    using split_digits p(1,4,7) by (metis zero_less_numeral)
  have "naive_date [y1, y2, y3, y4] [m1, m2] [d1, d2] = Some d"
    using assms p by (simp add: naive_date_def real_date_def flip: e)
  then show ?thesis by (simp add: iso_date_def e)
qed

lemma naive_date_real: "naive_date y m d = Some dt \<Longrightarrow> real_date dt"
  by (auto simp: naive_date_def real_date_def split: if_splits)

lemma date_formats_real: "first_some date_formats raw = Some d \<Longrightarrow> real_date d"
  by (auto simp: date_formats_def split: option.splits
      elim!: date_ymd.elims date_dashed.elims date_dotted.elims split: if_splits intro: naive_date_real)


section \<open>Rows\<close>

definition error_of :: "error_log + 'a \<Rightarrow> error_log list" where
  "error_of r = (case r of Inl e \<Rightarrow> [e] | Inr _ \<Rightarrow> [])"

definition value_of :: "error_log + 'a option \<Rightarrow> 'a option" where
  "value_of r = (case r of Inl _ \<Rightarrow> None | Inr v \<Rightarrow> v)"

lemma collect_eq: "collect errs r = (value_of r, errs @ error_of r)"
  by (simp add: collect_def value_of_def error_of_def split: sum.split)

text \<open>The checked columns of a credit and of a payment, in the order of the checks.\<close>

definition date_check :: "bank_row \<Rightarrow> int \<Rightarrow> string \<Rightarrow> error_log + string option" where
  "date_check row n fld = parse_date (row fld) fld n"

definition decimal_check :: "parsers \<Rightarrow> bank_row \<Rightarrow> int \<Rightarrow> string \<Rightarrow> error_log + string option" where
  "decimal_check env row n fld = parse_decimal (decimal_ok env) (row fld) fld n"

definition credit_checks :: "parsers \<Rightarrow> bank_row \<Rightarrow> int \<Rightarrow> (error_log + string option) list" where
  "credit_checks env row n =
     map (date_check row n) [''final_maturity_date'', ''first_payment_date''] @
     map (decimal_check env row n)
       [''original_loan_amount'', ''outstanding_principal_balance'', ''nominal_interest_rate'',
        ''total_interest_amount'', ''kkdf_rate'', ''kkdf_amount'', ''bsmv_rate'', ''bsmv_amount''] @
     map (date_check row n) [''loan_start_date'', ''loan_closing_date'']"

definition payment_checks :: "parsers \<Rightarrow> bank_row \<Rightarrow> int \<Rightarrow> (error_log + string option) list" where
  "payment_checks env row n =
     map (date_check row n) [''actual_payment_date'', ''scheduled_payment_date''] @
     map (decimal_check env row n)
       [''installment_amount'', ''principal_component'', ''interest_component'', ''kkdf_component'',
        ''bsmv_component'', ''remaining_principal'', ''remaining_interest'', ''remaining_kkdf'', ''remaining_bsmv'']"

definition credit_dates :: "parsed_credit \<Rightarrow> string option list" where
  "credit_dates c = [pc_final_maturity_date c, pc_first_payment_date c, pc_loan_start_date c, pc_loan_closing_date c]"

text \<open>The credit of a row that names its account, and the payment of a row of a known account.\<close>

definition credit_of :: "parsers \<Rightarrow> bank_row \<Rightarrow> int \<Rightarrow> string \<Rightarrow> parsed_credit" where
  "credit_of env row n l = the (fst (parse_credit_row env row n l []))"

definition payment_of :: "parsers \<Rightarrow> bank_row \<Rightarrow> int \<Rightarrow> parsed_payment" where
  "payment_of env row n = the (fst (parse_payment_row env row n {row_account row} []))"

lemma parse_credit_row_cases:
  "row_account row = '''' \<Longrightarrow>
     parse_credit_row env row n l errs = (None, errs @ [validation_error n ''Missing loan_account_number''])"
  "row_account row \<noteq> '''' \<Longrightarrow>
     parse_credit_row env row n l errs =
       (Some (credit_of env row n l), errs @ concat (map error_of (credit_checks env row n)))"
  by (simp_all add: parse_credit_row_def credit_of_def Let_def case_prod_beta collect_date_def collect_decimal_def
      collect_eq credit_checks_def date_check_def decimal_check_def)

lemma credit_of_account: "row_account row \<noteq> '''' \<Longrightarrow> pc_account (credit_of env row n l) = row_account row"
  by (simp add: parse_credit_row_def credit_of_def Let_def case_prod_beta)

lemma parse_payment_row_cases:
  "row_account row = '''' \<Longrightarrow>
     parse_payment_row env row n known errs = (None, errs @ [validation_error n ''Missing loan_account_number''])"
  "row_account row \<noteq> '''' \<Longrightarrow> row_account row \<notin> known \<Longrightarrow>
     parse_payment_row env row n known errs =
       (None, errs @ [validation_error n (''Unknown loan_account_number '' @ row_account row)])"
  "row_account row \<noteq> '''' \<Longrightarrow> row_account row \<in> known \<Longrightarrow>
     parse_payment_row env row n known errs =
       (Some (payment_of env row n), errs @ concat (map error_of (payment_checks env row n)))"
  by (simp_all add: parse_payment_row_def payment_of_def Let_def case_prod_beta collect_date_def collect_decimal_def
      collect_eq payment_checks_def date_check_def decimal_check_def)

lemma payment_of_account: "row_account row \<noteq> '''' \<Longrightarrow> pp_account (payment_of env row n) = row_account row"
  by (simp add: parse_payment_row_def payment_of_def Let_def case_prod_beta)

section \<open>Dates\<close>

lemma rust_spaces_find:
  "List.find P py_spaces = None \<Longrightarrow> List.find P rust_spaces = None"
  "List.find P (map rev py_spaces) = None \<Longrightarrow> List.find P (map rev rust_spaces) = None"
  by (auto simp: find_None_iff rust_spaces_def)

lemma rust_trim_digits:
  assumes "s \<noteq> []" and "is_digit (hd s)" and "is_digit (last s)"
  shows "rust_trim s = s"
proof -
  have "s = hd s # tl s" "rev s = last s # rev (butlast s)"
    using assms(1) by (simp, cases s rule: rev_cases) simp_all
  then have "List.find (\<lambda>w. prefix w s) rust_spaces = None" "List.find (\<lambda>w. prefix w (rev s)) (map rev rust_spaces) = None"
    using no_space_prefix [of "hd s" "tl s"] no_space_prefix [of "last s" "rev (butlast s)"] assms(2,3)
    by (metis rust_spaces_find)+
  then show ?thesis by (simp add: rust_trim_def drop_words_none)
qed

lemma date_digits:
  assumes "real_date d"
  obtains y1 y2 y3 y4 m1 m2 d1 d2 where
    "pad_nat 4 (year d) = [y1, y2, y3, y4]" "pad_nat 2 (month d) = [m1, m2]" "pad_nat 2 (day d) = [d1, d2]"
    "list_all is_digit [y1, y2, y3, y4, m1, m2, d1, d2]"
    "naive_date [y1, y2, y3, y4] [m1, m2] [d1, d2] = Some d"
proof -
  have b: "year d < 10 ^ 4" "month d < 10 ^ 2" "day d < 10 ^ 2"
    using assms valid_date_bounds by (auto simp: real_date_def)
  note p = pad_nat_digits [OF b(1)] pad_nat_digits [OF b(2)] pad_nat_digits [OF b(3)]
  obtain y1 y2 y3 y4 m1 m2 d1 d2 where e:
    "pad_nat 4 (year d) = [y1, y2, y3, y4]" "pad_nat 2 (month d) = [m1, m2]" "pad_nat 2 (day d) = [d1, d2]"
    using split_digits p(1,4,7) by (metis zero_less_numeral)
  moreover have "naive_date [y1, y2, y3, y4] [m1, m2] [d1, d2] = Some d"
    using assms p by (simp add: naive_date_def real_date_def flip: e)
  moreover have "list_all is_digit [y1, y2, y3, y4, m1, m2, d1, d2]"
    using p(2,5,8) by (simp add: e)
  ultimately show thesis using that by blast
qed

definition compact_date :: "date \<Rightarrow> string" where
  "compact_date d = pad_nat 4 (year d) @ pad_nat 2 (month d) @ pad_nat 2 (day d)"

definition dotted_date :: "date \<Rightarrow> string" where
  "dotted_date d = pad_nat 2 (day d) @ ''.'' @ pad_nat 2 (month d) @ ''.'' @ pad_nat 4 (year d)"

lemma parse_spelling:
  assumes "s \<noteq> []" and "is_digit (hd s)" and "is_digit (last s)" and "first_some date_formats s = Some d"
  shows "parse_date (Some s) fld n = Inr (Some (iso_date d))"
  using rust_trim_digits [OF assms(1-3)] assms by (simp add: parse_date_def trimmed_def)

text \<open>
  The three spellings the bank may use for a day (\<open>20240229\<close>, \<open>2024-02-29\<close>, \<open>29.02.2024\<close>) parse to the same
  text, and that text is the day again when it is written to the database.
\<close>

theorem date_spellings_agree:
  assumes "real_date d"
  shows "parse_date (Some (compact_date d)) fld n = Inr (Some (iso_date d)) \<and>
    parse_date (Some (iso_date d)) fld n = Inr (Some (iso_date d)) \<and>
    parse_date (Some (dotted_date d)) fld n = Inr (Some (iso_date d)) \<and>
    date_param (Some (iso_date d)) = Some d"
proof -
  obtain y1 y2 y3 y4 m1 m2 d1 d2 where e:
    "pad_nat 4 (year d) = [y1, y2, y3, y4]" "pad_nat 2 (month d) = [m1, m2]" "pad_nat 2 (day d) = [d1, d2]"
    "list_all is_digit [y1, y2, y3, y4, m1, m2, d1, d2]"
    "naive_date [y1, y2, y3, y4] [m1, m2] [d1, d2] = Some d"
    using date_digits [OF assms] .
  have dash: "\<not> is_digit (CHR ''-'')" by (simp add: is_digit_def less_eq_char_def)
  have "parse_date (Some (compact_date d)) fld n = Inr (Some (iso_date d))"
    by (rule parse_spelling) (use e in \<open>simp_all add: compact_date_def date_formats_def\<close>)
  moreover have "parse_date (Some (iso_date d)) fld n = Inr (Some (iso_date d))"
    by (rule parse_spelling) (use e in \<open>simp_all add: iso_date_def date_formats_def\<close>)
  moreover have "parse_date (Some (dotted_date d)) fld n = Inr (Some (iso_date d))"
    by (rule parse_spelling) (use e dash in \<open>auto simp: dotted_date_def date_formats_def\<close>)
  ultimately show ?thesis
    using e by (simp add: date_param_def iso_date_def)
qed

lemma date_spellings_agree_witness:
  "parse_date (Some ''29.02.2024'') ''loan_start_date'' 1 = Inr (Some ''2024-02-29'')"
proof -
  have s: "dotted_date \<lparr>year = 2024, month = 2, day = 29\<rparr> = ''29.02.2024''"
    "iso_date \<lparr>year = 2024, month = 2, day = 29\<rparr> = ''2024-02-29''"
    by (simp_all add: dotted_date_def iso_date_def pad_nat_def str_nat.simps str_simps)
  have "real_date \<lparr>year = 2024, month = 2, day = 29\<rparr>"
    by (simp add: real_date_def valid_date_def days_in_month_def leap_year_def)
  from date_spellings_agree [OF this, of "''loan_start_date''" 1] show ?thesis
    unfolding s by simp
qed

text \<open>
  No date is changed on the way to the database: a blank value is no date, a value in one of the formats
  is the real calendar day it spells, and the same day is written; any other value is an error that names the
  column and the row.
\<close>

theorem parsed_dates_reach_database:
  "case parse_date value fld n of
     Inl e \<Rightarrow> \<exists>raw. trimmed value = Some raw \<and> first_some date_formats raw = None \<and>
       log_field e = fld \<and> log_row_number e = n
   | Inr None \<Rightarrow> trimmed value = None
   | Inr (Some s) \<Rightarrow> \<exists>raw d. trimmed value = Some raw \<and> first_some date_formats raw = Some d \<and>
       real_date d \<and> date_param (Some s) = Some d"
  using date_formats_real date_dashed_iso
  by (auto simp: parse_date_def date_param_def split: option.split)

section \<open>The errors of a row\<close>

text \<open>A checked column is unreadable when it holds a text that no format accepts.\<close>

definition date_columns :: "string list" where
  "date_columns = [''final_maturity_date'', ''first_payment_date'', ''loan_start_date'', ''loan_closing_date'',
     ''actual_payment_date'', ''scheduled_payment_date'']"

definition unreadable :: "parsers \<Rightarrow> bank_row \<Rightarrow> string \<Rightarrow> bool" where
  "unreadable env row fld =
     (case trimmed (row fld) of
        None \<Rightarrow> False
      | Some raw \<Rightarrow>
          if fld \<in> set date_columns then first_some date_formats raw = None
          else \<not> decimal_ok env (comma_to_point raw))"

definition credit_columns :: "string list" where
  "credit_columns =
     [''final_maturity_date'', ''first_payment_date'', ''original_loan_amount'', ''outstanding_principal_balance'',
      ''nominal_interest_rate'', ''total_interest_amount'', ''kkdf_rate'', ''kkdf_amount'', ''bsmv_rate'',
      ''bsmv_amount'', ''loan_start_date'', ''loan_closing_date'']"

definition payment_columns :: "string list" where
  "payment_columns =
     [''actual_payment_date'', ''scheduled_payment_date'', ''installment_amount'', ''principal_component'',
      ''interest_component'', ''kkdf_component'', ''bsmv_component'', ''remaining_principal'',
      ''remaining_interest'', ''remaining_kkdf'', ''remaining_bsmv'']"

definition error_on :: "int \<Rightarrow> error_log \<Rightarrow> string option" where
  "error_on n e = (if log_row_number e = n then Some (log_field e) else None)"

lemma date_check_errors:
  "fld \<in> set date_columns \<Longrightarrow>
   map (error_on n) (error_of (date_check row n fld)) = (if unreadable env row fld then [Some fld] else [])"
  by (simp add: date_check_def parse_date_def unreadable_def error_of_def error_on_def split: option.split)

lemma decimal_check_errors:
  "fld \<notin> set date_columns \<Longrightarrow>
   map (error_on n) (error_of (decimal_check env row n fld)) = (if unreadable env row fld then [Some fld] else [])"
  by (simp add: decimal_check_def parse_decimal_def unreadable_def error_of_def error_on_def split: option.split)

lemma checks_errors:
  "list_all (\<lambda>fld. fld \<in> set date_columns) flds \<Longrightarrow>
   map (error_on n) (concat (map error_of (map (date_check row n) flds))) = map Some (filter (unreadable env row) flds)"
  "list_all (\<lambda>fld. fld \<notin> set date_columns) flds \<Longrightarrow>
   map (error_on n) (concat (map error_of (map (decimal_check env row n) flds))) = map Some (filter (unreadable env row) flds)"
  by (induction flds) (simp_all add: date_check_errors [of _ n row env] decimal_check_errors)

lemma credit_checks_errors:
  "map (error_on n) (concat (map error_of (credit_checks env row n))) = map Some (filter (unreadable env row) credit_columns)"
  unfolding credit_checks_def map_append concat_append
  by (subst checks_errors(1) [where env = env], simp add: date_columns_def,
      subst checks_errors(2), simp add: date_columns_def,
      subst checks_errors(1) [where env = env], simp add: date_columns_def,
      simp only: credit_columns_def flip: map_append filter_append, simp)

lemma payment_checks_errors:
  "map (error_on n) (concat (map error_of (payment_checks env row n))) = map Some (filter (unreadable env row) payment_columns)"
  unfolding payment_checks_def map_append concat_append
  by (subst checks_errors(1) [where env = env], simp add: date_columns_def,
      subst checks_errors(2), simp add: date_columns_def,
      simp only: payment_columns_def flip: map_append filter_append, simp)

text \<open>
  What a row is stored as: a checked column keeps its normalised text, or null when it is unreadable; an integer column is
  null, and the installment number 0, for any text that is not an integer, and no entry tells of it.
\<close>

definition stored_value :: "parsers \<Rightarrow> bank_row \<Rightarrow> string \<Rightarrow> string option" where
  "stored_value env row fld =
     (case trimmed (row fld) of
        None \<Rightarrow> None
      | Some raw \<Rightarrow>
          if unreadable env row fld then None
          else if fld \<in> set date_columns then map_option iso_date (first_some date_formats raw)
          else Some (comma_to_point raw))"

definition integer_columns :: "string list" where
  "integer_columns =
     [''days_past_due'', ''total_installment_count'', ''outstanding_installment_count'', ''paid_installment_count'',
      ''grace_period_months'', ''installment_frequency'', ''internal_rating'', ''external_rating'']"

definition credit_values :: "parsed_credit \<Rightarrow> string option list" where
  "credit_values c =
     [pc_final_maturity_date c, pc_first_payment_date c, pc_original_loan_amount c, pc_outstanding_principal_balance c,
      pc_nominal_interest_rate c, pc_total_interest_amount c, pc_kkdf_rate c, pc_kkdf_amount c, pc_bsmv_rate c,
      pc_bsmv_amount c, pc_loan_start_date c, pc_loan_closing_date c]"

definition credit_integers :: "parsed_credit \<Rightarrow> int option list" where
  "credit_integers c =
     [pc_days_past_due c, pc_total_installment_count c, pc_outstanding_installment_count c, pc_paid_installment_count c,
      pc_grace_period_months c, pc_installment_frequency c, pc_internal_rating c, pc_external_rating c]"

definition payment_values :: "parsed_payment \<Rightarrow> string option list" where
  "payment_values p =
     [pp_actual_payment_date p, pp_scheduled_payment_date p, pp_installment_amount p, pp_principal_component p,
      pp_interest_component p, pp_kkdf_component p, pp_bsmv_component p, pp_remaining_principal p,
      pp_remaining_interest p, pp_remaining_kkdf p, pp_remaining_bsmv p]"

lemma value_of_date: "fld \<in> set date_columns \<Longrightarrow> value_of (parse_date (row fld) fld n) = stored_value env row fld"
  by (simp add: value_of_def parse_date_def stored_value_def unreadable_def split: option.split)

lemma value_of_decimal:
  "fld \<notin> set date_columns \<Longrightarrow> value_of (parse_decimal (decimal_ok env) (row fld) fld n) = stored_value env row fld"
  by (simp add: value_of_def parse_decimal_def stored_value_def unreadable_def split: option.split)

lemma credit_of_values:
  assumes "row_account row \<noteq> ''''"
  shows "credit_values (credit_of env row n l) = map (stored_value env row) credit_columns"
    and "credit_integers (credit_of env row n l) = map (parse_int \<circ> row) integer_columns"
proof -
  note parts = credit_of_def parse_credit_row_def collect_date_def collect_decimal_def collect_eq Let_def case_prod_beta
  show "credit_values (credit_of env row n l) = map (stored_value env row) credit_columns"
    using assms unfolding credit_columns_def list.map
    by (simp add: parts credit_values_def value_of_date [of _ row n env] value_of_decimal date_columns_def)
  show "credit_integers (credit_of env row n l) = map (parse_int \<circ> row) integer_columns"
    using assms by (simp add: parts credit_integers_def integer_columns_def)
qed

lemma payment_of_values:
  assumes "row_account row \<noteq> ''''"
  shows "payment_values (payment_of env row n) = map (stored_value env row) payment_columns"
    and "pp_installment_number (payment_of env row n) =
      (case parse_int (row ''installment_number'') of None \<Rightarrow> 0 | Some k \<Rightarrow> k)"
proof -
  note parts = payment_of_def parse_payment_row_def collect_date_def collect_decimal_def collect_eq Let_def case_prod_beta
  show "payment_values (payment_of env row n) = map (stored_value env row) payment_columns"
    using assms unfolding payment_columns_def list.map
    by (simp add: parts payment_values_def value_of_date [of _ row n env] value_of_decimal date_columns_def)
  show "pp_installment_number (payment_of env row n) =
      (case parse_int (row ''installment_number'') of None \<Rightarrow> 0 | Some k \<Rightarrow> k)"
    using assms by (simp add: parts)
qed

section \<open>The error log\<close>


end
