(* ===== verification/SnapshotWriter.thy ===== *)
theory SnapshotWriter
  imports AdapterParser
begin

text \<open>
  The writer of the adapter, \<open>adapter/src/db.rs\<close> (\<open>SnapshotWriter\<close>): in one transaction it deletes a slice of the
  warehouse and inserts the parsed credits and payments in batches.

  The two tables are lists of rows in the order of insertion; \<open>credit_seq\<close> is the sequence of the
  primary keys of the credits.  A transaction works on its own copy of the tables: \<open>commit\<close> makes it the database, dropping the
  writer rolls it back.  What the database does with a value is a parameter: \<open>numeric\<close> is the
  cast \<open>::text::numeric\<close> into a \<open>numeric(18,4)\<close> column, \<open>refuse_credits\<close> and \<open>refuse_payments\<close> say when a
  statement fails for a reason of its own (a text too long for its column, a number out of range, a
  lost connection); the constraints the code relies on (the conflict target, the
  uniqueness of installments, the foreign key) are modelled.
\<close>

section \<open>The database\<close>

record database =
  credit_table :: "credit_record list"
  payment_table :: "payment_installment list"
  credit_seq :: int

datatype sql_failure =
    Refused string
  | Row_affected_twice
  | Unique_violation
  | Foreign_key_violation

record sql_env =
  numeric :: "string \<Rightarrow> int"
  refuse_credits :: "credit_record list \<Rightarrow> string option"
  refuse_payments :: "payment_installment list \<Rightarrow> string option"
  refuse_commit :: "database \<Rightarrow> string option"
  format_db_error :: "sql_failure \<Rightarrow> string"
  clock :: "nat \<Rightarrow> int"

definition in_slice :: "string \<Rightarrow> string \<Rightarrow> credit_record \<Rightarrow> bool" where
  "in_slice t l c \<longleftrightarrow> credit_tenant c = t \<and> credit_loan_type c = l"

text \<open>The two \<open>DELETE\<close> statements of \<open>begin\<close>: first the payments of the slice, then its credits.\<close>

definition delete_slice :: "string \<Rightarrow> string \<Rightarrow> database \<Rightarrow> database" where
  "delete_slice t l db =
     db\<lparr>payment_table := filter (\<lambda>p. \<not> list_ex (\<lambda>c. credit_pk c = payment_credit p) (filter (in_slice t l) (credit_table db)))
          (payment_table db),
        credit_table := filter (\<lambda>c. \<not> in_slice t l c) (credit_table db)\<rparr>"

text \<open>
  \<open>INSERT ... ON CONFLICT (tenant_id, loan_type, loan_account_number) DO UPDATE ... RETURNING\<close>: an existing
  row is overwritten but keeps its key, a new one takes the next key; a statement that meets an
  account twice fails.
\<close>

definition same_key :: "credit_record \<Rightarrow> credit_record \<Rightarrow> bool" where
  "same_key r c \<longleftrightarrow> credit_tenant c = credit_tenant r \<and> credit_loan_type c = credit_loan_type r \<and>
     loan_account_number c = loan_account_number r"

definition upsert_one :: "credit_record \<Rightarrow> database \<Rightarrow> database \<times> int" where
  "upsert_one r db =
     (let pk = (case List.find (same_key r) (credit_table db) of
                  Some c \<Rightarrow> credit_pk c
                | None \<Rightarrow> credit_seq db);
          row = r\<lparr>credit_pk := pk\<rparr>;
          table = (if list_ex (same_key r) (credit_table db)
                   then map (\<lambda>c. if same_key r c then row else c) (credit_table db)
                   else credit_table db @ [row])
      in (db\<lparr>credit_table := table, credit_seq := credit_seq db + 1\<rparr>, pk))"

fun upsert_credits ::
    "credit_record list \<Rightarrow> string list \<Rightarrow> database \<Rightarrow> sql_failure + database \<times> (string \<times> int) list" where
  "upsert_credits [] affected db = Inr (db, [])"
| "upsert_credits (r # rs) affected db =
     (if loan_account_number r \<in> set affected then Inl Row_affected_twice
      else
        case upsert_one r db of (db, pk) \<Rightarrow>
          case upsert_credits rs (loan_account_number r # affected) db of
            Inl e \<Rightarrow> Inl e
          | Inr (db', returned) \<Rightarrow> Inr (db', (loan_account_number r, pk) # returned))"

text \<open>\<open>INSERT INTO etl_paymentinstallment\<close>, with \<open>unique (credit_id, installment_number)\<close> and the foreign key.\<close>

definition same_installment :: "payment_installment \<Rightarrow> payment_installment \<Rightarrow> bool" where
  "same_installment p q \<longleftrightarrow> payment_credit q = payment_credit p \<and> installment_number q = installment_number p"

fun insert_payment_rows :: "payment_installment list \<Rightarrow> database \<Rightarrow> sql_failure + database" where
  "insert_payment_rows [] db = Inr db"
| "insert_payment_rows (p # ps) db =
     (if list_ex (same_installment p) (payment_table db) then Inl Unique_violation
      else if \<not> list_ex (\<lambda>c. credit_pk c = payment_credit p) (credit_table db) then Inl Foreign_key_violation
      else insert_payment_rows ps (db\<lparr>payment_table := payment_table db @ [p]\<rparr>))"

section \<open>Binds\<close>

definition credit_bind :: "sql_env \<Rightarrow> string \<Rightarrow> string \<Rightarrow> int \<Rightarrow> parsed_credit \<Rightarrow> credit_record" where
  "credit_bind env t l now c =
     \<lparr>credit_pk = 0, credit_tenant = t, credit_loan_type = l,
      loan_account_number = pc_account c, customer_id = pc_customer_id c,
      customer_type = pc_customer_type c, loan_status_code = pc_loan_status_code c,
      days_past_due = pc_days_past_due c, final_maturity_date = date_param (pc_final_maturity_date c),
      total_installment_count = pc_total_installment_count c,
      outstanding_installment_count = pc_outstanding_installment_count c,
      paid_installment_count = pc_paid_installment_count c,
      first_payment_date = date_param (pc_first_payment_date c),
      original_loan_amount = map_option (numeric env) (pc_original_loan_amount c),
      outstanding_principal_balance = map_option (numeric env) (pc_outstanding_principal_balance c),
      nominal_interest_rate = map_option (numeric env) (pc_nominal_interest_rate c),
      total_interest_amount = map_option (numeric env) (pc_total_interest_amount c),
      kkdf_rate = map_option (numeric env) (pc_kkdf_rate c),
      kkdf_amount = map_option (numeric env) (pc_kkdf_amount c),
      bsmv_rate = map_option (numeric env) (pc_bsmv_rate c),
      bsmv_amount = map_option (numeric env) (pc_bsmv_amount c),
      grace_period_months = pc_grace_period_months c,
      installment_frequency = pc_installment_frequency c,
      loan_start_date = date_param (pc_loan_start_date c),
      loan_closing_date = date_param (pc_loan_closing_date c),
      internal_rating = pc_internal_rating c, external_rating = pc_external_rating c,
      retail_specific_attributes = pc_retail_attributes c,
      commercial_specific_attributes = pc_commercial_attributes c, snapshot_at = now\<rparr>"

definition payment_bind :: "sql_env \<Rightarrow> int \<Rightarrow> parsed_payment \<Rightarrow> payment_installment" where
  "payment_bind env credit_id p =
     \<lparr>payment_credit = credit_id, installment_number = pp_installment_number p,
      actual_payment_date = date_param (pp_actual_payment_date p),
      scheduled_payment_date = date_param (pp_scheduled_payment_date p),
      installment_amount = map_option (numeric env) (pp_installment_amount p),
      principal_component = map_option (numeric env) (pp_principal_component p),
      interest_component = map_option (numeric env) (pp_interest_component p),
      kkdf_component = map_option (numeric env) (pp_kkdf_component p),
      bsmv_component = map_option (numeric env) (pp_bsmv_component p),
      installment_status = pp_installment_status p,
      remaining_principal = map_option (numeric env) (pp_remaining_principal p),
      remaining_interest = map_option (numeric env) (pp_remaining_interest p),
      remaining_kkdf = map_option (numeric env) (pp_remaining_kkdf p),
      remaining_bsmv = map_option (numeric env) (pp_remaining_bsmv p)\<rparr>"

section \<open>The writer\<close>

definition CREDIT_BATCH_SIZE :: nat where "CREDIT_BATCH_SIZE = 2000"
definition PAYMENT_BATCH_SIZE :: nat where "PAYMENT_BATCH_SIZE = 2000"
definition CREDIT_INSERT_CHUNK :: nat where "CREDIT_INSERT_CHUNK = 100"
definition PAYMENT_INSERT_CHUNK :: nat where "PAYMENT_INSERT_CHUNK = 200"

record snapshot_writer =
  tx :: database
  w_tenant :: string
  w_loan_type :: string
  credit_id_map :: "string \<rightharpoonup> int"
  credit_batch :: "parsed_credit list"
  payment_batch :: "parsed_payment list"
  payments_ingested :: nat
  statements :: nat

definition begin_writer :: "string \<Rightarrow> string \<Rightarrow> database \<Rightarrow> snapshot_writer" where
  "begin_writer t l db =
     \<lparr>tx = delete_slice t l db, w_tenant = t, w_loan_type = l, credit_id_map = Map.empty,
      credit_batch = [], payment_batch = [], payments_ingested = 0, statements = 0\<rparr>"

definition credits_ingested :: "snapshot_writer \<Rightarrow> nat" where
  "credits_ingested w = card (dom (credit_id_map w))"

text \<open>\<open>[T]::chunks(n)\<close>, for a positive \<open>n\<close>.\<close>

function slice_chunks :: "nat \<Rightarrow> 'a list \<Rightarrow> 'a list list" where
  "slice_chunks n xs = (if n = 0 \<or> xs = [] then [] else take n xs # slice_chunks n (drop n xs))"
  by auto
termination
  by (relation "measure (length \<circ> snd)") auto

declare slice_chunks.simps [simp del]

text \<open>The loop of \<open>flush_credits\<close>: the last credit of an account takes the place of the first.\<close>

fun dedup_credits ::
    "parsed_credit list \<Rightarrow> (string \<rightharpoonup> nat) \<Rightarrow> parsed_credit list \<Rightarrow> parsed_credit list" where
  "dedup_credits deduped index [] = deduped"
| "dedup_credits deduped index (credit # credits) =
     (case index (pc_account credit) of
        Some pos \<Rightarrow> dedup_credits (deduped[pos := credit]) index credits
      | None \<Rightarrow> dedup_credits (deduped @ [credit]) (index(pc_account credit \<mapsto> length deduped)) credits)"

text \<open>\<open>for row in rows { credit_id_map.insert(account, id) }\<close>\<close>

fun learn_ids :: "(string \<rightharpoonup> int) \<Rightarrow> (string \<times> int) list \<Rightarrow> string \<rightharpoonup> int" where
  "learn_ids m [] = m"
| "learn_ids m ((account, i) # rows) = learn_ids (m(account \<mapsto> i)) rows"

definition insert_credits_multi ::
    "sql_env \<Rightarrow> parsed_credit list \<Rightarrow> snapshot_writer \<Rightarrow> string + snapshot_writer" where
  "insert_credits_multi env credits w =
     (if credits = [] then Inr w
      else
        let rows = map (credit_bind env (w_tenant w) (w_loan_type w) (clock env (statements w))) credits;
            outcome = (case refuse_credits env rows of
                         Some e \<Rightarrow> Inl (Refused e)
                       | None \<Rightarrow> upsert_credits rows [] (tx w))
        in case outcome of
             Inl e \<Rightarrow> Inl (''credit batch: '' @ format_db_error env e)
           | Inr (db, returned) \<Rightarrow>
               Inr (w\<lparr>tx := db, statements := statements w + 1,
                      credit_id_map := learn_ids (credit_id_map w) returned\<rparr>))"

fun try_fold :: "('a \<Rightarrow> 'w \<Rightarrow> 'e + 'w) \<Rightarrow> 'a list \<Rightarrow> 'w \<Rightarrow> 'e + 'w" where
  "try_fold f [] w = Inr w"
| "try_fold f (x # xs) w = (case f x w of Inl e \<Rightarrow> Inl e | Inr w' \<Rightarrow> try_fold f xs w')"

definition flush_credits :: "sql_env \<Rightarrow> snapshot_writer \<Rightarrow> string + snapshot_writer" where
  "flush_credits env w =
     (if credit_batch w = [] then Inr w
      else
        let deduped = dedup_credits [] Map.empty (credit_batch w)
        in try_fold (insert_credits_multi env) (slice_chunks CREDIT_INSERT_CHUNK deduped) (w\<lparr>credit_batch := []\<rparr>))"

definition push_credit :: "sql_env \<Rightarrow> parsed_credit \<Rightarrow> snapshot_writer \<Rightarrow> string + snapshot_writer" where
  "push_credit env credit w =
     (let w = w\<lparr>credit_batch := credit_batch w @ [credit]\<rparr>
      in if CREDIT_BATCH_SIZE \<le> length (credit_batch w) then flush_credits env w else Inr w)"

definition insert_payments_multi ::
    "sql_env \<Rightarrow> payment_installment list \<Rightarrow> snapshot_writer \<Rightarrow> string + snapshot_writer" where
  "insert_payments_multi env payments w =
     (if payments = [] then Inr w
      else
        let outcome = (case refuse_payments env payments of
                         Some e \<Rightarrow> Inl (Refused e)
                       | None \<Rightarrow> insert_payment_rows payments (tx w))
        in case outcome of
             Inl e \<Rightarrow> Inl (''payment batch: '' @ format_db_error env e)
           | Inr db \<Rightarrow> Inr (w\<lparr>tx := db, payments_ingested := payments_ingested w + length payments\<rparr>))"

fun bind_payments ::
    "sql_env \<Rightarrow> (string \<rightharpoonup> int) \<Rightarrow> parsed_payment list \<Rightarrow> string + payment_installment list" where
  "bind_payments env ids [] = Inr []"
| "bind_payments env ids (p # ps) =
     (case ids (pp_account p) of
        None \<Rightarrow> Inl (''missing credit id for '' @ pp_account p)
      | Some credit_id \<Rightarrow>
          (case bind_payments env ids ps of
             Inl e \<Rightarrow> Inl e
           | Inr binds \<Rightarrow> Inr (payment_bind env credit_id p # binds)))"

definition flush_payments :: "sql_env \<Rightarrow> snapshot_writer \<Rightarrow> string + snapshot_writer" where
  "flush_payments env w =
     (if payment_batch w = [] then Inr w
      else case bind_payments env (credit_id_map w) (payment_batch w) of
             Inl e \<Rightarrow> Inl e
           | Inr binds \<Rightarrow>
               try_fold (insert_payments_multi env) (slice_chunks PAYMENT_INSERT_CHUNK binds) (w\<lparr>payment_batch := []\<rparr>))"

definition push_payment :: "sql_env \<Rightarrow> parsed_payment \<Rightarrow> snapshot_writer \<Rightarrow> string + snapshot_writer" where
  "push_payment env payment w =
     (let w = w\<lparr>payment_batch := payment_batch w @ [payment]\<rparr>
      in if PAYMENT_BATCH_SIZE \<le> length (payment_batch w) then flush_payments env w else Inr w)"

text \<open>The result is the database after the commit and the number of payments.\<close>

definition commit_writer :: "sql_env \<Rightarrow> snapshot_writer \<Rightarrow> string + database \<times> nat" where
  "commit_writer env w =
     (case flush_credits env w of
        Inl e \<Rightarrow> Inl e
      | Inr w1 \<Rightarrow>
     (case flush_payments env w1 of
        Inl e \<Rightarrow> Inl e
      | Inr w2 \<Rightarrow>
     (case refuse_commit env (tx w2) of
        Some e \<Rightarrow> Inl e
      | None \<Rightarrow> Inr (tx w2, payments_ingested w2))))"

end
