(* ===== verification/Schema.thy ===== *)
theory Schema
  imports Profiling BankStorage SnapshotWriter
begin

text \<open>
  The database schema: the model classes of \<open>api/apps/etl/models.py\<close>, \<open>api/apps/core/models.py\<close> and
  \<open>external_bank/bank/models.py\<close>, the migrations that build their tables
  (\<open>migrations/0001_initial.py\<close>, \<open>0002_etljob_status_cancelled.py\<close>) as operations folded over Django's
  project state, the column types PostgreSQL gets for the fields, and the parameter lists of the two
  multi-row INSERT statements of \<open>adapter/src/db.rs\<close>, which must fit them.
\<close>

section \<open>Fields\<close>

datatype field_type =
    BigAutoField
  | CharField nat
  | TextField
  | IntegerField
  | BigIntegerField
  | DecimalField nat nat
  | DateField
  | DateTimeField bool bool
  | JSONField
  | ForeignKey string string

text \<open>
  \<open>DateTimeField auto_now auto_now_add\<close>, \<open>DecimalField max_digits decimal_places\<close>, \<open>ForeignKey to related_name\<close>
  with \<open>on_delete=CASCADE\<close>.  \<open>default=list\<close> and \<open>default=dict\<close> are the callables, a Python value otherwise.
\<close>

datatype field_default = No_default | Default_text string | Default_int int | Default_list | Default_dict

record model_field =
  fld_type :: field_type
  fld_null :: bool
  fld_blank :: bool
  fld_unique :: bool
  fld_index :: bool
  fld_default :: field_default
  fld_choices :: "(string \<times> string) list"
  fld_primary_key :: bool
  fld_auto_created :: bool
  fld_serialize :: bool
  fld_verbose_name :: "string option"

text \<open>The keyword arguments a field is declared with start from Django's defaults.\<close>

definition plain_field :: "field_type \<Rightarrow> model_field" where
  "plain_field t = \<lparr>fld_type = t, fld_null = False, fld_blank = False, fld_unique = False, fld_index = False,
     fld_default = No_default, fld_choices = [], fld_primary_key = False, fld_auto_created = False,
     fld_serialize = True, fld_verbose_name = None\<rparr>"

definition optional_field :: "field_type \<Rightarrow> model_field" where
  "optional_field t = (plain_field t)\<lparr>fld_null := True, fld_blank := True\<rparr>"

definition blank_field :: "field_type \<Rightarrow> field_default \<Rightarrow> model_field" where
  "blank_field t d = (plain_field t)\<lparr>fld_blank := True, fld_default := d\<rparr>"

definition indexed_field :: "field_type \<Rightarrow> model_field" where
  "indexed_field t = (plain_field t)\<lparr>fld_index := True\<rparr>"

section \<open>Model classes\<close>

text \<open>
  A model: its fields, and of its \<open>Meta\<close> the ordering, the sets of columns unique together, the indexes and
  unique constraints with their names.
\<close>

record model_state =
  model_fields :: "(string \<times> model_field) list"
  ordering :: "string list"
  unique_together :: "string list set"
  indexes :: "(string list \<times> string) list"
  constraints :: "(string list \<times> string) list"

definition plain_model :: "(string \<times> model_field) list \<Rightarrow> model_state" where
  "plain_model fs = \<lparr>model_fields = fs, ordering = [], unique_together = {}, indexes = [], constraints = []\<rparr>"

text \<open>
  A class without a primary key gets \<open>id\<close> of \<open>default_auto_field\<close> in front (\<open>Options._prepare\<close>), which
  \<open>Options.setup_pk\<close> takes out of the serialisation.
\<close>

definition implicit_id :: "string \<times> model_field" where
  "implicit_id = (''id'', (plain_field BigAutoField)\<lparr>fld_primary_key := True, fld_auto_created := True,
     fld_serialize := False, fld_verbose_name := Some ''ID''\<rparr>)"

definition model_class :: "(string \<times> model_field) list \<Rightarrow> model_state" where
  "model_class fs = plain_model (implicit_id # fs)"

definition STATUS_CHOICES :: "(string \<times> string) list" where
  "STATUS_CHOICES =
     [(status_str QUEUED, ''Queued''), (status_str PROCESSING, ''Processing''), (status_str COMPLETED, ''Completed''),
      (status_str FAILED, ''Failed''), (status_str CANCELLED, ''Cancelled'')]"

definition ETLJob :: model_state where
  "ETLJob = (model_class
     [(''job_id'', (plain_field (CharField 64))\<lparr>fld_unique := True\<rparr>),
      (''tenant_id'', indexed_field (CharField 64)),
      (''loan_type'', indexed_field (CharField 32)),
      (''status'', (plain_field (CharField 16))\<lparr>fld_choices := STATUS_CHOICES, fld_default := Default_text (status_str QUEUED)\<rparr>),
      (''progress_percentage'', (plain_field IntegerField)\<lparr>fld_default := Default_int 0\<rparr>),
      (''processed_rows'', (plain_field IntegerField)\<lparr>fld_default := Default_int 0\<rparr>),
      (''result'', blank_field TextField (Default_text '''')),
      (''errors'', blank_field JSONField Default_list),
      (''validation_summary'', blank_field JSONField Default_dict),
      (''started_at'', optional_field (DateTimeField False False)),
      (''completed_at'', optional_field (DateTimeField False False)),
      (''created_at'', plain_field (DateTimeField False True)),
      (''updated_at'', plain_field (DateTimeField True False))])
     \<lparr>ordering := [''-created_at'']\<rparr>"

abbreviation money :: model_field where
  "money \<equiv> optional_field (DecimalField 18 4)"

text \<open>
  \<open>models.Index\<close> without a name gets one from Django when the class is prepared; how it is made of the table
  and the columns is a parameter.
\<close>

definition CreditRecord :: "(string \<Rightarrow> string list \<Rightarrow> string) \<Rightarrow> model_state" where
  "CreditRecord auto_name = (model_class
     [(''tenant_id'', indexed_field (CharField 64)),
      (''loan_type'', indexed_field (CharField 32)),
      (''loan_account_number'', plain_field (CharField 64)),
      (''customer_id'', blank_field (CharField 64) (Default_text '''')),
      (''customer_type'', blank_field (CharField 16) (Default_text '''')),
      (''loan_status_code'', blank_field (CharField 16) (Default_text '''')),
      (''days_past_due'', optional_field IntegerField),
      (''final_maturity_date'', optional_field DateField),
      (''total_installment_count'', optional_field IntegerField),
      (''outstanding_installment_count'', optional_field IntegerField),
      (''paid_installment_count'', optional_field IntegerField),
      (''first_payment_date'', optional_field DateField),
      (''original_loan_amount'', money),
      (''outstanding_principal_balance'', money),
      (''nominal_interest_rate'', money),
      (''total_interest_amount'', money),
      (''kkdf_rate'', money),
      (''kkdf_amount'', money),
      (''bsmv_rate'', money),
      (''bsmv_amount'', money),
      (''grace_period_months'', optional_field IntegerField),
      (''installment_frequency'', optional_field IntegerField),
      (''loan_start_date'', optional_field DateField),
      (''loan_closing_date'', optional_field DateField),
      (''internal_rating'', optional_field IntegerField),
      (''external_rating'', optional_field IntegerField),
      (''retail_specific_attributes'', blank_field JSONField Default_dict),
      (''commercial_specific_attributes'', blank_field JSONField Default_dict),
      (''snapshot_at'', plain_field (DateTimeField True False))])
     \<lparr>unique_together := {[''tenant_id'', ''loan_type'', ''loan_account_number'']},
      indexes := [([''tenant_id'', ''loan_type''],
        auto_name ''etl_creditrecord'' [''tenant_id'', ''loan_type''])]\<rparr>"

definition PaymentInstallment :: model_state where
  "PaymentInstallment = (model_class
     [(''credit'', plain_field (ForeignKey ''etl.creditrecord'' ''payment_schedule'')),
      (''installment_number'', plain_field IntegerField),
      (''actual_payment_date'', optional_field DateField),
      (''scheduled_payment_date'', optional_field DateField),
      (''installment_amount'', money),
      (''principal_component'', money),
      (''interest_component'', money),
      (''kkdf_component'', money),
      (''bsmv_component'', money),
      (''installment_status'', blank_field (CharField 16) (Default_text '''')),
      (''remaining_principal'', money),
      (''remaining_interest'', money),
      (''remaining_kkdf'', money),
      (''remaining_bsmv'', money)])
     \<lparr>unique_together := {[''credit'', ''installment_number'']}, ordering := [''installment_number'']\<rparr>"

definition OperatorProfile :: model_state where
  "OperatorProfile = (model_class
     [(''user'', plain_field (ForeignKey ''auth.user'' ''operator_profiles'')),
      (''tenant_id'', plain_field (CharField 64))])
     \<lparr>unique_together := {[''user'', ''tenant_id'']}\<rparr>"

text \<open>\<open>TENANT_CHOICES\<close> and \<open>LOAN_TYPE_CHOICES\<close> of \<open>external_bank/bank/constants.py\<close>.\<close>

definition TENANT_CHOICES :: "(string \<times> string) list" where
  "TENANT_CHOICES = map (\<lambda>t. (t, t)) TENANT_IDS"

definition LOAN_TYPE_CHOICES :: "(string \<times> string) list" where
  "LOAN_TYPE_CHOICES = map (\<lambda>t. (t, t)) BANK_LOAN_TYPES"

definition PortfolioUpload :: model_state where
  "PortfolioUpload = (model_class
     [(''tenant_id'', (plain_field (CharField 16))\<lparr>fld_choices := TENANT_CHOICES\<rparr>),
      (''loan_type'', (plain_field (CharField 16))\<lparr>fld_choices := LOAN_TYPE_CHOICES\<rparr>),
      (''credits_size_bytes'', plain_field BigIntegerField),
      (''payments_size_bytes'', plain_field BigIntegerField),
      (''uploaded_at'', plain_field (DateTimeField True False))])
     \<lparr>constraints := [([''tenant_id'', ''loan_type''], ''unique_portfolio_upload'')]\<rparr>"

section \<open>Migrations\<close>

datatype migration_op =
    CreateModel string model_state
  | AddIndex string "string list" string
  | AlterUniqueTogether string "string list set"
  | AlterField string string model_field

record migration =
  app_label :: string
  migration_name :: string
  dependencies :: "(string \<times> string) list"
  operations :: "migration_op list"

text \<open>
  The project state: a model by its app and lower-case name.  \<open>state_forwards\<close> of each operation; \<open>None\<close> is
  the \<open>KeyError\<close> (\<open>FieldDoesNotExist\<close>) of an operation on what does not exist, or the database's error for a
  table that already exists.
\<close>

type_synonym project_state = "(string \<times> string) \<rightharpoonup> model_state"

fun alter_field :: "string \<Rightarrow> model_field \<Rightarrow> (string \<times> model_field) list \<Rightarrow> (string \<times> model_field) list option" where
  "alter_field n f [] = None"
| "alter_field n f ((m, g) # fs) =
     (if m = n then Some ((n, f) # fs) else map_option ((#) (m, g)) (alter_field n f fs))"

fun state_forwards :: "string \<Rightarrow> migration_op \<Rightarrow> project_state \<Rightarrow> project_state option" where
  "state_forwards app (CreateModel n m) st =
     (case st (app, py_lower n) of None \<Rightarrow> Some (st((app, py_lower n) \<mapsto> m)) | Some _ \<Rightarrow> None)"
| "state_forwards app (AddIndex n cols name) st =
     map_option (\<lambda>m. st((app, n) \<mapsto> m\<lparr>indexes := indexes m @ [(cols, name)]\<rparr>)) (st (app, n))"
| "state_forwards app (AlterUniqueTogether n u) st =
     map_option (\<lambda>m. st((app, n) \<mapsto> m\<lparr>unique_together := u\<rparr>)) (st (app, n))"
| "state_forwards app (AlterField n fld f) st =
     Option.bind (st (app, n)) (\<lambda>m.
       map_option (\<lambda>fs. st((app, n) \<mapsto> m\<lparr>model_fields := fs\<rparr>)) (alter_field fld f (model_fields m)))"

fun apply_operations :: "string \<Rightarrow> migration_op list \<Rightarrow> project_state \<Rightarrow> project_state option" where
  "apply_operations app [] st = Some st"
| "apply_operations app (op # ops) st = Option.bind (state_forwards app op st) (apply_operations app ops)"

text \<open>\<open>migrate\<close> applies a plan; a migration runs only after those it depends on.\<close>

fun migrate :: "(string \<times> string) list \<Rightarrow> migration list \<Rightarrow> project_state \<Rightarrow> project_state option" where
  "migrate applied [] st = Some st"
| "migrate applied (m # ms) st =
     (if set (dependencies m) \<subseteq> set applied
      then Option.bind (apply_operations (app_label m) (operations m) st)
             (migrate ((app_label m, migration_name m) # applied) ms)
      else None)"

section \<open>The migrations of the repository\<close>

text \<open>The automatic primary key as the migrations write it.\<close>

definition written_id :: "string \<times> model_field" where
  "written_id = (''id'', (plain_field BigAutoField)\<lparr>fld_auto_created := True, fld_primary_key := True,
     fld_serialize := False, fld_verbose_name := Some ''ID''\<rparr>)"

definition initial_status_choices :: "(string \<times> string) list" where
  "initial_status_choices =
     [(''QUEUED'', ''Queued''), (''PROCESSING'', ''Processing''), (''COMPLETED'', ''Completed''), (''FAILED'', ''Failed'')]"

definition etl_0001_creditrecord :: model_state where
  "etl_0001_creditrecord = plain_model
     [written_id,
      (''tenant_id'', indexed_field (CharField 64)),
      (''loan_type'', indexed_field (CharField 32)),
      (''loan_account_number'', plain_field (CharField 64)),
      (''customer_id'', blank_field (CharField 64) (Default_text '''')),
      (''customer_type'', blank_field (CharField 16) (Default_text '''')),
      (''loan_status_code'', blank_field (CharField 16) (Default_text '''')),
      (''days_past_due'', optional_field IntegerField),
      (''final_maturity_date'', optional_field DateField),
      (''total_installment_count'', optional_field IntegerField),
      (''outstanding_installment_count'', optional_field IntegerField),
      (''paid_installment_count'', optional_field IntegerField),
      (''first_payment_date'', optional_field DateField),
      (''original_loan_amount'', money),
      (''outstanding_principal_balance'', money),
      (''nominal_interest_rate'', money),
      (''total_interest_amount'', money),
      (''kkdf_rate'', money),
      (''kkdf_amount'', money),
      (''bsmv_rate'', money),
      (''bsmv_amount'', money),
      (''grace_period_months'', optional_field IntegerField),
      (''installment_frequency'', optional_field IntegerField),
      (''loan_start_date'', optional_field DateField),
      (''loan_closing_date'', optional_field DateField),
      (''internal_rating'', optional_field IntegerField),
      (''external_rating'', optional_field IntegerField),
      (''retail_specific_attributes'', blank_field JSONField Default_dict),
      (''commercial_specific_attributes'', blank_field JSONField Default_dict),
      (''snapshot_at'', plain_field (DateTimeField True False))]"

definition etl_0001_etljob :: model_state where
  "etl_0001_etljob = (plain_model
     [written_id,
      (''job_id'', (plain_field (CharField 64))\<lparr>fld_unique := True\<rparr>),
      (''tenant_id'', indexed_field (CharField 64)),
      (''loan_type'', indexed_field (CharField 32)),
      (''status'', (plain_field (CharField 16))\<lparr>fld_choices := initial_status_choices, fld_default := Default_text ''QUEUED''\<rparr>),
      (''progress_percentage'', (plain_field IntegerField)\<lparr>fld_default := Default_int 0\<rparr>),
      (''processed_rows'', (plain_field IntegerField)\<lparr>fld_default := Default_int 0\<rparr>),
      (''result'', blank_field TextField (Default_text '''')),
      (''errors'', blank_field JSONField Default_list),
      (''validation_summary'', blank_field JSONField Default_dict),
      (''started_at'', optional_field (DateTimeField False False)),
      (''completed_at'', optional_field (DateTimeField False False)),
      (''created_at'', plain_field (DateTimeField False True)),
      (''updated_at'', plain_field (DateTimeField True False))])
     \<lparr>ordering := [''-created_at'']\<rparr>"

definition etl_0001_paymentinstallment :: model_state where
  "etl_0001_paymentinstallment = (plain_model
     [written_id,
      (''installment_number'', plain_field IntegerField),
      (''actual_payment_date'', optional_field DateField),
      (''scheduled_payment_date'', optional_field DateField),
      (''installment_amount'', money),
      (''principal_component'', money),
      (''interest_component'', money),
      (''kkdf_component'', money),
      (''bsmv_component'', money),
      (''installment_status'', blank_field (CharField 16) (Default_text '''')),
      (''remaining_principal'', money),
      (''remaining_interest'', money),
      (''remaining_kkdf'', money),
      (''remaining_bsmv'', money),
      (''credit'', plain_field (ForeignKey ''etl.creditrecord'' ''payment_schedule''))])
     \<lparr>ordering := [''installment_number''], unique_together := {[''credit'', ''installment_number'']}\<rparr>"

definition written_index_name :: string where
  "written_index_name = ''etl_credit__tenant__8a0f0d_idx''"

definition etl_0001 :: migration where
  "etl_0001 = \<lparr>app_label = ''etl'', migration_name = ''0001_initial'', dependencies = [], operations =
     [CreateModel ''CreditRecord'' etl_0001_creditrecord,
      CreateModel ''ETLJob'' etl_0001_etljob,
      CreateModel ''PaymentInstallment'' etl_0001_paymentinstallment,
      AddIndex ''creditrecord'' [''tenant_id'', ''loan_type''] written_index_name,
      AlterUniqueTogether ''creditrecord'' {[''tenant_id'', ''loan_type'', ''loan_account_number'']}]\<rparr>"

definition etl_0002 :: migration where
  "etl_0002 = \<lparr>app_label = ''etl'', migration_name = ''0002_etljob_status_cancelled'',
     dependencies = [(''etl'', ''0001_initial'')], operations =
     [AlterField ''etljob'' ''status'' ((plain_field (CharField 16))
        \<lparr>fld_choices := initial_status_choices @ [(''CANCELLED'', ''Cancelled'')], fld_default := Default_text ''QUEUED''\<rparr>)]\<rparr>"

text \<open>\<open>swappable_dependency(AUTH_USER_MODEL)\<close> is the first migration of \<open>django.contrib.auth\<close>.\<close>

definition core_0001 :: migration where
  "core_0001 = \<lparr>app_label = ''core'', migration_name = ''0001_initial'',
     dependencies = [(''auth'', ''__first__'')], operations =
     [CreateModel ''OperatorProfile'' ((plain_model
        [written_id,
         (''tenant_id'', plain_field (CharField 64)),
         (''user'', plain_field (ForeignKey ''auth.user'' ''operator_profiles''))])
        \<lparr>unique_together := {[''user'', ''tenant_id'']}\<rparr>)]\<rparr>"

definition bank_0001 :: migration where
  "bank_0001 = \<lparr>app_label = ''bank'', migration_name = ''0001_initial'', dependencies = [], operations =
     [CreateModel ''PortfolioUpload'' ((plain_model
        [written_id,
         (''tenant_id'', (plain_field (CharField 16))
           \<lparr>fld_choices := [(''BANK001'', ''BANK001''), (''BANK002'', ''BANK002''), (''BANK003'', ''BANK003'')]\<rparr>),
         (''loan_type'', (plain_field (CharField 16))
           \<lparr>fld_choices := [(''RETAIL'', ''RETAIL''), (''COMMERCIAL'', ''COMMERCIAL'')]\<rparr>),
         (''credits_size_bytes'', plain_field BigIntegerField),
         (''payments_size_bytes'', plain_field BigIntegerField),
         (''uploaded_at'', plain_field (DateTimeField True False))])
        \<lparr>constraints := [([''tenant_id'', ''loan_type''], ''unique_portfolio_upload'')]\<rparr>)]\<rparr>"

text \<open>The plans of the two services: what \<open>manage.py migrate\<close> applies after Django's own migrations.\<close>

definition gateway_plan :: "migration list" where
  "gateway_plan = [core_0001, etl_0001, etl_0002]"

definition gateway_models :: "(string \<Rightarrow> string list \<Rightarrow> string) \<Rightarrow> project_state" where
  "gateway_models auto_name =
     [(''core'', ''operatorprofile'') \<mapsto> OperatorProfile, (''etl'', ''etljob'') \<mapsto> ETLJob,
      (''etl'', ''creditrecord'') \<mapsto> CreditRecord auto_name, (''etl'', ''paymentinstallment'') \<mapsto> PaymentInstallment]"

text \<open>
  A model is up to date with its class: the same fields under the same names, in any order, and the same
  options, up to the names of indexes.
\<close>

definition up_to_date :: "model_state \<Rightarrow> model_state \<Rightarrow> bool" where
  "up_to_date built cls \<longleftrightarrow>
     map_of (model_fields built) = map_of (model_fields cls) \<and> distinct (map fst (model_fields built)) \<and>
     ordering built = ordering cls \<and> unique_together built = unique_together cls \<and>
     map fst (indexes built) = map fst (indexes cls) \<and> constraints built = constraints cls"

section \<open>Migrations and models agree\<close>

definition same_fields :: "model_state \<Rightarrow> model_state \<Rightarrow> bool" where
  "same_fields a b \<longleftrightarrow> distinct (map fst (model_fields a)) \<and> distinct (map fst (model_fields b)) \<and>
     set (model_fields a) = set (model_fields b)"

lemma same_fieldsD: "same_fields a b \<Longrightarrow> map_of (model_fields a) = map_of (model_fields b) \<and> distinct (map fst (model_fields a))"
  by (simp add: same_fields_def map_of_inject_set)

definition etl_0002_etljob :: model_state where
  "etl_0002_etljob = etl_0001_etljob\<lparr>model_fields :=
     the (alter_field ''status'' ((plain_field (CharField 16))
        \<lparr>fld_choices := initial_status_choices @ [(''CANCELLED'', ''Cancelled'')], fld_default := Default_text ''QUEUED''\<rparr>)
        (model_fields etl_0001_etljob))\<rparr>"

lemma fields_agree:
  "same_fields etl_0001_creditrecord (CreditRecord auto_name)"
  "same_fields etl_0002_etljob ETLJob"
  "same_fields etl_0001_paymentinstallment PaymentInstallment"
  subgoal unfolding same_fields_def CreditRecord_def by (simp del: list.simps) code_simp
  subgoal by code_simp
  subgoal by code_simp
  done

text \<open>The state the plan of the gateway builds, and that of the bank.\<close>

lemma etl_0001_applied:
  "apply_operations ''etl'' (operations etl_0001) st = Some (st(
     (''etl'', ''creditrecord'') \<mapsto> etl_0001_creditrecord
        \<lparr>indexes := [([''tenant_id'', ''loan_type''], written_index_name)],
         unique_together := {[''tenant_id'', ''loan_type'', ''loan_account_number'']}\<rparr>,
     (''etl'', ''etljob'') \<mapsto> etl_0001_etljob,
     (''etl'', ''paymentinstallment'') \<mapsto> etl_0001_paymentinstallment))"
  if "st (''etl'', ''creditrecord'') = None" "st (''etl'', ''etljob'') = None" "st (''etl'', ''paymentinstallment'') = None"
proof -
  have lower: "py_lower ''CreditRecord'' = ''creditrecord''" "py_lower ''ETLJob'' = ''etljob''"
    "py_lower ''PaymentInstallment'' = ''paymentinstallment''" by code_simp+
  have "indexes etl_0001_creditrecord = []" by (simp add: etl_0001_creditrecord_def plain_model_def)
  then show ?thesis
    using that by (simp add: etl_0001_def lower fun_upd_twist)
qed

lemma etl_0002_applied:
  assumes "st (''etl'', ''etljob'') = Some etl_0001_etljob"
  shows "apply_operations ''etl'' (operations etl_0002) st = Some (st((''etl'', ''etljob'') \<mapsto> etl_0002_etljob))"
proof -
  let ?f = "(plain_field (CharField 16))
    \<lparr>fld_choices := initial_status_choices @ [(''CANCELLED'', ''Cancelled'')], fld_default := Default_text ''QUEUED''\<rparr>"
  have "alter_field ''status'' ?f (model_fields etl_0001_etljob) = Some (model_fields etl_0002_etljob)"
    by (simp add: etl_0002_etljob_def etl_0001_etljob_def plain_model_def written_id_def)
  moreover have "etl_0002_etljob = etl_0001_etljob\<lparr>model_fields := model_fields etl_0002_etljob\<rparr>"
    by (simp add: etl_0002_etljob_def)
  ultimately show ?thesis
    using assms by (simp add: etl_0002_def)
qed

definition gateway_db :: "project_state option" where
  "gateway_db = migrate [(''auth'', ''__first__'')] gateway_plan Map.empty"

definition bank_db :: "project_state option" where
  "bank_db = migrate [] [bank_0001] Map.empty"

definition credit_table_built :: model_state where
  "credit_table_built = etl_0001_creditrecord
     \<lparr>indexes := [([''tenant_id'', ''loan_type''], written_index_name)],
      unique_together := {[''tenant_id'', ''loan_type'', ''loan_account_number'']}\<rparr>"

definition created_model :: "migration \<Rightarrow> model_state" where
  "created_model m = (case operations m of CreateModel n s # _ \<Rightarrow> s | _ \<Rightarrow> plain_model [])"

lemma gateway_db_built:
  "gateway_db = Some [(''core'', ''operatorprofile'') \<mapsto> created_model core_0001,
     (''etl'', ''creditrecord'') \<mapsto> credit_table_built, (''etl'', ''etljob'') \<mapsto> etl_0002_etljob,
     (''etl'', ''paymentinstallment'') \<mapsto> etl_0001_paymentinstallment]"
proof -
  have lower: "py_lower ''OperatorProfile'' = ''operatorprofile''" by code_simp
  have core: "app_label core_0001 = ''core''" "dependencies core_0001 = [(''auth'', ''__first__'')]"
    "apply_operations ''core'' (operations core_0001) Map.empty =
       Some [(''core'', ''operatorprofile'') \<mapsto> created_model core_0001]"
    by (simp_all add: core_0001_def lower created_model_def)
  have etl: "app_label etl_0001 = ''etl''" "migration_name etl_0001 = ''0001_initial''" "dependencies etl_0001 = []"
    "app_label etl_0002 = ''etl''" "dependencies etl_0002 = [(''etl'', ''0001_initial'')]"
    by (simp_all add: etl_0001_def etl_0002_def)
  show ?thesis
    by (simp add: gateway_db_def gateway_plan_def core etl etl_0001_applied etl_0002_applied credit_table_built_def fun_upd_twist)
qed

lemma bank_db_built: "bank_db = Some [(''bank'', ''portfolioupload'') \<mapsto> created_model bank_0001]"
proof -
  have lower: "py_lower ''PortfolioUpload'' = ''portfolioupload''" by code_simp
  show ?thesis by (simp add: bank_db_def bank_0001_def lower created_model_def)
qed

lemma small_fields_agree:
  "same_fields (created_model core_0001) OperatorProfile"
  "same_fields (created_model bank_0001) PortfolioUpload"
  by code_simp+

lemma models_up_to_date:
  "up_to_date credit_table_built (CreditRecord auto_name)"
  "up_to_date etl_0002_etljob ETLJob"
  "up_to_date etl_0001_paymentinstallment PaymentInstallment"
  "up_to_date (created_model core_0001) OperatorProfile"
  "up_to_date (created_model bank_0001) PortfolioUpload"
proof -
  note agree = same_fieldsD [OF fields_agree(1)] same_fieldsD [OF fields_agree(2)] same_fieldsD [OF fields_agree(3)]
    same_fieldsD [OF small_fields_agree(1)] same_fieldsD [OF small_fields_agree(2)]
  show "up_to_date credit_table_built (CreditRecord auto_name)"
    using agree(1) [of auto_name] unfolding up_to_date_def
    by (simp add: credit_table_built_def CreditRecord_def model_class_def plain_model_def etl_0001_creditrecord_def)
  show "up_to_date etl_0002_etljob ETLJob"
    using agree(2) unfolding up_to_date_def
    by (simp add: etl_0002_etljob_def ETLJob_def model_class_def plain_model_def etl_0001_etljob_def)
  show "up_to_date etl_0001_paymentinstallment PaymentInstallment"
    using agree(3) unfolding up_to_date_def
    by (simp add: PaymentInstallment_def model_class_def plain_model_def etl_0001_paymentinstallment_def)
  show "up_to_date (created_model core_0001) OperatorProfile"
    using agree(4) unfolding up_to_date_def
    by (simp add: OperatorProfile_def model_class_def plain_model_def created_model_def core_0001_def)
  show "up_to_date (created_model bank_0001) PortfolioUpload"
    using agree(5) unfolding up_to_date_def
    by (simp add: PortfolioUpload_def model_class_def plain_model_def created_model_def bank_0001_def)
qed

section \<open>Columns\<close>

datatype pg_type =
    Pg_bigint | Pg_varchar nat | Pg_text | Pg_integer | Pg_numeric nat nat | Pg_date | Pg_timestamptz | Pg_jsonb

text \<open>Django's PostgreSQL column of a field; a foreign key has the type of the key it refers to.\<close>

fun column_type :: "field_type \<Rightarrow> pg_type" where
  "column_type BigAutoField = Pg_bigint"
| "column_type (CharField n) = Pg_varchar n"
| "column_type TextField = Pg_text"
| "column_type IntegerField = Pg_integer"
| "column_type BigIntegerField = Pg_bigint"
| "column_type (DecimalField d p) = Pg_numeric d p"
| "column_type DateField = Pg_date"
| "column_type (DateTimeField _ _) = Pg_timestamptz"
| "column_type JSONField = Pg_jsonb"
| "column_type (ForeignKey _ _) = Pg_bigint"

fun column_name :: "string \<times> model_field \<Rightarrow> string" where
  "column_name (n, f) = (case fld_type f of ForeignKey _ _ \<Rightarrow> n @ ''_id'' | _ \<Rightarrow> n)"

definition columns :: "model_state \<Rightarrow> (string \<times> model_field) list" where
  "columns m = map (\<lambda>(n, f). (column_name (n, f), f)) (model_fields m)"

section \<open>The INSERT statements of the adapter\<close>

text \<open>
  The Rust types of the values a statement binds, with \<open>Option\<close> as \<open>True\<close>, and the PostgreSQL types
  \<open>ToSql::accepts\<close> of \<open>postgres-types\<close> and \<open>chrono\<close> documents for them.
\<close>

datatype rust_type = Ty_String | Ty_i32 | Ty_i64 | Ty_NaiveDate | Ty_DateTime_Utc | Ty_Value

fun accepts :: "rust_type \<Rightarrow> pg_type \<Rightarrow> bool" where
  "accepts Ty_String t = (case t of Pg_varchar _ \<Rightarrow> True | Pg_text \<Rightarrow> True | _ \<Rightarrow> False)"
| "accepts Ty_i32 t = (t = Pg_integer)"
| "accepts Ty_i64 t = (t = Pg_bigint)"
| "accepts Ty_NaiveDate t = (t = Pg_date)"
| "accepts Ty_DateTime_Utc t = (t = Pg_timestamptz)"
| "accepts Ty_Value t = (t = Pg_jsonb)"

text \<open>An INSERT: its columns, the types of the values, and the positions written \<open>$n::text::numeric\<close>.\<close>

record insert_statement =
  ins_columns :: "string list"
  ins_values :: "(rust_type \<times> bool) list"
  ins_casts :: "nat list"

definition CREDIT_COLS :: nat where "CREDIT_COLS = 29"

definition PAYMENT_COLS :: nat where "PAYMENT_COLS = 14"

definition credit_insert :: insert_statement where
  "credit_insert = \<lparr>ins_columns =
     [''tenant_id'', ''loan_type'', ''loan_account_number'', ''customer_id'', ''customer_type'',
      ''loan_status_code'', ''days_past_due'', ''final_maturity_date'', ''total_installment_count'',
      ''outstanding_installment_count'', ''paid_installment_count'', ''first_payment_date'',
      ''original_loan_amount'', ''outstanding_principal_balance'', ''nominal_interest_rate'',
      ''total_interest_amount'', ''kkdf_rate'', ''kkdf_amount'', ''bsmv_rate'', ''bsmv_amount'',
      ''grace_period_months'', ''installment_frequency'', ''loan_start_date'', ''loan_closing_date'',
      ''internal_rating'', ''external_rating'', ''retail_specific_attributes'',
      ''commercial_specific_attributes'', ''snapshot_at''],
     ins_values =
     [(Ty_String, False), (Ty_String, False), (Ty_String, False), (Ty_String, False), (Ty_String, False),
      (Ty_String, False), (Ty_i32, True), (Ty_NaiveDate, True), (Ty_i32, True),
      (Ty_i32, True), (Ty_i32, True), (Ty_NaiveDate, True),
      (Ty_String, True), (Ty_String, True), (Ty_String, True),
      (Ty_String, True), (Ty_String, True), (Ty_String, True), (Ty_String, True), (Ty_String, True),
      (Ty_i32, True), (Ty_i32, True), (Ty_NaiveDate, True), (Ty_NaiveDate, True),
      (Ty_i32, True), (Ty_i32, True), (Ty_Value, False),
      (Ty_Value, False), (Ty_DateTime_Utc, False)],
     ins_casts = [12, 13, 14, 15, 16, 17, 18, 19]\<rparr>"

text \<open>\<open>ON CONFLICT ... DO UPDATE SET\<close>: the columns of the conflict and the ones overwritten.\<close>

definition conflict_target :: "string list" where
  "conflict_target = [''tenant_id'', ''loan_type'', ''loan_account_number'']"

definition conflict_update :: "string list" where
  "conflict_update =
     [''customer_id'', ''customer_type'', ''loan_status_code'', ''days_past_due'', ''final_maturity_date'',
      ''total_installment_count'', ''outstanding_installment_count'', ''paid_installment_count'',
      ''first_payment_date'', ''original_loan_amount'', ''outstanding_principal_balance'',
      ''nominal_interest_rate'', ''total_interest_amount'', ''kkdf_rate'', ''kkdf_amount'', ''bsmv_rate'',
      ''bsmv_amount'', ''grace_period_months'', ''installment_frequency'', ''loan_start_date'',
      ''loan_closing_date'', ''internal_rating'', ''external_rating'', ''retail_specific_attributes'',
      ''commercial_specific_attributes'', ''snapshot_at'']"

definition payment_insert :: insert_statement where
  "payment_insert = \<lparr>ins_columns =
     [''credit_id'', ''installment_number'', ''actual_payment_date'', ''scheduled_payment_date'',
      ''installment_amount'', ''principal_component'', ''interest_component'', ''kkdf_component'',
      ''bsmv_component'', ''installment_status'', ''remaining_principal'', ''remaining_interest'',
      ''remaining_kkdf'', ''remaining_bsmv''],
     ins_values =
     [(Ty_i64, False), (Ty_i32, False), (Ty_NaiveDate, True), (Ty_NaiveDate, True),
      (Ty_String, True), (Ty_String, True), (Ty_String, True), (Ty_String, True),
      (Ty_String, True), (Ty_String, False), (Ty_String, True), (Ty_String, True),
      (Ty_String, True), (Ty_String, True)],
     ins_casts = [4, 5, 6, 7, 8, 10, 11, 12, 13]\<rparr>"

text \<open>
  A bound value fits its column: PostgreSQL infers the type of a placeholder from the column, or text from
  the cast, whose result is a numeric; \<open>None\<close> needs a nullable column.
\<close>

fun value_fits :: "bool \<Rightarrow> rust_type \<times> bool \<Rightarrow> model_field \<Rightarrow> bool" where
  "value_fits cast (t, opt) f =
     ((if cast then accepts t Pg_text \<and> (case column_type (fld_type f) of Pg_numeric _ _ \<Rightarrow> True | _ \<Rightarrow> False)
       else accepts t (column_type (fld_type f))) \<and> (opt \<longrightarrow> fld_null f))"

definition statement_fits :: "nat \<Rightarrow> insert_statement \<Rightarrow> model_state \<Rightarrow> bool" where
  "statement_fits n st m \<longleftrightarrow>
     length (ins_columns st) = n \<and> length (ins_values st) = n \<and> distinct (ins_columns st) \<and>
     list_all (\<lambda>(i, c, v). case map_of (columns m) c of None \<Rightarrow> False | Some f \<Rightarrow> value_fits (i \<in> set (ins_casts st)) v f)
       (zip [0..<n] (zip (ins_columns st) (ins_values st))) \<and>
     list_all (\<lambda>(c, f). fld_null f \<or> fld_type f = BigAutoField \<or> c \<in> set (ins_columns st)) (columns m)"

section \<open>Properties\<close>

text \<open>
  Property C38. The migrations build the models: applied in order after Django's own, they succeed, create
  exactly the tables of the model classes of both services, and leave every table with the fields (types, null, default, choices)
  and constraints of its class and with indexes on the same columns.
\<close>

theorem migrations_build_models:
  "(\<exists>st. gateway_db = Some st \<and> (\<forall>key. rel_option up_to_date (st key) (gateway_models auto_name key))) \<and>
   (\<exists>st. bank_db = Some st \<and>
     (\<forall>key. rel_option up_to_date (st key) ([(''bank'', ''portfolioupload'') \<mapsto> PortfolioUpload] key)))"
proof (intro conjI)
  show "\<exists>st. gateway_db = Some st \<and> (\<forall>key. rel_option up_to_date (st key) (gateway_models auto_name key))"
    by (simp add: gateway_db_built gateway_models_def models_up_to_date)
  show "\<exists>st. bank_db = Some st \<and>
      (\<forall>key. rel_option up_to_date (st key) ([(''bank'', ''portfolioupload'') \<mapsto> PortfolioUpload] key))"
    by (simp add: bank_db_built models_up_to_date)
qed

text \<open>
  Property C39. The statements of the Rust adapter fit the tables Django builds: every column they name exists and
  takes the type of its value (amounts as text cast to numeric, an optional value only where null is allowed), no column that must not be null is left out,
  the conflict target is a unique constraint and an update overwrites every other column but the key, and
  a full chunk stays below the 65535 parameters of one statement.
\<close>

theorem statements_fit_schema:
  "\<exists>st credits payments. gateway_db = Some st \<and>
     st (''etl'', ''creditrecord'') = Some credits \<and> st (''etl'', ''paymentinstallment'') = Some payments \<and>
     statement_fits CREDIT_COLS credit_insert credits \<and> statement_fits PAYMENT_COLS payment_insert payments \<and>
     conflict_target \<in> unique_together credits \<and>
     set (conflict_target @ conflict_update) = fst ` set (columns credits) - {''id''} \<and>
     CREDIT_INSERT_CHUNK * CREDIT_COLS \<le> 65535 \<and> PAYMENT_INSERT_CHUNK * PAYMENT_COLS \<le> 65535"
proof -
  have fits: "statement_fits CREDIT_COLS credit_insert credit_table_built"
    "statement_fits PAYMENT_COLS payment_insert etl_0001_paymentinstallment"
    by code_simp+
  have keys: "conflict_target \<in> unique_together credit_table_built"
    by (simp add: credit_table_built_def conflict_target_def)
  have update: "set (conflict_target @ conflict_update) = set (map fst (columns credit_table_built)) - {''id''}"
    by code_simp
  have bounds: "CREDIT_INSERT_CHUNK * CREDIT_COLS \<le> 65535" "PAYMENT_INSERT_CHUNK * PAYMENT_COLS \<le> 65535"
    by (simp_all add: CREDIT_INSERT_CHUNK_def CREDIT_COLS_def PAYMENT_INSERT_CHUNK_def PAYMENT_COLS_def)
  show ?thesis
    using fits keys update bounds unfolding set_map by (simp add: gateway_db_built)
qed

text \<open>The columns of which the profile computes numbers are numbers, the categorical ones are texts.\<close>

fun numeric_column :: "field_type \<Rightarrow> bool" where
  "numeric_column IntegerField = True"
| "numeric_column (DecimalField _ _) = True"
| "numeric_column _ = False"

fun text_column :: "field_type \<Rightarrow> bool" where
  "text_column (CharField _) = True"
| "text_column TextField = True"
| "text_column _ = False"

definition column_is :: "(field_type \<Rightarrow> bool) \<Rightarrow> model_state \<Rightarrow> string \<Rightarrow> bool" where
  "column_is p m c = (case map_of (model_fields m) c of None \<Rightarrow> False | Some f \<Rightarrow> p (fld_type f))"

text \<open>
  The profile fits the tables: every column it names exists in the table it is computed from, the
  numerical ones hold numbers, the categorical ones texts.  A null ratio treats the empty text as
  null for every text column but one: the status of an installment, whose empty text counts as a value.
\<close>

theorem profile_fits_schema:
  "\<exists>st credits payments. gateway_db = Some st \<and>
     st (''etl'', ''creditrecord'') = Some credits \<and> st (''etl'', ''paymentinstallment'') = Some payments \<and>
     list_all (column_is numeric_column credits) NUMERICAL_FIELDS \<and>
     list_all (column_is text_column credits) CATEGORICAL_FIELDS \<and>
     list_all (column_is (\<lambda>_. True) credits) NULL_RATIO_FIELDS \<and>
     list_all (column_is numeric_column payments) PAYMENT_NUMERICAL_FIELDS \<and>
     list_all (column_is text_column payments) PAYMENT_CATEGORICAL_FIELDS \<and>
     list_all (column_is (\<lambda>_. True) payments) PAYMENT_NULL_RATIO_FIELDS \<and>
     filter (\<lambda>f. column_is text_column credits f \<and> f \<notin> set NULLABLE_CHAR_FIELDS) NULL_RATIO_FIELDS = [] \<and>
     filter (\<lambda>f. column_is text_column payments f \<and> f \<notin> set NULLABLE_CHAR_FIELDS) PAYMENT_NULL_RATIO_FIELDS =
       [''installment_status'']"
proof -
  have "list_all (column_is numeric_column credit_table_built) NUMERICAL_FIELDS \<and>
     list_all (column_is text_column credit_table_built) CATEGORICAL_FIELDS \<and>
     list_all (column_is (\<lambda>_. True) credit_table_built) NULL_RATIO_FIELDS"
    by code_simp
  moreover have "list_all (column_is numeric_column etl_0001_paymentinstallment) PAYMENT_NUMERICAL_FIELDS \<and>
     list_all (column_is text_column etl_0001_paymentinstallment) PAYMENT_CATEGORICAL_FIELDS \<and>
     list_all (column_is (\<lambda>_. True) etl_0001_paymentinstallment) PAYMENT_NULL_RATIO_FIELDS"
    by code_simp
  moreover have "filter (\<lambda>f. column_is text_column credit_table_built f \<and> f \<notin> set NULLABLE_CHAR_FIELDS) NULL_RATIO_FIELDS = []"
    by code_simp
  moreover have "filter (\<lambda>f. column_is text_column etl_0001_paymentinstallment f \<and> f \<notin> set NULLABLE_CHAR_FIELDS)
      PAYMENT_NULL_RATIO_FIELDS = [''installment_status'']"
    by code_simp
  ultimately show ?thesis by (simp add: gateway_db_built)
qed

end
