(* ===== verification/Interleaving.thy ===== *)
theory Interleaving
  imports Services
begin

text \<open>
  Many processes at once: web workers serving requests and Celery workers running tasks, all against
  the same Redis and the same job table.  A pool is a list of programs; a step lets one of them make
  its next service call, or lets Redis expire a key of a given set.  The locale
  \<open>world_invariant\<close> is the rule the system theorems use: an invariant of the world that every
  allowed call keeps holds in every state a pool of programs that make only allowed calls can reach.
\<close>

section \<open>Pools and their steps\<close>

inductive pool_step ::
    "'w services \<Rightarrow> string set \<Rightarrow> 'a prog list \<times> 'w \<Rightarrow> 'a prog list \<times> 'w \<Rightarrow> bool"
  for S :: "'w services" and E :: "string set" where
  process: "i < length ps \<Longrightarrow> prog_step S (ps ! i) w = (p', w') \<Longrightarrow>
     pool_step S E (ps, w) (ps[i := p'], w')"
| expire: "k \<in> E \<Longrightarrow> pool_step S E (ps, w) (ps, redis_delete S w [k])"

inductive pool_steps ::
    "'w services \<Rightarrow> string set \<Rightarrow> 'a prog list \<times> 'w \<Rightarrow> 'a prog list \<times> 'w \<Rightarrow> bool"
  for S :: "'w services" and E :: "string set" where
  pools_refl: "pool_steps S E st st"
| pools_step: "pool_steps S E st st' \<Longrightarrow> pool_step S E st' st'' \<Longrightarrow> pool_steps S E st st''"

inductive_cases pool_stepE: "pool_step S E (ps, w) (ps', w')"

text \<open>A schedule names the process that moves next; \<open>run_schedule\<close> executes it.\<close>

fun run_schedule :: "'w services \<Rightarrow> nat list \<Rightarrow> 'a prog list \<times> 'w \<Rightarrow> 'a prog list \<times> 'w" where
  "run_schedule S [] st = st"
| "run_schedule S (i # is) (ps, w) =
     (case prog_step S (ps ! i) w of (p', w') \<Rightarrow> run_schedule S is (ps[i := p'], w'))"

lemma pool_steps_trans_step:
  assumes "pool_step S E st st'" and "pool_steps S E st' st''"
  shows "pool_steps S E st st''"
  using assms(2,1)
proof (induction rule: pool_steps.induct)
  case (pools_refl st)
  then show ?case by (blast intro: pool_steps.intros)
next
  case (pools_step st1 st2 st3)
  then show ?case by (blast intro: pool_steps.pools_step)
qed

lemma schedule_pool_steps:
  "list_all (\<lambda>i. i < length (fst st)) is \<Longrightarrow> pool_steps S E st (run_schedule S is st)"
proof (induction S "is" st rule: run_schedule.induct)
  case (1 S st)
  show ?case by (simp add: pool_steps.pools_refl)
next
  case (2 S i "is" ps w)
  obtain p' w' where step: "prog_step S (ps ! i) w = (p', w')"
    by (cases "prog_step S (ps ! i) w")
  with "2.prems" have "pool_step S E (ps, w) (ps[i := p'], w')"
    by (auto intro: pool_step.process)
  moreover have "pool_steps S E (ps[i := p'], w') (run_schedule S is (ps[i := p'], w'))"
    using "2.IH" [OF step [symmetric]] "2.prems" by simp
  ultimately show ?case using step by (simp add: pool_steps_trans_step)
qed

section \<open>Programs that make only allowed calls\<close>

text \<open>The calls that can change Redis or the job table.\<close>

datatype call =
    Call_set string string
  | Call_setnx string string
  | Call_delete "string list"
  | Call_release string string
  | Call_insert etl_job
  | Call_save "job_field list" etl_job

text \<open>
  \<open>prog_ok P A p\<close>: every call of \<open>p\<close> satisfies \<open>P\<close>, whatever the services answer, except that a read of
  a job row only answers what \<open>A\<close> admits.
\<close>

primrec prog_ok :: "(call \<Rightarrow> bool) \<Rightarrow> (string \<Rightarrow> etl_job option \<Rightarrow> bool) \<Rightarrow> 'a prog \<Rightarrow> bool" where
  "prog_ok P A (Ret r) = True"
| "prog_ok P A (RedisGet key f) = (\<forall>v. prog_ok P A (f v))"
| "prog_ok P A (RedisSet key v ex p) = (P (Call_set key v) \<and> prog_ok P A p)"
| "prog_ok P A (RedisSetNx key v ex f) = (P (Call_setnx key v) \<and> (\<forall>b. prog_ok P A (f b)))"
| "prog_ok P A (RedisDelete ks p) = (P (Call_delete ks) \<and> prog_ok P A p)"
| "prog_ok P A (RedisEvalRelease key v f) = (P (Call_release key v) \<and> (\<forall>n. prog_ok P A (f n)))"
| "prog_ok P A (JobGet jid f) = (\<forall>r. A jid r \<longrightarrow> prog_ok P A (f r))"
| "prog_ok P A (JobInsert j f) =
     ((\<forall>t. P (Call_insert (stamp_insert t j))) \<and> (\<forall>r. prog_ok P A (f r)))"
| "prog_ok P A (JobSave fs j f) = (P (Call_save fs j) \<and> (\<forall>b. prog_ok P A (f b)))"
| "prog_ok P A (Now f) = (\<forall>t. prog_ok P A (f t))"
| "prog_ok P A (Uuid4 f) = (\<forall>u. prog_ok P A (f u))"
| "prog_ok P A (CeleryDelay jid t l f) = (\<forall>tid. prog_ok P A (f tid))"
| "prog_ok P A (CeleryRevoke tid p) = prog_ok P A p"

lemma prog_ok_and_then [intro]:
  "prog_ok P A p \<Longrightarrow> (\<And>r. prog_ok P A (k r)) \<Longrightarrow> prog_ok P A (and_then p k)"
  by (induction p) simp_all

lemma prog_ok_return [simp]: "prog_ok P A (return x)"
  by (simp add: return_def)

lemma prog_ok_raise [simp]: "prog_ok P A (raise e)"
  by (simp add: raise_def)

lemma prog_ok_bind:
  "prog_ok P A p \<Longrightarrow> (\<And>x. prog_ok P A (f x)) \<Longrightarrow> prog_ok P A (bind p f)"
  unfolding bind_def by (rule prog_ok_and_then) (auto split: sum.split)

lemma prog_ok_try_except:
  "prog_ok P A p \<Longrightarrow> (\<And>e. prog_ok P A (h e)) \<Longrightarrow> prog_ok P A (try_except p h)"
  unfolding try_except_def by (rule prog_ok_and_then) (auto split: sum.split)

lemma prog_ok_try_finally:
  "prog_ok P A p \<Longrightarrow> prog_ok P A q \<Longrightarrow> prog_ok P A (try_finally p q)"
  unfolding try_finally_def by (rule prog_ok_and_then) (auto intro: prog_ok_bind)

lemmas prog_ok_rules = prog_ok_bind prog_ok_try_except prog_ok_try_finally

section \<open>The invariant rule\<close>

locale world_invariant = services S for S :: "'w services" +
  fixes Inv :: "(string \<rightharpoonup> string) \<Rightarrow> (string \<rightharpoonup> etl_job) \<Rightarrow> bool"
    and P :: "call \<Rightarrow> bool"
    and A :: "string \<Rightarrow> etl_job option \<Rightarrow> bool"
    and E :: "string set"
  assumes inv_row: "Inv kv tbl \<Longrightarrow> A jid (tbl jid)"
    and inv_set: "Inv kv tbl \<Longrightarrow> P (Call_set k v) \<Longrightarrow> Inv (kv(k \<mapsto> v)) tbl"
    and inv_setnx: "Inv kv tbl \<Longrightarrow> P (Call_setnx k v) \<Longrightarrow> kv k = None \<Longrightarrow> Inv (kv(k \<mapsto> v)) tbl"
    and inv_delete:
      "Inv kv tbl \<Longrightarrow> P (Call_delete ks) \<Longrightarrow> Inv (\<lambda>k. if k \<in> set ks then None else kv k) tbl"
    and inv_release:
      "Inv kv tbl \<Longrightarrow> P (Call_release k v) \<Longrightarrow> kv k = Some v \<Longrightarrow> Inv (kv(k := None)) tbl"
    and inv_insert:
      "Inv kv tbl \<Longrightarrow> P (Call_insert j) \<Longrightarrow> tbl (job_id j) = None \<Longrightarrow> Inv kv (tbl(job_id j \<mapsto> j))"
    and inv_save:
      "Inv kv tbl \<Longrightarrow> P (Call_save fs j) \<Longrightarrow> tbl (job_id j) = Some row \<Longrightarrow>
         Inv kv (tbl(job_id j \<mapsto> save_fields fs j row))"
    and inv_expire:
      "Inv kv tbl \<Longrightarrow> k \<in> E \<Longrightarrow> Inv (\<lambda>k'. if k' = k then None else kv k') tbl"
begin

definition holds :: "'w \<Rightarrow> bool" where
  "holds w \<longleftrightarrow> Inv (redis_get S w) (job_row S w)"

lemma prog_step_keeps:
  assumes ok: "prog_ok P A p" and inv: "holds w" and step: "prog_step S p w = (p', w')"
  shows "prog_ok P A p' \<and> holds w'"
proof -
  have step': "p' = fst (prog_step S p w)" "w' = snd (prog_step S p w)"
    using step by simp_all
  show ?thesis
    unfolding step'
  proof (cases p)
    case (JobSave fs j f)
    with ok inv show "prog_ok P A (fst (prog_step S p w)) \<and> holds (snd (prog_step S p w))"
      by (auto simp: case_prod_beta holds_def service_laws intro: inv_save split: option.splits)
  next
    case (JobInsert j f)
    with ok inv show "prog_ok P A (fst (prog_step S p w)) \<and> holds (snd (prog_step S p w))"
      by (auto simp: case_prod_beta holds_def service_laws intro: inv_insert)
  next
    case (RedisEvalRelease k v f)
    with ok inv show "prog_ok P A (fst (prog_step S p w)) \<and> holds (snd (prog_step S p w))"
      by (auto simp: case_prod_beta holds_def service_laws intro: inv_release)
  next
    case (RedisSetNx k v ex f)
    with ok inv show "prog_ok P A (fst (prog_step S p w)) \<and> holds (snd (prog_step S p w))"
      by (auto simp: case_prod_beta holds_def service_laws intro: inv_setnx)
  qed (use ok inv in \<open>auto simp: case_prod_beta holds_def service_laws
         intro: inv_row inv_set inv_delete\<close>)
qed

lemma pool_step_keeps:
  assumes "pool_step S E (ps, w) (ps', w')"
    and "list_all (prog_ok P A) ps" and "holds w"
  shows "list_all (prog_ok P A) ps' \<and> holds w'"
proof -
  from assms(1) consider
      (process) i p' where "i < length ps" "ps' = ps[i := p']" "prog_step S (ps ! i) w = (p', w')"
    | (expire) k where "ps' = ps" "w' = redis_delete S w [k]" "k \<in> E"
    by (auto elim: pool_stepE)
  then show ?thesis
  proof cases
    case (process i p')
    from process assms(2) have "prog_ok P A (ps ! i)" by (simp add: list_all_length)
    then have "prog_ok P A p' \<and> holds w'"
      using process(3) assms(3) prog_step_keeps by blast
    with process(1,2) assms(2) show ?thesis by (auto simp: list_all_length nth_list_update)
  next
    case (expire k)
    with assms(2,3) show ?thesis
      using inv_expire [of "redis_get S w" "job_row S w" k]
      by (simp add: holds_def service_laws)
  qed
qed

theorem pool_invariant:
  assumes "pool_steps S E st st'" and "list_all (prog_ok P A) (fst st)" and "holds (snd st)"
  shows "list_all (prog_ok P A) (fst st') \<and> holds (snd st')"
  using assms
proof (induction rule: pool_steps.induct)
  case (pools_step st st' st'')
  obtain ps w ps' w' where st: "st' = (ps, w)" "st'' = (ps', w')"
    by (cases st', cases st'')
  with pools_step show ?case using pool_step_keeps [of ps w ps' w'] by simp
qed simp

text \<open>A program that runs alone keeps the invariant too.\<close>

lemma prog_steps_keep:
  "prog_ok P A p \<Longrightarrow> holds w \<Longrightarrow> prog_steps S n p w = (p', w') \<Longrightarrow> prog_ok P A p' \<and> holds w'"
proof (induction n arbitrary: p w)
  case (Suc n)
  obtain q v where qv: "prog_step S p w = (q, v)" by (cases "prog_step S p w")
  with Suc.prems prog_step_keeps [of p w q v] have qok: "prog_ok P A q" "holds v" by blast+
  from qv Suc.prems(3) have "prog_steps S n q v = (p', w')" by simp
  then show ?case by (rule Suc.IH [OF qok])
qed simp

lemma run_keeps:
  assumes "prog_ok P A p" and "holds w"
  shows "holds (snd (run S p w))"
  using steps_reach_run [of S p w] prog_steps_keep [OF assms] by blast

end

end
