(* ===== verification/SyncSystem.thy ===== *)
theory SyncSystem
  imports EtlViews Interleaving
begin

text \<open>
  The sync service as a whole: any number of web workers that serve the sync endpoints and of Celery
  workers that run tasks, interleaved call by call.  A \<open>process\<close> is one request or one task; its
  program is the handler behind its permission classes.

  The locale \<open>sync_calls\<close> lists the calls these programs make.  An invariant that all of them keep
  holds in every reachable state; it is interpreted twice: for the well-formedness of the job rows
  (\<open>rows\<close>) and for a job that nobody of its tenant touches (\<open>untouched_job\<close>).
\<close>

section \<open>Processes\<close>

datatype process =
    P_sync view_env request
  | P_active view_env request
  | P_status view_env request string
  | P_cancel view_env request string
  | P_worker task_settings adapter string string string

definition void :: "'a prog \<Rightarrow> unit prog" where
  "void p = and_then p (\<lambda>_. return ())"

fun process_prog :: "process \<Rightarrow> unit prog" where
  "process_prog (P_sync env req) = void (api_view req (sync_data env req))"
| "process_prog (P_active env req) = void (api_view req (active_sync env req))"
| "process_prog (P_status env req jid) = void (api_view req (sync_status env req jid))"
| "process_prog (P_cancel env req jid) = void (api_view req (cancel_sync env req jid))"
| "process_prog (P_worker cfg adapter jid t l) = void (run_etl_pipeline cfg adapter jid t l)"

section \<open>Reads and saves, for the call discipline\<close>

lemma prog_ok_void: "prog_ok P A p \<Longrightarrow> prog_ok P A (void p)"
  unfolding void_def by (rule prog_ok_and_then) simp_all

lemma prog_ok_get_bind:
  "(\<And>row. A jid (Some row) \<Longrightarrow> prog_ok P A (f row)) \<Longrightarrow> prog_ok P A (bind (objects_get jid) f)"
  by (auto simp: objects_get_def bind_def return_def raise_def split: option.split)

lemma prog_ok_save_bind:
  assumes "\<And>t. P (Call_save (fs @ [F_updated_at]) (j\<lparr>updated_at := Some t\<rparr>))"
    and "\<And>t. prog_ok P A (f (j\<lparr>updated_at := Some t\<rparr>))"
  shows "prog_ok P A (bind (job_save_fields fs j) f)"
  using assms by (simp add: job_save_fields_def bind_def Let_def return_def raise_def)

lemma prog_ok_update_bind:
  assumes "\<And>t. P (Call_save (map field_of us @ [F_updated_at]) ((set_attrs us j)\<lparr>updated_at := Some t\<rparr>))"
    and "\<And>t. prog_ok P A (f ((set_attrs us j)\<lparr>updated_at := Some t\<rparr>))"
  shows "prog_ok P A (bind (update_job j us) f)"
  unfolding update_job_def by (rule prog_ok_save_bind) (rule assms)+

lemma prog_ok_lift_exn [simp]: "prog_ok P A (lift_exn r)"
  by (simp add: lift_exn_def)

lemma prog_ok_flag_read [simp]:
  "prog_ok P A (is_cancel_requested jid)"
  "prog_ok P A (cancel_observed job jid)"
  "prog_ok P A (get_celery_task_id jid)"
  "prog_ok P A (get_active_job_id t l)"
  "prog_ok P A (revoke_task tid)"
  "prog_ok P A new_job_id"
  by (simp_all add: handler_defs cancel_observed_def split: option.split)

lemma prog_ok_api_view: "prog_ok P A v \<Longrightarrow> prog_ok P A (api_view req v)"
  by (auto simp: api_view_def intro!: prog_ok_bind)

section \<open>The calls of the sync service\<close>

text \<open>
  \<open>own jid\<close>: the jobs on which a task runs, or whose own tenant asks for a cancellation.
\<close>

abbreviation saved :: "job_update list \<Rightarrow> etl_job \<Rightarrow> int \<Rightarrow> call" where
  "saved us j t \<equiv>
     Call_save (map field_of us @ [F_updated_at]) ((set_attrs us j)\<lparr>updated_at := Some t\<rparr>)"

locale sync_calls =
  fixes P :: "call \<Rightarrow> bool"
    and A :: "string \<Rightarrow> etl_job option \<Rightarrow> bool"
    and own :: "string \<Rightarrow> bool"
  assumes row_id: "A jid (Some row) \<Longrightarrow> job_id row = jid"
    and acquire: "P (Call_setnx (lock_key t l) jid)"
    and release_orphan: "A jid None \<Longrightarrow> P (Call_release (lock_key t l) jid)"
    and release_own: "own jid \<Longrightarrow> P (Call_release (lock_key t l) jid)"
    and insert_job: "P (Call_insert (stamp_insert now (new_job jid t l QUEUED)))"
    and store_task: "P (Call_set (celery_task_key jid) tid)"
    and request_cancel: "own jid \<Longrightarrow> P (Call_set (cancel_flag_key jid) v)"
    and clear_flags: "own jid \<Longrightarrow> P (Call_delete [cancel_flag_key jid, celery_task_key jid])"
    and clear_task: "own jid \<Longrightarrow> P (Call_delete [celery_task_key jid])"
    and save_start: "own (job_id j) \<Longrightarrow>
      P (saved [Set_status PROCESSING, Set_started_at (Some now), Set_progress_percentage 5] j t')"
    and save_progress: "own (job_id j) \<Longrightarrow>
      P (saved [Set_processed_rows n, Set_progress_percentage pct,
                Set_errors (trim_stored_errors (serialize_error_logs errs))] j t')"
    and save_completion: "own (job_id j) \<Longrightarrow> P (saved (completion_updates now res) j t')"
    and save_failure: "own (job_id j) \<Longrightarrow> P (saved (failure_updates now e) j t')"
    and save_cancelled: "own (job_id j) \<Longrightarrow>
      P (Call_save [F_status, F_completed_at, F_result, F_errors, F_validation_summary, F_updated_at]
           ((mark_cancelled now j)\<lparr>updated_at := Some t'\<rparr>))"
begin

fun permitted :: "process \<Rightarrow> bool" where
  "permitted (P_cancel env req jid) =
     (\<forall>row. A jid (Some row) \<longrightarrow> job_tenant row = tenant_from_request req \<longrightarrow> own jid)"
| "permitted (P_worker cfg adapter jid t l) = own jid"
| "permitted _ = True"

subsection \<open>The worker\<close>

lemma ok_on_progress: "own (job_id job) \<Longrightarrow> prog_ok P A (on_progress job n pct errs)"
  unfolding on_progress_def
  by (rule prog_ok_bind, simp) (auto intro!: prog_ok_update_bind save_progress)

lemma ok_adapter: "own (job_id job) \<Longrightarrow> prog_ok P A (adapter_prog (on_progress job) a)"
  by (induction a) (auto intro!: prog_ok_bind ok_on_progress)

lemma ok_release_and_clear: "own jid \<Longrightarrow> prog_ok P A (release_and_clear t l jid)"
  by (auto simp: release_and_clear_def handler_defs intro!: prog_ok_bind
      intro: release_own clear_flags)

lemma ok_record_result: "own jid \<Longrightarrow> prog_ok P A (record_result jid p)"
  unfolding record_result_def
  by (rule prog_ok_get_bind, rule prog_ok_bind, simp)
    (auto simp: Let_def row_id intro!: prog_ok_update_bind save_completion)

lemma ok_pipeline_failed: "own jid \<Longrightarrow> prog_ok P A (pipeline_failed jid e)"
  unfolding pipeline_failed_def
  by (rule prog_ok_get_bind, rule prog_ok_bind, simp)
    (auto simp: row_id intro!: prog_ok_update_bind save_failure)

lemma ok_ingest: "own jid \<Longrightarrow> own (job_id job) \<Longrightarrow> prog_ok P A (ingest cfg adapter job jid t l)"
  unfolding ingest_def by (intro prog_ok_bind ok_adapter ok_record_result)

lemma ok_pipeline_body:
  assumes "own jid" and "own (job_id job)"
  shows "prog_ok P A (pipeline_body cfg adapter job jid t l)"
proof -
  have "prog_ok P A (bind (is_cancel_requested jid) (\<lambda>c.
      if c then return Task_cancelled else ingest cfg adapter job' jid t l))"
    if "job_id job' = job_id job" for job'
    using assms that by (auto intro!: prog_ok_bind ok_ingest)
  with assms show ?thesis
    unfolding pipeline_body_def by (auto intro!: prog_ok_update_bind save_start)
qed

lemma ok_guarded: "own jid \<Longrightarrow> prog_ok P A p \<Longrightarrow> prog_ok P A (guarded jid t l p)"
  unfolding guarded_def by (intro prog_ok_rules ok_release_and_clear ok_pipeline_failed)

lemma ok_task: "own jid \<Longrightarrow> prog_ok P A (run_etl_pipeline cfg adapter jid t l)"
  unfolding run_etl_pipeline_def
  by (rule prog_ok_get_bind, rule prog_ok_bind, simp)
    (auto simp: row_id intro!: prog_ok_bind ok_release_and_clear ok_guarded ok_pipeline_body)

subsection \<open>The requests\<close>

lemma ok_acquire: "prog_ok P A (acquire_sync_lock t l jid)"
  by (simp add: acquire_sync_lock_def acquire)

lemma ok_active_job: "prog_ok P A (active_job t l)"
  by (auto simp: active_job_def Let_def release_sync_lock_def
      intro!: prog_ok_bind release_orphan split: option.split)

lemma ok_start_job: "prog_ok P A (start_job env req jid t l)"
  by (auto simp: start_job_def store_celery_task_id_def insert_job store_task
      intro!: prog_ok_bind split: option.split)

lemma ok_acquire_and_start: "prog_ok P A (acquire_and_start env req t l)"
  unfolding acquire_and_start_def sync_conflict_def
  by (auto intro!: prog_ok_bind ok_acquire ok_start_job ok_active_job split: option.split)

lemma ok_sync_data: "prog_ok P A (sync_data env req)"
  unfolding sync_data_def
  by (auto intro!: prog_ok_bind ok_acquire_and_start split: option.split sum.split)

lemma ok_active_sync: "prog_ok P A (active_sync env req)"
  unfolding active_sync_def
  by (auto intro!: prog_ok_bind ok_active_job split: option.split)

lemma ok_with_own_job:
  assumes "\<And>job. A jid (Some job) \<Longrightarrow> job_tenant job = tenant_from_request req \<Longrightarrow> prog_ok P A (k job)"
  shows "prog_ok P A (with_own_job req jid k)"
  unfolding with_own_job_def
  using assms by (auto intro!: prog_ok_bind split: option.split)

lemma ok_after_cancel:
  "own (job_id job) \<Longrightarrow> prog_ok P A (bind (if q then release_sync_lock t l (job_id job) else return ()) (\<lambda>_.
     RedisDelete [celery_task_key (job_id job)] (return job)))"
  by (auto simp: release_sync_lock_def release_own clear_task intro!: prog_ok_bind)

lemma ok_cancel_sync_job:
  assumes "own (job_id job)"
  shows "prog_ok P A (cancel_sync_job job)"
proof -
  have save: "P (Call_save ([F_status, F_completed_at, F_result, F_errors, F_validation_summary] @
      [F_updated_at]) ((mark_cancelled now job)\<lparr>updated_at := Some u\<rparr>))" for now u
    using save_cancelled [OF assms] by simp
  have id: "job_id ((mark_cancelled now job)\<lparr>updated_at := Some u\<rparr>) = job_id job" for now u
    by (simp add: mark_cancelled_def)
  have rest: "prog_ok P A (bind (job_save_fields
      [F_status, F_completed_at, F_result, F_errors, F_validation_summary] (mark_cancelled now job))
      (\<lambda>job. bind (if q then release_sync_lock (job_tenant job) (job_loan_type job) (job_id job)
                   else return ()) (\<lambda>_. RedisDelete [celery_task_key (job_id job)] (return job))))"
    for now q
    by (rule prog_ok_save_bind) (rule save, rule ok_after_cancel, simp only: id assms)
  have mark: "prog_ok P A (mark_cancel_requested (job_id job))"
    by (simp add: mark_cancel_requested_def request_cancel assms)
  show ?thesis
  proof (cases "status job \<in> {QUEUED, PROCESSING}")
    case True
    have "prog_ok P A (bind (mark_cancel_requested (job_id job)) (\<lambda>_.
        bind (get_celery_task_id (job_id job)) (\<lambda>task_id. bind (revoke_task task_id) (\<lambda>_.
        Now (\<lambda>t. bind (job_save_fields
            [F_status, F_completed_at, F_result, F_errors, F_validation_summary] (mark_cancelled t job))
          (\<lambda>job'. bind (if status job = QUEUED
                       then release_sync_lock (job_tenant job') (job_loan_type job') (job_id job')
                       else return ()) (\<lambda>_. RedisDelete [celery_task_key (job_id job')] (return job'))))))))"
      by (rule prog_ok_bind, rule mark, rule prog_ok_bind, simp, rule prog_ok_bind, simp,
          simp only: prog_ok.simps) (intro allI rest)
    with True show ?thesis
      unfolding cancel_sync_job_def Let_def by (simp only: not_True_eq_False if_False)
  qed (simp add: cancel_sync_job_def)
qed

lemma ok_cancel_sync:
  assumes "\<And>row. A jid (Some row) \<Longrightarrow> job_tenant row = tenant_from_request req \<Longrightarrow> own jid"
  shows "prog_ok P A (cancel_sync env req jid)"
  unfolding cancel_sync_def
  by (rule ok_with_own_job, rule prog_ok_and_then, rule ok_cancel_sync_job)
    (auto simp: row_id assms split: sum.split exn.split)

lemma ok_process: "permitted p \<Longrightarrow> prog_ok P A (process_prog p)"
  by (cases p)
    (auto simp: sync_status_def intro!: prog_ok_void prog_ok_api_view ok_sync_data ok_active_sync
      ok_with_own_job ok_cancel_sync ok_task)

lemma ok_processes: "list_all permitted ps \<Longrightarrow> list_all (prog_ok P A) (map process_prog ps)"
  by (simp add: list.pred_map list_all_iff ok_process)

end

section \<open>Invariants of the whole service\<close>

locale system_invariant =
  world_invariant S Inv P A E + sync_calls P A own
  for S :: "'w services" and Inv P A E own
begin

lemma processes_keep:
  assumes "pool_steps S E (map process_prog ps, w) (ps', w')"
    and "list_all permitted ps" and "holds w"
  shows "holds w'"
  using pool_invariant [OF assms(1)] ok_processes [OF assms(2)] assms(3) by simp

end

subsection \<open>Well-formed job rows\<close>

text \<open>
  What every stored row satisfies at every moment: the stored errors are bounded, a job that runs has
  a start time, a job that ended has an end time, and a cancelled one says so in \<open>result\<close>.
\<close>

definition row_ok :: "etl_job \<Rightarrow> bool" where
  "row_ok row \<longleftrightarrow>
     length (errors row) \<le> 50 \<and>
     (status row = PROCESSING \<longrightarrow> started_at row \<noteq> None) \<and>
     (status row \<in> {COMPLETED, FAILED, CANCELLED} \<longrightarrow> completed_at row \<noteq> None) \<and>
     (status row = CANCELLED \<longrightarrow> job_result row = CANCEL_MESSAGE)"

definition rows_inv :: "(string \<rightharpoonup> string) \<Rightarrow> (string \<rightharpoonup> etl_job) \<Rightarrow> bool" where
  "rows_inv kv tbl \<longleftrightarrow> (\<forall>jid row. tbl jid = Some row \<longrightarrow> job_id row = jid \<and> row_ok row)"

fun rows_call :: "call \<Rightarrow> bool" where
  "rows_call (Call_insert j) = row_ok j"
| "rows_call (Call_save fs j) = (\<forall>row. row_ok row \<longrightarrow> row_ok (save_fields fs j row))"
| "rows_call _ = True"

definition rows_read :: "string \<Rightarrow> etl_job option \<Rightarrow> bool" where
  "rows_read jid r \<longleftrightarrow> (\<forall>row. r = Some row \<longrightarrow> job_id row = jid)"

lemma row_ok_updates:
  assumes "row_ok row"
  shows "row_ok (save_fields [F_status, F_started_at, F_progress_percentage, F_updated_at]
           (j\<lparr>status := PROCESSING, started_at := Some t\<rparr>) row)"
    and "row_ok (save_fields [F_processed_rows, F_progress_percentage, F_errors, F_updated_at]
           (j\<lparr>errors := trim_stored_errors errs\<rparr>) row)"
  using assms by (auto simp: row_ok_def)

lemma rows_calls: "sync_calls rows_call rows_read (\<lambda>_. True)"
  by unfold_locales
    (auto simp: rows_read_def row_ok_def stamp_insert_def new_job_def completion_updates_def
      failure_updates_def mark_cancelled_def Let_def)

lemma rows_world: "services S \<Longrightarrow> world_invariant S rows_inv rows_call rows_read UNIV"
  by (intro world_invariant.intro world_invariant_axioms.intro)
    (auto simp: rows_inv_def rows_read_def)

sublocale services \<subseteq> rows: system_invariant S rows_inv rows_call rows_read UNIV "\<lambda>_. True"
  by (intro system_invariant.intro rows_world rows_calls) (rule services_axioms)

subsection \<open>A job that its tenant leaves alone\<close>

text \<open>
  \<open>concerns r p\<close>: \<open>p\<close> is the task of the job, or a cancellation of it by a user of its tenant.
\<close>

fun concerns :: "etl_job \<Rightarrow> process \<Rightarrow> bool" where
  "concerns r (P_cancel env req jid) = (jid = job_id r \<and> tenant_from_request req = job_tenant r)"
| "concerns r (P_worker cfg adapter jid t l) = (jid = job_id r)"
| "concerns r _ = False"

abbreviation slice_key :: "etl_job \<Rightarrow> string" where
  "slice_key r \<equiv> lock_key (job_tenant r) (job_loan_type r)"

text \<open>The job may have ended or lost its lock: only when it holds the slice (\<open>held\<close>) is the lock part of what is kept.\<close>

definition untouched_inv ::
    "etl_job \<Rightarrow> string option \<Rightarrow> bool \<Rightarrow> (string \<rightharpoonup> string) \<Rightarrow> (string \<rightharpoonup> etl_job) \<Rightarrow> bool" where
  "untouched_inv r flag held kv tbl \<longleftrightarrow>
     tbl (job_id r) = Some r \<and> (held \<longrightarrow> kv (slice_key r) = Some (job_id r)) \<and>
     kv (cancel_flag_key (job_id r)) = flag \<and> (\<forall>jid row. tbl jid = Some row \<longrightarrow> job_id row = jid)"

fun untouched_call :: "etl_job \<Rightarrow> call \<Rightarrow> bool" where
  "untouched_call r (Call_set k v) = (k \<noteq> slice_key r \<and> k \<noteq> cancel_flag_key (job_id r))"
| "untouched_call r (Call_setnx k v) = (k \<noteq> cancel_flag_key (job_id r))"
| "untouched_call r (Call_delete ks) = (slice_key r \<notin> set ks \<and> cancel_flag_key (job_id r) \<notin> set ks)"
| "untouched_call r (Call_release k v) =
     ((k = slice_key r \<longrightarrow> v \<noteq> job_id r) \<and> k \<noteq> cancel_flag_key (job_id r))"
| "untouched_call r (Call_insert j) = True"
| "untouched_call r (Call_save fs j) = (job_id j \<noteq> job_id r)"

definition untouched_read :: "etl_job \<Rightarrow> string \<Rightarrow> etl_job option \<Rightarrow> bool" where
  "untouched_read r jid v \<longleftrightarrow>
     (jid = job_id r \<longrightarrow> v = Some r) \<and> (\<forall>row. v = Some row \<longrightarrow> job_id row = jid)"

definition other_keys :: "etl_job \<Rightarrow> bool \<Rightarrow> string set" where
  "other_keys r held = {k. (held \<longrightarrow> k \<noteq> slice_key r) \<and> k \<noteq> cancel_flag_key (job_id r)}"

lemma untouched_calls: "sync_calls (untouched_call r) (untouched_read r) (\<lambda>jid. jid \<noteq> job_id r)"
  by unfold_locales
    (auto simp: untouched_read_def stamp_insert_def new_job_def mark_cancelled_def)

lemma untouched_world:
  assumes "services S"
  shows "world_invariant S (untouched_inv r flag held) (untouched_call r) (untouched_read r) (other_keys r held)"
  unfolding world_invariant_def world_invariant_axioms_def
proof (intro conjI allI impI)
  show "services S" by (rule assms)
qed (simp_all add: untouched_inv_def untouched_read_def other_keys_def,
     (metis option.distinct(1) option.inject)+)

locale untouched_job = services S for S :: "'w services" +
  fixes r :: etl_job and flag :: "string option" and held :: bool

sublocale untouched_job \<subseteq> system_invariant S "untouched_inv r flag held" "untouched_call r"
    "untouched_read r" "other_keys r held" "\<lambda>jid. jid \<noteq> job_id r"
  by (intro system_invariant.intro untouched_world untouched_calls) (rule services_axioms)

interpretation demo_untouched: untouched_job demo_services "new_job jid t l QUEUED" None True for jid t l
  by unfold_locales

lemma permitted_if_not_concerned:
  "\<not> concerns r p \<Longrightarrow> sync_calls.permitted (untouched_read r) (\<lambda>jid. jid \<noteq> job_id r) p"
  by (cases "(r, p)" rule: concerns.cases)
    (auto simp: sync_calls.permitted.simps [OF untouched_calls] untouched_read_def)

lemma rows_permitted: "sync_calls.permitted rows_read (\<lambda>_. True) p"
  by (cases p) (simp_all add: sync_calls.permitted.simps [OF rows_calls])

context services
begin

lemma rows_reachable:
  assumes "pool_steps S UNIV (map process_prog ps, w) (ps', w')"
    and "\<And>jid row. job_row S w jid = Some row \<Longrightarrow> row_ok row"
    and "job_row S w' jid = Some row"
  shows "row_ok row"
proof -
  have "rows.holds w"
    using assms(2) by (simp add: rows.holds_def rows_inv_def row_key)
  then have "rows.holds w'"
    using rows.processes_keep [OF assms(1)] rows_permitted by (simp add: list_all_iff)
  with assms(3) show ?thesis by (simp add: rows.holds_def rows_inv_def)
qed

end

context untouched_job
begin

lemma untouched_reachable:
  assumes "pool_steps S (other_keys r held) (map process_prog ps, w) (ps', w')"
    and "job_row S w (job_id r) = Some r" and "held \<longrightarrow> redis_get S w (slice_key r) = Some (job_id r)"
    and "redis_get S w (cancel_flag_key (job_id r)) = flag"
    and "list_all (\<lambda>p. \<not> concerns r p) ps"
  shows "job_row S w' (job_id r) = Some r \<and> (held \<longrightarrow> redis_get S w' (slice_key r) = Some (job_id r)) \<and>
    redis_get S w' (cancel_flag_key (job_id r)) = flag"
proof -
  have "holds w"
    unfolding holds_def untouched_inv_def using assms(2-4) by (blast intro: row_key)
  moreover have "list_all permitted ps"
    using assms(5) permitted_if_not_concerned by (simp add: list_all_iff)
  ultimately have "holds w'"
    using processes_keep [OF assms(1)] by blast
  then show ?thesis by (simp add: holds_def untouched_inv_def)
qed

end

section \<open>Properties\<close>

text \<open>
  Property C7. Whatever requests and tasks run, however their calls interleave and whichever Redis
  keys expire, every stored job row stays well formed.
\<close>

theorem rows_stay_well_formed:
  assumes "services S"
    and "\<And>jid row. job_row S w jid = Some row \<Longrightarrow> row_ok row"
    and "pool_steps S UNIV (map process_prog ps, w) (ps', w')"
    and "job_row S w' jid = Some row"
  shows "row_ok row"
  by (rule services.rows_reachable [OF assms(1,3,2,4)])

lemma rows_stay_well_formed_witness:
  "case run_schedule demo_services [0, 1, 0, 1, 0, 0, 1, 1]
     (map process_prog
       [P_worker demo_settings (demo_adapter (Inr (demo_result True))) ''job_7'' ''BANK001'' ''RETAIL'',
        P_cancel demo_view_env (demo_request ''BANK001'') ''job_7''], demo_busy QUEUED) of
     (ps, w) \<Rightarrow> pred_option row_ok (job_row demo_services w ''job_7'')"
proof -
  let ?ps = "[P_worker demo_settings (demo_adapter (Inr (demo_result True))) ''job_7'' ''BANK001'' ''RETAIL'',
        P_cancel demo_view_env (demo_request ''BANK001'') ''job_7'']"
  let ?is = "[0, 1, 0, 1, 0, 0, 1, 1]"
  obtain ps w where st: "run_schedule demo_services ?is (map process_prog ?ps, demo_busy QUEUED) = (ps, w)"
    by (cases "run_schedule demo_services ?is (map process_prog ?ps, demo_busy QUEUED)")
  have "pool_steps demo_services UNIV (map process_prog ?ps, demo_busy QUEUED) (ps, w)"
    unfolding st [symmetric] by (rule schedule_pool_steps) simp
  moreover have "row_ok row" if "job_row demo_services (demo_busy QUEUED) jid = Some row" for jid row
    using that by (auto simp: row_ok_def split: if_splits)
  ultimately have "row_ok row" if "job_row demo_services w ''job_7'' = Some row" for row
    using rows_stay_well_formed [OF demo.services_axioms] that by blast
  then show ?thesis
    unfolding st by (cases "job_row demo_services w ''job_7''") simp_all
qed

text \<open>
  Property C5. A stored job, running or ended, is isolated from everybody else: as long as its own task does not
  run and its own tenant does not cancel it, no interleaving of requests (of any tenant) and tasks, and
  no expiry of other keys, changes its row or its cancel flag; and when it holds the lock of its slice it
  keeps it until the lock itself expires.
\<close>

theorem job_isolated:
  assumes "services S" and "job_row S w jid = Some r" and "list_all (\<lambda>p. \<not> concerns r p) ps"
    and "pool_steps S (other_keys r (redis_get S w (slice_key r) = Some jid)) (map process_prog ps, w) (ps', w')"
  shows "job_row S w' jid = Some r \<and>
    redis_get S w' (cancel_flag_key jid) = redis_get S w (cancel_flag_key jid) \<and>
    (redis_get S w (slice_key r) = Some jid \<longrightarrow> redis_get S w' (slice_key r) = Some jid)"
proof -
  have id: "job_id r = jid"
    using services.axioms(2) [OF assms(1)] assms(2) by (rule job_table.row_key)
  show ?thesis
    using untouched_job.untouched_reachable [OF untouched_job.intro [OF assms(1)] assms(4)]
      assms(2,3) id by simp
qed

lemma job_isolated_witness:
  "case run_schedule demo_services [0, 0, 0, 0, 1, 1, 0, 0, 0]
     (map process_prog [P_sync demo_view_env (demo_request ''BANK001''),
        P_cancel demo_view_env (demo_request ''BANK002'') ''job_7''], demo_busy PROCESSING) of
     (ps, w) \<Rightarrow> job_row demo_services w ''job_7'' = Some (demo_job PROCESSING) \<and>
       redis_get demo_services w (lock_key ''BANK001'' ''RETAIL'') = Some ''job_7''"
proof -
  let ?ps = "[P_sync demo_view_env (demo_request ''BANK001''),
        P_cancel demo_view_env (demo_request ''BANK002'') ''job_7'']"
  let ?is = "[0, 0, 0, 0, 1, 1, 0, 0, 0]"
  obtain ps w where st: "run_schedule demo_services ?is (map process_prog ?ps, demo_busy PROCESSING) = (ps, w)"
    by (cases "run_schedule demo_services ?is (map process_prog ?ps, demo_busy PROCESSING)")
  have pool: "pool_steps demo_services (other_keys (demo_job PROCESSING) True)
      (map process_prog ?ps, demo_busy PROCESSING) (ps, w)"
    unfolding st [symmetric] by (rule schedule_pool_steps) simp
  have left: "list_all (\<lambda>p. \<not> concerns (demo_job PROCESSING) p) ?ps"
    by (simp add: demo_request_def tenant_from_request_def)
  have "job_row demo_services w ''job_7'' = Some (demo_job PROCESSING) \<and>
      redis_get demo_services w (slice_key (demo_job PROCESSING)) = Some ''job_7''"
    using job_isolated [OF demo.services_axioms _ left, of "demo_busy PROCESSING" "''job_7''"] pool by simp
  then show ?thesis unfolding st by simp
qed

section \<open>Races\<close>

text \<open>
  Where the interleaving of a few calls defeats the protocol.  The first process is stopped in the
  middle (\<open>prog_steps\<close>), the second one runs to its end, then the first one goes on.
\<close>

context services
begin

lemma steps_acquire:
  assumes "redis_get S w (lock_key t l) = None"
  shows "\<exists>w1. prog_steps S 2 (acquire_and_start env req t l) w =
       (start_job env req (next_job_id S w) t l, w1) \<and>
     job_row S w1 = job_row S w \<and>
     redis_get S w1 = (redis_get S w)(lock_key t l \<mapsto> next_job_id S w)"
  using assms
  by (simp add: acquire_and_start_def numeral_2_eq_2 bind_def new_job_id_def acquire_sync_lock_def
      case_prod_beta return_def service_laws next_job_id_def)

lemma steps_task_checks:
  assumes "job_row S w jid = Some row" and "status row \<noteq> CANCELLED"
    and "\<not> opt_truthy (redis_get S w (cancel_flag_key jid))"
  shows "prog_steps S 2 (run_etl_pipeline cfg adapter jid t l) w =
     (guarded jid t l (pipeline_body cfg adapter row jid t l), w)"
  using assms
  by (simp add: run_etl_pipeline_def numeral_2_eq_2 bind_def objects_get_def cancel_observed_def
      is_cancel_requested_def return_def)

lemma run_body_flagged:
  assumes "job_row S w jid = Some row" and "job_id job = jid"
    and "opt_truthy (redis_get S w (cancel_flag_key jid))"
  shows "\<exists>row' w'. run S (guarded jid t l (pipeline_body cfg adapter job jid t l)) w =
       (Inr Task_cancelled, w') \<and>
     job_row S w' jid = Some row' \<and> status row' = PROCESSING \<and>
     redis_get S w' = entries_released (redis_get S w) t l jid"
proof -
  let ?w = "fst (clock_now S w)" and ?t = "snd (clock_now S w)"
  let ?us = "[Set_status PROCESSING, Set_started_at (Some ?t), Set_progress_percentage 5]"
  have "job_row S ?w (job_id job) = Some row" using assms by (simp add: service_laws)
  from run_update_job [OF this, of ?us] assms(2) obtain u w1 where 1:
    "run S (update_job job ?us) ?w = (Inr ((set_attrs ?us job)\<lparr>updated_at := Some u\<rparr>), w1)"
    "redis_get S w1 = redis_get S ?w"
    "job_row S w1 = (job_row S ?w)(jid \<mapsto>
       save_fields (map field_of ?us @ [F_updated_at])
         ((set_attrs ?us job)\<lparr>updated_at := Some u\<rparr>) row)"
    by blast
  then have "run S (try_except (pipeline_body cfg adapter job jid t l) (pipeline_failed jid)) w =
      (Inr Task_cancelled, w1)"
    using assms(3)
    by (simp add: pipeline_body_def run_try_except run_bind run_is_cancel_requested case_prod_beta
        service_laws)
  from run_guarded [OF this, of t l] 1 show ?thesis by (auto simp: service_laws)
qed

lemma steps_to_adapter:
  assumes "job_row S w jid = Some row" and "status row \<noteq> CANCELLED"
    and "\<not> opt_truthy (redis_get S w (cancel_flag_key jid))"
  shows "\<exists>job w1. prog_steps S 6 (run_etl_pipeline cfg adapter jid t l) w =
       (guarded jid t l (ingest cfg adapter job jid t l), w1) \<and>
     job_id job = jid \<and> redis_get S w1 = redis_get S w \<and>
     (\<exists>row'. job_row S w1 jid = Some row' \<and> status row' = PROCESSING)"
proof -
  have id: "job_id row = jid" using assms(1) by (rule row_key)
  have six: "(6::nat) = 2 + Suc (Suc (Suc (Suc 0)))" by simp
  have "prog_steps S 6 (run_etl_pipeline cfg adapter jid t l) w =
      prog_steps S (Suc (Suc (Suc (Suc 0)))) (guarded jid t l (pipeline_body cfg adapter row jid t l)) w"
    unfolding six prog_steps_add steps_task_checks [OF assms] by simp
  with assms id show ?thesis
    by (intro exI [of _ "row\<lparr>status := PROCESSING, started_at := Some (snd (clock_now S w)),
          progress_percentage := 5, updated_at := Some (snd (clock_now S (fst (clock_now S w))))\<rparr>"])
      (simp add: guarded_def try_finally_def try_except_def pipeline_body_def update_job_def
        job_save_fields_def is_cancel_requested_def bind_def return_def case_prod_beta Let_def service_laws)
qed

end

text \<open>
  Property C36. The lock does not exclude a second sync in the gap between \<open>SET NX\<close> and the insert of the
  row: a second request that runs in this gap takes the new lock for an orphan, releases it and starts
  a job; then the first request starts its job too, and the slice has two.
\<close>

theorem orphan_check_race:
  assumes "services S" and "slice_requested env2 req2 t l"
    and "redis_get S w (lock_key t l) = None"
    and "prog_steps S 2 (acquire_and_start env req t l) w = (rest, w1)"
    and "run S (sync_data env2 req2) w1 = (r2, w2)"
    and "run S rest w2 = (r1, w3)"
    and "next_job_id S w \<noteq> next_job_id S w1"
    and "job_row S w (next_job_id S w) = None" and "job_row S w (next_job_id S w1) = None"
    and "\<And>v jid. snd (celery_delay S v jid t l) \<noteq> None"
  shows "\<exists>j1 j2. job_row S w3 (next_job_id S w) = Some j1 \<and> job_row S w3 (next_job_id S w1) = Some j2 \<and>
     status j1 = QUEUED \<and> status j2 = QUEUED \<and>
     job_tenant j1 = t \<and> job_tenant j2 = t \<and> job_loan_type j1 = l \<and> job_loan_type j2 = l \<and>
     redis_get S w3 (lock_key t l) = Some (next_job_id S w1)"
proof -
  let ?i = "next_job_id S w" and ?j = "next_job_id S w1"
  from services.steps_acquire [OF assms(1,3), of env req] assms(4) have 1:
    "rest = start_job env req ?i t l" "job_row S w1 = job_row S w"
    "redis_get S w1 = (redis_get S w)(lock_key t l \<mapsto> ?i)" by auto
  have "start_effect S env2 req2 ?j t l w1 (run S (sync_data env2 req2) w1)"
    by (rule sync_starts_at [OF assms(1,2)]) (use 1 assms in \<open>simp_all add: next_job_id_def\<close>)
  then obtain j2 tid2 where 2: "status j2 = QUEUED" "job_tenant j2 = t" "job_loan_type j2 = l"
    "job_row S w2 = (job_row S w)(?j \<mapsto> j2)"
    "redis_get S w2 = (redis_get S w1)(lock_key t l \<mapsto> ?j, celery_task_key ?j \<mapsto> tid2)"
    using assms(5) 1(2) by (auto simp: start_effect_def)
  have "job_row S w2 ?i = None" using 2(4) assms(7,8) by simp
  from services.run_start_job [OF assms(1) this assms(10), of env req] obtain j1 tid1 where 3:
    "status j1 = QUEUED" "job_tenant j1 = t" "job_loan_type j1 = l"
    "job_row S w3 = (job_row S w2)(?i \<mapsto> j1)"
    "redis_get S w3 = (redis_get S w2)(celery_task_key ?i \<mapsto> tid1)"
    using assms(6) 1(1) by auto
  show ?thesis
    by (intro exI [of _ j1] exI [of _ j2]) (use 2 3 assms(7) in simp)
qed

lemma orphan_check_race_witness:
  "\<exists>rest w1 r1 w2 r2 w3 j1 j2.
     prog_steps demo_services 2
       (acquire_and_start demo_view_env (demo_request ''BANK001'') ''BANK001'' ''RETAIL'') demo_empty = (rest, w1) \<and>
     run demo_services (sync_data demo_view_env (demo_request ''BANK001'')) w1 = (r2, w2) \<and>
     run demo_services rest w2 = (r1, w3) \<and>
     job_row demo_services w3 ''job_0'' = Some j1 \<and> job_row demo_services w3 ''job_1'' = Some j2 \<and>
     status j1 = QUEUED \<and> status j2 = QUEUED"
proof -
  let ?first = "acquire_and_start demo_view_env (demo_request ''BANK001'') ''BANK001'' ''RETAIL''"
  let ?second = "sync_data demo_view_env (demo_request ''BANK001'')"
  obtain rest w1 where 1: "prog_steps demo_services 2 ?first demo_empty = (rest, w1)"
    by (cases "prog_steps demo_services 2 ?first demo_empty")
  obtain r2 w2 where 2: "run demo_services ?second w1 = (r2, w2)"
    by (cases "run demo_services ?second w1")
  obtain r1 w3 where 3: "run demo_services rest w2 = (r1, w3)"
    by (cases "run demo_services rest w2")
  have "demo_uuids w1 = 1"
    using 1 by (auto simp: acquire_and_start_def numeral_2_eq_2 bind_def new_job_id_def
        acquire_sync_lock_def return_def demo_services_def demo_empty_def)
  then have id1: "next_job_id demo_services w1 = ''job_1''"
    by (simp add: next_job_id_def demo_services_def str_nat.simps str_simps)
  show ?thesis
    using orphan_check_race [OF demo.services_axioms demo_slice _ 1 2 3] 1 2 3
    by (simp add: id1) blast
qed

text \<open>
  A cancellation can be lost: when it completes after the task made its first checks but
  before the task marks the job as running, the task overwrites the cancelled status with PROCESSING,
  sees the flag, and ends; the job stays PROCESSING with no task, no lock and no flag.
\<close>

theorem cancel_lost_before_start:
  assumes "services S"
    and "job_row S w jid = Some row" and "status row \<in> {QUEUED, PROCESSING}"
    and "\<not> opt_truthy (redis_get S w (cancel_flag_key jid))"
    and "prog_steps S 2 (run_etl_pipeline cfg adapter jid t l) w = (rest, w1)"
    and "run S (cancel_sync_job row) w1 = (answer, w2)"
    and "run S rest w2 = (ended, w3)"
  shows "\<exists>job row'. answer = Inr job \<and> status job = CANCELLED \<and>
     job_row S w2 jid \<noteq> None \<and> status (the (job_row S w2 jid)) = CANCELLED \<and>
     ended = Inr Task_cancelled \<and> job_row S w3 jid = Some row' \<and> status row' = PROCESSING \<and>
     redis_get S w3 (cancel_flag_key jid) = None \<and> redis_get S w3 (lock_key t l) \<noteq> Some jid"
proof -
  have id: "job_id row = jid"
    using services.axioms(2) [OF assms(1)] assms(2) by (rule job_table.row_key)
  have live: "status row \<noteq> CANCELLED" using assms(3) by auto
  from services.steps_task_checks [OF assms(1,2) live assms(4), of cfg adapter t l] assms(5)
  have rest: "rest = guarded jid t l (pipeline_body cfg adapter row jid t l)" "w1 = w" by simp_all
  have "job_row S w (job_id row) = Some row" using assms(2) id by simp
  from services.run_cancel_sync_job [OF assms(1) this assms(3)] obtain job where c:
    "answer = Inr job" "status job = CANCELLED"
    "redis_get S w2 (cancel_flag_key jid) = Some ''1''"
    "\<exists>row2. job_row S w2 jid = Some row2 \<and> status row2 = CANCELLED"
    using assms(6) id rest(2) by (auto simp: save_fields_status)
  then obtain row2 where row2: "job_row S w2 jid = Some row2" "status row2 = CANCELLED" by blast
  have "opt_truthy (redis_get S w2 (cancel_flag_key jid))" using c(3) by simp
  from services.run_body_flagged [OF assms(1) row2(1) id this, of t l cfg adapter]
  obtain row' where "ended = Inr Task_cancelled" "job_row S w3 jid = Some row'" "status row' = PROCESSING"
    "redis_get S w3 = entries_released (redis_get S w2) t l jid"
    using assms(7) rest(1) by auto
  with c row2 show ?thesis by auto
qed

lemma cancel_lost_before_start_witness:
  "\<exists>rest w1 answer w2 ended w3 row'.
     prog_steps demo_services 2 (run_etl_pipeline demo_settings (demo_adapter (Inr (demo_result True)))
       ''job_7'' ''BANK001'' ''RETAIL'') (demo_busy QUEUED) = (rest, w1) \<and>
     run demo_services (cancel_sync_job (demo_job QUEUED)) w1 = (answer, w2) \<and>
     run demo_services rest w2 = (ended, w3) \<and>
     job_row demo_services w3 ''job_7'' = Some row' \<and> status row' = PROCESSING"
proof -
  let ?task = "run_etl_pipeline demo_settings (demo_adapter (Inr (demo_result True)))
       ''job_7'' ''BANK001'' ''RETAIL''"
  obtain rest w1 where 1: "prog_steps demo_services 2 ?task (demo_busy QUEUED) = (rest, w1)"
    by (cases "prog_steps demo_services 2 ?task (demo_busy QUEUED)")
  obtain answer w2 where 2: "run demo_services (cancel_sync_job (demo_job QUEUED)) w1 = (answer, w2)"
    by (cases "run demo_services (cancel_sync_job (demo_job QUEUED)) w1")
  obtain ended w3 where 3: "run demo_services rest w2 = (ended, w3)"
    by (cases "run demo_services rest w2")
  show ?thesis
    using cancel_lost_before_start [OF demo.services_axioms _ _ _ 1 2 3] 1 2 3 by auto
qed

text \<open>
  A cancellation that read the job as queued frees the slice lock even when the task has
  started meanwhile and is inside the adapter: the next sync of the slice gets the lock while the task
  still runs.
\<close>

theorem stale_cancel_frees_running_slice:
  assumes "services S"
    and "job_row S w jid = Some row" and "status row = QUEUED"
    and "\<not> opt_truthy (redis_get S w (cancel_flag_key jid))"
    and "redis_get S w (slice_key row) = Some jid"
    and "prog_steps S 6 (run_etl_pipeline cfg adapter jid t l) w = (rest, w1)"
    and "run S (cancel_sync_job row) w1 = (answer, w2)"
  shows "(\<exists>job. rest = guarded jid t l (ingest cfg adapter job jid t l) \<and> job_id job = jid) \<and>
     status (the (job_row S w1 jid)) = PROCESSING \<and> redis_get S w1 (slice_key row) = Some jid \<and>
     redis_get S w2 (slice_key row) = None"
proof -
  have id: "job_id row = jid"
    using services.axioms(2) [OF assms(1)] assms(2) by (rule job_table.row_key)
  have live: "status row \<noteq> CANCELLED" "status row \<in> {QUEUED, PROCESSING}" using assms(3) by auto
  from services.steps_to_adapter [OF assms(1,2) live(1) assms(4), of cfg adapter t l] assms(6)
  obtain job row' where s: "rest = guarded jid t l (ingest cfg adapter job jid t l)" "job_id job = jid"
    "redis_get S w1 = redis_get S w" "job_row S w1 jid = Some row'" "status row' = PROCESSING" by auto
  have "job_row S w1 (job_id row) = Some row'" using s(4) id by simp
  from services.run_cancel_sync_job [OF assms(1) this live(2)]
  have "redis_get S w2 (slice_key row) = None"
    using assms(3,5,7) id s(3) by auto
  with s assms(5) show ?thesis by auto
qed

lemma stale_cancel_frees_running_slice_witness:
  "\<exists>rest w1 answer w2.
     prog_steps demo_services 6 (run_etl_pipeline demo_settings (demo_adapter (Inr (demo_result True)))
       ''job_7'' ''BANK001'' ''RETAIL'') (demo_busy QUEUED) = (rest, w1) \<and>
     run demo_services (cancel_sync_job (demo_job QUEUED)) w1 = (answer, w2) \<and>
     status (the (job_row demo_services w1 ''job_7'')) = PROCESSING \<and>
     redis_get demo_services w2 (lock_key ''BANK001'' ''RETAIL'') = None"
proof -
  let ?task = "run_etl_pipeline demo_settings (demo_adapter (Inr (demo_result True)))
       ''job_7'' ''BANK001'' ''RETAIL''"
  obtain rest w1 where 1: "prog_steps demo_services 6 ?task (demo_busy QUEUED) = (rest, w1)"
    by (cases "prog_steps demo_services 6 ?task (demo_busy QUEUED)")
  obtain answer w2 where 2: "run demo_services (cancel_sync_job (demo_job QUEUED)) w1 = (answer, w2)"
    by (cases "run demo_services (cancel_sync_job (demo_job QUEUED)) w1")
  show ?thesis
    using stale_cancel_frees_running_slice [OF demo.services_axioms _ _ _ _ 1 2] 1 2 by auto
qed

end
