(* ===== verification/Routing.thy ===== *)
theory Routing
  imports Prelude
begin

text \<open>
  Django's URL resolution for the routes of the two sites: \<open>path(route, view)\<close> with a literal route
  or with the converter \<open><str:...>\<close>, and \<open>include\<close> under a prefix.  A site lists its patterns; the
  first pattern that matches the whole path decides.  The path has lost its leading slash.
\<close>

section \<open>Patterns\<close>

datatype segment = Text string | Str_arg

text \<open>
  \<open>Path\<close> makes a view of the captured arguments; \<open>Mount\<close> is a foreign site that answers every path
  below its prefix (the admin, whose last pattern matches everything).
\<close>

datatype 'v urlpattern =
    Path "segment list" "string list \<Rightarrow> 'v"
  | Include string "'v urlpattern list"
  | Mount string "string \<Rightarrow> 'v"

text \<open>\<open><str:x>\<close> is the expression \<open>[^/]+\<close>.\<close>

fun match_route :: "segment list \<Rightarrow> string \<Rightarrow> string list option" where
  "match_route [] s = (if s = '''' then Some [] else None)"
| "match_route (Text t # segs) s =
     (if prefix t s then match_route segs (drop (length t) s) else None)"
| "match_route (Str_arg # segs) s =
     (let a = takeWhile (\<lambda>c. c \<noteq> CHR ''/'') s
      in if a = '''' then None else map_option ((#) a) (match_route segs (drop (length a) s)))"

fun resolve :: "'v urlpattern \<Rightarrow> string \<Rightarrow> 'v option"
  and resolve_list :: "'v urlpattern list \<Rightarrow> string \<Rightarrow> 'v option" where
  "resolve (Path segs view) s = map_option view (match_route segs s)"
| "resolve (Include pre ps) s = (if prefix pre s then resolve_list ps (drop (length pre) s) else None)"
| "resolve (Mount pre view) s = (if prefix pre s then Some (view (drop (length pre) s)) else None)"
| "resolve_list [] s = None"
| "resolve_list (p # ps) s = (case resolve p s of Some v \<Rightarrow> Some v | None \<Rightarrow> resolve_list ps s)"

section \<open>Lemmas\<close>

lemma match_text [simp]: "match_route [Text t] s = (if s = t then Some [] else None)"
  by (auto simp: prefix_def)

lemma match_text_arg:
  "match_route [Text t, Str_arg] s = Some args \<longleftrightarrow>
     (\<exists>a. args = [a] \<and> s = t @ a \<and> a \<noteq> '''' \<and> CHR ''/'' \<notin> set a)"
proof
  assume m: "match_route [Text t, Str_arg] s = Some args"
  let ?s = "drop (length t) s"
  let ?a = "takeWhile (\<lambda>c. c \<noteq> CHR ''/'') ?s"
  have "prefix t s" "?a \<noteq> ''''" "drop (length ?a) ?s = ''''" "args = [?a]"
    using m by (auto simp: Let_def split: if_splits)
  moreover have "?s = ?a"
    using calculation(3) takeWhile_eq_take by (metis append_Nil2 append_take_drop_id)
  moreover have "CHR ''/'' \<notin> set ?a" by (auto dest: set_takeWhileD)
  moreover have "s = t @ ?s" using calculation(1) by (auto simp: prefix_def)
  ultimately show "\<exists>a. args = [a] \<and> s = t @ a \<and> a \<noteq> '''' \<and> CHR ''/'' \<notin> set a" by metis
next
  assume "\<exists>a. args = [a] \<and> s = t @ a \<and> a \<noteq> '''' \<and> CHR ''/'' \<notin> set a"
  then obtain a where a: "args = [a]" "s = t @ a" "a \<noteq> ''''" "CHR ''/'' \<notin> set a" by blast
  then have tw: "takeWhile (\<lambda>c. c \<noteq> CHR ''/'') a = a" by (auto simp: takeWhile_eq_all_conv)
  show "match_route [Text t, Str_arg] s = Some args" using a(1-3) by (simp add: Let_def tw)
qed

text \<open>What the routes of the two sites resolve to: a literal, or a literal and one path segment.\<close>

definition plain_segment :: "string \<Rightarrow> bool" where
  "plain_segment a \<longleftrightarrow> a \<noteq> '''' \<and> CHR ''/'' \<notin> set a"

lemma resolve_text [simp]: "resolve (Path [Text t] f) s = (if s = t then Some (f []) else None)"
  using match_text [of t s] by (simp del: match_text match_route.simps)

lemma resolve_text_arg [simp]:
  "resolve (Path [Text t, Str_arg] f) s =
     (if prefix t s \<and> plain_segment (drop (length t) s) then Some (f [drop (length t) s]) else None)"
proof (cases "match_route [Text t, Str_arg] s")
  case None
  then have "\<not> (\<exists>a. s = t @ a \<and> plain_segment a)"
    using match_text_arg [of t s] by (auto simp: plain_segment_def simp del: match_route.simps)
  then show ?thesis using None by (auto simp: prefix_def simp del: match_route.simps)
next
  case (Some args)
  with match_text_arg [of t s args] show ?thesis
    by (auto simp: plain_segment_def prefix_def simp del: match_route.simps)
qed

lemma resolve_empty [simp]: "resolve (Path [] f) s = (if s = '''' then Some (f []) else None)"
  by simp

end
