(* ===== verification/Gateway.thy ===== *)
theory Gateway
  imports SyncSystem Profiling Routing
begin

text \<open>
  The gateway as a client sees it: the URLs of \<open>api/config/urls.py\<close>, \<open>api/apps/core/urls.py\<close> and
  \<open>api/apps/etl/urls.py\<close>, and the way of a request to its view: the slash redirect of
  \<open>CommonMiddleware\<close>, DRF's content negotiation, authentication, permissions and method check (in this order), then the
  view, with the session the client has afterwards.  Of \<open>api/apps/core/views.py\<close>, health, login, logout and session are
  the views of \<open>Access\<close> behind their decorators.  The pages and the admin (which registers no model) are named only.
\<close>

section \<open>URLs\<close>

datatype gateway_view =
    V_health | V_login | V_logout | V_session
  | V_sync | V_active | V_status string | V_cancel string | V_data | V_profiling
  | V_login_page | V_dashboard | V_admin string

definition etl_urlpatterns :: "gateway_view urlpattern list" where
  "etl_urlpatterns =
     [Path [Text ''sync''] (\<lambda>_. V_sync),
      Path [Text ''sync/active''] (\<lambda>_. V_active),
      Path [Text ''sync/status/'', Str_arg] (\<lambda>args. V_status (hd args)),
      Path [Text ''sync/cancel/'', Str_arg] (\<lambda>args. V_cancel (hd args)),
      Path [Text ''data''] (\<lambda>_. V_data),
      Path [Text ''profiling''] (\<lambda>_. V_profiling)]"

definition core_urlpatterns :: "gateway_view urlpattern list" where
  "core_urlpatterns =
     [Path [Text ''health/''] (\<lambda>_. V_health),
      Path [Text ''auth/login''] (\<lambda>_. V_login),
      Path [Text ''auth/logout''] (\<lambda>_. V_logout),
      Path [Text ''auth/session''] (\<lambda>_. V_session),
      Include '''' etl_urlpatterns]"

definition urlpatterns :: "gateway_view urlpattern list" where
  "urlpatterns =
     [Mount ''admin/'' V_admin,
      Include ''api/'' core_urlpatterns,
      Path [] (\<lambda>_. V_login_page),
      Path [Text ''dashboard/''] (\<lambda>_. V_dashboard),
      Path [Text ''login/''] (\<lambda>_. V_login_page)]"

section \<open>Requests\<close>

text \<open>
  An HTTP request: the path without its leading slash, the session and the outcome of the CSRF check that belong to its
  cookies, and what the views read of it.  \<open>body_failure\<close> is the status when DRF cannot parse the body, at its first use.
\<close>

record http_request =
  req_method :: string
  req_path :: string
  http_session :: session
  csrf_failure :: "exn option"
  authorization :: string
  http_query :: "string \<rightharpoonup> string"
  http_data :: json
  body_failure :: "nat option"
  http_hx :: bool

text \<open>
  What the views use besides the request: the environments of their own models, the warehouse, and of DRF the
  content negotiation (the status when no renderer fits the \<open>Accept\<close> header or the \<open>format\<close> parameter).
  The token decoder and the two clock readings of a login are those of the time of the request; \<open>json_login\<close> is the
  login whose fields are not texts, which Django compares in its own way.
\<close>

record 'k gateway_env =
  DEBUG :: bool
  negotiate :: "http_request \<Rightarrow> nat option"
  views_env :: view_env
  auth_of :: auth_env
  login_times :: "int \<times> int"
  json_login :: "json \<Rightarrow> session \<Rightarrow> exn + login_response \<times> session"
  token_decode :: "string \<Rightarrow> exn + claims"
  collation_of :: "string \<Rightarrow> 'k"
  profile_of :: "'k profile_env"
  credits_of :: "credit_record list"
  payments_of :: "payment_installment list"

text \<open>A status without the content of a view is \<open>Bare\<close>, a page of a template or of the admin is \<open>Page\<close>.\<close>

datatype gateway_answer =
    Answered response
  | Health json
  | Login_answer login_response
  | Logged_out json
  | Session_answer pydict
  | Bare nat
  | Redirected string
  | Page gateway_view

text \<open>The answer and the session afterwards.\<close>

type_synonym gateway_reply = "gateway_answer \<times> session"

definition reply :: "http_request \<Rightarrow> gateway_answer \<Rightarrow> gateway_reply" where
  "reply q a = (a, http_session q)"

definition drf_request :: "http_request \<Rightarrow> jwt_user option \<Rightarrow> request" where
  "drf_request q user =
     \<lparr>req_user = user, query_params = http_query q, req_data = http_data q, hx_request = http_hx q\<rparr>"

definition authenticated :: "'k gateway_env \<Rightarrow> http_request \<Rightarrow> exn + jwt_user option" where
  "authenticated env q =
     authenticate_request (token_decode env) (operator (http_session q)) (csrf_failure q) (authorization q)"

section \<open>Views\<close>

text \<open>The decorators: the method of \<open>@api_view\<close> and the permission classes; \<open>None\<close> is a plain Django view.\<close>

datatype permission = Allow_any | Is_authenticated | Tenant_scoped

fun view_policy :: "gateway_view \<Rightarrow> (string \<times> permission) option" where
  "view_policy V_health = Some (''GET'', Allow_any)"
| "view_policy V_login = Some (''POST'', Allow_any)"
| "view_policy V_logout = Some (''POST'', Is_authenticated)"
| "view_policy V_session = Some (''GET'', Is_authenticated)"
| "view_policy V_sync = Some (''POST'', Tenant_scoped)"
| "view_policy V_active = Some (''GET'', Tenant_scoped)"
| "view_policy (V_status _) = Some (''GET'', Tenant_scoped)"
| "view_policy (V_cancel _) = Some (''POST'', Tenant_scoped)"
| "view_policy V_data = Some (''GET'', Tenant_scoped)"
| "view_policy V_profiling = Some (''GET'', Tenant_scoped)"
| "view_policy _ = None"

definition core_health :: json where
  "core_health = JObj [(''status'', JStr ''ok''), (''service'', JStr ''core_backend_api'')]"

text \<open>
  \<open>request.data.get(k, "")\<close> for the three fields of a login: an empty value of any type is refused like an empty
  text, and then no other field matters.
\<close>

definition login_field :: "pydict \<Rightarrow> string \<Rightarrow> json" where
  "login_field kvs k = dict_get kvs k (JStr '''')"

fun json_text :: "json \<Rightarrow> string option" where
  "json_text (JStr s) = Some s"
| "json_text _ = None"

definition login_claims :: "pydict \<Rightarrow> claims" where
  "login_claims kvs = (\<lambda>k. json_text (login_field kvs k))"

fun text_login :: "json \<Rightarrow> bool" where
  "text_login (JObj kvs) =
     (let fields = map (login_field kvs) [''username'', ''password'', ''tenant_id'']
      in list_ex (\<lambda>v. \<not> truthy v) fields \<or> list_all (\<lambda>v. json_text v \<noteq> None) fields)"
| "text_login _ = True"

definition login_view :: "'k gateway_env \<Rightarrow> http_request \<Rightarrow> gateway_reply prog" where
  "login_view env q =
     (case http_data q of
        JObj kvs \<Rightarrow>
          bind (lift_exn
              (if \<not> text_login (JObj kvs) then json_login env (JObj kvs) (http_session q)
               else Inr (login (auth_of env) (login_claims kvs) (fst (login_times env)) (snd (login_times env)) (http_session q))))
            (\<lambda>(a, s'). return (Login_answer a, s'))
      | _ \<Rightarrow> raise (Exn AttributeError ''object has no attribute get''))"

definition with_body :: "http_request \<Rightarrow> gateway_reply prog \<Rightarrow> gateway_reply prog" where
  "with_body q p = (case body_failure q of Some st \<Rightarrow> return (reply q (Bare st)) | None \<Rightarrow> p)"

fun view_body :: "'k::linorder gateway_env \<Rightarrow> gateway_view \<Rightarrow> http_request \<Rightarrow> request \<Rightarrow> gateway_reply prog" where
  "view_body env V_health q req = return (reply q (Health core_health))"
| "view_body env V_login q req = with_body q (login_view env q)"
| "view_body env V_logout q req = return (Logged_out (JObj [(''ok'', JBool True)]), logout (http_session q))"
| "view_body env V_session q req =
     (case req_user req of
        None \<Rightarrow> raise (Exn AttributeError ''object has no attribute tenant_id'')
      | Some u \<Rightarrow> return (reply q (Session_answer (session_info u))))"
| "view_body env V_sync q req = bind (sync_data (views_env env) req) (return \<circ> reply q \<circ> Answered)"
| "view_body env V_active q req = bind (active_sync (views_env env) req) (return \<circ> reply q \<circ> Answered)"
| "view_body env (V_status jid) q req = bind (sync_status (views_env env) req jid) (return \<circ> reply q \<circ> Answered)"
| "view_body env (V_cancel jid) q req = bind (cancel_sync (views_env env) req jid) (return \<circ> reply q \<circ> Answered)"
| "view_body env V_data q req =
     bind (lift_exn (data_snapshot (collation_of env) (isoformat (views_env env)) (credits_of env) req))
       (return \<circ> reply q \<circ> Answered)"
| "view_body env V_profiling q req =
     bind (lift_exn (profiling_metrics (profile_of env) (credits_of env) (payments_of env) req))
       (return \<circ> reply q \<circ> Answered)"
| "view_body env v q req = return (reply q (Page v))"

section \<open>Dispatch\<close>

text \<open>
  DRF's \<open>APIView.dispatch\<close>: content negotiation, authentication and permissions come before the method; the tenant
  permission is the first to use the body.  The first
  authentication class names no challenge, so refusals are 403; other exceptions leave the view (500).
\<close>

definition permission_check :: "http_request \<Rightarrow> permission \<Rightarrow> request \<Rightarrow> gateway_reply prog \<Rightarrow> gateway_reply prog" where
  "permission_check q perm req p =
     (if perm = Allow_any then p
      else if req_user req = None then raise (Exn NotAuthenticated ''Authentication credentials were not provided.'')
      else if perm = Is_authenticated then p
      else with_body q (api_view req p))"

text \<open>\<open>http_method_names\<close>: the method of the view and \<open>OPTIONS\<close>, which answers the metadata.\<close>

definition by_method :: "http_request \<Rightarrow> string \<Rightarrow> gateway_reply prog \<Rightarrow> gateway_reply prog" where
  "by_method q meth p =
     (if req_method q = meth then p
      else return (reply q (Bare (if req_method q = ''OPTIONS'' then 200 else 405))))"

definition refusals :: "http_request \<Rightarrow> gateway_reply prog \<Rightarrow> gateway_reply prog" where
  "refusals q p = try_except p (\<lambda>e. case e of Exn kind msg \<Rightarrow>
     if kind \<in> {NotAuthenticated, PermissionDenied} then return (reply q (Bare 403)) else raise (Exn kind msg))"

definition dispatch_view :: "'k::linorder gateway_env \<Rightarrow> gateway_view \<Rightarrow> http_request \<Rightarrow> gateway_reply prog" where
  "dispatch_view env v q =
     (case view_policy v of
        None \<Rightarrow> return (reply q (Page v))
      | Some (meth, perm) \<Rightarrow>
          (case negotiate env q of
             Some st \<Rightarrow> return (reply q (Bare st))
           | None \<Rightarrow>
          (case authenticated env q of
             Inl e \<Rightarrow> return (reply q (Bare 403))
           | Inr user \<Rightarrow>
               refusals q (permission_check q perm (drf_request q user)
                 (by_method q meth (view_body env v q (drf_request q user)))))))"

text \<open>
  \<open>CommonMiddleware\<close> with \<open>APPEND_SLASH\<close>: a path that only resolves with a slash at its end is
  redirected; in debug mode a request with a body fails instead.
\<close>

definition gateway :: "'k::linorder gateway_env \<Rightarrow> http_request \<Rightarrow> gateway_reply prog" where
  "gateway env q =
     (case resolve_list urlpatterns (req_path q) of
        Some v \<Rightarrow> dispatch_view env v q
      | None \<Rightarrow>
          if \<not> suffix ''/'' (req_path q) \<and> resolve_list urlpatterns (req_path q @ ''/'') \<noteq> None then
            (if DEBUG env \<and> req_method q \<in> {''DELETE'', ''POST'', ''PUT'', ''PATCH''}
             then raise (Exn RuntimeError ''the URL does not end in a slash and APPEND_SLASH is set'')
             else return (reply q (Redirected (req_path q @ ''/''))))
          else return (reply q (Bare 404)))"

section \<open>The canonical URL of a view\<close>

fun url_of :: "gateway_view \<Rightarrow> string" where
  "url_of V_health = ''api/health/''"
| "url_of V_login = ''api/auth/login''"
| "url_of V_logout = ''api/auth/logout''"
| "url_of V_session = ''api/auth/session''"
| "url_of V_sync = ''api/sync''"
| "url_of V_active = ''api/sync/active''"
| "url_of (V_status jid) = ''api/sync/status/'' @ jid"
| "url_of (V_cancel jid) = ''api/sync/cancel/'' @ jid"
| "url_of V_data = ''api/data''"
| "url_of V_profiling = ''api/profiling''"
| "url_of V_login_page = ''login/''"
| "url_of V_dashboard = ''dashboard/''"
| "url_of (V_admin rest) = ''admin/'' @ rest"

fun arg_ok :: "gateway_view \<Rightarrow> bool" where
  "arg_ok (V_status jid) = plain_segment jid"
| "arg_ok (V_cancel jid) = plain_segment jid"
| "arg_ok _ = True"

lemma etl_resolved:
  "resolve_list etl_urlpatterns s =
     (if s = ''sync'' then Some V_sync
      else if s = ''sync/active'' then Some V_active
      else if prefix ''sync/status/'' s \<and> plain_segment (drop 12 s) then Some (V_status (drop 12 s))
      else if prefix ''sync/cancel/'' s \<and> plain_segment (drop 12 s) then Some (V_cancel (drop 12 s))
      else if s = ''data'' then Some V_data
      else if s = ''profiling'' then Some V_profiling
      else None)"
proof -
  have len: "length ''sync/status/'' = 12" "length ''sync/cancel/'' = 12" by simp_all
  show ?thesis
    unfolding etl_urlpatterns_def resolve_list.simps resolve_text resolve_text_arg len by simp
qed

lemma core_resolved:
  "resolve_list core_urlpatterns s =
     (if s = ''health/'' then Some V_health
      else if s = ''auth/login'' then Some V_login
      else if s = ''auth/logout'' then Some V_logout
      else if s = ''auth/session'' then Some V_session
      else resolve_list etl_urlpatterns s)"
  unfolding core_urlpatterns_def resolve_list.simps resolve_text
  by (simp split: option.split)

lemma site_resolved:
  "resolve_list urlpatterns s =
     (if prefix ''admin/'' s then Some (V_admin (drop 6 s))
      else if prefix ''api/'' s \<and> resolve_list core_urlpatterns (drop 4 s) \<noteq> None then resolve_list core_urlpatterns (drop 4 s)
      else if s = '''' \<or> s = ''login/'' then Some V_login_page
      else if s = ''dashboard/'' then Some V_dashboard
      else None)"
proof -
  have len: "length ''admin/'' = 6" "length ''api/'' = 4" by simp_all
  show ?thesis
    unfolding urlpatterns_def resolve_list.simps resolve.simps(2,3) resolve_text resolve_empty len
    by (simp split: option.split)
qed

text \<open>The API paths and their views.\<close>

lemma etl_routes:
  "resolve_list etl_urlpatterns s = Some v \<longleftrightarrow>
     map_option snd (view_policy v) = Some Tenant_scoped \<and>
     arg_ok v \<and> ''api/'' @ s = url_of v"
proof
  assume "resolve_list etl_urlpatterns s = Some v"
  then show "map_option snd (view_policy v) = Some Tenant_scoped \<and>
      arg_ok v \<and> ''api/'' @ s = url_of v"
    unfolding etl_resolved by (auto split: if_splits elim!: prefixE)
next
  assume "map_option snd (view_policy v) = Some Tenant_scoped \<and>
      arg_ok v \<and> ''api/'' @ s = url_of v"
  then show "resolve_list etl_urlpatterns s = Some v"
    by (cases v) (simp_all add: etl_resolved)
qed

lemma core_routes:
  "resolve_list core_urlpatterns s = Some v \<longleftrightarrow> view_policy v \<noteq> None \<and> arg_ok v \<and> ''api/'' @ s = url_of v"
proof -
  have "resolve_list core_urlpatterns s = Some v \<longleftrightarrow>
      s = ''health/'' \<and> v = V_health \<or> s = ''auth/login'' \<and> v = V_login \<or>
      s = ''auth/logout'' \<and> v = V_logout \<or> s = ''auth/session'' \<and> v = V_session \<or>
      resolve_list etl_urlpatterns s = Some v"
    by (auto simp: core_resolved etl_resolved)
  then show ?thesis
    unfolding etl_routes by (cases v) auto
qed

lemma site_routes:
  "resolve_list urlpatterns s = Some v \<longleftrightarrow> arg_ok v \<and> s = url_of v \<or> s = '''' \<and> v = V_login_page"
proof -
  have api: "prefix ''api/'' s \<and> resolve_list core_urlpatterns (drop 4 s) = Some v \<longleftrightarrow>
      view_policy v \<noteq> None \<and> arg_ok v \<and> s = url_of v" for v
  proof
    assume "prefix ''api/'' s \<and> resolve_list core_urlpatterns (drop 4 s) = Some v"
    then show "view_policy v \<noteq> None \<and> arg_ok v \<and> s = url_of v"
      unfolding core_routes by (auto elim!: prefixE)
  next
    assume "view_policy v \<noteq> None \<and> arg_ok v \<and> s = url_of v"
    then show "prefix ''api/'' s \<and> resolve_list core_urlpatterns (drop 4 s) = Some v"
      unfolding core_routes by (cases v) simp_all
  qed
  have "resolve_list urlpatterns s = Some v \<longleftrightarrow>
      prefix ''admin/'' s \<and> v = V_admin (drop 6 s) \<or>
      prefix ''api/'' s \<and> resolve_list core_urlpatterns (drop 4 s) = Some v \<or>
      (s = '''' \<or> s = ''login/'') \<and> v = V_login_page \<or> s = ''dashboard/'' \<and> v = V_dashboard"
    unfolding site_resolved by (auto elim!: prefixE)
  also have "\<dots> \<longleftrightarrow> arg_ok v \<and> s = url_of v \<or> s = '''' \<and> v = V_login_page"
    unfolding api by (cases v) (auto elim!: prefixE)
  finally show ?thesis .
qed

section \<open>Programs of the gateway\<close>

lemma prog_ok_with_body: "prog_ok P A p \<Longrightarrow> prog_ok P A (with_body q p)"
  by (simp add: with_body_def split: option.split)

lemma ok_login_view: "prog_ok P A (login_view env q)"
  by (auto simp: login_view_def simp del: text_login.simps split: json.split intro!: prog_ok_bind)

context sync_calls
begin

lemma ok_view_body:
  assumes "\<And>jid row. v = V_cancel jid \<Longrightarrow> A jid (Some row) \<Longrightarrow> job_tenant row = tenant_from_request req \<Longrightarrow> own jid"
  shows "prog_ok P A (view_body env v q req)"
  using assms
  by (cases v) (auto simp: sync_status_def split: option.split intro!: prog_ok_bind prog_ok_with_body
      ok_login_view ok_sync_data ok_active_sync ok_with_own_job ok_cancel_sync)

lemma ok_gateway:
  assumes "\<And>u jid row. authenticated env q = Inr (Some u) \<Longrightarrow> A jid (Some row) \<Longrightarrow> job_tenant row = user_tenant u \<Longrightarrow> own jid"
  shows "prog_ok P A (gateway env q)"
proof -
  have view: "prog_ok P A (permission_check q perm (drf_request q user)
      (by_method q meth (view_body env v q (drf_request q user))))"
    if "authenticated env q = Inr user" "view_policy v = Some (meth, perm)" for v meth perm user
  proof (cases user)
    case None
    with that(2) show ?thesis
      by (cases v) (auto simp: permission_check_def by_method_def drf_request_def intro!: prog_ok_with_body ok_login_view)
  next
    case (Some u)
    then have "prog_ok P A (view_body env v q (drf_request q user))"
      using assms that(1) by (intro ok_view_body) (auto simp: drf_request_def tenant_from_request_def)
    then show ?thesis
      by (auto simp: permission_check_def by_method_def intro!: prog_ok_with_body prog_ok_api_view)
  qed
  have "prog_ok P A (dispatch_view env v q)" for v
    unfolding dispatch_view_def refusals_def using view [of _ v]
    by (auto split: option.split sum.split exn.split intro!: prog_ok_try_except)
  then show ?thesis by (auto simp: gateway_def split: option.split)
qed

end

context untouched_job
begin

lemma untouched_by_request:
  assumes "job_row S w jid = Some r" and "held \<longrightarrow> redis_get S w (slice_key r) = Some jid"
    and "redis_get S w (cancel_flag_key jid) = flag"
    and "\<And>u. authenticated env q = Inr (Some u) \<Longrightarrow> user_tenant u \<noteq> job_tenant r"
  shows "let w' = snd (run S (gateway env q) w) in
    job_row S w' jid = Some r \<and> redis_get S w' (cancel_flag_key jid) = flag \<and>
    (held \<longrightarrow> redis_get S w' (slice_key r) = Some jid)"
proof -
  have id: "job_id r = jid" using assms(1) by (rule row_key)
  have "holds w"
    unfolding holds_def untouched_inv_def using assms(1-3) id by (blast intro: row_key)
  moreover have "prog_ok (untouched_call r) (untouched_read r) (gateway env q)"
    by (rule ok_gateway) (use assms(4) in \<open>auto simp: untouched_read_def\<close>)
  ultimately have "holds (snd (run S (gateway env q) w))" by (rule run_keeps [rotated])
  then show ?thesis by (simp add: holds_def untouched_inv_def id Let_def)
qed

end

section \<open>Requests that reach their view\<close>

lemma routed: "arg_ok v \<Longrightarrow> req_path q = url_of v \<Longrightarrow> gateway env q = dispatch_view env v q"
  using site_routes [of "req_path q" v] by (simp add: gateway_def)

text \<open>
  An entitled request to a tenant view gets the answer and the effects of the view and nothing else.
\<close>

lemma gateway_serves:
  assumes "view_policy v = Some (req_method q, Tenant_scoped)" and "arg_ok v" and "req_path q = url_of v"
    and "negotiate env q = None" and "body_failure q = None"
    and "authenticated env q = Inr (Some u)" and "has_permission (drf_request q (Some u)) = Inr True"
    and "run S (view_body env v q (drf_request q (Some u))) w = (Inr answer, w')"
  shows "run S (gateway env q) w = (Inr answer, w')"
proof -
  have "req_user (drf_request q (Some u)) = Some u" by (simp add: drf_request_def)
  then show ?thesis
    using assms by (simp add: routed dispatch_view_def refusals_def permission_check_def with_body_def api_view_def by_method_def
        lift_exn_def exec_simps)
qed

text \<open>What the gateway may say to a request without an identity.\<close>

fun public_answer :: "gateway_answer \<Rightarrow> bool" where
  "public_answer (Answered _) = False"
| "public_answer (Session_answer _) = False"
| "public_answer (Logged_out _) = False"
| "public_answer (Login_answer (Login_ok _ _ _ _)) = False"
| "public_answer _ = True"

text \<open>A login the body of the request has earned, and the session it leaves.\<close>

definition granted_login :: "'k gateway_env \<Rightarrow> http_request \<Rightarrow> gateway_reply \<Rightarrow> bool" where
  "granted_login env q rep \<longleftrightarrow>
     (\<exists>kvs user password tenant expires token account.
        req_path q = url_of V_login \<and> req_method q = ''POST'' \<and> http_data q = JObj kvs \<and>
        login_field kvs ''username'' = JStr user \<and> login_field kvs ''password'' = JStr password \<and>
        login_field kvs ''tenant_id'' = JStr tenant \<and>
        auth_check (auth_of env) user password = Some account \<and> (account, tenant) \<in> set (profiles (auth_of env)) \<and>
        fst rep = Login_answer (Login_ok tenant user expires token) \<and>
        operator (snd rep) = Some [''username'' \<mapsto> user, ''tenant_id'' \<mapsto> tenant])"

lemma json_textD: "json_text v = Some s \<Longrightarrow> v = JStr s"
  by (cases v) simp_all

section \<open>Anonymous requests and logins\<close>

lemma run_login_view:
  assumes "text_login (http_data q)" and "run S (login_view env q) w = (Inr rep, w')"
  obtains kvs answer s' where "http_data q = JObj kvs" "rep = (Login_answer answer, s')" "w' = w"
    "login (auth_of env) (login_claims kvs) (fst (login_times env)) (snd (login_times env)) (http_session q) = (answer, s')"
  using assms by (auto simp: login_view_def run_bind lift_exn_def simp del: text_login.simps
      split: json.splits prod.splits)

lemma login_earned:
  assumes "req_path q = url_of V_login" and "req_method q = ''POST''" and "http_data q = JObj kvs"
    and "login (auth_of env) (login_claims kvs) t1 t2 (http_session q) = (answer, s')"
  shows "public_answer (Login_answer answer) \<and> s' = http_session q \<or> granted_login env q (Login_answer answer, s')"
proof (cases answer)
  case (Login_error c m)
  with assms(4) login_refused show ?thesis by fastforce
next
  case (Login_ok tenant user expires token)
  from assms(4) [unfolded Login_ok] show ?thesis
  proof (rule login_granted)
    fix password account
    assume "login_claims kvs ''username'' = Some user" "login_claims kvs ''password'' = Some password"
      "login_claims kvs ''tenant_id'' = Some tenant"
    then have "login_field kvs ''username'' = JStr user" "login_field kvs ''password'' = JStr password"
      "login_field kvs ''tenant_id'' = JStr tenant" by (simp_all add: login_claims_def json_textD)
    moreover assume "auth_check (auth_of env) user password = Some account"
      "(account, tenant) \<in> set (profiles (auth_of env))"
      "s' = http_session q\<lparr>operator := Some [''username'' \<mapsto> user, ''tenant_id'' \<mapsto> tenant],
         session_expiry := Some (JWT_EXPIRY_HOURS (auth_of env) * 3600)\<rparr>"
    ultimately show ?thesis
      using assms(1-3) unfolding granted_login_def Login_ok by (intro disjI2) auto
  qed
qed

lemma login_answered:
  assumes "req_path q = url_of V_login" and "text_login (http_data q)"
    and "run S (gateway env q) w = (Inr (Login_answer (Login_ok tenant user expires token), s'), w')"
  obtains kvs where "req_method q = ''POST''"
    "login (auth_of env) (login_claims kvs) (fst (login_times env)) (snd (login_times env)) (http_session q) =
       (Login_ok tenant user expires token, s')"
proof -
  have "gateway env q = dispatch_view env V_login q" by (rule routed) (simp_all add: assms(1))
  with assms(3) obtain user' where view: "run S (refusals q (by_method q ''POST'' (view_body env V_login q (drf_request q user')))) w =
      (Inr (Login_answer (Login_ok tenant user expires token), s'), w')"
    by (auto simp: dispatch_view_def permission_check_def reply_def split: option.splits sum.splits)
  have post: "req_method q = ''POST''"
    using view by (auto simp: refusals_def by_method_def reply_def run_try_except split: if_splits)
  with view have "run S (login_view env q) w = (Inr (Login_answer (Login_ok tenant user expires token), s'), w')"
    by (auto simp: refusals_def by_method_def reply_def run_try_except with_body_def
        split: option.splits sum.splits exn.splits prod.splits if_splits)
  from run_login_view [OF assms(2) this] that [OF post] show thesis by auto
qed

lemma anonymous_dispatch:
  assumes "\<And>u. authenticated env q \<noteq> Inr (Some u)" and "arg_ok v" and "req_path q = url_of v \<or> v = V_login_page"
    and "v = V_login \<Longrightarrow> text_login (http_data q)"
  shows "case run S (dispatch_view env v q) w of (res, w') \<Rightarrow> w' = w \<and>
    (case res of Inl e \<Rightarrow> True
     | Inr (answer, s') \<Rightarrow> public_answer answer \<and> s' = http_session q \<or> granted_login env q (answer, s'))"
proof (cases "v = V_login")
  case True
  have view: "case run S (by_method q ''POST'' (view_body env V_login q req)) w of (res, w') \<Rightarrow> w' = w \<and>
    (case res of Inl e \<Rightarrow> True
     | Inr (answer, s') \<Rightarrow> public_answer answer \<and> s' = http_session q \<or> granted_login env q (answer, s'))" for req
  proof (cases "req_method q = ''POST'' \<and> body_failure q = None")
    case post: True
    show ?thesis
    proof (cases "fst (run S (login_view env q) w)")
      case (Inl e)
      have "snd (run S (login_view env q) w) = w"
        by (simp add: login_view_def run_bind lift_exn_def split: json.split sum.split prod.split)
      with Inl post show ?thesis by (simp add: by_method_def with_body_def case_prod_beta)
    next
      case (Inr rep)
      then have "run S (login_view env q) w = (Inr rep, snd (run S (login_view env q) w))"
        by (metis prod.collapse)
      from run_login_view [OF assms(4) [OF True] this] obtain kvs answer s' where
        l: "http_data q = JObj kvs" "rep = (Login_answer answer, s')" "snd (run S (login_view env q) w) = w"
        "login (auth_of env) (login_claims kvs) (fst (login_times env)) (snd (login_times env)) (http_session q) = (answer, s')"
        by blast
      with login_earned [of q kvs env _ _ answer s'] assms(3) True post Inr show ?thesis
        by (auto simp: by_method_def with_body_def case_prod_beta)
    qed
  qed (auto simp: by_method_def with_body_def reply_def)
  then show ?thesis
    using True by (auto simp: dispatch_view_def permission_check_def refusals_def run_try_except reply_def case_prod_beta
        split: option.split sum.split exn.split)
next
  case False
  consider e where "authenticated env q = Inl e" | "authenticated env q = Inr None"
    using assms(1) by (cases "authenticated env q") (metis option.exhaust)+
  then show ?thesis
  proof cases
    case 1
    then show ?thesis by (simp add: dispatch_view_def reply_def split: option.split)
  next
    case 2
    with False show ?thesis
      by (cases v) (auto simp: dispatch_view_def refusals_def permission_check_def by_method_def reply_def
          drf_request_def run_try_except split: option.split)
  qed
qed

section \<open>A concrete gateway\<close>

definition demo_gateway :: "nat list gateway_env" where
  "demo_gateway = \<lparr>DEBUG = True, negotiate = (\<lambda>_. None), views_env = demo_view_env, auth_of = demo_auth,
     login_times = (0, 0), json_login = (\<lambda>_ s. Inr (Login_error 401 ''Invalid credentials'', s)),
     token_decode = demo_decode, collation_of = collation_key demo_profile_env,
     profile_of = demo_profile_env, credits_of = [], payments_of = []\<rparr>"

definition demo_http :: "string \<Rightarrow> string \<Rightarrow> string option \<Rightarrow> http_request" where
  "demo_http meth url tenant =
     \<lparr>req_method = meth, req_path = url,
      http_session = \<lparr>operator = map_option (\<lambda>t. [''username'' \<mapsto> ''operator'', ''tenant_id'' \<mapsto> t]) tenant, session_expiry = None\<rparr>,
      csrf_failure = None, authorization = '''', http_query = Map.empty, http_data = JObj [], body_failure = None,
      http_hx = False\<rparr>"

lemma demo_authenticated [simp]:
  "authenticated demo_gateway (demo_http meth url None) = Inr None"
  "t \<noteq> '''' \<Longrightarrow> authenticated demo_gateway (demo_http meth url (Some t)) =
     Inr (Some \<lparr>username = ''operator'', user_tenant = t\<rparr>)"
  by (simp_all add: authenticated_def demo_http_def authenticate_request_def session_authenticate_def
      bearer_authenticate_def claim_missing_def)

section \<open>Properties\<close>

text \<open>
  Property C37. The URLs are unambiguous: a path reaches a view exactly when it is the canonical URL of that view
  (with a job id that is one non-empty path segment), or the empty path, which is the login page.  No
  route hides another.
\<close>

theorem routes_exact:
  "resolve_list urlpatterns s = Some v \<longleftrightarrow> arg_ok v \<and> s = url_of v \<or> s = '''' \<and> v = V_login_page"
  by (rule site_routes)



text \<open>
  Property C4. Tenants are isolated at the door: no request, whatever its URL, method, headers and body, changes
  the row or the cancel flag of a stored job, running or ended, of another tenant than the one its credentials
  name; and a job that holds the lock of its slice keeps it.
\<close>

theorem gateway_isolates_tenants:
  assumes "services S" and "job_row S w jid = Some r"
    and "\<And>u. authenticated env q = Inr (Some u) \<Longrightarrow> user_tenant u \<noteq> job_tenant r"
  shows "let w' = snd (run S (gateway env q) w) in
    job_row S w' jid = Some r \<and> redis_get S w' (cancel_flag_key jid) = redis_get S w (cancel_flag_key jid) \<and>
    (redis_get S w (slice_key r) = Some jid \<longrightarrow> redis_get S w' (slice_key r) = Some jid)"
  by (rule untouched_job.untouched_by_request [OF untouched_job.intro [OF assms(1)] assms(2) _ refl])
    (simp_all add: assms(3))

lemma gateway_isolates_tenants_witness:
  "job_row demo_services (snd (run demo_services
      (gateway demo_gateway (demo_http ''POST'' ''api/sync/cancel/job_7'' (Some ''BANK002''))) (demo_busy PROCESSING))) ''job_7'' =
    Some (demo_job PROCESSING)"
  using gateway_isolates_tenants [OF demo.services_axioms, of "demo_busy PROCESSING" "''job_7''" "demo_job PROCESSING"
      demo_gateway "demo_http ''POST'' ''api/sync/cancel/job_7'' (Some ''BANK002'')"]
  by (auto simp: demo_busy_redis Let_def)

text \<open>
  Property C20. From the login to the running sync: whoever the login endpoint lets in as the operator of a tenant can, with the
  session it leaves and a passed CSRF check, start the sync of a free slice (or one whose lock names a job without a
  row) of exactly this tenant.  The request whose body the serializer accepts and whose parameters name no other
  tenant is answered with the new QUEUED job of the tenant, which is stored with its lock and its task, and nothing
  else is changed.
\<close>

theorem login_then_sync:
  assumes "services S"
    and "req_path q0 = url_of V_login" and "text_login (http_data q0)"
    and "run S0 (gateway env0 q0) w0 = (Inr (Login_answer (Login_ok t user expires token), s'), w1)"
    and "req_method q = ''POST''" and "req_path q = url_of V_sync" and "http_session q = s'" and "csrf_failure q = None"
    and "negotiate env q = None" and "body_failure q = None"
    and "sync_request_serializer (views_env env) (http_data q) = Inr choice"
    and "\<And>v. data_get (http_data q) ''tenant_id'' = Inr v \<Longrightarrow> \<not> foreign_tenant t v"
    and "\<not> foreign_tenant t (json_opt JStr (http_query q ''tenant_id''))"
    and "job_row S w (next_job_id S w) = None"
    and "\<And>v. snd (celery_delay S v (next_job_id S w) t (py_upper choice)) \<noteq> None"
    and "redis_get S w (lock_key t (py_upper choice)) \<noteq> Some ''''"
    and "pred_option (\<lambda>old. job_row S w old = None) (redis_get S w (lock_key t (py_upper choice)))"
  shows "\<exists>resp w'. run S (gateway env q) w = (Inr (Answered resp, s'), w') \<and>
     start_effect S (views_env env) (drf_request q (Some \<lparr>username = user, user_tenant = t\<rparr>)) (next_job_id S w)
       t (py_upper choice) w (Inr resp, w')"
proof -
  let ?u = "\<lparr>username = user, user_tenant = t\<rparr>"
  let ?req = "drf_request q (Some ?u)"
  from assms(2-4) obtain kvs where "login (auth_of env0) (login_claims kvs) (fst (login_times env0))
      (snd (login_times env0)) (http_session q0) = (Login_ok t user expires token, s')"
    by (rule login_answered)
  then have t: "t \<noteq> ''''" and auth: "authenticated env q = Inr (Some ?u)"
    using assms(7,8) by (auto elim!: login_granted simp: authenticated_def authenticate_request_def session_authenticate_def
      claim_missing_def)
  obtain kvs where body: "http_data q = JObj kvs"
    using assms(11) by (auto simp: sync_request_serializer_def split: json.splits)
  have own: "\<not> foreign_tenant t (dict_get kvs ''tenant_id'' JNull)"
    using assms(12) body by (simp add: data_get_def)
  have admitted: "has_permission ?req = Inr True"
    using t own assms(13) body
    by (simp add: has_permission_def drf_request_def query_json_def data_get_def foreign_tenant_def)
  have slice: "slice_requested (views_env env) ?req t (py_upper choice)"
    using own assms(11,13) body
    by (simp add: slice_requested_def forbidden_if_tenant_mismatch_def tenant_from_request_def drf_request_def
        query_json_def data_get_def)
  have started: "start_effect S (views_env env) ?req (next_job_id S w) t (py_upper choice) w (run S (sync_data (views_env env) ?req) w)"
    by (rule sync_starts_at [OF assms(1) slice assms(14-17)])
  then obtain resp where "fst (run S (sync_data (views_env env) ?req) w) = Inr resp" by (auto simp: start_effect_def)
  then obtain w' where run: "run S (sync_data (views_env env) ?req) w = (Inr resp, w')" by (metis prod.collapse)
  have "run S (gateway env q) w = (Inr (reply q (Answered resp)), w')"
    by (rule gateway_serves [where v = V_sync, OF _ _ assms(6,9,10) auth admitted]) (simp_all add: assms(5) run run_bind)
  with started run show ?thesis by (auto simp: reply_def assms(7))
qed

lemma login_then_sync_witness:
  "\<exists>resp w'. run demo_services (gateway demo_gateway
       ((demo_http ''POST'' ''api/sync'' None)\<lparr>http_session := \<lparr>operator = Some [''username'' \<mapsto> ''operator_admin'', ''tenant_id'' \<mapsto> ''BANK001''],
          session_expiry = Some 28800\<rparr>, http_data := JObj [(''loan_type'', JStr ''RETAIL'')]\<rparr>)) demo_empty =
     (Inr (Answered resp, \<lparr>operator = Some [''username'' \<mapsto> ''operator_admin'', ''tenant_id'' \<mapsto> ''BANK001''],
          session_expiry = Some 28800\<rparr>), w') \<and>
     redis_get demo_services w' (lock_key ''BANK001'' ''RETAIL'') = Some ''job_0''"
proof -
  let ?s = "\<lparr>operator = Some [''username'' \<mapsto> ''operator_admin'', ''tenant_id'' \<mapsto> ''BANK001''], session_expiry = Some 28800\<rparr>"
  let ?login = "(demo_http ''POST'' ''api/auth/login'' None)\<lparr>http_data := JObj [(''username'', JStr ''operator_admin''),
      (''password'', JStr ''secret''), (''tenant_id'', JStr ''BANK001'')]\<rparr>"
  let ?sync = "(demo_http ''POST'' ''api/sync'' None)\<lparr>http_session := ?s, http_data := JObj [(''loan_type'', JStr ''RETAIL'')]\<rparr>"
  have "authenticated demo_gateway ?login = Inr None"
    by (simp add: authenticated_def demo_http_def authenticate_request_def session_authenticate_def bearer_authenticate_def)
  moreover have "gateway demo_gateway ?login = dispatch_view demo_gateway V_login ?login"
    by (rule routed) (simp_all add: demo_http_def)
  ultimately obtain expires token where login: "run demo_services (gateway demo_gateway ?login) demo_empty =
      (Inr (Login_answer (Login_ok ''BANK001'' ''operator_admin'' expires token), ?s), demo_empty)"
    by (simp add: dispatch_view_def demo_gateway_def demo_http_def refusals_def permission_check_def by_method_def
        with_body_def login_view_def login_claims_def login_field_def dict_get_def lift_exn_def exec_simps
        login_def issue_token_def demo_auth_def Let_def)
  have empty: "job_row demo_services demo_empty = Map.empty" "redis_get demo_services demo_empty = Map.empty"
    by (simp_all add: demo_empty_def demo_services_def fun_eq_iff)
  have "\<exists>resp w'. run demo_services (gateway demo_gateway ?sync) demo_empty = (Inr (Answered resp, ?s), w') \<and>
     start_effect demo_services (views_env demo_gateway)
       (drf_request ?sync (Some \<lparr>username = ''operator_admin'', user_tenant = ''BANK001''\<rparr>)) (next_job_id demo_services demo_empty)
       ''BANK001'' (py_upper ''RETAIL'') demo_empty (Inr resp, w')"
    by (rule login_then_sync [OF demo.services_axioms _ _ login])
      (simp_all add: demo_http_def demo_gateway_def login_field_def dict_get_def data_get_def foreign_tenant_def
        sync_request_serializer_def demo_view_env_def LOAN_TYPES_def empty)
  then show ?thesis
    by (auto simp: start_effect_def lock_key_def celery_task_key_def py_upper_def upper_char_def less_eq_char_def)
qed

end
