(* ===== verification/BankSite.thy ===== *)
theory BankSite
  imports BankStorage Routing
begin

text \<open>
  The external bank as a site: the URLs of \<open>external_bank/bank/urls.py\<close> and what a request gets from the
  views of \<open>external_bank/bank/views.py\<close>.  A page is its template context; the template is not modelled.
\<close>

section \<open>URLs\<close>

datatype bank_view =
    B_portal | B_portfolio_list | B_health | B_upload | B_export file_kind | B_download file_kind

definition bank_urlpatterns :: "bank_view urlpattern list" where
  "bank_urlpatterns =
     [Path [] (\<lambda>_. B_portal),
      Path [Text ''portal/''] (\<lambda>_. B_portal),
      Path [Text ''portal/portfolios''] (\<lambda>_. B_portfolio_list),
      Path [Text ''health/''] (\<lambda>_. B_health),
      Path [Text ''api/bank/upload''] (\<lambda>_. B_upload),
      Path [Text ''api/bank/export/credits''] (\<lambda>_. B_export Credits),
      Path [Text ''api/bank/export/payments''] (\<lambda>_. B_export Payments),
      Path [Text ''api/bank/download/credits''] (\<lambda>_. B_download Credits),
      Path [Text ''api/bank/download/payments''] (\<lambda>_. B_download Payments)]"

section \<open>Requests and answers\<close>

text \<open>
  \<open>bank_refusal\<close> is the status with which DRF refuses a request of an \<open>APIView\<close> before its handler has the data:
  for its credentials, its \<open>Accept\<close> header, its content type or a body that does not parse.
\<close>

record bank_request =
  bank_method :: string
  bank_path :: string
  bank_params :: params
  bank_form :: upload_request
  bank_refusal :: "nat option"

datatype bank_answer =
    Bank_response bank_response
  | Portal_page "string list" "string list" "pydict list"
  | Portfolio_list_page "pydict list"
  | Bank_status nat
  | Bank_redirect string

definition bank_health :: json where
  "bank_health = JObj [(''status'', JStr ''ok''), (''service'', JStr ''external_bank_sim'')]"

definition portal :: "bank \<Rightarrow> bank_answer" where
  "portal b = Portal_page TENANT_IDS BANK_LOAN_TYPES (list_portfolios b)"

definition portfolio_list_partial :: "bank \<Rightarrow> bank_answer" where
  "portfolio_list_partial b = Portfolio_list_page (list_portfolios b)"

text \<open>\<open>export_credits\<close>, \<open>export_payments\<close>, \<open>download_credits\<close>, \<open>download_payments\<close> take any method.\<close>

definition export_view :: "stream_settings \<Rightarrow> file_kind \<Rightarrow> params \<Rightarrow> bank \<Rightarrow> bank_answer" where
  "export_view cfg k p b = Bank_response (export_file cfg k p b)"

definition download_view :: "stream_settings \<Rightarrow> file_kind \<Rightarrow> params \<Rightarrow> bank \<Rightarrow> bank_answer" where
  "download_view cfg k p b = Bank_response (download_file cfg k p b)"

text \<open>\<open>BankUploadView\<close> has a \<open>post\<close> and the metadata of \<open>OPTIONS\<close>.\<close>

definition upload_view :: "(int \<Rightarrow> string) \<Rightarrow> bank_request \<Rightarrow> bank \<Rightarrow> bank_answer \<times> bank" where
  "upload_view isofmt q b =
     (case bank_refusal q of Some st \<Rightarrow> (Bank_status st, b) | None \<Rightarrow>
      (if bank_method q = ''POST'' then apfst Bank_response (upload_post isofmt (bank_form q) b)
       else if bank_method q = ''OPTIONS'' then (Bank_status 200, b)
       else (Bank_status 405, b)))"

fun bank_view_body ::
    "stream_settings \<Rightarrow> (int \<Rightarrow> string) \<Rightarrow> bank_view \<Rightarrow> bank_request \<Rightarrow> bank \<Rightarrow> bank_answer \<times> bank" where
  "bank_view_body cfg isofmt B_portal q b = (portal b, b)"
| "bank_view_body cfg isofmt B_portfolio_list q b = (portfolio_list_partial b, b)"
| "bank_view_body cfg isofmt B_health q b = (Bank_response (Json_response 200 bank_health), b)"
| "bank_view_body cfg isofmt B_upload q b = upload_view isofmt q b"
| "bank_view_body cfg isofmt (B_export k) q b = (export_view cfg k (bank_params q) b, b)"
| "bank_view_body cfg isofmt (B_download k) q b = (download_view cfg k (bank_params q) b, b)"

text \<open>The slash redirect is that of \<open>CommonMiddleware\<close> (outside debug mode).\<close>

definition bank_site ::
    "stream_settings \<Rightarrow> (int \<Rightarrow> string) \<Rightarrow> bank_request \<Rightarrow> bank \<Rightarrow> bank_answer \<times> bank" where
  "bank_site cfg isofmt q b =
     (case resolve_list bank_urlpatterns (bank_path q) of
        Some v \<Rightarrow> bank_view_body cfg isofmt v q b
      | None \<Rightarrow>
          if \<not> suffix ''/'' (bank_path q) \<and> resolve_list bank_urlpatterns (bank_path q @ ''/'') \<noteq> None
          then (Bank_redirect (bank_path q @ ''/''), b)
          else (Bank_status 404, b))"

section \<open>Lemmas\<close>

lemma bank_resolved:
  "resolve_list bank_urlpatterns s =
     (if s = '''' \<or> s = ''portal/'' then Some B_portal
      else if s = ''portal/portfolios'' then Some B_portfolio_list
      else if s = ''health/'' then Some B_health
      else if s = ''api/bank/upload'' then Some B_upload
      else if s = ''api/bank/export/credits'' then Some (B_export Credits)
      else if s = ''api/bank/export/payments'' then Some (B_export Payments)
      else if s = ''api/bank/download/credits'' then Some (B_download Credits)
      else if s = ''api/bank/download/payments'' then Some (B_download Payments)
      else None)"
  unfolding bank_urlpatterns_def resolve_list.simps resolve_text resolve_empty by simp

lemma bank_routes:
  "resolve_list bank_urlpatterns ''api/bank/export/credits'' = Some (B_export Credits)"
  "resolve_list bank_urlpatterns ''api/bank/export/payments'' = Some (B_export Payments)"
  "resolve_list bank_urlpatterns ''api/bank/upload'' = Some B_upload"
  by (simp_all add: bank_resolved)

definition bank_get :: "string \<Rightarrow> params \<Rightarrow> bank_request" where
  "bank_get url p = \<lparr>bank_method = ''GET'', bank_path = url, bank_params = p,
     bank_form = \<lparr>form_tenant_id = None, form_loan_type = None, form_credit_file = None, form_payment_plan_file = None\<rparr>, bank_refusal = None\<rparr>"

lemma bank_get_export:
  "bank_site cfg isofmt (bank_get ''api/bank/export/credits'' p) b = (Bank_response (export_file cfg Credits p b), b)"
  "bank_site cfg isofmt (bank_get ''api/bank/export/payments'' p) b = (Bank_response (export_file cfg Payments p b), b)"
  by (simp_all add: bank_site_def bank_get_def bank_routes export_view_def)

definition bank_post :: "upload_request \<Rightarrow> bank_request" where
  "bank_post r = \<lparr>bank_method = ''POST'', bank_path = ''api/bank/upload'', bank_params = Map.empty, bank_form = r, bank_refusal = None\<rparr>"

lemma bank_post_upload:
  "bank_site cfg isofmt (bank_post r) b = apfst Bank_response (upload_post isofmt r b)"
  by (simp add: bank_site_def bank_post_def bank_routes upload_view_def)

lemma rejected_upload: "upload_serializer r = Inl errs \<Longrightarrow> snd (upload_post isofmt r b) = b"
  by (simp add: upload_post_def)

section \<open>Properties\<close>

text \<open>
  Property C29. Only an accepted upload changes the bank, and only the two files and the row of its own slice:
  after any request whatsoever, a file that is not one of the uploaded slice and the row of every
  other slice are as before, and a request that is not an accepted upload (refused by DRF or by the serializer, or
  no upload at all) changes nothing.
\<close>

theorem bank_changed_by_upload_only:
  "let b' = snd (bank_site cfg isofmt q b) in
   case (if bank_path q = ''api/bank/upload'' \<and> bank_method q = ''POST'' \<and> bank_refusal q = None
         then upload_serializer (bank_form q) else Inl []) of
     Inl _ \<Rightarrow> b' = b
   | Inr (t, l, cf, pf) \<Rightarrow>
       files b' = (files b)(credits_path t l \<mapsto> concat (file_chunks cf), payments_path t l \<mapsto> concat (file_chunks pf)) \<and>
       (uploads b')((t, l) := None) = (uploads b)((t, l) := None) \<and> bank_now b' = bank_now b"
proof (cases "resolve_list bank_urlpatterns (bank_path q) = Some B_upload")
  case True
  then have url: "bank_path q = ''api/bank/upload''"
    by (simp add: bank_resolved split: if_splits)
  show ?thesis
  proof (cases "upload_serializer (bank_form q)")
    case (Inl errs)
    then show ?thesis by (simp add: bank_site_def url bank_routes upload_view_def rejected_upload split: option.split)
  next
    case (Inr v)
    obtain t l cf pf where v: "v = (t, l, cf, pf)" by (cases v) auto
    have "upload_post isofmt (bank_form q) b = (fst (upload_post isofmt (bank_form q) b), snd (upload_post isofmt (bank_form q) b))"
      by simp
    with Inr upload_files [of "bank_form q" t l cf pf isofmt b] show ?thesis
      by (simp add: bank_site_def url bank_routes upload_view_def v kind_path_def split: option.split)
        (simp add: upload_post_def save_upload_files_def write_uploaded_file_def case_prod_beta Let_def)
  qed
next
  case False
  moreover from this have "bank_path q \<noteq> ''api/bank/upload''" using bank_routes(3) by auto
  moreover have body: "snd (bank_view_body cfg isofmt v q b) = b" if "v \<noteq> B_upload" for v
    using that by (cases v) simp_all
  moreover have "snd (bank_site cfg isofmt q b) = b"
  proof (cases "resolve_list bank_urlpatterns (bank_path q)")
    case None
    then show ?thesis by (simp add: bank_site_def)
  next
    case (Some v)
    with False body [of v] show ?thesis by (simp add: bank_site_def)
  qed
  ultimately show ?thesis by simp
qed

end
