(* ===== verification/WriterInvariant.thy ===== *)
theory WriterInvariant
  imports SnapshotWriter
begin

text \<open>
  What the writer of \<open>SnapshotWriter\<close> does to the warehouse: the tables as maps, the effect of a statement
  on a slice, and the invariant that relates the state of the writer to the credits and payments
  pushed so far.
\<close>

section \<open>The tables as maps\<close>

text \<open>The key of a credit (its unique columns) and the table as a map from keys to rows.\<close>

definition credit_key :: "credit_record \<Rightarrow> string \<times> string \<times> string" where
  "credit_key c = (credit_tenant c, credit_loan_type c, loan_account_number c)"

definition row_map :: "credit_record list \<Rightarrow> string \<times> string \<times> string \<rightharpoonup> credit_record" where
  "row_map table = map_of (map (\<lambda>c. (credit_key c, c)) table)"

text \<open>The constraints of the schema: unique keys, unique primary keys below the sequence.\<close>

definition db_ok :: "database \<Rightarrow> bool" where
  "db_ok db \<longleftrightarrow> distinct (map credit_key (credit_table db)) \<and> distinct (map credit_pk (credit_table db)) \<and>
     list_all (\<lambda>c. credit_pk c < credit_seq db) (credit_table db)"

text \<open>A slice by account: its rows without key and time stamp, and the keys.\<close>

definition plain_row :: "credit_record \<Rightarrow> credit_record" where
  "plain_row c = c\<lparr>credit_pk := 0, snapshot_at := 0\<rparr>"

definition slice_view :: "string \<Rightarrow> string \<Rightarrow> database \<Rightarrow> string \<rightharpoonup> credit_record" where
  "slice_view t l db a = map_option plain_row (row_map (credit_table db) (t, l, a))"

definition slice_ids :: "string \<Rightarrow> string \<Rightarrow> database \<Rightarrow> string \<rightharpoonup> int" where
  "slice_ids t l db a = map_option credit_pk (row_map (credit_table db) (t, l, a))"

definition other_rows :: "string \<Rightarrow> string \<Rightarrow> database \<Rightarrow> credit_record list" where
  "other_rows t l db = filter (\<lambda>c. \<not> in_slice t l c) (credit_table db)"

lemma same_key_iff: "same_key r c \<longleftrightarrow> credit_key c = credit_key r"
  by (auto simp: same_key_def credit_key_def)

lemma find_same_key: "List.find (same_key r) table = row_map table (credit_key r)"
  by (induction table) (auto simp: row_map_def same_key_iff)

lemma row_map_simps [simp]:
  "row_map [] = Map.empty" "row_map (c # table) = (row_map table)(credit_key c \<mapsto> c)"
  by (simp_all add: row_map_def)

lemma row_map_None: "row_map table k = None \<longleftrightarrow> k \<notin> credit_key ` set table"
  by (induction table) auto

lemma list_ex_same_key: "list_ex (same_key r) table \<longleftrightarrow> row_map table (credit_key r) \<noteq> None"
  by (induction table) (auto simp: same_key_iff)

lemma row_map_replace:
  assumes "credit_key row = k"
  shows "row_map (map (\<lambda>c. if credit_key c = k then row else c) table) =
    (if k \<in> credit_key ` set table then (row_map table)(k \<mapsto> row) else row_map table)"
  using assms by (induction table) (auto simp: fun_upd_twist)

lemma row_map_append:
  "credit_key row \<notin> credit_key ` set table \<Longrightarrow> row_map (table @ [row]) = (row_map table)(credit_key row \<mapsto> row)"
  by (induction table) (auto simp: fun_upd_twist)

lemma row_map_key: "row_map table k = Some c \<Longrightarrow> credit_key c = k \<and> c \<in> set table"
  by (auto simp: row_map_def dest!: map_of_SomeD)

lemma row_map_distinct:
  "distinct (map credit_key table) \<Longrightarrow> c \<in> set table \<Longrightarrow> row_map table (credit_key c) = Some c"
  by (induction table) (auto simp: image_iff)

text \<open>An upsert of a new key, and of an existing one.\<close>

lemma upsert_new:
  "row_map (credit_table db) (credit_key r) = None \<Longrightarrow>
   upsert_one r db =
     (db\<lparr>credit_table := credit_table db @ [r\<lparr>credit_pk := credit_seq db\<rparr>], credit_seq := credit_seq db + 1\<rparr>,
      credit_seq db)"
  by (simp add: upsert_one_def Let_def find_same_key list_ex_same_key)

lemma upsert_old:
  "row_map (credit_table db) (credit_key r) = Some c \<Longrightarrow>
   upsert_one r db =
     (db\<lparr>credit_table := map (\<lambda>x. if credit_key x = credit_key r then r\<lparr>credit_pk := credit_pk c\<rparr> else x) (credit_table db),
         credit_seq := credit_seq db + 1\<rparr>, credit_pk c)"
  by (simp add: upsert_one_def Let_def find_same_key list_ex_same_key same_key_iff cong: if_cong)

lemma key_of_pk [simp]: "credit_key (r\<lparr>credit_pk := i\<rparr>) = credit_key r"
  "in_slice t l (r\<lparr>credit_pk := i\<rparr>) = in_slice t l r"
  by (simp_all add: credit_key_def in_slice_def)

lemma in_slice_key: "credit_key c = credit_key r \<Longrightarrow> in_slice t l c = in_slice t l r"
  by (auto simp: credit_key_def in_slice_def)

lemma filter_map_outside:
  "(\<And>x. x \<in> set xs \<Longrightarrow> f x \<noteq> x \<Longrightarrow> \<not> P x \<and> \<not> P (f x)) \<Longrightarrow> filter P (map f xs) = filter P xs"
proof (induction xs)
  case (Cons x xs)
  have "filter P (map f xs) = filter P xs" by (rule Cons.IH) (use Cons.prems in auto)
  with Cons.prems [of x] show ?case by (cases "f x = x") auto
qed simp

lemma upsert_one_facts:
  assumes ok: "db_ok db" and u: "upsert_one r db = (db', pk)"
  shows "row_map (credit_table db') = (row_map (credit_table db))(credit_key r \<mapsto> r\<lparr>credit_pk := pk\<rparr>) \<and>
    db_ok db' \<and> payment_table db' = payment_table db \<and>
    (in_slice t l r \<longrightarrow> other_rows t l db' = other_rows t l db) \<and>
    set (map credit_pk (credit_table db)) \<subseteq> set (map credit_pk (credit_table db')) \<and>
    (\<forall>c. row_map (credit_table db) (credit_key r) = Some c \<longrightarrow> pk = credit_pk c)"
proof (cases "row_map (credit_table db) (credit_key r)")
  case None
  with u have d: "db' = db\<lparr>credit_table := credit_table db @ [r\<lparr>credit_pk := credit_seq db\<rparr>],
      credit_seq := credit_seq db + 1\<rparr>" and pk: "pk = credit_seq db"
    by (auto simp: upsert_new)
  have "db_ok db'"
    using ok None by (force simp: db_ok_def d row_map_None list_all_iff)
  then show ?thesis
    using None row_map_None [of "credit_table db" "credit_key r"]
    by (auto simp: d pk row_map_append None other_rows_def)
next
  case (Some c)
  let ?f = "\<lambda>x. if credit_key x = credit_key r then r\<lparr>credit_pk := credit_pk c\<rparr> else x"
  from Some u have d: "db' = db\<lparr>credit_table := map ?f (credit_table db), credit_seq := credit_seq db + 1\<rparr>"
    and pk: "pk = credit_pk c"
    by (auto simp: upsert_old)
  have c: "credit_key c = credit_key r" "c \<in> set (credit_table db)" using row_map_key [OF Some] by simp_all
  have keys: "map credit_key (map ?f (credit_table db)) = map credit_key (credit_table db)"
    by simp
  have "x = c" if "x \<in> set (credit_table db)" "credit_key x = credit_key r" for x
    using row_map_distinct [of "credit_table db" x] ok Some that by (simp add: db_ok_def)
  then have pks: "map credit_pk (map ?f (credit_table db)) = map credit_pk (credit_table db)"
    by auto
  have "db_ok db'"
    using ok c(2) unfolding db_ok_def d
    by (auto simp: keys pks list_all_iff less_imp_le simp del: map_map)
  moreover have "in_slice t l r \<longrightarrow> other_rows t l db' = other_rows t l db"
    unfolding other_rows_def d by (auto intro!: filter_map_outside dest: in_slice_key split: if_splits)
  moreover have "set (map credit_pk (credit_table db)) \<subseteq> set (map credit_pk (credit_table db'))"
  proof -
    have "credit_table db' = map ?f (credit_table db)" by (simp add: d)
    then show ?thesis by (simp only: pks)
  qed
  moreover have "credit_key r \<in> credit_key ` set (credit_table db)" using c by (metis image_eqI)
  ultimately show ?thesis
    by (simp add: d pk row_map_replace Some del: map_map)
qed


text \<open>The effect of a statement on a slice: the rows of the accounts, nothing else.\<close>

lemma upsert_one_slice:
  assumes "db_ok db" and "upsert_one r db = (db', pk)" and "in_slice t l r"
  shows "slice_view t l db' = (slice_view t l db)(loan_account_number r \<mapsto> plain_row r)"
    and "slice_ids t l db' = (slice_ids t l db)(loan_account_number r \<mapsto> pk)"
    and "slice_ids t l db \<subseteq>\<^sub>m slice_ids t l db'"
    and "db_ok db'" and "payment_table db' = payment_table db" and "other_rows t l db' = other_rows t l db"
    and "set (map credit_pk (credit_table db)) \<subseteq> set (map credit_pk (credit_table db'))"
proof -
  note f = upsert_one_facts [OF assms(1,2), of t l]
  have k: "credit_key r = (t, l, loan_account_number r)"
    using assms(3) by (simp add: credit_key_def in_slice_def)
  have rm: "row_map (credit_table db') = (row_map (credit_table db))(credit_key r \<mapsto> r\<lparr>credit_pk := pk\<rparr>)"
    using f by blast
  show "slice_view t l db' = (slice_view t l db)(loan_account_number r \<mapsto> plain_row r)"
    by (auto simp: slice_view_def rm k plain_row_def fun_eq_iff)
  show ids: "slice_ids t l db' = (slice_ids t l db)(loan_account_number r \<mapsto> pk)"
    by (auto simp: slice_ids_def rm k fun_eq_iff)
  show "slice_ids t l db \<subseteq>\<^sub>m slice_ids t l db'"
    using f by (auto simp: ids map_le_def slice_ids_def k)
  show "db_ok db'" "payment_table db' = payment_table db" "other_rows t l db' = other_rows t l db"
    "set (map credit_pk (credit_table db)) \<subseteq> set (map credit_pk (credit_table db'))"
    using f assms(3) by blast+
qed

definition accounts_of :: "credit_record list \<Rightarrow> string list" where
  "accounts_of rs = map loan_account_number rs"

lemma upsert_credits_slice:
  assumes "db_ok db" and "list_all (in_slice t l) rs" and "distinct (accounts_of rs)"
    and "set (accounts_of rs) \<inter> set affected = {}"
  shows "\<exists>db' returned. upsert_credits rs affected db = Inr (db', returned) \<and> db_ok db' \<and>
    payment_table db' = payment_table db \<and> other_rows t l db' = other_rows t l db \<and>
    slice_view t l db' = slice_view t l db ++ map_of (map (\<lambda>r. (loan_account_number r, plain_row r)) rs) \<and>
    learn_ids (slice_ids t l db) returned = slice_ids t l db' \<and>
    slice_ids t l db \<subseteq>\<^sub>m slice_ids t l db' \<and>
    set (map credit_pk (credit_table db)) \<subseteq> set (map credit_pk (credit_table db'))"
  using assms
proof (induction rs arbitrary: affected db)
  case (Cons r rs)
  obtain db1 pk where u: "upsert_one r db = (db1, pk)" by fastforce
  have r: "in_slice t l r" using Cons.prems by simp
  note one = upsert_one_slice [OF Cons.prems(1) u r]
  obtain db' returned where up: "upsert_credits rs (loan_account_number r # affected) db1 = Inr (db', returned)"
    and ih: "db_ok db'" "payment_table db' = payment_table db1" "other_rows t l db' = other_rows t l db1"
      "slice_view t l db' = slice_view t l db1 ++ map_of (map (\<lambda>r. (loan_account_number r, plain_row r)) rs)"
      "learn_ids (slice_ids t l db1) returned = slice_ids t l db'"
      "slice_ids t l db1 \<subseteq>\<^sub>m slice_ids t l db'"
      "set (map credit_pk (credit_table db1)) \<subseteq> set (map credit_pk (credit_table db'))"
    using Cons.IH [of db1 "loan_account_number r # affected"] Cons.prems one(4) by (auto simp: accounts_of_def)
  have "loan_account_number r \<notin> set affected" using Cons.prems by (auto simp: accounts_of_def)
  then have "upsert_credits (r # rs) affected db = Inr (db', (loan_account_number r, pk) # returned)"
    by (simp add: u up)
  moreover have "slice_view t l db' =
      slice_view t l db ++ map_of (map (\<lambda>r. (loan_account_number r, plain_row r)) (r # rs))"
    using Cons.prems(3)
    by (auto simp: ih(4) one(1) fun_eq_iff map_add_def accounts_of_def image_iff split: option.split dest!: map_of_SomeD)
  moreover have "slice_ids t l db \<subseteq>\<^sub>m slice_ids t l db'"
    using map_le_trans [OF one(3) ih(6)] .
  ultimately show ?case
    using ih(1-3,5) one(2,5,6) subset_trans [OF one(7) ih(7)]
    by (intro exI [of _ db'] exI [of _ "(loan_account_number r, pk) # returned"])
      (simp del: upsert_credits.simps map_of.simps)
qed simp

section \<open>Deduplication and chunks\<close>

text \<open>The last credit of every account.\<close>

definition by_account :: "parsed_credit list \<Rightarrow> string \<rightharpoonup> parsed_credit" where
  "by_account cs = map_of (map (\<lambda>c. (pc_account c, c)) cs)"

definition last_credits :: "parsed_credit list \<Rightarrow> string \<rightharpoonup> parsed_credit" where
  "last_credits cs = by_account (rev cs)"

lemma last_credits_append: "last_credits (xs @ ys) = last_credits xs ++ last_credits ys"
  by (simp add: last_credits_def by_account_def)

lemma last_credits_simps [simp]:
  "last_credits [] = Map.empty" "last_credits (xs @ [c]) = (last_credits xs)(pc_account c \<mapsto> c)"
  by (simp_all add: last_credits_def by_account_def)

lemma dom_last_credits: "dom (last_credits cs) = pc_account ` set cs"
  by (simp add: last_credits_def by_account_def dom_map_of_conv_image_fst image_comp comp_def)

definition index_ok :: "parsed_credit list \<Rightarrow> (string \<rightharpoonup> nat) \<Rightarrow> bool" where
  "index_ok deduped index \<longleftrightarrow> distinct (map pc_account deduped) \<and> dom index = pc_account ` set deduped \<and>
     (\<forall>a i. index a = Some i \<longrightarrow> i < length deduped \<and> pc_account (deduped ! i) = a)"

lemma by_account_distinct:
  "distinct (map pc_account cs) \<Longrightarrow> c \<in> set cs \<Longrightarrow> by_account cs (pc_account c) = Some c"
  unfolding by_account_def by (intro map_of_is_SomeI) (auto simp: comp_def)

lemma by_account_update:
  "i < length cs \<Longrightarrow> pc_account (cs ! i) = pc_account c \<Longrightarrow> distinct (map pc_account cs) \<Longrightarrow>
   by_account (cs[i := c]) = (by_account cs)(pc_account c \<mapsto> c)"
proof (induction cs arbitrary: i)
  case (Cons x cs)
  show ?case
  proof (cases i)
    case 0
    with Cons.prems show ?thesis by (simp add: by_account_def fun_eq_iff)
  next
    case (Suc j)
    with Cons.prems have j: "j < length cs" "pc_account (cs ! j) = pc_account c" by simp_all
    then have "pc_account c \<in> pc_account ` set cs" by (metis image_eqI nth_mem)
    then have "pc_account x \<noteq> pc_account c" using Cons.prems(3) by auto
    with Suc Cons.IH [OF j] Cons.prems(3) show ?thesis
      by (auto simp: by_account_def fun_eq_iff)
  qed
qed simp

lemma dedup_credits_ok:
  assumes "index_ok deduped index"
  shows "distinct (map pc_account (dedup_credits deduped index cs)) \<and>
    by_account (dedup_credits deduped index cs) = by_account deduped ++ last_credits cs"
  using assms
proof (induction cs arbitrary: deduped index)
  case (Cons c cs)
  show ?case
  proof (cases "index (pc_account c)")
    case None
    then have new: "pc_account c \<notin> pc_account ` set deduped"
      using Cons.prems by (auto simp: index_ok_def domIff)
    then have "index_ok (deduped @ [c]) (index(pc_account c \<mapsto> length deduped))"
      using Cons.prems None by (auto simp: index_ok_def nth_append less_Suc_eq)
    then have "distinct (map pc_account (dedup_credits (deduped @ [c]) (index(pc_account c \<mapsto> length deduped)) cs)) \<and>
      by_account (dedup_credits (deduped @ [c]) (index(pc_account c \<mapsto> length deduped)) cs) =
        by_account (deduped @ [c]) ++ last_credits cs"
      by (rule Cons.IH)
    moreover have "by_account (deduped @ [c]) = (by_account deduped)(pc_account c \<mapsto> c)"
    proof -
      have "map_of (map (\<lambda>c. (pc_account c, c)) deduped) (pc_account c) = None"
        using new by (auto simp: map_of_eq_None_iff)
      then show ?thesis by (auto simp: by_account_def map_add_def fun_eq_iff split: option.split)
    qed
    ultimately show ?thesis
      using None last_credits_append [of "[c]" cs] last_credits_simps(2) [of "[]" c] by simp
  next
    case (Some i)
    then have i: "i < length deduped" "pc_account (deduped ! i) = pc_account c"
      using Cons.prems by (auto simp: index_ok_def)
    have accs: "map pc_account (deduped[i := c]) = map pc_account deduped"
      using i by (simp add: map_update list_update_same_conv)
    have "pc_account ` set (deduped[i := c]) = pc_account ` set deduped"
      using accs by (metis list.set_map)
    then have "index_ok (deduped[i := c]) index"
      using Cons.prems accs i
      by (auto simp: index_ok_def simp del: map_update) (metis nth_list_update_eq nth_list_update_neq)
    then have "distinct (map pc_account (dedup_credits (deduped[i := c]) index cs)) \<and>
      by_account (dedup_credits (deduped[i := c]) index cs) = by_account (deduped[i := c]) ++ last_credits cs"
      by (rule Cons.IH)
    moreover have "by_account (deduped[i := c]) = (by_account deduped)(pc_account c \<mapsto> c)"
      using i Cons.prems by (intro by_account_update) (simp_all add: index_ok_def)
    ultimately show ?thesis
      using Some last_credits_append [of "[c]" cs] last_credits_simps(2) [of "[]" c] by simp
  qed
qed (simp add: index_ok_def)

section \<open>The payments\<close>

text \<open>The constraints of the payments: one row per installment of a credit, and an existing credit.\<close>

definition installment_key :: "payment_installment \<Rightarrow> int \<times> int" where
  "installment_key p = (payment_credit p, installment_number p)"

definition payments_ok :: "database \<Rightarrow> bool" where
  "payments_ok db \<longleftrightarrow> distinct (map installment_key (payment_table db)) \<and>
     list_all (\<lambda>p. payment_credit p \<in> set (map credit_pk (credit_table db))) (payment_table db)"

lemma payments_ok_mono:
  "payments_ok db \<Longrightarrow> payment_table db' = payment_table db \<Longrightarrow>
   set (map credit_pk (credit_table db)) \<subseteq> set (map credit_pk (credit_table db')) \<Longrightarrow> payments_ok db'"
  by (auto simp: payments_ok_def list_all_iff simp del: set_map)

lemma insert_payment_rows_ok:
  "payments_ok db \<Longrightarrow> insert_payment_rows ps db = Inr db' \<Longrightarrow>
   db' = db\<lparr>payment_table := payment_table db @ ps\<rparr> \<and> payments_ok db'"
proof (induction ps arbitrary: db)
  case (Cons p ps)
  then have rows: "insert_payment_rows ps (db\<lparr>payment_table := payment_table db @ [p]\<rparr>) = Inr db'"
    and new: "\<not> list_ex (same_installment p) (payment_table db)"
    and "list_ex (\<lambda>c. credit_pk c = payment_credit p) (credit_table db)"
    by (auto split: if_splits)
  moreover from this(3) have "payment_credit p \<in> set (map credit_pk (credit_table db))"
    unfolding list_ex_iff set_map by (metis image_eqI)
  moreover from new have "installment_key p \<notin> set (map installment_key (payment_table db))"
    by (auto simp: list_ex_iff same_installment_def installment_key_def)
  ultimately have "payments_ok (db\<lparr>payment_table := payment_table db @ [p]\<rparr>)"
    using Cons.prems(1) by (simp add: payments_ok_def del: set_map)
  note ih = Cons.IH [OF this rows]
  have "db' = db\<lparr>payment_table := payment_table db @ p # ps\<rparr>" using ih by simp
  then show ?case using ih by blast
qed simp

section \<open>The invariant while credits are pushed\<close>

definition last_rows :: "sql_env \<Rightarrow> string \<Rightarrow> string \<Rightarrow> parsed_credit list \<Rightarrow> string \<rightharpoonup> credit_record" where
  "last_rows env t l cs a = map_option (credit_bind env t l 0) (last_credits cs a)"

definition slice_inv ::
    "sql_env \<Rightarrow> database \<Rightarrow> string \<Rightarrow> string \<Rightarrow> parsed_credit list \<Rightarrow> snapshot_writer \<Rightarrow> bool" where
  "slice_inv env db t l cs w \<longleftrightarrow>
     w_tenant w = t \<and> w_loan_type w = l \<and> db_ok (tx w) \<and> payments_ok (tx w) \<and> other_rows t l (tx w) = other_rows t l db \<and>
     slice_view t l (tx w) = last_rows env t l cs \<and> credit_id_map w = slice_ids t l (tx w)"

definition credits_inv ::
    "sql_env \<Rightarrow> database \<Rightarrow> string \<Rightarrow> string \<Rightarrow> parsed_credit list \<Rightarrow> snapshot_writer \<Rightarrow> bool" where
  "credits_inv env db t l cs w \<longleftrightarrow> slice_inv env db t l cs w \<and>
     payment_table (tx w) = payment_table (delete_slice t l db) \<and> payment_batch w = [] \<and> payments_ingested w = 0"

lemma last_rows_append: "last_rows env t l (xs @ ys) = last_rows env t l xs ++ last_rows env t l ys"
  by (auto simp: last_rows_def last_credits_append map_add_def fun_eq_iff split: option.split)

lemma last_credits_distinct: "distinct (map pc_account cs) \<Longrightarrow> last_credits cs = by_account cs"
proof (induction cs)
  case (Cons c cs)
  then have "last_credits (c # cs) = [pc_account c \<mapsto> c] ++ by_account cs"
    using last_credits_append [of "[c]" cs] last_credits_simps(2) [of "[]" c] by simp
  moreover have "by_account cs (pc_account c) = None"
    using Cons.prems by (auto simp: by_account_def map_of_eq_None_iff)
  ultimately show ?case
    by (auto simp: by_account_def map_add_def fun_eq_iff split: option.split)
qed (simp add: by_account_def)

lemma slice_chunks_Nil [simp]: "slice_chunks n [] = []"
  by (simp add: slice_chunks.simps)

lemma plain_bind: "plain_row (credit_bind env t l now c) = credit_bind env t l 0 c"
  "in_slice t l (credit_bind env t l now c)" "loan_account_number (credit_bind env t l now c) = pc_account c"
  by (simp_all add: plain_row_def credit_bind_def in_slice_def)

lemma insert_credits_multi_inv:
  assumes inv: "credits_inv env db t l cs w" and d: "distinct (map pc_account credits)"
    and ok: "insert_credits_multi env credits w = Inr w'"
  shows "credits_inv env db t l (cs @ credits) w' \<and> credit_batch w' = credit_batch w"
proof (cases "credits = []")
  case True
  with inv ok show ?thesis by (simp add: insert_credits_multi_def)
next
  case False
  let ?rows = "map (credit_bind env t l (clock env (statements w))) credits"
  have w: "w_tenant w = t" "w_loan_type w = l" "db_ok (tx w)" using inv by (simp_all add: credits_inv_def slice_inv_def)
  have rows: "list_all (in_slice t l) ?rows" "distinct (accounts_of ?rows)"
    using d by (simp_all add: list_all_iff plain_bind accounts_of_def comp_def)
  obtain db' returned where up: "upsert_credits ?rows [] (tx w) = Inr (db', returned)"
    and f: "db_ok db'" "payment_table db' = payment_table (tx w)" "other_rows t l db' = other_rows t l (tx w)"
      "slice_view t l db' = slice_view t l (tx w) ++ map_of (map (\<lambda>r. (loan_account_number r, plain_row r)) ?rows)"
      "learn_ids (slice_ids t l (tx w)) returned = slice_ids t l db'"
      "set (map credit_pk (credit_table (tx w))) \<subseteq> set (map credit_pk (credit_table db'))"
    using upsert_credits_slice [OF w(3) rows, of "[]"] by auto
  have new: "map_of (map (\<lambda>r. (loan_account_number r, plain_row r)) ?rows) = last_rows env t l credits"
    unfolding last_rows_def [abs_def] last_credits_distinct [OF d] by_account_def
    by (induction credits) (auto simp: plain_bind fun_eq_iff)
  have "w' = w\<lparr>tx := db', statements := statements w + 1, credit_id_map := learn_ids (credit_id_map w) returned\<rparr>"
    using ok False w up by (auto simp: insert_credits_multi_def Let_def split: option.splits)
  moreover have "slice_view t l db' = slice_view t l (tx w) ++ last_rows env t l credits"
    using f(4) unfolding new .
  ultimately show ?thesis
    using inv f(1-3,5) payments_ok_mono [OF _ f(2,6)]
    by (simp add: credits_inv_def slice_inv_def last_rows_append)
qed

lemma insert_chunks_inv:
  "credits_inv env db t l cs w \<Longrightarrow> list_all (\<lambda>c. distinct (map pc_account c)) css \<Longrightarrow>
   try_fold (insert_credits_multi env) css w = Inr w' \<Longrightarrow>
   credits_inv env db t l (cs @ concat css) w' \<and> credit_batch w' = credit_batch w"
proof (induction css arbitrary: cs w)
  case (Cons c css)
  obtain w1 where w1: "insert_credits_multi env c w = Inr w1"
    and rest: "try_fold (insert_credits_multi env) css w1 = Inr w'"
    using Cons.prems(3) by (auto split: sum.splits)
  have "credits_inv env db t l (cs @ c) w1 \<and> credit_batch w1 = credit_batch w"
    using insert_credits_multi_inv [OF Cons.prems(1) _ w1] Cons.prems(2) by simp
  with Cons.IH [of "cs @ c" w1] Cons.prems(2) rest show ?case by simp
qed simp

lemma concat_slice_chunks: "0 < n \<Longrightarrow> concat (slice_chunks n xs) = xs"
proof (induction n xs rule: slice_chunks.induct)
  case (1 n xs)
  then show ?case by (cases "xs = []") (simp_all add: slice_chunks.simps [of n xs])
qed

lemma slice_chunks_distinct:
  "0 < n \<Longrightarrow> distinct (map f xs) \<Longrightarrow> list_all (\<lambda>c. distinct (map f c)) (slice_chunks n xs)"
proof (induction n xs rule: slice_chunks.induct)
  case (1 n xs)
  then show ?case
    by (cases "xs = []") (simp_all add: slice_chunks.simps [of n xs] take_map drop_map flip: take_map drop_map)
qed

lemma credits_inv_last:
  "credits_inv env db t l cs w \<Longrightarrow> last_credits cs = last_credits cs' \<Longrightarrow> credits_inv env db t l cs' w"
  by (simp add: credits_inv_def slice_inv_def last_rows_def [abs_def])

lemma flush_credits_inv:
  assumes inv: "credits_inv env db t l cs w" and ok: "flush_credits env w = Inr w'"
  shows "credits_inv env db t l (cs @ credit_batch w) w' \<and> credit_batch w' = []"
proof (cases "credit_batch w = []")
  case True
  with inv ok show ?thesis by (simp add: flush_credits_def)
next
  case False
  let ?d = "dedup_credits [] Map.empty (credit_batch w)"
  have d: "distinct (map pc_account ?d)" "by_account ?d = last_credits (credit_batch w)"
    using dedup_credits_ok [of "[]" Map.empty "credit_batch w"] by (simp_all add: index_ok_def by_account_def)
  have "credits_inv env db t l cs (w\<lparr>credit_batch := []\<rparr>)" using inv by (simp add: credits_inv_def slice_inv_def)
  moreover have "try_fold (insert_credits_multi env) (slice_chunks CREDIT_INSERT_CHUNK ?d) (w\<lparr>credit_batch := []\<rparr>) = Inr w'"
    using ok False by (simp add: flush_credits_def Let_def)
  ultimately have "credits_inv env db t l (cs @ ?d) w' \<and> credit_batch w' = []"
    using insert_chunks_inv [of env db t l cs "w\<lparr>credit_batch := []\<rparr>" "slice_chunks CREDIT_INSERT_CHUNK ?d" w']
      slice_chunks_distinct [OF _ d(1), of CREDIT_INSERT_CHUNK]
    by (simp add: concat_slice_chunks CREDIT_INSERT_CHUNK_def)
  moreover have "last_credits (cs @ ?d) = last_credits (cs @ credit_batch w)"
    by (simp add: last_credits_append last_credits_distinct [OF d(1)] d(2))
  ultimately show ?thesis using credits_inv_last by blast
qed

text \<open>All credits pushed so far: the flushed ones and the batch.\<close>

definition pushed_inv ::
    "sql_env \<Rightarrow> database \<Rightarrow> string \<Rightarrow> string \<Rightarrow> parsed_credit list \<Rightarrow> snapshot_writer \<Rightarrow> bool" where
  "pushed_inv env db t l cs w \<longleftrightarrow>
     (\<exists>flushed. cs = flushed @ credit_batch w \<and> credits_inv env db t l flushed w)"

lemma push_credit_inv:
  assumes "pushed_inv env db t l cs w" and "push_credit env c w = Inr w'"
  shows "pushed_inv env db t l (cs @ [c]) w'"
proof -
  obtain flushed where cs: "cs = flushed @ credit_batch w" and inv: "credits_inv env db t l flushed w"
    using assms(1) by (auto simp: pushed_inv_def)
  let ?w = "w\<lparr>credit_batch := credit_batch w @ [c]\<rparr>"
  have inv': "credits_inv env db t l flushed ?w" using inv by (simp add: credits_inv_def slice_inv_def)
  show ?thesis
  proof (cases "CREDIT_BATCH_SIZE \<le> length (credit_batch ?w)")
    case True
    with assms(2) have "flush_credits env ?w = Inr w'" by (simp add: push_credit_def Let_def)
    from flush_credits_inv [OF inv' this] cs show ?thesis
      by (auto simp: pushed_inv_def)
  next
    case False
    with assms(2) have "w' = ?w" by (simp add: push_credit_def Let_def)
    with inv' cs show ?thesis by (auto simp: pushed_inv_def)
  qed
qed

lemma delete_slice_facts:
  assumes "db_ok db"
  shows "db_ok (delete_slice t l db)" "payments_ok db \<Longrightarrow> payments_ok (delete_slice t l db)" "other_rows t l (delete_slice t l db) = other_rows t l db"
    "slice_view t l (delete_slice t l db) = Map.empty" "slice_ids t l (delete_slice t l db) = Map.empty"
proof -
  show "db_ok (delete_slice t l db)"
    using assms by (auto simp: db_ok_def delete_slice_def distinct_map_filter list_all_iff)
  show "payments_ok db \<Longrightarrow> payments_ok (delete_slice t l db)"
    by (auto simp: payments_ok_def delete_slice_def distinct_map_filter list_all_iff list_ex_iff image_iff) metis
  show "other_rows t l (delete_slice t l db) = other_rows t l db"
    by (simp add: other_rows_def delete_slice_def)
  have "row_map (filter (\<lambda>c. \<not> in_slice t l c) (credit_table db)) (t, l, a) = None" for a
    unfolding row_map_None by (auto simp: credit_key_def in_slice_def)
  then show "slice_view t l (delete_slice t l db) = Map.empty" "slice_ids t l (delete_slice t l db) = Map.empty"
    by (simp_all add: slice_view_def slice_ids_def delete_slice_def fun_eq_iff)
qed

lemma begin_writer_inv: "db_ok db \<Longrightarrow> payments_ok db \<Longrightarrow> pushed_inv env db t l [] (begin_writer t l db)"
  by (simp add: pushed_inv_def credits_inv_def slice_inv_def begin_writer_def delete_slice_facts last_rows_def fun_eq_iff)

lemma flush_pushed_inv:
  assumes "pushed_inv env db t l cs w" and "flush_credits env w = Inr w'"
  shows "credits_inv env db t l cs w' \<and> credit_batch w' = []"
  using assms flush_credits_inv by (auto simp: pushed_inv_def)

section \<open>The invariant while payments are pushed\<close>

definition bound_payment :: "sql_env \<Rightarrow> snapshot_writer \<Rightarrow> parsed_payment \<Rightarrow> payment_installment" where
  "bound_payment env w p = payment_bind env (the (credit_id_map w (pp_account p))) p"

definition payments_inv ::
    "sql_env \<Rightarrow> database \<Rightarrow> string \<Rightarrow> string \<Rightarrow> parsed_credit list \<Rightarrow> parsed_payment list \<Rightarrow> snapshot_writer \<Rightarrow> bool" where
  "payments_inv env db t l cs ps w \<longleftrightarrow> slice_inv env db t l cs w \<and> credit_batch w = [] \<and>
     list_all (\<lambda>p. pp_account p \<in> dom (credit_id_map w)) ps \<and>
     (\<exists>flushed. ps = flushed @ payment_batch w \<and> payments_ingested w = length flushed \<and>
        payment_table (tx w) = payment_table (delete_slice t l db) @ map (bound_payment env w) flushed)"

lemma dom_id_map: "slice_inv env db t l cs w \<Longrightarrow> dom (credit_id_map w) = pc_account ` set cs"
proof -
  assume inv: "slice_inv env db t l cs w"
  have "dom (slice_ids t l (tx w)) = dom (slice_view t l (tx w))"
    by (auto simp: dom_def slice_ids_def slice_view_def)
  also have "\<dots> = dom (last_credits cs)"
    using inv by (auto simp: slice_inv_def last_rows_def dom_def)
  finally show ?thesis using inv by (simp add: slice_inv_def dom_last_credits)
qed

text \<open>No payment is without its credit.\<close>

lemma insert_payment_rows_key:
  "list_all (\<lambda>p. payment_credit p \<in> credit_pk ` set (credit_table db)) ps \<Longrightarrow>
   insert_payment_rows ps db \<noteq> Inl Foreign_key_violation"
  by (induction ps arbitrary: db) (auto simp: list_ex_iff)

lemma bind_payments_ok:
  "list_all (\<lambda>p. pp_account p \<in> dom ids) ps \<Longrightarrow>
   bind_payments env ids ps = Inr (map (\<lambda>p. payment_bind env (the (ids (pp_account p))) p) ps)"
  by (induction ps) (auto simp: domIff)

definition paid :: "payment_installment list \<Rightarrow> snapshot_writer \<Rightarrow> snapshot_writer" where
  "paid ps w = w\<lparr>tx := (tx w)\<lparr>payment_table := payment_table (tx w) @ ps\<rparr>,
     payments_ingested := payments_ingested w + length ps\<rparr>"

lemma paid_simps [simp]:
  "paid [] w = w" "paid qs (paid ps w) = paid (ps @ qs) w"
  "payment_table (tx (paid ps w)) = payment_table (tx w) @ ps"
  "payments_ingested (paid ps w) = payments_ingested w + length ps"
  "credit_id_map (paid ps w) = credit_id_map w" "credit_batch (paid ps w) = credit_batch w"
  "payment_batch (paid ps w) = payment_batch w"
  by (simp_all add: paid_def)

lemma insert_payment_chunks:
  "payments_ok (tx w) \<Longrightarrow> try_fold (insert_payments_multi env) pss w = Inr w' \<Longrightarrow>
   w' = paid (concat pss) w \<and> payments_ok (tx (paid (concat pss) w))"
proof (induction pss arbitrary: w)
  case (Cons ps pss)
  obtain w1 where w1: "insert_payments_multi env ps w = Inr w1"
    and rest: "try_fold (insert_payments_multi env) pss w1 = Inr w'"
    using Cons.prems by (auto split: sum.splits)
  have "w1 = paid ps w \<and> payments_ok (tx (paid ps w))"
    using w1 Cons.prems(1) insert_payment_rows_ok [of "tx w" ps]
    by (auto simp: insert_payments_multi_def paid_def Let_def split: if_splits sum.splits option.splits)
  with Cons.IH [OF _ rest] show ?case by simp
qed simp

lemma flush_payments_ok:
  assumes "list_all (\<lambda>p. pp_account p \<in> dom (credit_id_map w)) (payment_batch w)"
    and "payments_ok (tx w)" and "flush_payments env w = Inr w'"
  shows "w' = paid (map (bound_payment env w) (payment_batch w)) (w\<lparr>payment_batch := []\<rparr>) \<and>
    payments_ok (tx (paid (map (bound_payment env w) (payment_batch w)) (w\<lparr>payment_batch := []\<rparr>)))"
proof (cases "payment_batch w = []")
  case True
  with assms show ?thesis by (simp add: flush_payments_def)
next
  case False
  let ?binds = "map (bound_payment env w) (payment_batch w)"
  have "try_fold (insert_payments_multi env) (slice_chunks PAYMENT_INSERT_CHUNK ?binds) (w\<lparr>payment_batch := []\<rparr>) = Inr w'"
    using assms False by (simp add: flush_payments_def bind_payments_ok bound_payment_def [abs_def])
  from insert_payment_chunks [OF _ this] assms(2) show ?thesis
    by (simp add: concat_slice_chunks PAYMENT_INSERT_CHUNK_def)
qed

lemma slice_inv_paid:
  "slice_inv env db t l cs w \<Longrightarrow> payments_ok (tx (paid ps (w\<lparr>payment_batch := b\<rparr>))) \<Longrightarrow>
   slice_inv env db t l cs (paid ps (w\<lparr>payment_batch := b\<rparr>))"
  by (simp add: paid_def slice_inv_def db_ok_def other_rows_def slice_view_def slice_ids_def fun_eq_iff)

lemma flush_payments_inv:
  assumes inv: "payments_inv env db t l cs ps w" and ok: "flush_payments env w = Inr w'"
  shows "payments_inv env db t l cs ps w' \<and> payment_batch w' = []"
proof -
  obtain flushed where f: "ps = flushed @ payment_batch w" "payments_ingested w = length flushed"
    "payment_table (tx w) = payment_table (delete_slice t l db) @ map (bound_payment env w) flushed"
    using inv by (auto simp: payments_inv_def)
  have slice: "slice_inv env db t l cs w" "credit_batch w = []"
    "list_all (\<lambda>p. pp_account p \<in> dom (credit_id_map w)) ps"
    using inv by (simp_all add: payments_inv_def)
  then have "list_all (\<lambda>p. pp_account p \<in> dom (credit_id_map w)) (payment_batch w)" "payments_ok (tx w)"
    by (simp_all add: f(1) slice_inv_def)
  note w' = flush_payments_ok [OF this ok]
  have bound: "bound_payment env w' = bound_payment env w"
    using w' by (simp add: bound_payment_def fun_eq_iff)
  have "slice_inv env db t l cs w'"
    using w' slice(1) by (auto intro: slice_inv_paid)
  then show ?thesis
    unfolding payments_inv_def bound
    using slice f w' by simp
qed

lemma payments_inv_extend:
  assumes inv: "payments_inv env db t l cs ps w" and acc: "pp_account p \<in> pc_account ` set cs"
  shows "payments_inv env db t l cs (ps @ [p]) (w\<lparr>payment_batch := payment_batch w @ [p]\<rparr>)"
proof -
  let ?w = "w\<lparr>payment_batch := payment_batch w @ [p]\<rparr>"
  have dom: "dom (credit_id_map w) = pc_account ` set cs"
    using inv by (intro dom_id_map [of env db t l]) (simp add: payments_inv_def)
  have "slice_inv env db t l cs ?w = slice_inv env db t l cs w" by (simp add: slice_inv_def)
  moreover have "bound_payment env ?w = bound_payment env w" by (simp add: bound_payment_def fun_eq_iff)
  ultimately show ?thesis using inv acc unfolding payments_inv_def by (simp add: dom)
qed

lemma push_payment_inv:
  assumes inv: "payments_inv env db t l cs ps w" and acc: "pp_account p \<in> pc_account ` set cs"
    and ok: "push_payment env p w = Inr w'"
  shows "payments_inv env db t l cs (ps @ [p]) w'"
  using ok payments_inv_extend [OF inv acc] flush_payments_inv [OF payments_inv_extend [OF inv acc], of w']
  by (auto simp: push_payment_def Let_def split: if_splits)

lemma payments_inv_start:
  "credits_inv env db t l cs w \<Longrightarrow> credit_batch w = [] \<Longrightarrow> payments_inv env db t l cs [] w"
  by (simp add: credits_inv_def payments_inv_def)

section \<open>The committed database\<close>

text \<open>
  The slice replaced: every account has the row of its last credit, the payments are the kept ones
  and the new ones at the keys of their credits, the rest of the warehouse is as it was.
\<close>

definition slice_replaced ::
    "sql_env \<Rightarrow> string \<Rightarrow> string \<Rightarrow> parsed_credit list \<Rightarrow> parsed_payment list \<Rightarrow> database \<Rightarrow> database \<Rightarrow> bool" where
  "slice_replaced env t l cs ps db db' \<longleftrightarrow> db_ok db' \<and> payments_ok db' \<and>
     other_rows t l db' = other_rows t l db \<and>
     slice_view t l db' = last_rows env t l cs \<and>
     payment_table db' = payment_table (delete_slice t l db) @
       map (\<lambda>p. payment_bind env (the (slice_ids t l db' (pp_account p))) p) ps"

lemma commit_writer_ok:
  assumes inv: "payments_inv env db t l cs ps w" and ok: "commit_writer env w = Inr (db', n)"
  shows "slice_replaced env t l cs ps db db' \<and> n = length ps"
proof -
  have "flush_credits env w = Inr w"
    using inv by (simp add: payments_inv_def flush_credits_def)
  with ok obtain w2 where w2: "flush_payments env w = Inr w2" "db' = tx w2" "n = payments_ingested w2"
    by (auto simp: commit_writer_def split: sum.splits option.splits)
  from flush_payments_inv [OF inv w2(1)] show ?thesis
    by (auto simp: payments_inv_def slice_replaced_def slice_inv_def w2 bound_payment_def fun_eq_iff)
qed

lemma slice_count:
  "db_ok db \<Longrightarrow> length (filter (in_slice t l) (credit_table db)) = card (dom (slice_view t l db))"
proof -
  assume ok: "db_ok db"
  let ?rows = "filter (in_slice t l) (credit_table db)"
  have "slice_view t l db a \<noteq> None \<longleftrightarrow> (t, l, a) \<in> credit_key ` set (credit_table db)" for a
    using row_map_None [of "credit_table db" "(t, l, a)"] by (simp add: slice_view_def)
  then have "dom (slice_view t l db) = loan_account_number ` set ?rows"
    unfolding dom_def by (force simp: credit_key_def in_slice_def)
  moreover have "inj_on loan_account_number (set ?rows)"
    using ok by (auto simp: db_ok_def distinct_map inj_on_def credit_key_def in_slice_def)
  moreover have "distinct ?rows" using ok by (simp add: db_ok_def distinct_map)
  ultimately show ?thesis by (simp add: card_image flip: distinct_card)
qed

section \<open>When the writer cannot fail\<close>

definition accepting :: "sql_env \<Rightarrow> bool" where
  "accepting env \<longleftrightarrow> refuse_credits env = (\<lambda>_. None) \<and> refuse_payments env = (\<lambda>_. None) \<and> refuse_commit env = (\<lambda>_. None)"

lemma insert_credits_multi_total:
  assumes "accepting env" and inv: "credits_inv env db t l cs w" and d: "distinct (map pc_account credits)"
  shows "\<exists>w'. insert_credits_multi env credits w = Inr w'"
proof -
  let ?rows = "map (credit_bind env t l (clock env (statements w))) credits"
  have w: "w_tenant w = t" "w_loan_type w = l" "db_ok (tx w)"
    using inv by (simp_all add: credits_inv_def slice_inv_def)
  have rows: "list_all (in_slice t l) ?rows" "distinct (accounts_of ?rows)"
    using d by (simp_all add: list_all_iff plain_bind accounts_of_def comp_def)
  show ?thesis
    using upsert_credits_slice [OF w(3) rows, of "[]"] assms(1) w
    by (auto simp: insert_credits_multi_def Let_def accepting_def)
qed

lemma insert_chunks_total:
  "accepting env \<Longrightarrow> credits_inv env db t l cs w \<Longrightarrow> list_all (\<lambda>c. distinct (map pc_account c)) css \<Longrightarrow>
   \<exists>w'. try_fold (insert_credits_multi env) css w = Inr w'"
proof (induction css arbitrary: cs w)
  case (Cons c css)
  then obtain w1 where w1: "insert_credits_multi env c w = Inr w1"
    using insert_credits_multi_total [OF Cons.prems(1,2), of c] by auto
  with insert_credits_multi_inv [OF Cons.prems(2) _ w1] Cons.prems Cons.IH [of "cs @ c" w1] show ?case by simp
qed simp

lemma flush_credits_total:
  assumes "accepting env" and inv: "credits_inv env db t l cs w"
  shows "\<exists>w'. flush_credits env w = Inr w'"
proof (cases "credit_batch w = []")
  case False
  let ?d = "dedup_credits [] Map.empty (credit_batch w)"
  have "distinct (map pc_account ?d)"
    using dedup_credits_ok [of "[]" Map.empty "credit_batch w"] by (simp add: index_ok_def)
  moreover have "credits_inv env db t l cs (w\<lparr>credit_batch := []\<rparr>)"
    using inv by (simp add: credits_inv_def slice_inv_def)
  ultimately have "\<exists>w'. try_fold (insert_credits_multi env) (slice_chunks CREDIT_INSERT_CHUNK ?d) (w\<lparr>credit_batch := []\<rparr>) = Inr w'"
    by (intro insert_chunks_total [OF assms(1)] slice_chunks_distinct) (simp_all add: CREDIT_INSERT_CHUNK_def)
  with False show ?thesis by (simp add: flush_credits_def Let_def)
qed (simp add: flush_credits_def)

lemma push_credit_total:
  assumes "accepting env" and "pushed_inv env db t l cs w"
  shows "\<exists>w'. push_credit env c w = Inr w'"
proof -
  obtain flushed where "credits_inv env db t l flushed w" using assms(2) by (auto simp: pushed_inv_def)
  then have "credits_inv env db t l flushed (w\<lparr>credit_batch := credit_batch w @ [c]\<rparr>)"
    by (simp add: credits_inv_def slice_inv_def)
  from flush_credits_total [OF assms(1) this] show ?thesis by (simp add: push_credit_def Let_def)
qed

lemma same_installment_key: "same_installment p q \<longleftrightarrow> installment_key q = installment_key p"
  by (auto simp: same_installment_def installment_key_def)

lemma insert_payment_rows_total:
  "distinct (map installment_key (payment_table db @ ps)) \<Longrightarrow>
   list_all (\<lambda>p. payment_credit p \<in> credit_pk ` set (credit_table db)) ps \<Longrightarrow>
   \<exists>db'. insert_payment_rows ps db = Inr db'"
proof (induction ps arbitrary: db)
  case (Cons p ps)
  have "installment_key p \<notin> installment_key ` set (payment_table db)"
    using Cons.prems(1) by auto
  then have "\<not> list_ex (same_installment p) (payment_table db)"
    unfolding list_ex_iff same_installment_key by (metis image_eqI)
  moreover have "list_ex (\<lambda>c. credit_pk c = payment_credit p) (credit_table db)"
    using Cons.prems(2) by (auto simp: list_ex_iff)
  ultimately show ?case
    using Cons.IH [of "db\<lparr>payment_table := payment_table db @ [p]\<rparr>"] Cons.prems by simp
qed simp

lemma insert_payment_chunks_total:
  "accepting env \<Longrightarrow> payments_ok (tx w) \<Longrightarrow>
   distinct (map installment_key (payment_table (tx w) @ concat pss)) \<Longrightarrow>
   list_all (\<lambda>p. payment_credit p \<in> credit_pk ` set (credit_table (tx w))) (concat pss) \<Longrightarrow>
   \<exists>w'. try_fold (insert_payments_multi env) pss w = Inr w'"
proof (induction pss arbitrary: w)
  case (Cons ps pss)
  have "distinct (map installment_key (payment_table (tx w) @ ps))"
    using Cons.prems(3) by auto
  with insert_payment_rows_total [OF this] Cons.prems(4)
  obtain db' where db': "insert_payment_rows ps (tx w) = Inr db'" by auto
  then have w1: "insert_payments_multi env ps w = Inr (paid ps w)" "payments_ok (tx (paid ps w))"
    using insert_payment_rows_ok [OF Cons.prems(2) db'] Cons.prems(1)
    by (auto simp: insert_payments_multi_def accepting_def paid_def)
  have "credit_table (tx (paid ps w)) = credit_table (tx w)" by (simp add: paid_def)
  with Cons.IH [OF Cons.prems(1) w1(2)] Cons.prems(3,4) w1(1) show ?case by simp
qed simp

lemma slice_ids_row:
  "slice_ids t l db a = Some i \<Longrightarrow>
   \<exists>c\<in>set (credit_table db). in_slice t l c \<and> loan_account_number c = a \<and> credit_pk c = i"
  by (auto simp: slice_ids_def credit_key_def in_slice_def dest!: row_map_key)

lemma slice_ids_inj:
  assumes "db_ok db" and "slice_ids t l db a = Some i" and "slice_ids t l db b = Some i"
  shows "a = b"
proof -
  obtain c d where "c \<in> set (credit_table db)" "loan_account_number c = a" "credit_pk c = i"
    "d \<in> set (credit_table db)" "loan_account_number d = b" "credit_pk d = i"
    using slice_ids_row assms(2,3) by blast
  with assms(1) show ?thesis by (auto simp: db_ok_def distinct_map dest: inj_onD)
qed

definition payment_key :: "parsed_payment \<Rightarrow> string \<times> int" where
  "payment_key p = (pp_account p, pp_installment_number p)"

lemma bound_installment_key:
  "installment_key (bound_payment env w p) = (the (credit_id_map w (pp_account p)), pp_installment_number p)"
  by (simp add: installment_key_def bound_payment_def payment_bind_def)

lemma bound_keys_distinct:
  assumes inv: "slice_inv env db t l cs w" and acc: "list_all (\<lambda>p. pp_account p \<in> dom (credit_id_map w)) ps"
  shows "distinct (map installment_key (map (bound_payment env w) ps)) = distinct (map payment_key ps)"
proof -
  have ids: "credit_id_map w = slice_ids t l (tx w)" "db_ok (tx w)" using inv by (simp_all add: slice_inv_def)
  have "inj_on (\<lambda>(a, n). (the (credit_id_map w a), n)) (payment_key ` set ps)"
  proof (rule inj_onI)
    fix x y
    assume x: "x \<in> payment_key ` set ps" and y: "y \<in> payment_key ` set ps"
      and eq: "(case x of (a, n) \<Rightarrow> (the (credit_id_map w a), n)) = (case y of (a, n) \<Rightarrow> (the (credit_id_map w a), n))"
    obtain a n b m where xy: "x = (a, n)" "y = (b, m)" by fastforce
    have "a \<in> dom (credit_id_map w)" "b \<in> dom (credit_id_map w)"
      using x y acc by (auto simp: xy payment_key_def list_all_iff)
    then obtain i j where "slice_ids t l (tx w) a = Some i" "slice_ids t l (tx w) b = Some j"
      by (auto simp: ids(1))
    with eq slice_ids_inj [OF ids(2)] show "x = y" by (simp add: xy ids(1))
  qed
  moreover have "map installment_key (map (bound_payment env w) ps) =
      map (\<lambda>(a, n). (the (credit_id_map w a), n)) (map payment_key ps)"
    by (simp add: bound_installment_key payment_key_def)
  ultimately show ?thesis by (simp only: distinct_map list.set_map simp_thms)
qed

lemma flush_payments_total:
  assumes "accepting env" and "db_ok db" and "payments_ok db"
    and inv: "payments_inv env db t l cs ps w" and d: "distinct (map payment_key ps)"
  shows "\<exists>w'. flush_payments env w = Inr w'"
proof (cases "payment_batch w = []")
  case False
  obtain flushed where f: "ps = flushed @ payment_batch w"
    "payment_table (tx w) = payment_table (delete_slice t l db) @ map (bound_payment env w) flushed"
    using inv by (auto simp: payments_inv_def)
  have slice: "slice_inv env db t l cs w" "payments_ok (tx w)" "db_ok (tx w)"
    "other_rows t l (tx w) = other_rows t l db" "credit_id_map w = slice_ids t l (tx w)"
    using inv by (simp_all add: payments_inv_def slice_inv_def)
  have acc: "list_all (\<lambda>p. pp_account p \<in> dom (credit_id_map w)) ps"
    using inv by (simp add: payments_inv_def)
  let ?kept = "payment_table (delete_slice t l db)" and ?new = "map (bound_payment env w) ps"
  have new: "\<exists>c\<in>set (credit_table (tx w)). in_slice t l c \<and> credit_pk c = payment_credit p" if "p \<in> set ?new" for p
    using that acc slice_ids_row by (fastforce simp: list_all_iff slice(5) bound_payment_def payment_bind_def dom_def)
  have kept: "payment_credit p \<in> credit_pk ` set (other_rows t l (tx w))" if "p \<in> set ?kept" for p
    using that delete_slice_facts(2) [OF assms(2,3), of t l] slice(4)
    by (auto simp: payments_ok_def list_all_iff delete_slice_def other_rows_def)
  have "payment_credit p \<noteq> payment_credit q" if "p \<in> set ?kept" "q \<in> set ?new" for p q
    using kept [OF that(1)] new [OF that(2)] slice(3)
    by (auto simp: db_ok_def distinct_map other_rows_def dest: inj_onD)
  then have "set (map installment_key ?kept) \<inter> set (map installment_key ?new) = {}"
    by (fastforce simp: installment_key_def)
  moreover have "distinct (map installment_key ?kept)"
    using slice(2) by (simp add: payments_ok_def f(2))
  moreover have "distinct (map installment_key ?new)"
    using bound_keys_distinct [OF slice(1) acc] d by blast
  ultimately have "distinct (map installment_key (?kept @ ?new))" by simp
  then have "distinct (map installment_key (payment_table (tx w) @ map (bound_payment env w) (payment_batch w)))"
    by (simp add: f)
  moreover have "list_all (\<lambda>p. payment_credit p \<in> credit_pk ` set (credit_table (tx w))) (map (bound_payment env w) (payment_batch w))"
    unfolding list_all_iff
  proof
    fix p
    assume "p \<in> set (map (bound_payment env w) (payment_batch w))"
    then have "p \<in> set ?new" by (auto simp: f(1))
    from new [OF this] show "payment_credit p \<in> credit_pk ` set (credit_table (tx w))"
      by (metis image_eqI)
  qed
  ultimately have "\<exists>w'. try_fold (insert_payments_multi env)
      (slice_chunks PAYMENT_INSERT_CHUNK (map (bound_payment env w) (payment_batch w))) (w\<lparr>payment_batch := []\<rparr>) = Inr w'"
    using slice(2) by (intro insert_payment_chunks_total [OF assms(1)])
      (simp_all add: concat_slice_chunks PAYMENT_INSERT_CHUNK_def)
  then show ?thesis
    using acc by (simp add: flush_payments_def bind_payments_ok f(1) bound_payment_def [abs_def])
qed (simp add: flush_payments_def)

lemma push_payment_total:
  assumes "accepting env" and "db_ok db" and "payments_ok db"
    and inv: "payments_inv env db t l cs ps w" and acc: "pp_account p \<in> pc_account ` set cs"
    and d: "distinct (map payment_key (ps @ [p]))"
  shows "\<exists>w'. push_payment env p w = Inr w'"
  using flush_payments_total [OF assms(1-3) payments_inv_extend [OF inv acc] d]
  by (simp add: push_payment_def Let_def)

lemma commit_writer_total:
  assumes "accepting env" and "db_ok db" and "payments_ok db"
    and inv: "payments_inv env db t l cs ps w" and d: "distinct (map payment_key ps)"
  shows "\<exists>r. commit_writer env w = Inr r"
proof -
  have "flush_credits env w = Inr w" using inv by (simp add: payments_inv_def flush_credits_def)
  then show ?thesis
    using flush_payments_total [OF assms] assms(1) by (auto simp: commit_writer_def accepting_def)
qed

text \<open>A committed slice has no installment twice.\<close>

lemma slice_replaced_distinct:
  assumes "slice_replaced env t l cs ps db db'"
  shows "distinct (map payment_key ps)"
proof -
  let ?bind = "\<lambda>p. payment_bind env (the (slice_ids t l db' (pp_account p))) p"
  have "distinct (map installment_key (payment_table db'))"
    "payment_table db' = payment_table (delete_slice t l db) @ map ?bind ps"
    using assms unfolding slice_replaced_def payments_ok_def by blast+
  then have "distinct (map installment_key (map ?bind ps))"
    by (simp only: map_append distinct_append)
  moreover have "map installment_key (map ?bind ps) =
      map (\<lambda>(a, n). (the (slice_ids t l db' a), n)) (map payment_key ps)"
    by (simp add: payment_key_def installment_key_def payment_bind_def)
  ultimately show ?thesis by (simp only: distinct_map)
qed

end
