(* ===== verification/AdapterPipeline.thy ===== *)
theory AdapterPipeline
  imports WriterInvariant
begin

text \<open>
  The run of the adapter, \<open>run_pipeline\<close> of \<open>adapter/src/pipeline.rs\<close> and its binding in \<open>adapter/src/lib.rs\<close>: read
  the credits of the bank, then the payments, write both through the \<open>SnapshotWriter\<close>, report progress to
  the Python callback and stop when it says so.

  A \<open>stage\<close> is a run seen from the callback: it is done with a result or reports progress and goes on
  with the callback's answer (an exception of the callback is an answer too).  The result of a run is
  what the function returns together with the database it leaves.
\<close>

section \<open>The environment\<close>

text \<open>
  \<open>http_open\<close> is \<open>JsonRowStream::open\<close>: the body of a successful response, or the error; \<open>connect\<close> the errors of
  opening the HTTP client and the database and of \<open>begin\<close>; \<open>elapsed\<close> the run time as \<open>:.2f\<close> renders it.
\<close>

record pipeline_env =
  http_open :: "string \<Rightarrow> pipeline_error + string"
  from_slice :: "string \<Rightarrow> string + json"
  display :: "json \<Rightarrow> string"
  connect :: "string \<Rightarrow> string option"
  parsers_of :: parsers
  sql :: sql_env
  elapsed :: string

datatype 'r stage = Done 'r | Report int int "error_log list" "exn + bool \<Rightarrow> 'r stage"

type_synonym outcome = "(exn + pipeline_result) \<times> database"

definition error_text :: "pipeline_error \<Rightarrow> string" where
  "error_text e = (case e of
     Http_error m \<Rightarrow> ''HTTP error: '' @ m
   | Parse_error m \<Rightarrow> ''JSON parse error: '' @ m)"

definition database_error :: "string \<Rightarrow> string" where
  "database_error m = ''Database error: '' @ m"

section \<open>Progress\<close>

definition MAX_PROGRESS_ERRORS :: nat where
  "MAX_PROGRESS_ERRORS = 50"

text \<open>\<open>ProgressState::emit\<close>: the last errors, and what a false answer or an exception lead to.\<close>

definition emit ::
    "nat \<Rightarrow> int \<Rightarrow> error_log list \<Rightarrow> (exn \<Rightarrow> 'r stage) \<Rightarrow> (unit \<Rightarrow> 'r stage) \<Rightarrow> (unit \<Rightarrow> 'r stage) \<Rightarrow> 'r stage" where
  "emit rows pct errs raised abort go_on =
     Report (int rows) pct (drop (length errs - MAX_PROGRESS_ERRORS) errs)
       (\<lambda>answer. case answer of
          Inl e \<Rightarrow> raised e
        | Inr b \<Rightarrow> if b then go_on () else abort ())"

definition credit_phase_progress :: "nat \<Rightarrow> nat" where
  "credit_phase_progress rows = 5 + min (rows * 35 div (rows + 10000)) 39"

definition payment_phase_progress :: "nat \<Rightarrow> nat \<Rightarrow> nat" where
  "payment_phase_progress payments credit_count =
     40 + min (payments * 50 div (payments + max credit_count 1)) 50"

section \<open>Reading a stream\<close>

text \<open>
  The rows of a body with their numbers, and the error that ends it early.  Every call of \<open>next_row\<close>
  consumes input or ends the stream, so the length of the body bounds the calls.
\<close>

fun stream_rows ::
    "pipeline_env \<Rightarrow> nat \<Rightarrow> row_stream \<Rightarrow> ((nat \<times> bank_row) list \<times> pipeline_error option) option" where
  "stream_rows env 0 rs = None"
| "stream_rows env (Suc n) rs =
     (case next_row (from_slice env) (display env) rs of
        (Inl e, _) \<Rightarrow> Some ([], Some e)
      | (Inr None, _) \<Rightarrow> Some ([], None)
      | (Inr (Some row), rs') \<Rightarrow>
          map_option (apfst ((#) (unat (row_number rs'), row))) (stream_rows env n rs'))"

definition body_rows :: "pipeline_env \<Rightarrow> string \<Rightarrow> (nat \<times> bank_row) list \<times> pipeline_error option" where
  "body_rows env body = the (stream_rows env (length body + 2) (from_bytes body))"

section \<open>The run\<close>

record run_state =
  writer :: snapshot_writer
  known_accounts :: "string set"
  rows_done :: nat
  run_errors :: "error_log list"

text \<open>The arguments of a run and the database it started from.\<close>

record run_context =
  run_env :: pipeline_env
  run_loan_type :: string
  run_db :: database

definition failed :: "run_context \<Rightarrow> string \<Rightarrow> outcome" where
  "failed ctx m = (Inl (Exn RuntimeError m), run_db ctx)"

definition cancelled_result :: "run_context \<Rightarrow> nat \<Rightarrow> nat \<Rightarrow> error_log list \<Rightarrow> outcome" where
  "cancelled_result ctx rows credit_count errs =
     (Inr \<lparr>success = False, result_cancelled = True, processed_rows_count = int rows,
           duration_2f = elapsed (run_env ctx), total_credits_ingested = int credit_count,
           total_payments_ingested = 0, error_logs = errs\<rparr>, run_db ctx)"

text \<open>A report in the middle of the run: the writer is dropped when the run stops here.\<close>

definition report ::
    "run_context \<Rightarrow> run_state \<Rightarrow> nat \<Rightarrow> nat \<Rightarrow> (unit \<Rightarrow> outcome stage) \<Rightarrow> outcome stage" where
  "report ctx st pct credit_count go_on =
     emit (rows_done st) (int pct) (run_errors st)
       (\<lambda>e. Done (Inl e, run_db ctx))
       (\<lambda>_. Done (cancelled_result ctx (rows_done st) credit_count (run_errors st)))
       go_on"

definition push_parsed_credit ::
    "run_context \<Rightarrow> nat \<Rightarrow> bank_row \<Rightarrow> run_state \<Rightarrow> string + run_state" where
  "push_parsed_credit ctx n row st =
     (case parse_credit_row (parsers_of (run_env ctx)) row (int n) (run_loan_type ctx) (run_errors st) of
        (None, errs) \<Rightarrow> Inr (st\<lparr>run_errors := errs, rows_done := rows_done st + 1\<rparr>)
      | (Some credit, errs) \<Rightarrow>
          (case push_credit (sql (run_env ctx)) credit (writer st) of
             Inl e \<Rightarrow> Inl e
           | Inr w \<Rightarrow> Inr \<lparr>writer = w, known_accounts = insert (pc_account credit) (known_accounts st),
               rows_done = rows_done st + 1, run_errors = errs\<rparr>))"

definition push_parsed_payment ::
    "run_context \<Rightarrow> nat \<Rightarrow> bank_row \<Rightarrow> run_state \<Rightarrow> string + run_state" where
  "push_parsed_payment ctx n row st =
     (case parse_payment_row (parsers_of (run_env ctx)) row (int n) (known_accounts st) (run_errors st) of
        (None, errs) \<Rightarrow> Inr (st\<lparr>run_errors := errs, rows_done := rows_done st + 1\<rparr>)
      | (Some payment, errs) \<Rightarrow>
          (case push_payment (sql (run_env ctx)) payment (writer st) of
             Inl e \<Rightarrow> Inl e
           | Inr w \<Rightarrow> Inr (st\<lparr>writer := w, rows_done := rows_done st + 1, run_errors := errs\<rparr>)))"

text \<open>
  The two \<open>while let Some(row)\<close> loops differ in the step and in the progress they report; \<open>k\<close> is what
  follows the loop.
\<close>

fun row_loop ::
    "run_context \<Rightarrow> (nat \<Rightarrow> bank_row \<Rightarrow> run_state \<Rightarrow> string + run_state) \<Rightarrow> (run_state \<Rightarrow> nat \<Rightarrow> nat \<times> nat) \<Rightarrow>
     (nat \<times> bank_row) list \<Rightarrow> pipeline_error option \<Rightarrow> (run_state \<Rightarrow> outcome stage) \<Rightarrow> run_state \<Rightarrow> outcome stage" where
  "row_loop ctx step progress [] ended k st =
     (case ended of Some e \<Rightarrow> Done (failed ctx (error_text e)) | None \<Rightarrow> k st)"
| "row_loop ctx step progress ((n, row) # rows) ended k st =
     (case step n row st of
        Inl e \<Rightarrow> Done (failed ctx (database_error e))
      | Inr st \<Rightarrow>
          if n mod 2000 = 0
          then case progress st n of (pct, credit_count) \<Rightarrow>
                 report ctx st pct credit_count (\<lambda>_. row_loop ctx step progress rows ended k st)
          else row_loop ctx step progress rows ended k st)"

definition read_stream ::
    "run_context \<Rightarrow> string \<Rightarrow> (nat \<Rightarrow> bank_row \<Rightarrow> run_state \<Rightarrow> string + run_state) \<Rightarrow>
     (run_state \<Rightarrow> nat \<Rightarrow> nat \<times> nat) \<Rightarrow> (run_state \<Rightarrow> outcome stage) \<Rightarrow> run_state \<Rightarrow> outcome stage" where
  "read_stream ctx url step progress k st =
     (case http_open (run_env ctx) url of
        Inl e \<Rightarrow> Done (failed ctx (error_text e))
      | Inr body \<Rightarrow>
          (case body_rows (run_env ctx) body of
             (rows, ended) \<Rightarrow> row_loop ctx step progress rows ended k st))"

text \<open>After the payments: the last report, the commit and the result.\<close>

definition finish_run :: "run_context \<Rightarrow> nat \<Rightarrow> run_state \<Rightarrow> outcome" where
  "finish_run ctx credit_count st =
     (let result = (\<lambda>ok payments errs.
        \<lparr>success = ok, result_cancelled = False, processed_rows_count = int (rows_done st),
         duration_2f = elapsed (run_env ctx), total_credits_ingested = int credit_count,
         total_payments_ingested = int payments, error_logs = errs\<rparr>)
      in case commit_writer (sql (run_env ctx)) (writer st) of
           Inr (db, payments) \<Rightarrow> (Inr (result True payments (run_errors st)), db)
         | Inl e \<Rightarrow>
             (Inr (result False 0
                (run_errors st @
                 [\<lparr>log_row_number = 0, log_field = ''pipeline'', log_error_type = ''PIPELINE_ERROR'',
                   log_message = database_error e\<rparr>])), run_db ctx))"

definition payment_phase :: "run_context \<Rightarrow> string \<Rightarrow> run_state \<Rightarrow> outcome stage" where
  "payment_phase ctx payments_url st =
     (case flush_credits (sql (run_env ctx)) (writer st) of
        Inl e \<Rightarrow> Done (failed ctx (database_error e))
      | Inr w \<Rightarrow>
          let st = st\<lparr>writer := w\<rparr>; credit_count = credits_ingested w in
          report ctx st 40 credit_count (\<lambda>_.
            read_stream ctx payments_url (push_parsed_payment ctx)
              (\<lambda>st n. (payment_phase_progress n credit_count, credit_count))
              (\<lambda>st. report ctx st 95 credit_count (\<lambda>_. Done (finish_run ctx credit_count st)))
              st))"

definition run_pipeline :: "pipeline_env \<Rightarrow> database \<Rightarrow> adapter_args \<Rightarrow> outcome stage" where
  "run_pipeline env db args =
     (let ctx = \<lparr>run_env = env, run_loan_type = arg_loan_type args, run_db = db\<rparr> in
      case connect env (arg_database_url args) of
        Some e \<Rightarrow> Done (failed ctx e)
      | None \<Rightarrow>
          read_stream ctx (arg_credits_url args) (push_parsed_credit ctx)
            (\<lambda>st n. (credit_phase_progress n, credits_ingested (writer st)))
            (payment_phase ctx (arg_payments_url args))
            \<lparr>writer = begin_writer (arg_tenant_id args) (py_upper (arg_loan_type args)) db,
             known_accounts = {}, rows_done = 0, run_errors = []\<rparr>)"

text \<open>The adapter as the Celery task sees it.\<close>

primrec as_adapter_run :: "outcome stage \<Rightarrow> adapter_run" where
  "as_adapter_run (Done r) = Adapter_returns (fst r)"
| "as_adapter_run (Report rows pct errs k) =
     Adapter_progress rows pct errs (\<lambda>b. as_adapter_run (k (Inr b)))"

definition rust_adapter :: "pipeline_env \<Rightarrow> database \<Rightarrow> adapter" where
  "rust_adapter env db args = as_adapter_run (run_pipeline env db args)"

section \<open>Fuel\<close>

lemma stream_rows_enough:
  "length (reader rs) < n \<Longrightarrow> stream_rows env n rs \<noteq> None"
proof (induction n arbitrary: rs)
  case (Suc n)
  show ?case
  proof (cases "\<exists>row rs'. next_row (from_slice env) (display env) rs = (Inr (Some row), rs')")
    case True
    then obtain row rs' where nr: "next_row (from_slice env) (display env) rs = (Inr (Some row), rs')"
      by blast
    with next_row_shorter [OF nr] Suc.prems Suc.IH [of rs'] show ?thesis by auto
  next
    case False
    obtain r rs' where nr: "next_row (from_slice env) (display env) rs = (r, rs')" by fastforce
    with False show ?thesis by (cases r) (auto split: option.splits)
  qed
qed simp

section \<open>The results of a run\<close>

text \<open>All results a run can have, whatever the callback answers.\<close>

primrec results :: "'r stage \<Rightarrow> 'r set" where
  "results (Done r) = {r}"
| "results (Report rows pct errs k) = (\<Union>a. results (k a))"

definition committed :: "outcome \<Rightarrow> bool" where
  "committed o1 = (case fst o1 of Inl _ \<Rightarrow> False | Inr r \<Rightarrow> success r)"

definition rolled_back :: "run_context \<Rightarrow> outcome set" where
  "rolled_back ctx = {o1. \<not> committed o1 \<and> snd o1 = run_db ctx}"

lemma failed_rolled_back [simp]: "failed ctx m \<in> rolled_back ctx"
  by (simp add: failed_def rolled_back_def committed_def)

lemma report_results:
  "results (report ctx st pct n go_on) \<subseteq> rolled_back ctx \<union> results (go_on ())"
  by (auto simp: report_def emit_def rolled_back_def committed_def cancelled_result_def split: sum.splits if_splits)

section \<open>Rows\<close>

definition parsed_credits :: "parsers \<Rightarrow> string \<Rightarrow> (nat \<times> bank_row) list \<Rightarrow> parsed_credit list" where
  "parsed_credits env l rows = List.map_filter (\<lambda>(n, row). fst (parse_credit_row env row (int n) l [])) rows"

definition credit_errors :: "parsers \<Rightarrow> string \<Rightarrow> (nat \<times> bank_row) list \<Rightarrow> error_log list" where
  "credit_errors env l rows = concat (map (\<lambda>(n, row). snd (parse_credit_row env row (int n) l [])) rows)"

definition parsed_payments :: "parsers \<Rightarrow> string set \<Rightarrow> (nat \<times> bank_row) list \<Rightarrow> parsed_payment list" where
  "parsed_payments env known rows = List.map_filter (\<lambda>(n, row). fst (parse_payment_row env row (int n) known [])) rows"

definition payment_errors :: "parsers \<Rightarrow> string set \<Rightarrow> (nat \<times> bank_row) list \<Rightarrow> error_log list" where
  "payment_errors env known rows = concat (map (\<lambda>(n, row). snd (parse_payment_row env row (int n) known [])) rows)"

lemma parse_credit_row_errors:
  "parse_credit_row env row n l errs =
     (fst (parse_credit_row env row n l []), errs @ snd (parse_credit_row env row n l []))"
  by (cases "row_account row = ''''") (simp_all add: parse_credit_row_cases)

lemma parse_payment_row_errors:
  "parse_payment_row env row n known errs =
     (fst (parse_payment_row env row n known []), errs @ snd (parse_payment_row env row n known []))"
  by (cases "row_account row = ''''"; cases "row_account row \<in> known") (simp_all add: parse_payment_row_cases)

lemma map_filter_snoc: "List.map_filter f (xs @ [x]) = List.map_filter f xs @ (case f x of None \<Rightarrow> [] | Some y \<Rightarrow> [y])"
  by (simp add: List.map_filter_def split: option.split)

lemma parsed_payment_account:
  "fst (parse_payment_row env row n known errs) = Some p \<Longrightarrow> pp_account p \<in> known"
  by (cases "row_account row = ''''"; cases "row_account row \<in> known")
    (auto simp: parse_payment_row_cases payment_of_account)

section \<open>The loops\<close>

locale row_reader =
  fixes step :: "nat \<Rightarrow> bank_row \<Rightarrow> run_state \<Rightarrow> string + run_state"
    and inv :: "(nat \<times> bank_row) list \<Rightarrow> run_state \<Rightarrow> bool"
  assumes step_inv: "inv seen st \<Longrightarrow> step n row st = Inr st' \<Longrightarrow> inv (seen @ [(n, row)]) st'"
begin

lemma row_loop_results:
  "inv seen st \<Longrightarrow>
   (\<And>st'. ended = None \<Longrightarrow> inv (seen @ rows) st' \<Longrightarrow> results (k st') \<subseteq> R) \<Longrightarrow> rolled_back ctx \<subseteq> R \<Longrightarrow>
   results (row_loop ctx step progress rows ended k st) \<subseteq> R"
proof (induction rows arbitrary: seen st)
  case Nil
  then show ?case
    using failed_rolled_back [of ctx] by (cases ended) auto
next
  case (Cons x rows)
  obtain n row where x: "x = (n, row)" by fastforce
  show ?case
  proof (cases "step n row st")
    case (Inl e)
    then show ?thesis using Cons.prems(3) failed_rolled_back [of ctx] by (auto simp: x)
  next
    case (Inr st1)
    have "inv (seen @ [(n, row)]) st1" using step_inv [OF Cons.prems(1) Inr] .
    then have loop: "results (row_loop ctx step progress rows ended k st1) \<subseteq> R"
      using Cons.prems(2,3) by (intro Cons.IH [of "seen @ [(n, row)]"]) (simp_all add: x)
    have "results (report ctx st1 pct m (\<lambda>_. row_loop ctx step progress rows ended k st1)) \<subseteq>
        rolled_back ctx \<union> results (row_loop ctx step progress rows ended k st1)" for pct m
      by (rule report_results)
    then have "results (report ctx st1 pct m (\<lambda>_. row_loop ctx step progress rows ended k st1)) \<subseteq> R" for pct m
      using Cons.prems(3) loop by blast
    with loop Inr show ?thesis by (simp add: x case_prod_beta)
  qed
qed

lemma read_stream_results:
  assumes "inv [] st"
    and "\<And>body rows st'. http_open (run_env ctx) url = Inr body \<Longrightarrow> body_rows (run_env ctx) body = (rows, None) \<Longrightarrow>
      inv rows st' \<Longrightarrow> results (k st') \<subseteq> R"
    and "rolled_back ctx \<subseteq> R"
  shows "results (read_stream ctx url step progress k st) \<subseteq> R"
proof (cases "http_open (run_env ctx) url")
  case (Inl e)
  then show ?thesis
    using assms(3) failed_rolled_back [of ctx] by (auto simp: read_stream_def)
next
  case (Inr body)
  obtain rows ended where r: "body_rows (run_env ctx) body = (rows, ended)" by fastforce
  show ?thesis
    using row_loop_results [OF assms(1), of ended rows k R ctx progress] assms(2,3) Inr r
    by (simp add: read_stream_def)
qed

end

definition credit_loop_inv ::
    "run_context \<Rightarrow> string \<Rightarrow> string \<Rightarrow> (nat \<times> bank_row) list \<Rightarrow> run_state \<Rightarrow> bool" where
  "credit_loop_inv ctx t l seen st \<longleftrightarrow>
     (let cs = parsed_credits (parsers_of (run_env ctx)) (run_loan_type ctx) seen in
      pushed_inv (sql (run_env ctx)) (run_db ctx) t l cs (writer st) \<and>
      known_accounts st = pc_account ` set cs \<and> rows_done st = length seen \<and>
      run_errors st = credit_errors (parsers_of (run_env ctx)) (run_loan_type ctx) seen)"

definition payment_loop_inv ::
    "run_context \<Rightarrow> string \<Rightarrow> string \<Rightarrow> parsed_credit list \<Rightarrow> nat \<Rightarrow> error_log list \<Rightarrow>
     (nat \<times> bank_row) list \<Rightarrow> run_state \<Rightarrow> bool" where
  "payment_loop_inv ctx t l cs n errs seen st \<longleftrightarrow>
     (let known = pc_account ` set cs in
      payments_inv (sql (run_env ctx)) (run_db ctx) t l cs
        (parsed_payments (parsers_of (run_env ctx)) known seen) (writer st) \<and>
      known_accounts st = known \<and> rows_done st = n + length seen \<and>
      run_errors st = errs @ payment_errors (parsers_of (run_env ctx)) known seen)"

interpretation credit_reader: row_reader "push_parsed_credit ctx" "credit_loop_inv ctx t l" for ctx t l
proof
  fix seen st n row st'
  assume inv: "credit_loop_inv ctx t l seen st" and step: "push_parsed_credit ctx n row st = Inr st'"
  let ?env = "parsers_of (run_env ctx)" and ?l = "run_loan_type ctx"
  have p: "parse_credit_row ?env row (int n) ?l (run_errors st) =
      (fst (parse_credit_row ?env row (int n) ?l []), run_errors st @ snd (parse_credit_row ?env row (int n) ?l []))"
    by (rule parse_credit_row_errors)
  show "credit_loop_inv ctx t l (seen @ [(n, row)]) st'"
  proof (cases "fst (parse_credit_row ?env row (int n) ?l [])")
    case None
    with inv step p show ?thesis
      by (auto simp: credit_loop_inv_def push_parsed_credit_def parsed_credits_def credit_errors_def
          map_filter_snoc Let_def)
  next
    case (Some c)
    with step p obtain w where w: "push_credit (sql (run_env ctx)) c (writer st) = Inr w"
      and st': "st' = \<lparr>writer = w, known_accounts = insert (pc_account c) (known_accounts st),
        rows_done = rows_done st + 1, run_errors = run_errors st @ snd (parse_credit_row ?env row (int n) ?l [])\<rparr>"
      by (auto simp: push_parsed_credit_def split: sum.splits)
    with inv Some push_credit_inv [OF _ w] show ?thesis
      by (auto simp: credit_loop_inv_def parsed_credits_def credit_errors_def map_filter_snoc Let_def)
  qed
qed

interpretation payment_reader: row_reader "push_parsed_payment ctx" "payment_loop_inv ctx t l cs k errs"
  for ctx t l cs k errs
proof
  fix seen st n row st'
  assume inv: "payment_loop_inv ctx t l cs k errs seen st" and step: "push_parsed_payment ctx n row st = Inr st'"
  let ?env = "parsers_of (run_env ctx)" and ?known = "pc_account ` set cs"
  have known: "known_accounts st = ?known" using inv by (simp add: payment_loop_inv_def Let_def)
  have p: "parse_payment_row ?env row (int n) ?known (run_errors st) =
      (fst (parse_payment_row ?env row (int n) ?known []),
       run_errors st @ snd (parse_payment_row ?env row (int n) ?known []))"
    by (rule parse_payment_row_errors)
  show "payment_loop_inv ctx t l cs k errs (seen @ [(n, row)]) st'"
  proof (cases "fst (parse_payment_row ?env row (int n) ?known [])")
    case None
    with inv step p known show ?thesis
      by (auto simp: payment_loop_inv_def push_parsed_payment_def parsed_payments_def payment_errors_def
          map_filter_snoc Let_def)
  next
    case (Some c)
    with step p known obtain w where w: "push_payment (sql (run_env ctx)) c (writer st) = Inr w"
      and st': "st' = st\<lparr>writer := w, rows_done := rows_done st + 1,
        run_errors := run_errors st @ snd (parse_payment_row ?env row (int n) ?known [])\<rparr>"
      by (auto simp: push_parsed_payment_def split: sum.splits)
    with inv Some parsed_payment_account [OF Some] push_payment_inv [OF _ _ w] show ?thesis
      by (auto simp: payment_loop_inv_def parsed_payments_def payment_errors_def map_filter_snoc Let_def)
  qed
qed

section \<open>What a run does\<close>

definition warehouse_ok :: "database \<Rightarrow> bool" where
  "warehouse_ok db \<longleftrightarrow> db_ok db \<and> payments_ok db"

text \<open>The specification of a committed run: the slice is replaced by what the two exports hold.\<close>

definition ingested :: "pipeline_env \<Rightarrow> database \<Rightarrow> adapter_args \<Rightarrow> outcome \<Rightarrow> bool" where
  "ingested env db args o1 \<longleftrightarrow>
     (\<exists>credits_body payments_body credit_rows payment_rows.
        http_open env (arg_credits_url args) = Inr credits_body \<and>
        body_rows env credits_body = (credit_rows, None) \<and>
        http_open env (arg_payments_url args) = Inr payments_body \<and>
        body_rows env payments_body = (payment_rows, None) \<and>
        (let cs = parsed_credits (parsers_of env) (arg_loan_type args) credit_rows;
             known = pc_account ` set cs;
             ps = parsed_payments (parsers_of env) known payment_rows
         in slice_replaced (sql env) (arg_tenant_id args) (py_upper (arg_loan_type args)) cs ps db (snd o1) \<and>
            fst o1 = Inr
              \<lparr>success = True, result_cancelled = False,
               processed_rows_count = int (length credit_rows + length payment_rows),
               duration_2f = elapsed env, total_credits_ingested = int (card known),
               total_payments_ingested = int (length ps),
               error_logs = credit_errors (parsers_of env) (arg_loan_type args) credit_rows @
                 payment_errors (parsers_of env) known payment_rows\<rparr>))"

text \<open>What a run may end with: rolled back, or ingested.\<close>

definition run_outcomes :: "pipeline_env \<Rightarrow> database \<Rightarrow> adapter_args \<Rightarrow> outcome set" where
  "run_outcomes env db args = {o1. if committed o1 then ingested env db args o1 else snd o1 = db}"

abbreviation run_ctx :: "pipeline_env \<Rightarrow> database \<Rightarrow> adapter_args \<Rightarrow> run_context" where
  "run_ctx env db args \<equiv> \<lparr>run_env = env, run_loan_type = arg_loan_type args, run_db = db\<rparr>"

lemma rolled_back_outcomes: "rolled_back (run_ctx env db args) \<subseteq> run_outcomes env db args"
  by (auto simp: rolled_back_def run_outcomes_def)

lemma failed_outcome [simp]: "failed (run_ctx env db args) m \<in> run_outcomes env db args"
  using rolled_back_outcomes failed_rolled_back by blast

lemma report_outcomes:
  "results (go_on ()) \<subseteq> run_outcomes env db args \<Longrightarrow>
   results (report (run_ctx env db args) st pct n go_on) \<subseteq> run_outcomes env db args"
  using report_results rolled_back_outcomes by blast

lemma finish_run_outcome:
  assumes "http_open env (arg_credits_url args) = Inr cbody" "body_rows env cbody = (crows, None)"
    and "http_open env (arg_payments_url args) = Inr pbody" "body_rows env pbody = (prows, None)"
    and "cs = parsed_credits (parsers_of env) (arg_loan_type args) crows"
    and inv: "payment_loop_inv (run_ctx env db args) (arg_tenant_id args) (py_upper (arg_loan_type args)) cs
      (length crows) (credit_errors (parsers_of env) (arg_loan_type args) crows) prows st"
  shows "finish_run (run_ctx env db args) (card (pc_account ` set cs)) st \<in> run_outcomes env db args"
proof (cases "commit_writer (sql env) (writer st)")
  case (Inl e)
  then show ?thesis by (simp add: finish_run_def run_outcomes_def committed_def)
next
  case (Inr r)
  obtain db' m where r: "r = (db', m)" by fastforce
  have st: "payments_inv (sql env) db (arg_tenant_id args) (py_upper (arg_loan_type args)) cs
      (parsed_payments (parsers_of env) (pc_account ` set cs) prows) (writer st)"
    "rows_done st = length crows + length prows"
    "run_errors st = credit_errors (parsers_of env) (arg_loan_type args) crows @
       payment_errors (parsers_of env) (pc_account ` set cs) prows"
    using inv by (simp_all add: payment_loop_inv_def Let_def)
  note commit = commit_writer_ok [OF st(1) Inr [unfolded r]]
  have "ingested env db args (finish_run (run_ctx env db args) (card (pc_account ` set cs)) st)"
    unfolding ingested_def
    by (intro exI [of _ cbody] exI [of _ pbody] exI [of _ crows] exI [of _ prows])
      (use assms(1-5) commit st(2,3) Inr r in \<open>simp add: finish_run_def\<close>)
  then show ?thesis by (simp add: run_outcomes_def committed_def finish_run_def Inr r)
qed

lemma payment_phase_outcomes:
  assumes body: "http_open env (arg_credits_url args) = Inr cbody" "body_rows env cbody = (crows, None)"
    and inv: "credit_loop_inv (run_ctx env db args) (arg_tenant_id args) (py_upper (arg_loan_type args)) crows st"
  shows "results (payment_phase (run_ctx env db args) (arg_payments_url args) st) \<subseteq> run_outcomes env db args"
proof (cases "flush_credits (sql env) (writer st)")
  case (Inl e)
  then show ?thesis by (simp add: payment_phase_def)
next
  case (Inr w)
  let ?ctx = "run_ctx env db args" and ?t = "arg_tenant_id args" and ?l = "py_upper (arg_loan_type args)"
  let ?cs = "parsed_credits (parsers_of env) (arg_loan_type args) crows"
  let ?errs = "credit_errors (parsers_of env) (arg_loan_type args) crows"
  have st: "pushed_inv (sql env) db ?t ?l ?cs (writer st)" "known_accounts st = pc_account ` set ?cs"
    "rows_done st = length crows" "run_errors st = ?errs"
    using inv by (simp_all add: credit_loop_inv_def Let_def)
  have w: "credits_inv (sql env) db ?t ?l ?cs w" "credit_batch w = []"
    using flush_pushed_inv [OF st(1) Inr] by simp_all
  have count: "credits_ingested w = card (pc_account ` set ?cs)"
    using w(1) dom_id_map [of "sql env" db ?t ?l ?cs w] by (simp add: credits_ingested_def credits_inv_def)
  have start: "payment_loop_inv ?ctx ?t ?l ?cs (length crows) ?errs [] (st\<lparr>writer := w\<rparr>)"
    using st payments_inv_start [OF w]
    by (simp add: payment_loop_inv_def Let_def parsed_payments_def payment_errors_def)
  have "results (read_stream ?ctx (arg_payments_url args) (push_parsed_payment ?ctx) progress
      (\<lambda>st. report ?ctx st 95 n (\<lambda>_. Done (finish_run ?ctx (card (pc_account ` set ?cs)) st)))
      (st\<lparr>writer := w\<rparr>)) \<subseteq> run_outcomes env db args" for progress n
    by (rule payment_reader.read_stream_results [OF start _ rolled_back_outcomes], rule report_outcomes)
      (use finish_run_outcome [OF body] in simp)
  then show ?thesis
    using Inr by (simp add: payment_phase_def Let_def count report_outcomes)
qed

lemma run_pipeline_outcomes:
  assumes "warehouse_ok db"
  shows "results (run_pipeline env db args) \<subseteq> run_outcomes env db args"
proof (cases "connect env (arg_database_url args)")
  case None
  let ?ctx = "run_ctx env db args" and ?t = "arg_tenant_id args" and ?l = "py_upper (arg_loan_type args)"
  have start: "credit_loop_inv ?ctx ?t ?l []
      \<lparr>writer = begin_writer ?t ?l db, known_accounts = {}, rows_done = 0, run_errors = []\<rparr>"
    using assms begin_writer_inv [of db "sql env" ?t ?l]
    by (simp add: credit_loop_inv_def parsed_credits_def credit_errors_def warehouse_ok_def)
  have "results (read_stream ?ctx (arg_credits_url args) (push_parsed_credit ?ctx) progress
      (payment_phase ?ctx (arg_payments_url args))
      \<lparr>writer = begin_writer ?t ?l db, known_accounts = {}, rows_done = 0, run_errors = []\<rparr>)
      \<subseteq> run_outcomes env db args" for progress
    by (rule credit_reader.read_stream_results [OF start _ rolled_back_outcomes])
      (use payment_phase_outcomes in simp)
  with None show ?thesis by (simp add: run_pipeline_def Let_def)
next
  case (Some e)
  then show ?thesis by (simp add: run_pipeline_def Let_def)
qed

section \<open>When a run succeeds\<close>

text \<open>The run whose callback always gives the same answer.\<close>

primrec answered :: "exn + bool \<Rightarrow> 'r stage \<Rightarrow> 'r" where
  "answered a (Done r) = r"
| "answered a (Report rows pct errs k) = answered a (k a)"

lemma answered_result: "answered a s \<in> results s"
  by (induction s) auto

lemma answered_report [simp]:
  "answered (Inr True) (report ctx st pct n go_on) = answered (Inr True) (go_on ())"
  by (simp add: report_def emit_def)

locale total_reader = row_reader +
  fixes good :: "(nat \<times> bank_row) list \<Rightarrow> bool"
  assumes good_prefix: "good (xs @ ys) \<Longrightarrow> good xs"
    and step_total: "inv seen st \<Longrightarrow> good (seen @ [(n, row)]) \<Longrightarrow> \<exists>st'. step n row st = Inr st'"
begin

lemma row_loop_completes:
  "inv seen st \<Longrightarrow> good (seen @ rows) \<Longrightarrow>
   \<exists>st'. inv (seen @ rows) st' \<and>
     answered (Inr True) (row_loop rc step progress rows None k st) = answered (Inr True) (k st')"
proof (induction rows arbitrary: seen st)
  case (Cons x rows)
  obtain n row where x: "x = (n, row)" by fastforce
  have "good ((seen @ [(n, row)]) @ rows)" using Cons.prems(2) by (simp add: x)
  then obtain st1 where st1: "step n row st = Inr st1"
    using step_total [OF Cons.prems(1)] good_prefix by blast
  have "inv (seen @ [(n, row)]) st1" using step_inv [OF Cons.prems(1) st1] .
  from Cons.IH [OF this] Cons.prems(2) obtain st' where "inv (seen @ x # rows) st'"
    "answered (Inr True) (row_loop rc step progress rows None k st1) = answered (Inr True) (k st')"
    by (auto simp: x)
  then show ?case using st1 by (auto simp: x case_prod_beta)
qed auto

lemma read_stream_completes:
  assumes "http_open (run_env rc) url = Inr body" and "body_rows (run_env rc) body = (rows, None)"
    and "inv [] st" and "good rows"
  shows "\<exists>st'. inv rows st' \<and>
    answered (Inr True) (read_stream rc url step progress k st) = answered (Inr True) (k st')"
  using row_loop_completes [OF assms(3), of rows rc progress k] assms by (simp add: read_stream_def)

end

interpretation credit_total: total_reader "push_parsed_credit ctx" "credit_loop_inv ctx t l"
  "\<lambda>rows. accepting (sql (run_env ctx))" for ctx t l
proof
  fix seen st n row
  assume "credit_loop_inv ctx t l seen st" and "accepting (sql (run_env ctx))"
  then have "\<exists>w. push_credit (sql (run_env ctx)) c (writer st) = Inr w" for c
    using push_credit_total by (auto simp: credit_loop_inv_def Let_def)
  then show "\<exists>st'. push_parsed_credit ctx n row st = Inr st'"
    by (auto simp: push_parsed_credit_def split: prod.split option.split) (metis sum.case(2))
qed

definition payable :: "run_context \<Rightarrow> parsed_credit list \<Rightarrow> (nat \<times> bank_row) list \<Rightarrow> bool" where
  "payable ctx cs rows \<longleftrightarrow> accepting (sql (run_env ctx)) \<and> warehouse_ok (run_db ctx) \<and>
     distinct (map payment_key (parsed_payments (parsers_of (run_env ctx)) (pc_account ` set cs) rows))"

lemma parsed_payments_append:
  "parsed_payments env known (xs @ ys) = parsed_payments env known xs @ parsed_payments env known ys"
  by (simp add: parsed_payments_def List.map_filter_def)

interpretation payment_total: total_reader "push_parsed_payment ctx" "payment_loop_inv ctx t l cs k errs"
  "payable ctx cs" for ctx t l cs k errs
proof
  fix xs ys
  assume "payable ctx cs (xs @ ys)"
  then show "payable ctx cs xs" by (simp add: payable_def parsed_payments_append)
next
  fix seen st n row
  let ?env = "parsers_of (run_env ctx)" and ?known = "pc_account ` set cs"
  assume inv: "payment_loop_inv ctx t l cs k errs seen st" and good: "payable ctx cs (seen @ [(n, row)])"
  have st: "payments_inv (sql (run_env ctx)) (run_db ctx) t l cs (parsed_payments ?env ?known seen) (writer st)"
    "known_accounts st = ?known"
    using inv by (simp_all add: payment_loop_inv_def Let_def)
  show "\<exists>st'. push_parsed_payment ctx n row st = Inr st'"
  proof (cases "parse_payment_row ?env row (int n) ?known (run_errors st)")
    case (Pair r e)
    show ?thesis
    proof (cases r)
      case None
      with Pair st show ?thesis by (simp add: push_parsed_payment_def)
    next
      case (Some p)
      have p: "fst (parse_payment_row ?env row (int n) ?known []) = Some p" "pp_account p \<in> ?known"
        using Pair Some parse_payment_row_errors [of ?env row "int n" ?known "run_errors st"]
          parsed_payment_account [of ?env row "int n" ?known "run_errors st" p] by simp_all
      then have "distinct (map payment_key (parsed_payments ?env ?known seen @ [p]))"
        using good by (simp add: payable_def parsed_payments_def map_filter_snoc)
      with push_payment_total [OF _ _ _ st(1) p(2)] good
      obtain w where "push_payment (sql (run_env ctx)) p (writer st) = Inr w"
        by (auto simp: payable_def warehouse_ok_def)
      with Pair Some st show ?thesis by (simp add: push_parsed_payment_def)
    qed
  qed
qed

lemma run_pipeline_commits:
  assumes ok: "warehouse_ok db" "connect env (arg_database_url args) = None" "accepting (sql env)"
    and credits: "http_open env (arg_credits_url args) = Inr cbody" "body_rows env cbody = (crows, None)"
    and payments: "http_open env (arg_payments_url args) = Inr pbody" "body_rows env pbody = (prows, None)"
    and cs: "cs = parsed_credits (parsers_of env) (arg_loan_type args) crows"
    and d: "distinct (map payment_key (parsed_payments (parsers_of env) (pc_account ` set cs) prows))"
  shows "committed (answered (Inr True) (run_pipeline env db args))"
proof -
  let ?ctx = "run_ctx env db args" and ?t = "arg_tenant_id args" and ?l = "py_upper (arg_loan_type args)"
  let ?errs = "credit_errors (parsers_of env) (arg_loan_type args) crows"
  let ?st0 = "\<lparr>writer = begin_writer ?t ?l db, known_accounts = {}, rows_done = 0, run_errors = []\<rparr>"
  let ?progress = "\<lambda>st n. (credit_phase_progress n, credits_ingested (writer st))"
  have "credit_loop_inv ?ctx ?t ?l [] ?st0"
    using ok(1) begin_writer_inv [of db "sql env" ?t ?l]
    by (simp add: credit_loop_inv_def parsed_credits_def credit_errors_def warehouse_ok_def)
  from credit_total.read_stream_completes [OF _ _ this, where url = "arg_credits_url args" and body = cbody and
      rows = crows and rc = ?ctx and progress = ?progress and k = "payment_phase ?ctx (arg_payments_url args)"] credits ok(3)
  obtain st where st: "credit_loop_inv ?ctx ?t ?l crows st"
    and run: "answered (Inr True) (run_pipeline env db args) =
      answered (Inr True) (payment_phase ?ctx (arg_payments_url args) st)"
    by (auto simp: run_pipeline_def Let_def ok(2))
  have pushed: "pushed_inv (sql env) db ?t ?l cs (writer st)" "known_accounts st = pc_account ` set cs"
    "rows_done st = length crows" "run_errors st = ?errs"
    using st by (simp_all add: credit_loop_inv_def Let_def cs)
  obtain w where flush: "flush_credits (sql env) (writer st) = Inr w"
    using pushed(1) flush_credits_total [OF ok(3)] unfolding pushed_inv_def by blast
  have "payment_loop_inv ?ctx ?t ?l cs (length crows) ?errs [] (st\<lparr>writer := w\<rparr>)"
    using pushed payments_inv_start flush_pushed_inv [OF pushed(1) flush]
    by (simp add: payment_loop_inv_def Let_def parsed_payments_def payment_errors_def)
  from payment_total.read_stream_completes [OF _ _ this, where url = "arg_payments_url args" and body = pbody and rows = prows and
      rc = ?ctx and progress = "\<lambda>st n. (payment_phase_progress n (credits_ingested w), credits_ingested w)" and
      k = "\<lambda>st. report ?ctx st 95 (credits_ingested w) (\<lambda>_. Done (finish_run ?ctx (credits_ingested w) st))"]
  have "\<exists>st'. payment_loop_inv ?ctx ?t ?l cs (length crows) ?errs prows st' \<and>
      answered (Inr True) (run_pipeline env db args) = finish_run ?ctx (credits_ingested w) st'"
    using payments d ok flush by (simp add: run payment_phase_def Let_def payable_def)
  then obtain st' where "payment_loop_inv ?ctx ?t ?l cs (length crows) ?errs prows st'"
    and result: "answered (Inr True) (run_pipeline env db args) = finish_run ?ctx (credits_ingested w) st'"
    by blast
  then have "\<exists>r. commit_writer (sql env) (writer st') = Inr r"
    using commit_writer_total [OF ok(3) _ _ _ d] ok(1)
    unfolding payment_loop_inv_def Let_def warehouse_ok_def by fastforce
  then show ?thesis
    by (auto simp: result finish_run_def committed_def)
qed

end
