(* ===== verification/AdapterRuns.thy ===== *)
theory AdapterRuns
  imports AdapterPipeline
begin

text \<open>
  The runs of the adapter from outside: what the progress callback sees of them and what an abort
  does, how a run reads an export of the bank, and the properties of a run.
\<close>

section \<open>What the callback sees\<close>

text \<open>The percentages of a stage never fall below \<open>lo\<close>, nor below one reported before.\<close>

primrec rising :: "int \<Rightarrow> 'r stage \<Rightarrow> bool" where
  "rising lo (Done r) = True"
| "rising lo (Report rows pct errs k) =
     (lo \<le> pct \<and> pct \<le> 95 \<and> length errs \<le> 50 \<and> (\<forall>a. rising pct (k a)))"

text \<open>Every report can end the stage: an exception is passed on, a false answer ends it as cancelled.\<close>

primrec abortable :: "database \<Rightarrow> outcome stage \<Rightarrow> bool" where
  "abortable db (Done r) = True"
| "abortable db (Report rows pct errs k) =
     ((\<forall>e. k (Inl e) = Done (Inl e, db)) \<and>
      (\<exists>r. k (Inr False) = Done (Inr r, db) \<and> result_cancelled r \<and> \<not> success r \<and> processed_rows_count r = rows) \<and>
      abortable db (k (Inr True)))"

lemma rising_mono: "rising hi s \<Longrightarrow> lo \<le> hi \<Longrightarrow> rising lo s"
  by (cases s) auto

lemma rising_report [simp]:
  "rising lo (report ctx st pct n go_on) \<longleftrightarrow> lo \<le> int pct \<and> pct \<le> 95 \<and> rising (int pct) (go_on ())"
  by (auto simp: report_def emit_def MAX_PROGRESS_ERRORS_def split: sum.split)

lemma abortable_report [simp]:
  "abortable (run_db ctx) (report ctx st pct n go_on) \<longleftrightarrow> abortable (run_db ctx) (go_on ())"
  by (auto simp: report_def emit_def cancelled_result_def)

lemma row_loop_rising:
  "(\<And>st. rising hi (k st)) \<Longrightarrow> lo \<le> hi \<Longrightarrow> sorted (map fst rows) \<Longrightarrow>
   (\<And>st n. int (fst (progress st n)) \<le> hi \<and> fst (progress st n) \<le> 95) \<Longrightarrow>
   (\<And>st st' n m. n \<le> m \<Longrightarrow> fst (progress st n) \<le> fst (progress st' m)) \<Longrightarrow>
   (\<And>st n. n \<in> fst ` set rows \<Longrightarrow> lo \<le> int (fst (progress st n))) \<Longrightarrow>
   rising lo (row_loop ctx step progress rows ended k st)"
proof (induction rows arbitrary: lo st)
  case Nil
  then show ?case by (cases ended) (auto intro: rising_mono)
next
  case (Cons x rows)
  obtain n row where x: "x = (n, row)" by fastforce
  have later: "n \<le> m" if "m \<in> fst ` set rows" for m
    using Cons.prems(3) that by (auto simp: x)
  have "rising (int (fst (progress st' n))) (row_loop ctx step progress rows ended k st')" for st'
    using Cons.prems later by (intro Cons.IH) (auto simp: x)
  moreover have "rising lo (row_loop ctx step progress rows ended k st')" for st'
    using Cons.prems by (intro Cons.IH) (auto simp: x)
  ultimately show ?case
    using Cons.prems(4,6) by (simp add: x case_prod_beta split: sum.split)
qed

lemma row_loop_abortable:
  "(\<And>st. abortable (run_db ctx) (k st)) \<Longrightarrow>
   abortable (run_db ctx) (row_loop ctx step progress rows ended k st)"
  by (induction rows arbitrary: st) (auto simp: case_prod_beta split: option.split sum.split)

lemma credit_phase_progress_bounds: "5 \<le> credit_phase_progress n" "credit_phase_progress n \<le> 40"
proof -
  have "n * 35 div (n + 10000) < 36" by (simp add: div_less_iff_less_mult)
  then show "5 \<le> credit_phase_progress n" "credit_phase_progress n \<le> 40"
    by (simp_all add: credit_phase_progress_def)
qed

lemma saturating_mono:
  fixes n m c b :: nat
  assumes "n \<le> m" and "0 < b"
  shows "n * c div (n + b) \<le> m * c div (m + b)"
proof -
  let ?q = "n * c div (n + b)"
  obtain d where m: "m = n + d" using assms(1) le_iff_add by blast
  have q: "?q * (n + b) \<le> n * c" by (simp add: div_times_less_eq_dividend)
  have "?q \<le> c"
  proof (rule ccontr)
    assume "\<not> ?q \<le> c"
    then have "Suc c * (n + b) \<le> n * c" using q by (meson le_trans mult_le_mono1 not_less_eq_eq)
    then show False using assms(2) by (simp add: algebra_simps)
  qed
  then have "?q * d \<le> c * d" by simp
  with q have "?q * (n + b) + ?q * d \<le> n * c + c * d" by linarith
  then have "?q * (m + b) \<le> m * c" by (simp add: m add_mult_distrib add_mult_distrib2 mult.commute)
  then show ?thesis using assms(2) by (simp add: less_eq_div_iff_mult_less_eq)
qed

lemma progress_mono:
  assumes "n \<le> m"
  shows "credit_phase_progress n \<le> credit_phase_progress m"
    and "payment_phase_progress n c \<le> payment_phase_progress m c"
proof -
  have "0 < max c 1" by simp
  from saturating_mono [OF assms, of 10000 35] saturating_mono [OF assms this, of 50]
  show "credit_phase_progress n \<le> credit_phase_progress m"
    "payment_phase_progress n c \<le> payment_phase_progress m c"
    unfolding credit_phase_progress_def payment_phase_progress_def by (auto intro: min.mono)
qed

section \<open>The rows of a body\<close>

text \<open>The row counter of the stream is an unsigned 32 bit integer.\<close>

fun numbered :: "32 word \<Rightarrow> 'a list \<Rightarrow> (nat \<times> 'a) list" where
  "numbered k [] = []"
| "numbered k (x # xs) = (unat (k + 1), x) # numbered (k + 1) xs"

lemma numbered_enumerate:
  "unat k + length xs < 2 ^ 32 \<Longrightarrow> numbered k xs = enumerate (unat k + 1) xs"
proof (induction xs arbitrary: k)
  case (Cons x xs)
  then have "unat (k + 1) = unat k + 1" by (simp add: unat_word_ariths)
  with Cons.IH [of "k + 1"] Cons.prems show ?case by simp
qed simp

lemma next_row_number:
  "next_row fs disp rs = (Inr (Some row), rs') \<Longrightarrow> row_number rs' = row_number rs + 1"
  by (auto simp: next_row_def Let_def split: if_splits option.splits list.splits sum.splits prod.splits)

lemma stream_rows_drain:
  "stream_rows env n rs =
     map_option (\<lambda>(qs, e, _). (numbered (row_number rs) qs, e)) (drain (from_slice env) (display env) n rs)"
proof (induction n arbitrary: rs)
  case (Suc n)
  obtain r rs' where nr: "next_row (from_slice env) (display env) rs = (r, rs')" by fastforce
  show ?case
  proof (cases "\<exists>row. r = Inr (Some row)")
    case True
    then obtain row where r: "r = Inr (Some row)" by blast
    with nr next_row_number [of _ _ rs row rs'] have "row_number rs' = row_number rs + 1" by blast
    with nr r Suc.IH [of rs'] show ?thesis
      by (simp add: option.map_comp comp_def apfst_def map_prod_def case_prod_beta)
  next
    case False
    with nr show ?thesis by (cases r) (auto split: option.splits)
  qed
qed simp

lemma drain_length:
  "drain fs disp n rs = Some (qs, e, rs') \<Longrightarrow> length qs \<le> length (reader rs)"
proof (induction n arbitrary: rs qs)
  case (Suc n)
  obtain r rs1 where nr: "next_row fs disp rs = (r, rs1)" by fastforce
  show ?case
  proof (cases "\<exists>row. r = Inr (Some row)")
    case True
    then obtain row where r: "r = Inr (Some row)" by blast
    with Suc.prems nr obtain qs' where "drain fs disp n rs1 = Some (qs', e, rs')" "qs = row # qs'"
      by auto
    with Suc.IH [of rs1 qs'] next_row_shorter [of fs disp rs row rs1] nr r show ?thesis by simp
  next
    case False
    with nr Suc.prems show ?thesis by (cases r) (auto split: option.splits)
  qed
qed simp

lemma body_rows_drain:
  obtains qs e rs where "drain (from_slice env) (display env) (length body + 2) (from_bytes body) = Some (qs, e, rs)"
    and "body_rows env body = (numbered 0 qs, e)" and "length qs \<le> length body"
proof -
  have r: "reader (from_bytes body) = body" "row_number (from_bytes body) = 0" by (simp_all add: from_bytes_def)
  then obtain qs e rs where d: "drain (from_slice env) (display env) (length body + 2) (from_bytes body) = Some (qs, e, rs)"
    using drain_ends [of "from_bytes body" "length body + 2" "from_slice env" "display env"] by auto
  with stream_rows_drain [of env "length body + 2" "from_bytes body"] drain_length [OF d] r
  show ?thesis by (intro that [OF d]) (simp_all add: body_rows_def)
qed

lemma body_numbers:
  assumes "length body < 2 ^ 32" and "body_rows env body = (rows, e)"
  shows "sorted (map fst rows)"
proof -
  obtain qs e' rs where "body_rows env body = (numbered 0 qs, e')" "length qs \<le> length body"
    by (rule body_rows_drain)
  with assms numbered_enumerate [of 0 qs] have "rows = enumerate 1 qs" by simp
  then show ?thesis by (simp only: map_fst_enumerate sorted_upt)
qed

lemma read_stream_rising:
  assumes "\<And>url body. http_open (run_env ctx) url = Inr body \<Longrightarrow> length body < 2 ^ 32"
    and "\<And>st. rising hi (k st)" and "lo \<le> hi" and "hi \<le> 95"
    and "\<And>st n. lo \<le> int (fst (progress st n)) \<and> int (fst (progress st n)) \<le> hi"
    and "\<And>st st' n m. n \<le> m \<Longrightarrow> fst (progress st n) \<le> fst (progress st' m)"
  shows "rising lo (read_stream ctx url step progress k st)"
proof (cases "http_open (run_env ctx) url")
  case (Inr body)
  obtain rows ended where b: "body_rows (run_env ctx) body = (rows, ended)" by fastforce
  have p: "fst (progress st n) \<le> 95" for st n using assms(4) assms(5) [of st n] by linarith
  have "rising lo (row_loop ctx step progress rows ended k st)"
    by (rule row_loop_rising [OF assms(2,3) body_numbers [OF assms(1) [OF Inr] b]]) (use assms(5,6) p in auto)
  with Inr b show ?thesis by (simp add: read_stream_def)
qed (simp add: read_stream_def)

lemma read_stream_abortable:
  "(\<And>st. abortable (run_db ctx) (k st)) \<Longrightarrow>
   abortable (run_db ctx) (read_stream ctx url step progress k st)"
  using row_loop_abortable [of ctx k]
  by (auto simp: read_stream_def split: sum.split prod.split)

lemma payment_progress_bounds: "40 \<le> payment_phase_progress n c" "payment_phase_progress n c \<le> 90"
  by (simp_all add: payment_phase_progress_def)

lemma payment_phase_rising:
  assumes "\<And>url body. http_open (run_env ctx) url = Inr body \<Longrightarrow> length body < 2 ^ 32"
  shows "rising 40 (payment_phase ctx url st)"
proof (cases "flush_credits (sql (run_env ctx)) (writer st)")
  case (Inr w)
  have "rising 40 (read_stream ctx url (push_parsed_payment ctx)
      (\<lambda>st n. (payment_phase_progress n c, c))
      (\<lambda>st. report ctx st 95 c (\<lambda>_. Done (finish_run ctx c st))) st')" for c st'
    by (rule read_stream_rising [OF assms, where hi = 95])
      (simp_all add: payment_progress_bounds progress_mono order_trans [OF payment_progress_bounds(2)])
  with Inr show ?thesis by (simp add: payment_phase_def Let_def)
qed (simp add: payment_phase_def)

text \<open>A complete export of the bank is read as its rows, numbered from one.\<close>

lemma body_rows_export:
  assumes "decodes_rows (from_slice env)"
    and "iter_csv_rows csv = (rows, None)" and "list_all (\<lambda>r. distinct (map fst r)) rows"
  shows "body_rows env (concat (fst (single_pass_json_generator csv))) = (numbered 0 (map map_of rows), None)"
proof -
  let ?body = "concat (fst (single_pass_json_generator csv))"
  obtain qs e rs where d: "drain (from_slice env) (display env) (length ?body + 2) (from_bytes ?body) = Some (qs, e, rs)"
    and b: "body_rows env ?body = (numbered 0 qs, e)"
    by (rule body_rows_drain)
  have 1: "length rs \<le> length (concat (map encode_row rs))" for rs
    by (induction rs) (simp_all add: encode_row_def)
  have 2: "length (concat (map encode_row rs)) \<le> length (join_with COMMA_LF (map encode_row rs))" for rs
    by (induction rs rule: induct_list012) simp_all
  have "length rows < length ?body + 2"
    using order_trans [OF 1 2, of rows] assms(2) by (simp add: single_pass_text)
  from drain_whole_export [OF assms this, of "display env"] d b show ?thesis by simp
qed

section \<open>A concrete run\<close>

definition demo_sql :: sql_env where
  "demo_sql = \<lparr>numeric = (\<lambda>_. 0), refuse_credits = (\<lambda>_. None), refuse_payments = (\<lambda>_. None),
     refuse_commit = (\<lambda>_. None), format_db_error = (\<lambda>_. ''db error''), clock = int\<rparr>"

definition demo_pipeline :: "string \<Rightarrow> string \<Rightarrow> pipeline_env" where
  "demo_pipeline credits payments =
     \<lparr>http_open = (\<lambda>url. Inr (if url = ''credits'' then credits else payments)),
      from_slice = demo_from_slice, display = (\<lambda>_. ''''), connect = (\<lambda>_. None),
      parsers_of = \<lparr>decimal_ok = (\<lambda>_. True), parse_f64 = (\<lambda>_. None)\<rparr>, sql = demo_sql, elapsed = ''0.10''\<rparr>"

definition demo_args :: adapter_args where
  "demo_args = \<lparr>arg_job_id = ''job_7'', arg_tenant_id = ''BANK001'', arg_loan_type = ''RETAIL'',
     arg_credits_url = ''credits'', arg_payments_url = ''payments'', arg_database_url = ''db''\<rparr>"

definition demo_database :: database where
  "demo_database = \<lparr>credit_table = [], payment_table = [], credit_seq = 1\<rparr>"

lemma demo_accepting [simp]: "accepting (sql (demo_pipeline cb pb))"
  by (simp add: accepting_def demo_pipeline_def demo_sql_def)

lemma demo_pipeline_simps [simp]:
  "http_open (demo_pipeline cb pb) (arg_credits_url demo_args) = Inr cb"
  "http_open (demo_pipeline cb pb) (arg_payments_url demo_args) = Inr pb"
  "connect (demo_pipeline cb pb) url = None"
  by (simp_all add: demo_pipeline_def demo_args_def)

lemma demo_warehouse_ok: "warehouse_ok demo_database"
  by (simp add: warehouse_ok_def db_ok_def payments_ok_def demo_database_def)

abbreviation demo_row :: "string \<Rightarrow> bank_row" where
  "demo_row a \<equiv> [''loan_account_number'' \<mapsto> a]"

text \<open>A file with the single column \<open>loan_account_number\<close> and its export.\<close>

definition demo_file :: "string list \<Rightarrow> string" where
  "demo_file accounts = csv_write ([''loan_account_number''] # map (\<lambda>a. [a]) accounts)"

definition demo_export :: "string list \<Rightarrow> string" where
  "demo_export accounts = concat (fst (single_pass_json_generator (demo_file accounts)))"

lemma demo_csv_rows:
  assumes "list_all (\<lambda>a. a = ''A1'') accounts"
  shows "iter_csv_rows (demo_file accounts) = (map (\<lambda>a. [(''loan_account_number'', a)]) accounts, None)"
    and "list_all (\<lambda>r. distinct (map fst r)) (map (\<lambda>a. [(''loan_account_number'', a)]) accounts)"
    and "map map_of (map (\<lambda>a. [(''loan_account_number'', a)]) accounts) = map demo_row accounts"
proof -
  let ?rs = "map (\<lambda>a. [a]) accounts"
  have strip: "py_strip ''loan_account_number'' = ''loan_account_number''" "py_strip ''A1'' = ''A1''" by code_simp+
  have points: "code_points ''loan_account_number'' \<le> FIELD_LIMIT" "code_points ''A1'' \<le> FIELD_LIMIT"
    by (simp_all add: code_points_def FIELD_LIMIT_def is_continuation_def less_eq_char_def less_char_def)
  have limits: "list_all (\<lambda>r. r \<noteq> [] \<and> list_all (\<lambda>f. code_points f \<le> FIELD_LIMIT) r) ([''loan_account_number''] # ?rs)"
    "list_all (\<lambda>r. \<not> list_all (\<lambda>f. py_strip f = '''') r) ?rs"
    using assms points by (auto simp: list_all_iff strip)
  show "iter_csv_rows (demo_file accounts) = (map (\<lambda>a. [(''loan_account_number'', a)]) accounts, None)"
    using iter_rows_write [OF _ _ limits] by (simp add: demo_file_def strip comp_def)
  show "list_all (\<lambda>r. distinct (map fst r)) (map (\<lambda>a. [(''loan_account_number'', a)]) accounts)"
    "map map_of (map (\<lambda>a. [(''loan_account_number'', a)]) accounts) = map demo_row accounts"
    by (induction accounts) simp_all
qed

lemma demo_rows:
  assumes "list_all (\<lambda>a. a = ''A1'') accounts"
  shows "body_rows (demo_pipeline cb pb) (demo_export accounts) = (numbered 0 (map demo_row accounts), None)"
proof -
  have decodes: "decodes_rows (from_slice (demo_pipeline cb pb))"
    by (simp add: demo_pipeline_def demo_decodes)
  show ?thesis
    using body_rows_export [OF decodes demo_csv_rows(1,2) [OF assms]]
    by (simp only: demo_export_def demo_csv_rows(3) [OF assms])
qed

lemma demo_account [simp]: "row_account (demo_row ''A1'') = ''A1''"
proof -
  have "rust_trim ''A1'' = ''A1''" by code_simp
  then show ?thesis by (simp add: row_account_def)
qed

lemma demo_parsed:
  "pc_account ` set (parsed_credits env l [(1, demo_row ''A1'')]) = {''A1''}"
  "map payment_key (parsed_payments env {''A1''} [(1, demo_row ''A1'')]) = [(''A1'', 0)]"
  "map payment_key (parsed_payments env {''A1''} [(1, demo_row ''A1''), (2, demo_row ''A1'')]) = [(''A1'', 0), (''A1'', 0)]"
proof -
  have [simp]: "parse_int None = None" by (simp add: parse_int_def trimmed_def)
  have p: "fst (parse_payment_row env (demo_row ''A1'') n {''A1''} []) = Some (payment_of env (demo_row ''A1'') n)"
    "payment_key (payment_of env (demo_row ''A1'') n) = (''A1'', 0)" for n
    by (simp_all add: parse_payment_row_cases payment_key_def payment_of_account)
      (simp add: payment_of_def parse_payment_row_def Let_def case_prod_beta)
  show "pc_account ` set (parsed_credits env l [(1, demo_row ''A1'')]) = {''A1''}"
    by (simp add: parsed_credits_def List.map_filter_def parse_credit_row_cases credit_of_account)
  show "map payment_key (parsed_payments env {''A1''} [(1, demo_row ''A1'')]) = [(''A1'', 0)]"
    "map payment_key (parsed_payments env {''A1''} [(1, demo_row ''A1''), (2, demo_row ''A1'')]) = [(''A1'', 0), (''A1'', 0)]"
    using p by (simp_all add: parsed_payments_def List.map_filter_def)
qed

lemma demo_payments_distinct:
  "distinct (map payment_key (parsed_payments env
     (pc_account ` set (parsed_credits env l [(1, demo_row ''A1'')])) [(1, demo_row ''A1'')]))"
  unfolding demo_parsed by simp

lemma demo_one_row: "body_rows (demo_pipeline cb pb) (demo_export [''A1'']) = ([(1, demo_row ''A1'')], None)"
  using demo_rows [of "[''A1'']" cb pb] by simp

lemma run_outcome:
  "warehouse_ok db \<Longrightarrow> o1 \<in> results (run_pipeline env db args) \<Longrightarrow> o1 \<in> run_outcomes env db args"
  using run_pipeline_outcomes by blast

text \<open>The run on one credit and one payment commits.\<close>

lemma demo_run_commits:
  "committed (answered (Inr True)
     (run_pipeline (demo_pipeline (demo_export [''A1'']) (demo_export [''A1''])) demo_database demo_args))"
  by (rule run_pipeline_commits [OF demo_warehouse_ok _ _ _ demo_one_row _ demo_one_row refl demo_payments_distinct]) simp_all

section \<open>Properties\<close>

text \<open>
  Property C2. The adapter refines its specification, whatever the callback answers and however often
  it raises: a run that reports success has replaced the slice of the warehouse by exactly the
  last credit of every account of the credits export and the payments of the payments export that
  belong to one of them, has left every other slice alone and counts what it wrote; every other
  end of a run (an exception, a cancellation, a failed commit) leaves the warehouse as it was.
\<close>

theorem pipeline_refines:
  assumes "warehouse_ok db" and "o1 \<in> results (run_pipeline env db args)"
  shows "if committed o1 then ingested env db args o1 else snd o1 = db"
  using run_outcome [OF assms] by (simp add: run_outcomes_def)

lemma pipeline_refines_witness:
  "ingested (demo_pipeline (demo_export [''A1'']) (demo_export [''A1''])) demo_database demo_args
     (answered (Inr True)
       (run_pipeline (demo_pipeline (demo_export [''A1'']) (demo_export [''A1''])) demo_database demo_args))"
  using pipeline_refines [OF demo_warehouse_ok answered_result
      [of "Inr True" "run_pipeline (demo_pipeline (demo_export [''A1'']) (demo_export [''A1''])) demo_database demo_args"]]
    demo_run_commits by simp

text \<open>
  Property C12. A run ends in success when nothing stands in its way: the database can be reached and
  refuses no statement, both exports are read to their end, and no two payments share account and
  installment number.  (Duplicate credits, unknown accounts and malformed values stand in nobody's way.)
\<close>

theorem ingestion_succeeds:
  assumes "warehouse_ok db" and "connect env (arg_database_url args) = None" and "accepting (sql env)"
    and "http_open env (arg_credits_url args) = Inr credits_body" and "body_rows env credits_body = (credit_rows, None)"
    and "http_open env (arg_payments_url args) = Inr payments_body" and "body_rows env payments_body = (payment_rows, None)"
    and "distinct (map payment_key (parsed_payments (parsers_of env)
      (pc_account ` set (parsed_credits (parsers_of env) (arg_loan_type args) credit_rows)) payment_rows))"
  shows "\<exists>r db'. answered (Inr True) (run_pipeline env db args) = (Inr r, db') \<and> success r \<and>
    ingested env db args (Inr r, db')"
proof -
  let ?o = "answered (Inr True) (run_pipeline env db args)"
  have "committed ?o" by (rule run_pipeline_commits [OF assms(1-7) refl assms(8)])
  moreover have "?o \<in> run_outcomes env db args"
    by (rule run_outcome [OF assms(1) answered_result])
  ultimately show ?thesis
    by (cases ?o) (auto simp: run_outcomes_def committed_def split: sum.splits)
qed

lemma ingestion_succeeds_witness:
  "\<exists>r db'. answered (Inr True)
       (run_pipeline (demo_pipeline (demo_export [''A1'']) (demo_export [''A1''])) demo_database demo_args) = (Inr r, db') \<and>
     success r"
  using ingestion_succeeds [of demo_database "demo_pipeline (demo_export [''A1'']) (demo_export [''A1''])" demo_args,
      OF demo_warehouse_ok _ _ _ demo_one_row _ demo_one_row demo_payments_distinct] by auto

text \<open>
  Property C27. Two payments of one credit with the same installment number (a missing or malformed number
  counts as 0) make the whole sync fail: every run of the adapter over them ends without success and
  leaves the warehouse as it was, whatever the callback answers.
\<close>

theorem duplicate_installments_fail:
  assumes "warehouse_ok db"
    and "http_open env (arg_credits_url args) = Inr credits_body" and "body_rows env credits_body = (credit_rows, None)"
    and "http_open env (arg_payments_url args) = Inr payments_body" and "body_rows env payments_body = (payment_rows, None)"
    and "\<not> distinct (map payment_key (parsed_payments (parsers_of env)
      (pc_account ` set (parsed_credits (parsers_of env) (arg_loan_type args) credit_rows)) payment_rows))"
    and "o1 \<in> results (run_pipeline env db args)"
  shows "\<not> committed o1 \<and> snd o1 = db"
proof -
  have "\<not> ingested env db args o1"
    using assms(2-6) slice_replaced_distinct by (auto simp: ingested_def Let_def)
  with run_outcome [OF assms(1,7)] show ?thesis
    by (simp add: run_outcomes_def split: if_splits)
qed

lemma duplicate_installments_fail_witness:
  "snd (answered (Inr True) (run_pipeline (demo_pipeline (demo_export [''A1'']) (demo_export [''A1'', ''A1'']))
     demo_database demo_args)) = demo_database"
proof -
  let ?env = "demo_pipeline (demo_export [''A1'']) (demo_export [''A1'', ''A1''])"
  have two: "body_rows ?env (demo_export [''A1'', ''A1'']) = ([(1, demo_row ''A1''), (2, demo_row ''A1'')], None)"
    using demo_rows [of "[''A1'', ''A1'']"] by simp
  have "\<not> distinct (map payment_key (parsed_payments (parsers_of ?env)
      (pc_account ` set (parsed_credits (parsers_of ?env) (arg_loan_type demo_args) [(1, demo_row ''A1'')]))
      [(1, demo_row ''A1''), (2, demo_row ''A1'')]))"
    unfolding demo_parsed by simp
  from duplicate_installments_fail [OF demo_warehouse_ok _ demo_one_row _ two this answered_result] show ?thesis
    by simp
qed

text \<open>
  Property C6. The constraints of the warehouse survive every run: primary keys stay unique and below the
  sequence, no slice has an account twice, no credit an installment twice, and every payment belongs to
  a credit.
\<close>

theorem warehouse_stays_ok:
  assumes "warehouse_ok db" and "o1 \<in> results (run_pipeline env db args)"
  shows "warehouse_ok (snd o1)"
  using run_outcome [OF assms] assms(1)
  by (auto simp: run_outcomes_def ingested_def slice_replaced_def warehouse_ok_def Let_def split: if_splits)

lemma warehouse_stays_ok_witness:
  "warehouse_ok (snd (answered (Inr True) (run_pipeline (demo_pipeline (demo_export [''A1'']) (demo_export [''A1'']))
     demo_database demo_args)))"
  by (rule warehouse_stays_ok [OF demo_warehouse_ok answered_result])

text \<open>
  Property C13. Every report of a run is an opportunity to end it: an exception of the callback is passed on and a
  false answer ends the run as cancelled with the rows counted so far, at once and without any change to the
  warehouse.
\<close>

theorem abort_rolls_back: "abortable db (run_pipeline env db args)"
proof (cases "connect env (arg_database_url args)")
  case None
  let ?ctx = "run_ctx env db args"
  have "abortable (run_db ?ctx) (payment_phase ?ctx url st)" for url st
    by (auto simp: payment_phase_def Let_def simp del: run_context.simps split: sum.split intro!: read_stream_abortable)
  from read_stream_abortable [of ?ctx, OF this] None show ?thesis
    by (simp add: run_pipeline_def Let_def)
qed (simp add: run_pipeline_def Let_def)

text \<open>
  Property C26. Progress never goes back: over every run whose exports are shorter than 4 GiB (the row
  counter of the stream has 32 bits) the reported percentages start at 5 or above, never fall and never exceed
  95, and no report carries more than 50 errors.
\<close>

theorem progress_never_falls:
  assumes "\<And>url body. http_open env url = Inr body \<Longrightarrow> length body < 2 ^ 32"
  shows "rising 5 (run_pipeline env db args)"
proof (cases "connect env (arg_database_url args)")
  case None
  let ?ctx = "run_ctx env db args"
  have "rising 5 (read_stream ?ctx url (push_parsed_credit ?ctx)
      (\<lambda>st n. (credit_phase_progress n, credits_ingested (writer st)))
      (payment_phase ?ctx url') st)" for url url' st
    by (rule read_stream_rising [where hi = 40])
      (use assms payment_phase_rising [of ?ctx] in
        \<open>simp_all add: credit_phase_progress_bounds progress_mono order_trans [OF credit_phase_progress_bounds(2)]\<close>)
  with None show ?thesis by (simp add: run_pipeline_def Let_def)
qed (simp add: run_pipeline_def Let_def)

lemma progress_never_falls_witness:
  "rising 5 (run_pipeline (demo_pipeline ''[]'' ''[]'') demo_database demo_args)"
  by (rule progress_never_falls) (auto simp: demo_pipeline_def split: if_splits)

end
