(* ===== verification/EndToEnd.thy ===== *)
theory EndToEnd
  imports Gateway BankSite AdapterRuns
begin

text \<open>
  The components together: the Celery task with the Rust adapter of \<open>AdapterPipeline\<close>, the adapter
  with the export handlers of the external bank, the data page and the profile on the warehouse a
  run leaves.  The properties that span components are in the root theory.
\<close>

section \<open>The task with the adapter\<close>

lemma adapter_outcome_rust:
  "adapter_outcome (rust_adapter env db args) = fst (answered (Inr True) (run_pipeline env db args))"
proof -
  have "adapter_outcome (as_adapter_run s) = fst (answered (Inr True) s)" for s
    by (induction s) auto
  then show ?thesis by (simp add: rust_adapter_def)
qed

text \<open>What the task gets back from the adapter is the first part of a result of the run.\<close>

lemma run_rust_adapter:
  "run S (adapter_prog cb (as_adapter_run s)) w = (Inr r, w') \<Longrightarrow> \<exists>db'. (Inr r, db') \<in> results s"
proof (induction s arbitrary: w)
  case (Done o1)
  then show ?case by (cases o1) auto
next
  case (Report rows pct errs k)
  then obtain b w1 where "run S (adapter_prog cb (as_adapter_run (k (Inr b)))) w1 = (Inr r, w')"
    by (auto simp: run_bind split: prod.splits sum.splits)
  with Report.IH [of "k (Inr b)"] show ?case by simp blast
qed

lemma run_failure_handler: "run S (pipeline_failed jid e) w \<noteq> (Inr (Task_ingested c p errs n), w')"
  by (auto simp: pipeline_failed_def run_bind Let_def split: prod.splits sum.splits if_splits)

lemma ingested_by_record:
  assumes "run S (record_result jid r) w = (Inr (Task_ingested c p errs n), w')"
  shows "success r \<and> c = total_credits_ingested r \<and> p = total_payments_ingested r \<and>
    errs = trim_stored_errors (serialize_error_logs (error_logs r)) \<and> n = int (length (error_logs r))"
  using assms
  by (auto simp: record_result_def run_bind Let_def split: prod.splits sum.splits if_splits)

lemma ingested_by_task:
  assumes "run S (run_etl_pipeline cfg adapter jid t l) w = (Inr (Task_ingested c p errs n), w')"
  obtains job r w1 w2 w3 where "run S (adapter_prog (on_progress job) (adapter (pipeline_args cfg jid t l))) w1 = (Inr r, w2)"
    and "run S (record_result jid r) w2 = (Inr (Task_ingested c p errs n), w3)"
  using assms
  by (auto simp: run_etl_pipeline_def guarded_def pipeline_body_def ingest_def run_bind run_try_finally
      run_try_except run_failure_handler Let_def split: prod.splits sum.splits if_splits)

section \<open>The bank behind the adapter\<close>

text \<open>
  The HTTP client of the adapter and the bank: a stream the site of the bank answers to the path and the query of
  an export URL is what the client gets for that URL.
\<close>

definition query :: "string \<Rightarrow> string \<Rightarrow> params" where
  "query t l = [''tenant_id'' \<mapsto> t, ''loan_type'' \<mapsto> l]"

definition site_url :: "task_settings \<Rightarrow> string \<Rightarrow> string \<Rightarrow> string \<Rightarrow> string" where
  "site_url cfg path t l =
     rstrip_char (CHR ''/'') (EXTERNAL_BANK_URL cfg) @ ''/'' @ path @ ''?tenant_id='' @ t @ ''&loan_type='' @ l"

definition served_by ::
    "stream_settings \<Rightarrow> (int \<Rightarrow> string) \<Rightarrow> bank \<Rightarrow> task_settings \<Rightarrow> string \<Rightarrow> string \<Rightarrow> pipeline_env \<Rightarrow> bool" where
  "served_by sc fmt b cfg t l env \<longleftrightarrow>
     list_all (\<lambda>path.
       case fst (bank_site sc fmt (bank_get path (query t l)) b) of
         Bank_response (Json_stream _ chunks) \<Rightarrow> http_open env (site_url cfg path t l) = Inr (concat (fst chunks))
       | _ \<Rightarrow> True)
     [''api/bank/export/credits'', ''api/bank/export/payments'']"

lemma bank_urls_site:
  "bank_urls cfg t l = (site_url cfg ''api/bank/export/credits'' t l, site_url cfg ''api/bank/export/payments'' t l)"
  by (simp add: bank_urls_def site_url_def Let_def)

lemma upload_exported:
  assumes "upload_serializer r = Inr (t, l, cf, pf)"
  shows "\<exists>name chunks. export_file sc Credits (query t l) (snd (upload_post fmt r b)) = Json_stream name chunks \<and>
      fst chunks = fst (single_pass_json_generator (concat (file_chunks cf)))"
    and "\<exists>name chunks. export_file sc Payments (query t l) (snd (upload_post fmt r b)) = Json_stream name chunks \<and>
      fst chunks = fst (single_pass_json_generator (concat (file_chunks pf)))"
proof -
  have q: "get_param (query t l) ''tenant_id'' = t" "get_param (query t l) ''loan_type'' = l"
    "query t l ''multiply'' = None" by (simp_all add: query_def get_param_def)
  note files = export_valid [OF q(1,2) upload_accepted(1,2) [OF assms]] upload_files [OF assms, of fmt b]
  show "\<exists>name chunks. export_file sc Credits (query t l) (snd (upload_post fmt r b)) = Json_stream name chunks \<and>
      fst chunks = fst (single_pass_json_generator (concat (file_chunks cf)))"
    using files q(3) by (simp add: file_stream_def stream_json_file_def parse_multiply_def)
  show "\<exists>name chunks. export_file sc Payments (query t l) (snd (upload_post fmt r b)) = Json_stream name chunks \<and>
      fst chunks = fst (single_pass_json_generator (concat (file_chunks pf)))"
    using files q(3) by (simp add: file_stream_def stream_json_file_def parse_multiply_def)
qed

lemma upload_served:
  assumes "upload_serializer r = Inr (t, l, cf, pf)"
  shows "served_by sc fmt (snd (bank_site sc fmt (bank_post r) b)) cfg t l env \<longleftrightarrow>
    http_open env (fst (bank_urls cfg t l)) = Inr (concat (fst (single_pass_json_generator (concat (file_chunks cf))))) \<and>
    http_open env (snd (bank_urls cfg t l)) = Inr (concat (fst (single_pass_json_generator (concat (file_chunks pf)))))"
  using upload_exported [OF assms, of sc fmt b]
  by (auto simp: served_by_def bank_get_export bank_post_upload bank_urls_site)

lemma bank_loan_type_upper: "l \<in> set BANK_LOAN_TYPES \<Longrightarrow> py_upper l = l"
proof -
  have "list_all (\<lambda>l. py_upper l = l) BANK_LOAN_TYPES" by code_simp
  then show "l \<in> set BANK_LOAN_TYPES \<Longrightarrow> py_upper l = l" by (simp add: list_all_iff)
qed

lemma pipeline_args_simps [simp]:
  "arg_tenant_id (pipeline_args cfg jid t l) = t" "arg_loan_type (pipeline_args cfg jid t l) = l"
  "arg_credits_url (pipeline_args cfg jid t l) = fst (bank_urls cfg t l)"
  "arg_payments_url (pipeline_args cfg jid t l) = snd (bank_urls cfg t l)"
  "arg_database_url (pipeline_args cfg jid t l) = database_url cfg"
  by (simp_all add: pipeline_args_def case_prod_beta)

lemma snapshot_total:
  assumes "slice_replaced env t l cs ps db db'"
  shows "total_count (get_data_snapshot coll fmt (credit_table db') t l page page_size) = int (card (pc_account ` set cs))"
proof -
  have "slice_rows (credit_table db') t l = filter (in_slice t l) (credit_table db')"
    by (simp add: slice_rows_def in_slice_def [abs_def])
  moreover have "dom (slice_view t l db') = pc_account ` set cs"
    using assms dom_last_credits [of cs] by (auto simp: slice_replaced_def last_rows_def dom_def)
  ultimately show ?thesis
    using assms slice_count [of db' t l] by (simp add: get_data_snapshot_def Let_def slice_replaced_def)
qed

section \<open>Other slices\<close>

lemma parsed_payments_known: "list_all (\<lambda>p. pp_account p \<in> known) (parsed_payments env known rows)"
  by (induction rows)
    (auto simp: parsed_payments_def List.map_filter_simps intro: parsed_payment_account split: option.split)

lemma other_slice_rows:
  assumes "other_rows t l db' = other_rows t l db" and "(t', l') \<noteq> (t, l)"
  shows "slice_rows (credit_table db') t' l' = slice_rows (credit_table db) t' l'"
proof -
  have "slice_rows (credit_table d) t' l' = slice_rows (other_rows t l d) t' l'" for d
    using assms(2) by (auto simp: slice_rows_def other_rows_def in_slice_def intro!: filter_cong)
  then show ?thesis by (simp add: assms(1))
qed

lemma pk_of_one_slice:
  assumes "warehouse_ok db" and "list_ex (\<lambda>c. credit_pk c = i) (filter (in_slice t l) (credit_table db))"
    and "(t', l') \<noteq> (t, l)"
  shows "\<not> list_ex (\<lambda>c. credit_pk c = i) (slice_rows (credit_table db) t' l')"
proof
  assume "list_ex (\<lambda>c. credit_pk c = i) (slice_rows (credit_table db) t' l')"
  then obtain c d where "c \<in> set (credit_table db)" "d \<in> set (credit_table db)" "credit_pk c = credit_pk d"
    "in_slice t l c" "in_slice t' l' d"
    using assms(2) by (auto simp: list_ex_iff slice_rows_def in_slice_def)
  with assms(1) have "c = d" by (auto simp: warehouse_ok_def db_ok_def distinct_map dest: inj_onD)
  with \<open>in_slice t l c\<close> \<open>in_slice t' l' d\<close> assms(3) show False by (simp add: in_slice_def)
qed

lemma other_slice_payments:
  assumes ok: "warehouse_ok db" and new: "slice_replaced env t l cs ps db db'"
    and acc: "list_all (\<lambda>p. pp_account p \<in> pc_account ` set cs) ps" and other: "(t', l') \<noteq> (t, l)"
  shows "slice_payments (credit_table db') (payment_table db') t' l' =
     slice_payments (credit_table db) (payment_table db) t' l'"
proof -
  let ?of = "\<lambda>d p. list_ex (\<lambda>c. credit_pk c = payment_credit p) (slice_rows (credit_table d) t' l')"
  let ?bind = "\<lambda>p. payment_bind env (the (slice_ids t l db' (pp_account p))) p"
  have db': "db_ok db'" "other_rows t l db' = other_rows t l db"
    "slice_view t l db' = last_rows env t l cs"
    "payment_table db' = payment_table (delete_slice t l db) @ map ?bind ps"
    using new by (simp_all add: slice_replaced_def)
  note rows = other_slice_rows [OF db'(2) other]
  have "\<not> ?of db' (?bind p)" if "p \<in> set ps" for p
  proof -
    have "pp_account p \<in> dom (slice_view t l db')"
      using acc that dom_last_credits [of cs] by (auto simp: db'(3) last_rows_def list_all_iff dom_def)
    then obtain i where "slice_ids t l db' (pp_account p) = Some i"
      by (auto simp: slice_view_def slice_ids_def)
    from this slice_ids_row [OF this] db'(1) other show ?thesis
      by (auto simp: payment_bind_def slice_rows_def list_ex_iff in_slice_def db_ok_def distinct_map dest: inj_onD)
  qed
  then have "filter (?of db') (map ?bind ps) = []" by (auto simp: filter_empty_conv)
  moreover have "filter (?of db') (payment_table (delete_slice t l db)) = filter (?of db) (payment_table db)"
    using pk_of_one_slice [OF ok _ other] by (auto simp: delete_slice_def rows intro!: filter_cong)
  ultimately show ?thesis
    by (simp add: slice_payments_def db'(4))
qed


section \<open>A sync of uploaded files\<close>

lemma upload_sync_completes:
  assumes "services S" and "job_row S w jid = Some row" and "status row \<noteq> CANCELLED"
    and "\<not> opt_truthy (redis_get S w (cancel_flag_key jid))"
    and upload: "upload_serializer r = Inr (t, l, cf, pf)"
    and served: "served_by sc fmt (snd (bank_site sc fmt (bank_post r) b)) cfg t l env"
    and credits: "iter_csv_rows (concat (file_chunks cf)) = (crs, None)" "list_all (\<lambda>r. distinct (map fst r)) crs"
    and payments: "iter_csv_rows (concat (file_chunks pf)) = (prs, None)" "list_all (\<lambda>r. distinct (map fst r)) prs"
    and env: "decodes_rows (from_slice env)" "connect env (database_url cfg) = None" "accepting (sql env)"
    and db: "warehouse_ok db"
    and cs: "cs = parsed_credits (parsers_of env) l (numbered 0 (map map_of crs))"
    and ps: "ps = parsed_payments (parsers_of env) (pc_account ` set cs) (numbered 0 (map map_of prs))"
    and distinct: "distinct (map payment_key ps)"
  shows "\<exists>errs n row' w' db'.
     run S (run_etl_pipeline cfg (rust_adapter env db) jid t l) w =
       (Inr (Task_ingested (int (card (pc_account ` set cs))) (int (length ps)) errs n), w') \<and>
     job_row S w' = (job_row S w)(jid \<mapsto> row') \<and> status row' = COMPLETED \<and>
     redis_get S w' = entries_released (redis_get S w) t l jid \<and>
     snd (answered (Inr True) (run_pipeline env db (pipeline_args cfg jid t l))) = db' \<and>
     slice_replaced (sql env) t l cs ps db db' \<and>
     total_count (get_data_snapshot coll isofmt (credit_table db') t l page page_size) = int (card (pc_account ` set cs))"
proof -
  let ?args = "pipeline_args cfg jid t l"
  let ?cb = "concat (fst (single_pass_json_generator (concat (file_chunks cf))))"
  let ?pb = "concat (fst (single_pass_json_generator (concat (file_chunks pf))))"
  have open_urls: "http_open env (arg_credits_url ?args) = Inr ?cb" "http_open env (arg_payments_url ?args) = Inr ?pb"
    using served by (simp_all add: upload_served [OF upload])
  note rows = body_rows_export [OF env(1) credits] body_rows_export [OF env(1) payments]
  have upper: "py_upper l = l" using upload_accepted(2) [OF upload] by (rule bank_loan_type_upper)
  let ?o = "answered (Inr True) (run_pipeline env db ?args)"
  have "committed ?o"
    by (rule run_pipeline_commits [OF db _ env(3) open_urls(1) rows(1) open_urls(2) rows(2) refl])
      (use env(2) distinct in \<open>simp_all add: cs ps\<close>)
  moreover have "?o \<in> run_outcomes env db ?args" by (rule run_outcome [OF db answered_result])
  ultimately have "ingested env db ?args ?o" by (simp add: run_outcomes_def)
  then obtain p where p: "fst ?o = Inr p" "success p" "\<not> result_cancelled p"
    "total_credits_ingested p = int (card (pc_account ` set cs))" "total_payments_ingested p = int (length ps)"
    and replaced: "slice_replaced (sql env) t l cs ps db (snd ?o)"
    using open_urls rows by (auto simp: ingested_def Let_def upper cs ps)
  let ?errs = "trim_stored_errors (serialize_error_logs (error_logs p))"
  obtain r' row' w' where task: "run S (run_etl_pipeline cfg (rust_adapter env db) jid t l) w = (r', w')"
    "outcome_spec (fst ?o) r' row'" "job_row S w' = (job_row S w)(jid \<mapsto> row')"
    "redis_get S w' = entries_released (redis_get S w) t l jid"
    using services.run_task [OF assms(1-4), of cfg "rust_adapter env db" t l] by (auto simp: adapter_outcome_rust)
  have "r' = Inr (Task_ingested (int (card (pc_account ` set cs))) (int (length ps)) ?errs (int (length (error_logs p))))"
    "status row' = COMPLETED"
    using task(2) p by (simp_all add: outcome_spec_def Let_def completed_row_def)
  then show ?thesis
    using task replaced snapshot_total [OF replaced]
    by (intro exI [of _ ?errs] exI [of _ "int (length (error_logs p))"] exI [of _ row'] exI [of _ w'] exI [of _ "snd ?o"]) simp
qed

definition demo_upload_of :: "string \<Rightarrow> upload_request" where
  "demo_upload_of content = \<lparr>form_tenant_id = Some ''BANK001'', form_loan_type = Some ''RETAIL'',
     form_credit_file = Some \<lparr>file_name = ''c.csv'', file_chunks = [content]\<rparr>,
     form_payment_plan_file = Some \<lparr>file_name = ''p.csv'', file_chunks = [content]\<rparr>\<rparr>"

lemma demo_upload_of_accepted:
  "content \<noteq> '''' \<Longrightarrow> upload_serializer (demo_upload_of content) =
     Inr (''BANK001'', ''RETAIL'', \<lparr>file_name = ''c.csv'', file_chunks = [content]\<rparr>,
       \<lparr>file_name = ''p.csv'', file_chunks = [content]\<rparr>)"
  by (simp add: upload_serializer_def demo_upload_of_def Let_def choice_valid_def file_valid_def
      TENANT_IDS_def BANK_LOAN_TYPES_def)

text \<open>The sync of one credit and one payment.\<close>

abbreviation demo_stream :: stream_settings where
  "demo_stream \<equiv> \<lparr>STREAM_MULTIPLIER = 10, STREAM_SIZE_LIMIT_BYTES = 1000\<rparr>"

abbreviation demo_account_rows :: "row list" where
  "demo_account_rows \<equiv> map (\<lambda>a. [(''loan_account_number'', a)]) [''A1'']"

abbreviation demo_env :: pipeline_env where
  "demo_env \<equiv> demo_pipeline (demo_export [''A1'']) (demo_export [''A1''])"

abbreviation demo_credits :: "parsed_credit list" where
  "demo_credits \<equiv> parsed_credits (parsers_of demo_env) ''RETAIL'' (numbered 0 (map map_of demo_account_rows))"

abbreviation demo_payments :: "parsed_payment list" where
  "demo_payments \<equiv> parsed_payments (parsers_of demo_env) (pc_account ` set demo_credits)
     (numbered 0 (map map_of demo_account_rows))"

lemma demo_counts:
  "card (pc_account ` set demo_credits) = 1" "length demo_payments = 1" "distinct (map payment_key demo_payments)"
proof -
  have n: "numbered 0 (map map_of demo_account_rows) = [(1, demo_row ''A1'')]" by simp
  have "map payment_key demo_payments = [(''A1'', 0)]" unfolding n demo_parsed ..
  then have "length (map payment_key demo_payments) = 1" "distinct (map payment_key demo_payments)" by simp_all
  moreover have "card (pc_account ` set demo_credits) = 1" unfolding n demo_parsed by simp
  ultimately show "card (pc_account ` set demo_credits) = 1" "length demo_payments = 1"
    "distinct (map payment_key demo_payments)"
    by (simp_all only: length_map)
qed

lemma demo_sync:
  shows "services demo_services"
    and "job_row demo_services (demo_busy QUEUED) ''job_7'' = Some (demo_job QUEUED)" and "status (demo_job QUEUED) \<noteq> CANCELLED"
    and "\<not> opt_truthy (redis_get demo_services (demo_busy QUEUED) (cancel_flag_key ''job_7''))"
    and "upload_serializer (demo_upload_of (demo_file [''A1''])) = Inr (''BANK001'', ''RETAIL'',
      \<lparr>file_name = ''c.csv'', file_chunks = [demo_file [''A1'']]\<rparr>, \<lparr>file_name = ''p.csv'', file_chunks = [demo_file [''A1'']]\<rparr>)"
    and "served_by demo_stream str_int
      (snd (bank_site demo_stream str_int (bank_post (demo_upload_of (demo_file [''A1'']))) demo_bank)) demo_settings ''BANK001'' ''RETAIL'' demo_env"
    and "iter_csv_rows (concat (file_chunks \<lparr>file_name = ''c.csv'', file_chunks = [demo_file [''A1'']]\<rparr>)) = (demo_account_rows, None)"
    and "list_all (\<lambda>r. distinct (map fst r)) demo_account_rows"
    and "iter_csv_rows (concat (file_chunks \<lparr>file_name = ''p.csv'', file_chunks = [demo_file [''A1'']]\<rparr>)) = (demo_account_rows, None)"
    and "list_all (\<lambda>r. distinct (map fst r)) demo_account_rows"
    and "decodes_rows (from_slice demo_env)" and "connect demo_env (database_url demo_settings) = None"
    and "accepting (sql demo_env)" and "warehouse_ok demo_database"
    and "demo_credits = demo_credits" and "demo_payments = demo_payments" and "distinct (map payment_key demo_payments)"
proof -
  have one: "list_all (\<lambda>a. a = ''A1'') [''A1'']" by simp
  have "demo_file [''A1''] \<noteq> ''''" by (simp add: demo_file_def csv_write_def quote_field_def)
  note upload = demo_upload_of_accepted [OF this]
  show "upload_serializer (demo_upload_of (demo_file [''A1''])) = Inr (''BANK001'', ''RETAIL'',
      \<lparr>file_name = ''c.csv'', file_chunks = [demo_file [''A1'']]\<rparr>, \<lparr>file_name = ''p.csv'', file_chunks = [demo_file [''A1'']]\<rparr>)"
    by (rule upload)
  show "served_by demo_stream str_int
      (snd (bank_site demo_stream str_int (bank_post (demo_upload_of (demo_file [''A1'']))) demo_bank)) demo_settings ''BANK001'' ''RETAIL'' demo_env"
    unfolding upload_served [OF upload] by (simp add: demo_export_def) (simp add: demo_pipeline_def)
  show "iter_csv_rows (concat (file_chunks \<lparr>file_name = ''c.csv'', file_chunks = [demo_file [''A1'']]\<rparr>)) = (demo_account_rows, None)"
    "iter_csv_rows (concat (file_chunks \<lparr>file_name = ''p.csv'', file_chunks = [demo_file [''A1'']]\<rparr>)) = (demo_account_rows, None)"
    using demo_csv_rows(1) [OF one] by simp_all
  show "list_all (\<lambda>r. distinct (map fst r)) demo_account_rows" by (rule demo_csv_rows(2) [OF one])
  then show "list_all (\<lambda>r. distinct (map fst r)) demo_account_rows" .
  show "decodes_rows (from_slice demo_env)" by (simp add: demo_pipeline_def demo_decodes)
  show "distinct (map payment_key demo_payments)" by (rule demo_counts)
qed (simp_all add: demo.services_axioms demo_warehouse_ok)

lemma demo_task:
  "\<exists>c p errs n w'. run demo_services (run_etl_pipeline demo_settings (rust_adapter demo_env demo_database)
     ''job_7'' ''BANK001'' ''RETAIL'') (demo_busy QUEUED) = (Inr (Task_ingested c p errs n), w')"
  using upload_sync_completes [OF demo_sync] by blast

end
