(* ===== verification/Settings.thy ===== *)
theory Settings
  imports EndToEnd
begin

text \<open>
  The settings modules of the two services, \<open>api/config/settings.py\<close> and \<open>external_bank/bank/settings.py\<close>,
  as functions of the base directory and the process environment: what is read from it with which default, the conversions that
  can fail when the module is loaded, and the values the other theories take as settings.
\<close>

section \<open>The environment\<close>

type_synonym environ = "string \<rightharpoonup> string"

text \<open>\<open>os.environ.get(name, default)\<close>, \<open>... == "1"\<close>, \<open>... .split(",")\<close> and \<open>int(...)\<close>.\<close>

definition environ_get :: "environ \<Rightarrow> string \<Rightarrow> string \<Rightarrow> string" where
  "environ_get env name dflt = (case env name of None \<Rightarrow> dflt | Some v \<Rightarrow> v)"

definition environ_flag :: "environ \<Rightarrow> string \<Rightarrow> string \<Rightarrow> bool" where
  "environ_flag env name dflt \<longleftrightarrow> environ_get env name dflt = ''1''"

fun split_char :: "char \<Rightarrow> string \<Rightarrow> string list" where
  "split_char d [] = [[]]"
| "split_char d (c # s) =
     (if c = d then [] # split_char d s
      else case split_char d s of [] \<Rightarrow> [[c]] | w # ws \<Rightarrow> (c # w) # ws)"

definition environ_int :: "environ \<Rightarrow> string \<Rightarrow> string \<Rightarrow> exn + int" where
  "environ_int env name dflt =
     (case py_int (environ_get env name dflt) of
        None \<Rightarrow> Inl (Exn ValueError ''invalid literal for int()'')
      | Some n \<Rightarrow> Inr n)"

section \<open>The gateway\<close>

text \<open>One entry of \<open>TEMPLATES\<close>, and a database backend with the settings of its connection elsewhere.\<close>

record template_settings =
  template_backend :: string
  template_dirs :: "string list"
  template_app_dirs :: bool
  template_context_processors :: "string list"

definition django_templates :: "string \<Rightarrow> string list \<Rightarrow> template_settings" where
  "django_templates base_dir processors = \<lparr>
     template_backend = ''django.template.backends.django.DjangoTemplates'',
     template_dirs = [base_dir @ ''/templates''],
     template_app_dirs = True,
     template_context_processors = processors\<rparr>"

record gateway_settings =
  SECRET_KEY :: string
  DEBUG_SETTING :: bool
  ALLOWED_HOSTS :: "string list"
  INSTALLED_APPS :: "string list"
  MIDDLEWARE :: "string list"
  ROOT_URLCONF :: string
  WSGI_APPLICATION :: string
  DATABASE_ENGINE :: string
  task_config :: task_settings
  AUTH_PASSWORD_VALIDATORS :: "string list"
  LANGUAGE_CODE :: string
  TIME_ZONE :: string
  USE_I18N :: bool
  USE_TZ :: bool
  STATIC_URL :: string
  DEFAULT_AUTO_FIELD :: string
  AUTHENTICATION_CLASSES :: "string list"
  PERMISSION_CLASSES :: "string list"
  SESSION_COOKIE_HTTPONLY :: bool
  SESSION_COOKIE_SAMESITE :: string
  SESSION_COOKIE_AGE :: int
  CSRF_COOKIE_HTTPONLY :: bool
  CSRF_COOKIE_SAMESITE :: string
  CELERY_BROKER_URL :: string
  CELERY_RESULT_BACKEND :: string
  CELERY_ACCEPT_CONTENT :: "string list"
  CELERY_TASK_SERIALIZER :: string
  CELERY_RESULT_SERIALIZER :: string
  CELERY_TIMEZONE :: string
  CELERY_TASK_ALWAYS_EAGER :: bool
  CELERY_TASK_EAGER_PROPAGATES :: bool
  CELERY_WORKER_PREFETCH_MULTIPLIER :: int
  CELERY_TASK_ACKS_LATE :: bool
  CELERY_WORKER_MAX_TASKS_PER_CHILD :: int
  REDIS_URL :: string
  JWT_SECRET_KEY :: string
  JWT_EXPIRY_HOURS_SETTING :: int
  GATEWAY_TENANT_IDS :: "string list"
  GATEWAY_LOAN_TYPES :: "string list"
  TEMPLATES :: "template_settings list"

text \<open>\<open>DATABASES["default"]\<close> and \<open>EXTERNAL_BANK_URL\<close>.\<close>

definition task_settings_of :: "environ \<Rightarrow> task_settings" where
  "task_settings_of env = \<lparr>
     DB_USER = environ_get env ''POSTGRES_USER'' ''teamsec'',
     DB_PASSWORD = environ_get env ''POSTGRES_PASSWORD'' ''teamsec_secret'',
     DB_HOST = environ_get env ''POSTGRES_HOST'' ''localhost'',
     DB_PORT = environ_get env ''POSTGRES_PORT'' ''5432'',
     DB_NAME = environ_get env ''POSTGRES_DB'' ''teamsec_warehouse'',
     EXTERNAL_BANK_URL = environ_get env ''EXTERNAL_BANK_URL'' ''http://localhost:8080''\<rparr>"

definition django_middleware :: "string \<Rightarrow> string" where
  "django_middleware m = ''django.middleware.'' @ m"

text \<open>The conversions stand in the order of the module: the session age, the worker limit, the token lifetime.\<close>

definition gateway_settings :: "string \<Rightarrow> environ \<Rightarrow> exn + gateway_settings" where
  "gateway_settings base_dir env =
     (case environ_int env ''JWT_EXPIRY_HOURS'' ''8'' of Inl e \<Rightarrow> Inl e | Inr session_hours \<Rightarrow>
     (case environ_int env ''CELERY_WORKER_MAX_TASKS_PER_CHILD'' ''20'' of Inl e \<Rightarrow> Inl e | Inr max_tasks \<Rightarrow>
     (case environ_int env ''JWT_EXPIRY_HOURS'' ''8'' of Inl e \<Rightarrow> Inl e | Inr token_hours \<Rightarrow>
      Inr \<lparr>
       SECRET_KEY = environ_get env ''DJANGO_SECRET_KEY'' ''teamsec-dev-secret-key'',
       DEBUG_SETTING = environ_flag env ''DJANGO_DEBUG'' ''1'',
       ALLOWED_HOSTS = split_char (CHR '','') (environ_get env ''ALLOWED_HOSTS'' ''*''),
       INSTALLED_APPS =
         [''django.contrib.admin'', ''django.contrib.auth'', ''django.contrib.contenttypes'',
          ''django.contrib.sessions'', ''django.contrib.messages'', ''django.contrib.staticfiles'',
          ''rest_framework'', ''apps.core'', ''apps.etl''],
       MIDDLEWARE =
         [django_middleware ''security.SecurityMiddleware'',
          ''django.contrib.sessions.middleware.SessionMiddleware'',
          django_middleware ''common.CommonMiddleware'',
          django_middleware ''csrf.CsrfViewMiddleware'',
          ''django.contrib.auth.middleware.AuthenticationMiddleware'',
          ''django.contrib.messages.middleware.MessageMiddleware'',
          django_middleware ''clickjacking.XFrameOptionsMiddleware''],
       ROOT_URLCONF = ''config.urls'',
       WSGI_APPLICATION = ''config.wsgi.application'',
       DATABASE_ENGINE = ''django.db.backends.postgresql'',
       task_config = task_settings_of env,
       AUTH_PASSWORD_VALIDATORS =
         map ((@) ''django.contrib.auth.password_validation.'')
           [''UserAttributeSimilarityValidator'', ''MinimumLengthValidator''],
       LANGUAGE_CODE = ''en-us'',
       TIME_ZONE = ''UTC'',
       USE_I18N = True,
       USE_TZ = True,
       STATIC_URL = ''static/'',
       DEFAULT_AUTO_FIELD = ''django.db.models.BigAutoField'',
       AUTHENTICATION_CLASSES =
         [''apps.core.authentication.SessionOperatorAuthentication'',
          ''apps.core.authentication.BearerJWTAuthentication''],
       PERMISSION_CLASSES = [''rest_framework.permissions.IsAuthenticated''],
       SESSION_COOKIE_HTTPONLY = True,
       SESSION_COOKIE_SAMESITE = ''Lax'',
       SESSION_COOKIE_AGE = session_hours * 3600,
       CSRF_COOKIE_HTTPONLY = False,
       CSRF_COOKIE_SAMESITE = ''Lax'',
       CELERY_BROKER_URL = environ_get env ''CELERY_BROKER_URL'' ''redis://localhost:6379/0'',
       CELERY_RESULT_BACKEND = environ_get env ''CELERY_RESULT_BACKEND'' ''redis://localhost:6379/1'',
       CELERY_ACCEPT_CONTENT = [''json''],
       CELERY_TASK_SERIALIZER = ''json'',
       CELERY_RESULT_SERIALIZER = ''json'',
       CELERY_TIMEZONE = ''UTC'',
       CELERY_TASK_ALWAYS_EAGER = environ_flag env ''CELERY_TASK_ALWAYS_EAGER'' ''0'',
       CELERY_TASK_EAGER_PROPAGATES = True,
       CELERY_WORKER_PREFETCH_MULTIPLIER = 1,
       CELERY_TASK_ACKS_LATE = True,
       CELERY_WORKER_MAX_TASKS_PER_CHILD = max_tasks,
       REDIS_URL = environ_get env ''REDIS_URL'' ''redis://localhost:6379/0'',
       JWT_SECRET_KEY = environ_get env ''JWT_SECRET_KEY'' ''jwt-dev-secret'',
       JWT_EXPIRY_HOURS_SETTING = token_hours,
       GATEWAY_TENANT_IDS = [''BANK001'', ''BANK002'', ''BANK003''],
       GATEWAY_LOAN_TYPES = [''RETAIL'', ''COMMERCIAL''],
       TEMPLATES = [django_templates base_dir
         [''django.template.context_processors.request'', ''django.contrib.auth.context_processors.auth'',
          ''django.contrib.messages.context_processors.messages'']]\<rparr>)))"

section \<open>The external bank\<close>

record bank_settings =
  BANK_SECRET_KEY :: string
  BANK_DEBUG :: bool
  BANK_ALLOWED_HOSTS :: "string list"
  BANK_INSTALLED_APPS :: "string list"
  BANK_MIDDLEWARE :: "string list"
  BANK_ROOT_URLCONF :: string
  BANK_WSGI_APPLICATION :: string
  BANK_TEMPLATES :: "template_settings list"
  BANK_STATIC_URL :: string
  BANK_DATABASE_ENGINE :: string
  BANK_DATABASE_NAME :: string
  BANK_LANGUAGE_CODE :: string
  BANK_TIME_ZONE :: string
  BANK_USE_I18N :: bool
  BANK_USE_TZ :: bool
  BANK_AUTO_FIELD :: string
  STORAGE_ROOT :: string
  stream_config :: stream_settings
  BANK_PARSER_CLASSES :: "string list"

definition bank_settings :: "string \<Rightarrow> environ \<Rightarrow> exn + bank_settings" where
  "bank_settings base_dir env =
     (case environ_int env ''BANK_STREAM_MULTIPLIER'' ''10'' of Inl e \<Rightarrow> Inl e | Inr multiplier \<Rightarrow>
     (case environ_int env ''BANK_STREAM_SIZE_LIMIT_BYTES'' (str_int (100 * 1024 * 1024)) of Inl e \<Rightarrow> Inl e | Inr limit \<Rightarrow>
      Inr \<lparr>
       BANK_SECRET_KEY = environ_get env ''DJANGO_SECRET_KEY'' ''external-bank-dev-secret'',
       BANK_DEBUG = environ_flag env ''DJANGO_DEBUG'' ''1'',
       BANK_ALLOWED_HOSTS = split_char (CHR '','') (environ_get env ''ALLOWED_HOSTS'' ''*''),
       BANK_INSTALLED_APPS =
         [''django.contrib.contenttypes'', ''django.contrib.auth'', ''django.contrib.staticfiles'',
          ''rest_framework'', ''bank''],
       BANK_MIDDLEWARE = [django_middleware ''security.SecurityMiddleware'', django_middleware ''common.CommonMiddleware''],
       BANK_ROOT_URLCONF = ''bank.urls'',
       BANK_WSGI_APPLICATION = ''bank.wsgi.application'',
       BANK_TEMPLATES = [django_templates base_dir [''django.template.context_processors.request'']],
       BANK_STATIC_URL = ''static/'',
       BANK_DATABASE_ENGINE = ''django.db.backends.sqlite3'',
       BANK_DATABASE_NAME = base_dir @ ''/db.sqlite3'',
       BANK_LANGUAGE_CODE = ''en-us'',
       BANK_TIME_ZONE = ''UTC'',
       BANK_USE_I18N = True,
       BANK_USE_TZ = True,
       BANK_AUTO_FIELD = ''django.db.models.BigAutoField'',
       STORAGE_ROOT = base_dir @ ''/storage'',
       stream_config = \<lparr>STREAM_MULTIPLIER = multiplier, STREAM_SIZE_LIMIT_BYTES = limit\<rparr>,
       BANK_PARSER_CLASSES = map ((@) ''rest_framework.parsers.'') [''JSONParser'', ''MultiPartParser'', ''FormParser'']\<rparr>))"

section \<open>Lemmas\<close>

lemma split_char_join:
  "split_char d s \<noteq> [] \<and> (\<forall>w \<in> set (split_char d s). d \<notin> set w) \<and> join_with [d] (split_char d s) = s"
proof (induction s)
  case (Cons c s)
  then obtain w ws where "split_char d s = w # ws" by (cases "split_char d s") auto
  with Cons show ?case by (cases ws) auto
qed simp

text \<open>Loading fails exactly on a malformed integer.\<close>

lemma environ_int_fails:
  "environ_int env name dflt = Inl e \<longleftrightarrow> py_int (environ_get env name dflt) = None \<and> e = Exn ValueError ''invalid literal for int()''"
  by (auto simp: environ_int_def split: option.split)

lemma default_ints: "py_int ''8'' = Some 8" "py_int ''20'' = Some 20" "py_int ''10'' = Some 10"
  by code_simp+

lemma gateway_settings_fail:
  "(\<exists>e. gateway_settings base env = Inl e) \<longleftrightarrow>
     (\<exists>v. env ''JWT_EXPIRY_HOURS'' = Some v \<and> py_int v = None) \<or>
     (\<exists>v. env ''CELERY_WORKER_MAX_TASKS_PER_CHILD'' = Some v \<and> py_int v = None)"
  by (auto simp: gateway_settings_def environ_int_def environ_get_def default_ints split: option.splits)

lemma gateway_settings_loaded:
  assumes "gateway_settings base env = Inr s"
  shows "SESSION_COOKIE_AGE s = JWT_EXPIRY_HOURS_SETTING s * 3600" and "task_config s = task_settings_of env"
    and "GATEWAY_TENANT_IDS s = TENANT_IDS" and "GATEWAY_LOAN_TYPES s = BANK_LOAN_TYPES"
    and "GATEWAY_LOAN_TYPES s = LOAN_TYPES"
  using assms
  by (auto simp: gateway_settings_def TENANT_IDS_def BANK_LOAN_TYPES_def LOAN_TYPES_def split: sum.splits)

lemma loan_types_upper: "l \<in> set LOAN_TYPES \<Longrightarrow> py_upper l = l"
  using bank_loan_type_upper [of l] by (simp add: LOAN_TYPES_def BANK_LOAN_TYPES_def)

lemma serialized_loan_type:
  assumes "\<And>cs v l. choice_field env cs v = Some l \<Longrightarrow> l \<in> set cs" and "sync_request_serializer env data = Inr choice"
  shows "choice \<in> set LOAN_TYPES"
  using assms by (auto simp: sync_request_serializer_def Let_def split: json.splits option.splits if_splits)

lemma seeded_tenant: "(u, pw, t) \<in> set seeds \<Longrightarrow> t \<in> set TENANT_IDS"
  by (auto simp: seeds_def TENANT_IDS_def)

section \<open>Properties\<close>

text \<open>
  Property C40. The services are configured alike, whatever the environment: a slice that the sync
  endpoint accepts for a seeded operator who has logged in is one that the gateway lists and that the bank accepts in
  an export request.  The login ends everywhere at once: its session is set to expire after the age the settings give to
  every session cookie, its answer announces the same lapse from its issue, and its bearer token is accepted up to the
  second of that time and refused from then on.
\<close>

theorem services_configured_alike:
  assumes "gateway_settings base env = Inr s"
    and "\<And>cs v l. choice_field views cs v = Some l \<Longrightarrow> l \<in> set cs" and "sync_request_serializer views data = Inr choice"
    and "(u, pw, t) \<in> set seeds" and "JWT_EXPIRY_HOURS auth = JWT_EXPIRY_HOURS_SETTING s" and "pyjwt (jwt_encode auth) decode"
    and "login auth claims now1 now2 sess = (Login_ok t u expires token, sess')"
  shows "t \<in> set (GATEWAY_TENANT_IDS s) \<and> py_upper choice \<in> set (GATEWAY_LOAN_TYPES s) \<and>
    validate_tenant_loan (query t (py_upper choice)) = (t, py_upper choice, []) \<and>
    session_expiry sess' = Some (SESSION_COOKIE_AGE s) \<and> expires = now1 + SESSION_COOKIE_AGE s * 1000000 \<and>
    (\<forall>now. bearer_authenticate (decode now) (''Bearer '' @ token) =
       (if whole_second now2 \<le> now \<and> now < whole_second (now1 + SESSION_COOKIE_AGE s * 1000000)
        then Inr (Some (\<lparr>username = u, user_tenant = t\<rparr>, token))
        else Inl (Exn AuthenticationFailed ''Invalid or expired token'')))"
proof -
  note loaded = gateway_settings_loaded [OF assms(1)]
  have choice: "choice \<in> set LOAN_TYPES" by (rule serialized_loan_type [OF assms(2,3)])
  then have upper: "py_upper choice = choice" by (rule loan_types_upper)
  have bank: "validate_tenant_loan (query t choice) = (t, choice, [])"
    using seeded_tenant [OF assms(4)] choice loaded(4,5)
    by (auto simp: validate_tenant_loan_def Let_def validate_tenant_id_def validate_loan_type_def query_def get_param_def)
  from assms(7) show ?thesis
    by (rule login_granted)
      (use seeded_tenant [OF assms(4)] choice upper bank loaded assms(5) in
        \<open>simp add: issued_token [OF assms(6), simplified]\<close>)
qed

lemma services_configured_alike_witness:
  "\<exists>s token. gateway_settings ''/app'' Map.empty = Inr s \<and>
    validate_tenant_loan (query ''BANK001'' ''COMMERCIAL'') = (''BANK001'', ''COMMERCIAL'', []) \<and>
    bearer_authenticate (demo_jwt (SESSION_COOKIE_AGE s * 1000000 - 1)) (''Bearer '' @ token) =
      Inr (Some (\<lparr>username = ''operator_admin'', user_tenant = ''BANK001''\<rparr>, token)) \<and>
    bearer_authenticate (demo_jwt (SESSION_COOKIE_AGE s * 1000000)) (''Bearer '' @ token) =
      Inl (Exn AuthenticationFailed ''Invalid or expired token'')"
proof -
  obtain s where s: "gateway_settings ''/app'' Map.empty = Inr s" and hours: "JWT_EXPIRY_HOURS_SETTING s = 8"
    by (simp add: gateway_settings_def environ_int_def environ_get_def default_ints)
  have choice: "sync_request_serializer demo_view_env (JObj [(''loan_type'', JStr ''COMMERCIAL'')]) = Inr ''COMMERCIAL''"
    by (simp add: sync_request_serializer_def demo_view_env_def LOAN_TYPES_def)
  have contract: "choice_field demo_view_env cs v = Some l \<Longrightarrow> l \<in> set cs" for cs v l
    by (simp add: demo_view_env_def split: json.splits if_splits)
  have upper: "py_upper ''COMMERCIAL'' = ''COMMERCIAL''" by (rule loan_types_upper) (simp add: LOAN_TYPES_def)
  have seed: "(''operator_admin'', ''secure_cleartext_password'', ''BANK001'') \<in> set seeds" by (simp add: seeds_def)
  have auth: "JWT_EXPIRY_HOURS demo_auth = JWT_EXPIRY_HOURS_SETTING s" "pyjwt (jwt_encode demo_auth) demo_jwt"
    by (simp_all add: hours demo_auth_def demo_pyjwt)
  obtain expires token sess' where login: "login demo_auth demo_login 0 0 \<lparr>operator = None, session_expiry = None\<rparr> =
      (Login_ok ''BANK001'' ''operator_admin'' expires token, sess')"
    by (simp add: login_def demo_auth_def demo_login_def issue_token_def Let_def)
  show ?thesis
    using services_configured_alike [OF s contract choice seed auth login] s gateway_settings_loaded(1) [OF s] hours
    by (intro exI [of _ s] exI [of _ token]) (simp add: upper whole_second_def)
qed

end
