(* ===== verification/Spec2Isabelle.thy ===== *)
theory Spec2Isabelle
  imports Schema Settings
begin

text \<open>
  This development models a loan warehouse of several banks.  A simulated bank (\<open>external_bank/\<close>) keeps two
  CSV files per tenant and loan type and exports them as JSON.  A gateway (\<open>api/\<close>) lets the operator of a
  tenant start a sync of such a slice, watch and cancel it, and read the ingested rows and their profile.
  The sync runs as a Celery task, which calls a Rust adapter (\<open>adapter/\<close>) that reads the two exports, parses
  their rows and replaces the slice of the warehouse in one transaction.

  \<^bold>\<open>How the parts are modelled.\<close>  A handler or task of the gateway is a program of \<open>Effects\<close>: a tree of the calls
  it makes to Redis, the job table, Celery, the clock and \<open>uuid4\<close>, run by \<open>run\<close> on any instance of the locale
  \<open>services\<close> and interleaved call by call in \<open>Interleaving\<close>.  Exceptions are values of a sum.  A run of the
  adapter is a \<open>stage\<close>: a tree of the progress reports it makes, each followed by the answer of the callback, that ends
  with the result and the database.  The bank is a record of its stored files and upload rows.
  A Python string is the bytes of its UTF-8 text.

  \<^bold>\<open>Theories and sources.\<close>
  \<^item> \<open>Prelude\<close>: strings, JSON values, exceptions, the collections \<open>exec_simps\<close>, \<open>handler_defs\<close>, \<open>str_simps\<close>.
    \<open>Effects\<close>, \<open>Services\<close>: programs and the laws of the services.  \<open>Interleaving\<close>: pools of programs,
    expiring keys, the invariant rule.
  \<^item> \<open>Jobs\<close> (\<open>api/apps/etl/models.py\<close>, \<open>serializers.py\<close>): the job row, its well-formedness, its rendering.
    \<open>RedisLock\<close> (\<open>core/services/redis_lock.py\<close>): the lock of a slice as a refinement of the contract \<open>slice_lock\<close>.
    \<open>CancelSync\<close> (\<open>etl/services/cancel_sync.py\<close>), \<open>EtlTasks\<close> (\<open>etl/tasks.py\<close>): the task with an arbitrary adapter and
    its outcome specification.  \<open>SyncMessages\<close> (\<open>etl/services/sync_messages.py\<close>).
  \<^item> \<open>Access\<close> (\<open>core/authentication.py\<close>, \<open>permissions.py\<close>, \<open>views.py\<close>, \<open>seed_operators.py\<close>), \<open>EtlViews\<close>
    (\<open>etl/views.py\<close>): identities and the sync endpoints.  \<open>SyncSystem\<close>: any number of requests and
    tasks at once.  \<open>Routing\<close>, \<open>Gateway\<close> (the three \<open>urls.py\<close>): URLs and the way of a request to its view.
  \<^item> \<open>Warehouse\<close> (\<open>etl/services/warehouse.py\<close>): rows, pages and the data endpoint.  \<open>Floats\<close>, \<open>Profiling\<close>
    (\<open>etl/services/profiling.py\<close>): the profile, with binary floating point as rounding of exact rationals.
  \<^item> \<open>BankStreaming\<close>, \<open>BankStorage\<close>, \<open>BankSite\<close> (\<open>external_bank/bank/services/\<close>, \<open>views.py\<close>, \<open>urls.py\<close>): CSV reader and
    JSON writer, stored files and uploads, the site.
  \<^item> \<open>AdapterStream\<close> (\<open>adapter/src/stream.rs\<close>), \<open>AdapterParser\<close> (\<open>parser.rs\<close>, \<open>types.rs\<close>, the row parsers of
    \<open>pipeline.rs\<close>), \<open>SnapshotWriter\<close> and \<open>WriterInvariant\<close> (\<open>db.rs\<close>), \<open>AdapterPipeline\<close> and \<open>AdapterRuns\<close>
    (\<open>pipeline.rs\<close>, \<open>lib.rs\<close>): reading, parsing, writing, the run and what its callback sees.
  \<^item> \<open>Schema\<close> (the models, every migration, the INSERT statements of \<open>db.rs\<close>), \<open>Settings\<close> (both \<open>settings.py\<close>).
  \<^item> \<open>EndToEnd\<close> and this theory: the task with the adapter, behind it the bank, and the warehouse they leave.

  \<^bold>\<open>What the lemmas show.\<close>  Of the service: rows stay well formed and jobs isolated under every
  interleaving, the task refines its outcome specification for every adapter and always lets its slice
  go, a request gets in only with an identity and never touches another tenant's job, a login grants what it
  checked until its announced end and leads to the sync of its tenant.  Of the adapter: it reads
  back exactly what the bank exports, ends on every byte stream, logs one error per unreadable date or decimal, and every run
  refines \<open>ingested\<close> (the slice is replaced by the last credit of every account and their payments) or
  leaves the database as it was.  Of the data: pages partition a slice, the profile is computed from the own
  slice only, migrations and statements agree with the models.  The findings the proofs brought up are stated as theorems of
  their own, for instance \<open>orphan_check_race\<close>, \<open>cancel_lost_before_start\<close>, \<open>broker_failure_blocks_slice\<close> and
  \<open>duplicate_installments_fail\<close>.

  \<^bold>\<open>Parameters and hypotheses.\<close>  Redis, the job table, Celery and the clock (\<open>services\<close>, from their
  documentation; \<open>demo_services\<close> is an instance on finite maps); \<open>jwt\<close> (\<open>pyjwt\<close>: a token decodes from its issue
  until its expiry), Django's password and CSRF checks, the login of a body whose fields are not texts (\<open>json_login\<close>), and of
  DRF the field validation, the content negotiation (\<open>negotiate\<close>), the body parsers (\<open>body_failure\<close>) and what it refuses
  before the upload view (\<open>bank_refusal\<close>), each of which may refuse any request; the collation, \<open>AVG\<close> and \<open>STDDEV_POP\<close> of PostgreSQL, the cast to numeric and its reasons to refuse a statement
  (\<open>sql_env\<close>); HTTP (\<open>http_open\<close>), \<open>serde_json\<close> (\<open>from_slice\<close>, \<open>display\<close>, with \<open>decodes_rows\<close> where its
  answers matter), \<open>Decimal::from_str\<close> and the parser of \<open>f64\<close>; ISO rendering of times; the names Django gives to indexes.

  \<^bold>\<open>Bounds and fuel.\<close>  Loops over bytes and rows are structural or have a measure.  \<open>stream_rows\<close> has fuel for two
  calls more than the body has bytes, which \<open>stream_rows_enough\<close> shows to suffice, since every call
  consumes input or ends the stream.  Row numbers are 32 bit words and wrap; \<open>progress_never_falls\<close> needs
  exports below \<open>2 ^ 32\<close> bytes for this reason.  Brace depth is a 32 bit word too.  Installments and counts keep the range of \<open>i32\<close>.

  \<^bold>\<open>Not modelled.\<close>  The templates and scripts of the pages (their contexts are), the admin, the entry
  points (\<open>manage.py\<close>, \<open>wsgi.py\<close>, \<open>celery.py\<close>, \<open>apps.py\<close>), which only hand over to Django or Celery, \<open>__str__\<close>
  and \<open>PaymentInstallment.decimal_or_none\<close>, which nothing calls; the transport below \<open>JsonRowStream::open\<close> (a body is a whole or a cut
  byte string; a connection that reports an error in the middle of one is not modelled), and two transactions of the
  warehouse at once (a run works on its own copy of the tables).
\<close>

section \<open>Properties of the whole program\<close>

text \<open>
  Property C1. From the file to the dashboard: a sync of a slice whose two files the bank has accepted
  completes.  When the files are CSV tables with distinct columns, no installment is listed twice and the database accepts the
  statements, the task of a live job returns the numbers of accounts and payments of the files, the job is \<open>COMPLETED\<close>, its
  lock is free, the slice of the warehouse holds the last credit of every account of the credits
  file with its payments, and the data page counts exactly these accounts.
\<close>

theorem sync_ingests_upload:
  assumes "services S" and "job_row S w jid = Some row" and "status row \<noteq> CANCELLED"
    and "\<not> opt_truthy (redis_get S w (cancel_flag_key jid))"
    and upload: "upload_serializer r = Inr (t, l, cf, pf)"
    and served: "served_by sc fmt (snd (bank_site sc fmt (bank_post r) b)) cfg t l env"
    and credits: "iter_csv_rows (concat (file_chunks cf)) = (crs, None)" "list_all (\<lambda>r. distinct (map fst r)) crs"
    and payments: "iter_csv_rows (concat (file_chunks pf)) = (prs, None)" "list_all (\<lambda>r. distinct (map fst r)) prs"
    and env: "decodes_rows (from_slice env)" "connect env (database_url cfg) = None" "accepting (sql env)"
    and db: "warehouse_ok db"
    and cs: "cs = parsed_credits (parsers_of env) l (numbered 0 (map map_of crs))"
    and ps: "ps = parsed_payments (parsers_of env) (pc_account ` set cs) (numbered 0 (map map_of prs))"
    and distinct: "distinct (map payment_key ps)"
  shows "\<exists>errs n row' w' db'.
     run S (run_etl_pipeline cfg (rust_adapter env db) jid t l) w =
       (Inr (Task_ingested (int (card (pc_account ` set cs))) (int (length ps)) errs n), w') \<and>
     job_row S w' = (job_row S w)(jid \<mapsto> row') \<and> status row' = COMPLETED \<and>
     redis_get S w' = entries_released (redis_get S w) t l jid \<and>
     snd (answered (Inr True) (run_pipeline env db (pipeline_args cfg jid t l))) = db' \<and>
     slice_replaced (sql env) t l cs ps db db' \<and>
     total_count (get_data_snapshot coll isofmt (credit_table db') t l page page_size) = int (card (pc_account ` set cs))"
  by (rule upload_sync_completes [OF assms])

lemma sync_ingests_upload_witness:
  "\<exists>errs n row' w'.
     run demo_services (run_etl_pipeline demo_settings (rust_adapter demo_env demo_database)
         ''job_7'' ''BANK001'' ''RETAIL'') (demo_busy QUEUED) = (Inr (Task_ingested 1 1 errs n), w') \<and>
     job_row demo_services w' ''job_7'' = Some row' \<and> status row' = COMPLETED"
proof -
  obtain errs n row' w' where "run demo_services (run_etl_pipeline demo_settings (rust_adapter demo_env demo_database)
      ''job_7'' ''BANK001'' ''RETAIL'') (demo_busy QUEUED) =
      (Inr (Task_ingested (int (card (pc_account ` set demo_credits))) (int (length demo_payments)) errs n), w')"
    "job_row demo_services w' = (job_row demo_services (demo_busy QUEUED))(''job_7'' \<mapsto> row')" "status row' = COMPLETED"
    using sync_ingests_upload [OF demo_sync] by blast
  then show ?thesis
    unfolding demo_counts by (intro exI [of _ errs] exI [of _ n] exI [of _ row'] exI [of _ w']) simp
qed

text \<open>
  Property C10. The task never claims an ingestion that did not happen: whenever it returns numbers, in
  any state of the services and with any cancellations on the way, they are those of a result the run of the adapter
  can end with, and every run that ends with this result has left a warehouse in which the slice is replaced
  by the two exports; the error list is the stored end of the errors of that run.
\<close>

theorem task_reports_ingestion:
  assumes "warehouse_ok db"
    and "run S (run_etl_pipeline cfg (rust_adapter env db) jid t l) w = (Inr (Task_ingested c p errs n), w')"
  shows "\<exists>r. Inr r \<in> fst ` results (run_pipeline env db (pipeline_args cfg jid t l)) \<and>
     (\<forall>db'. (Inr r, db') \<in> results (run_pipeline env db (pipeline_args cfg jid t l)) \<longrightarrow>
        ingested env db (pipeline_args cfg jid t l) (Inr r, db')) \<and>
     c = total_credits_ingested r \<and> p = total_payments_ingested r \<and>
     errs = trim_stored_errors (serialize_error_logs (error_logs r)) \<and> n = int (length (error_logs r))"
proof -
  let ?args = "pipeline_args cfg jid t l"
  obtain job r w1 w2 w3 where called: "run S (adapter_prog (on_progress job) (rust_adapter env db ?args)) w1 = (Inr r, w2)"
    and recorded: "run S (record_result jid r) w2 = (Inr (Task_ingested c p errs n), w3)"
    using ingested_by_task [OF assms(2)] .
  from run_rust_adapter [OF called [unfolded rust_adapter_def]]
  have "Inr r \<in> fst ` results (run_pipeline env db ?args)" by (metis fst_conv imageI)
  moreover have "ingested env db ?args (Inr r, db')" if "(Inr r, db') \<in> results (run_pipeline env db ?args)" for db'
    using run_outcome [OF assms(1) that] ingested_by_record [OF recorded] by (simp add: run_outcomes_def committed_def)
  ultimately show ?thesis using ingested_by_record [OF recorded] by blast
qed

lemma task_reports_ingestion_witness:
  "\<exists>r db'. (Inr r, db') \<in> results (run_pipeline demo_env demo_database (pipeline_args demo_settings ''job_7'' ''BANK001'' ''RETAIL'')) \<and>
     ingested demo_env demo_database (pipeline_args demo_settings ''job_7'' ''BANK001'' ''RETAIL'') (Inr r, db')"
proof -
  obtain c p errs n w' where "run demo_services (run_etl_pipeline demo_settings (rust_adapter demo_env demo_database)
      ''job_7'' ''BANK001'' ''RETAIL'') (demo_busy QUEUED) = (Inr (Task_ingested c p errs n), w')"
    using demo_task by blast
  from task_reports_ingestion [OF demo_warehouse_ok this] show ?thesis by fastforce
qed

text \<open>
  Property C11. A sync touches no slice but its own: however a run of the adapter ends, the data page and
  the profile of every other tenant and loan type are computed from the same rows as before.
\<close>

theorem sync_leaves_other_slices:
  assumes "warehouse_ok db" and "o1 \<in> results (run_pipeline env db args)"
    and "(t, l) \<noteq> (arg_tenant_id args, py_upper (arg_loan_type args))"
  shows "get_data_snapshot coll isofmt (credit_table (snd o1)) t l page page_size =
      get_data_snapshot coll isofmt (credit_table db) t l page page_size \<and>
    build_profiling_payload penv (credit_table (snd o1)) (payment_table (snd o1)) t l =
      build_profiling_payload penv (credit_table db) (payment_table db) t l"
proof (cases "committed o1")
  case True
  with run_outcome [OF assms(1,2)] have "ingested env db args o1" by (simp add: run_outcomes_def)
  then obtain cs ps where new: "slice_replaced (sql env) (arg_tenant_id args) (py_upper (arg_loan_type args)) cs ps db (snd o1)"
    and acc: "list_all (\<lambda>p. pp_account p \<in> pc_account ` set cs) ps"
    using parsed_payments_known by (auto simp: ingested_def Let_def)
  from new have "other_rows (arg_tenant_id args) (py_upper (arg_loan_type args)) (snd o1) =
      other_rows (arg_tenant_id args) (py_upper (arg_loan_type args)) db"
    by (simp add: slice_replaced_def)
  from other_slice_rows [OF this assms(3)] other_slice_payments [OF assms(1) new acc assms(3)] show ?thesis
    by (simp add: get_data_snapshot_def build_profiling_payload_def)
next
  case False
  with run_outcome [OF assms(1,2)] show ?thesis by (simp add: run_outcomes_def)
qed


lemma sync_leaves_other_slices_witness:
  "get_data_snapshot id str_int
      (credit_table (snd (answered (Inr True) (run_pipeline demo_env demo_database demo_args)))) ''BANK002'' ''RETAIL'' 1 10 =
    get_data_snapshot id str_int (credit_table demo_database) ''BANK002'' ''RETAIL'' 1 10"
  using sync_leaves_other_slices [OF demo_warehouse_ok answered_result, of "''BANK002''" "''RETAIL''" demo_args
      "id :: string \<Rightarrow> string" str_int "Inr True" demo_env 1 10 demo_profile_env]
  by (simp add: demo_args_def)

end
